(* ===== verification/Naiserator_Prelude.thy ===== *)
theory Naiserator_Prelude
  imports Main "HOL-Library.Word" "HOL-Library.Char_ord" "HOL-Library.Sublist"
begin

text \<open>
  The prelude of the development: Go's \<open>error\<close> values with the Kubernetes status reason they
  carry, the result type of a fallible Go function and its sequencing, Go's nil-able string maps,
  and the generic lemmas on lists, options and maps that the component theories share.

  An \<open>error\<close> is a message together with the status reason that \<open>k8s_errors.ReasonForError\<close>
  finds in it. Wrapping with \<open>%w\<close> keeps the reason, formatting with \<open>%s\<close> or \<open>%v\<close> loses it; the
  two wrappers below keep that difference, because retries depend on it.
\<close>

named_theorems go_defs \<open>definitions of Go library functions, for evaluation\<close>
named_theorems result_simps \<open>how results are taken apart\<close>

section \<open>Errors and results\<close>

datatype status_reason =
    ReasonUnknown
  | ReasonNotFound
  | ReasonAlreadyExists
  | ReasonConflict
  | ReasonPanic
  | ReasonOther string

datatype go_error = GoError (err_msg: string) (err_reason: status_reason)

type_synonym 'a result = "go_error + 'a"

text \<open>
  A Go panic (an index out of range, a nil dereference, \<open>MustParse\<close>) ends the function as an error
  does, but no caller inspects it: it is the reason \<^const>\<open>ReasonPanic\<close>.
\<close>

definition go_panic :: "string \<Rightarrow> go_error" where
  "go_panic msg = GoError msg ReasonPanic"

definition IsPanic :: "go_error \<Rightarrow> bool" where
  "IsPanic e \<longleftrightarrow> err_reason e = ReasonPanic"

text \<open>\<open>fmt.Errorf\<close> without a wrapped error, with \<open>%s\<close>/\<open>%v\<close> and with \<open>%w\<close>.\<close>

definition errorf :: "string \<Rightarrow> go_error" where
  "errorf msg = GoError msg ReasonUnknown"

definition errorf_s :: "string \<Rightarrow> go_error \<Rightarrow> go_error" where
  "errorf_s pre e = GoError (pre @ err_msg e) ReasonUnknown"

definition errorf_w :: "string \<Rightarrow> go_error \<Rightarrow> go_error" where
  "errorf_w pre e = GoError (pre @ err_msg e) (err_reason e)"

definition IsNotFound :: "go_error \<Rightarrow> bool" where
  "IsNotFound e \<longleftrightarrow> err_reason e = ReasonNotFound"

definition IsAlreadyExists :: "go_error \<Rightarrow> bool" where
  "IsAlreadyExists e \<longleftrightarrow> err_reason e = ReasonAlreadyExists"

definition IsConflict :: "go_error \<Rightarrow> bool" where
  "IsConflict e \<longleftrightarrow> err_reason e = ReasonConflict"

fun reason_string :: "status_reason \<Rightarrow> string" where
  "reason_string ReasonUnknown = []"
| "reason_string ReasonNotFound = ''NotFound''"
| "reason_string ReasonAlreadyExists = ''AlreadyExists''"
| "reason_string ReasonConflict = ''Conflict''"
| "reason_string ReasonPanic = []"
| "reason_string (ReasonOther s) = s"

lemma errorf_reason [simp]:
  "err_reason (errorf m) = ReasonUnknown"
  "err_reason (errorf_s p e) = ReasonUnknown"
  "err_reason (errorf_w p e) = err_reason e"
  by (simp_all add: errorf_def errorf_s_def errorf_w_def)

lemma Is_errorf [simp]:
  "\<not> IsNotFound (errorf m)" "\<not> IsConflict (errorf m)" "\<not> IsAlreadyExists (errorf m)"
  "\<not> IsNotFound (errorf_s p e)" "\<not> IsConflict (errorf_s p e)" "\<not> IsAlreadyExists (errorf_s p e)"
  "IsNotFound (errorf_w p e) = IsNotFound e" "IsConflict (errorf_w p e) = IsConflict e"
  "IsAlreadyExists (errorf_w p e) = IsAlreadyExists e"
  by (simp_all add: IsNotFound_def IsConflict_def IsAlreadyExists_def)

text \<open>Sequencing: \<open>x, err := m; if err != nil { return err }; k(x)\<close>.\<close>

definition rbind :: "'a result \<Rightarrow> ('a \<Rightarrow> 'b result) \<Rightarrow> 'b result" where
  "rbind m k = (case m of Inl e \<Rightarrow> Inl e | Inr x \<Rightarrow> k x)"

lemma rbind_simps [simp]: "rbind (Inl e) k = Inl e" "rbind (Inr x) k = k x"
  by (simp_all add: rbind_def)

lemma rbind_Inr_iff [result_simps]: "rbind m k = Inr y \<longleftrightarrow> (\<exists>x. m = Inr x \<and> k x = Inr y)"
  by (cases m) simp_all

lemma rbind_Inl_iff [result_simps]:
  "rbind m k = Inl e \<longleftrightarrow> m = Inl e \<or> (\<exists>x. m = Inr x \<and> k x = Inl e)"
  by (cases m) simp_all

lemma rbind_assoc: "rbind (rbind m k) h = rbind m (\<lambda>x. rbind (k x) h)"
  by (cases m) simp_all

lemma rbind_InrE [elim]:
  assumes "rbind m k = Inr y"
  obtains x where "m = Inr x" "k x = Inr y"
  using assms by (auto simp: result_simps)

definition is_ok :: "'a result \<Rightarrow> bool" where
  "is_ok r = (case r of Inl _ \<Rightarrow> False | Inr _ \<Rightarrow> True)"

lemma is_ok_simps [simp]: "\<not> is_ok (Inl e)" "is_ok (Inr x)"
  by (simp_all add: is_ok_def)

lemma is_ok_iff: "is_ok r \<longleftrightarrow> (\<exists>x. r = Inr x)"
  by (cases r) simp_all

text \<open>A Go \<open>error\<close> result alone: \<open>None\<close> is \<open>nil\<close>.\<close>

type_synonym error = "go_error option"

definition err_of :: "'a result \<Rightarrow> error" where
  "err_of r = (case r of Inl e \<Rightarrow> Some e | Inr _ \<Rightarrow> None)"

lemma err_of_simps [simp]: "err_of (Inl e) = Some e" "err_of (Inr x) = None"
  by (simp_all add: err_of_def)

lemma err_of_None_iff: "err_of r = None \<longleftrightarrow> is_ok r"
  by (cases r) simp_all

section \<open>Machine integers\<close>

text \<open>Go's conversion \<open>int32(x)\<close> of a wider integer keeps the low 32 bits.\<close>

definition to_int32 :: "int \<Rightarrow> int" where
  "to_int32 x = (x + 2 ^ 31) mod 2 ^ 32 - 2 ^ 31"

definition in_int32 :: "int \<Rightarrow> bool" where
  "in_int32 x \<longleftrightarrow> - (2 ^ 31) \<le> x \<and> x < 2 ^ 31"

lemma to_int32_id: "in_int32 x \<Longrightarrow> to_int32 x = x"
  by (simp add: to_int32_def in_int32_def)

lemma to_int32_range: "in_int32 (to_int32 x)"
proof -
  have "0 \<le> (x + 2 ^ 31) mod 2 ^ 32" "(x + 2 ^ 31) mod 2 ^ 32 < (2 ^ 32 :: int)" by simp_all
  then show ?thesis by (simp add: to_int32_def in_int32_def)
qed

lemma to_int32_signed: "to_int32 x = sint (of_int x :: 32 word)"
  by (simp add: to_int32_def signed_of_int signed_take_bit_eq_take_bit_shift take_bit_eq_mod)

section \<open>Loops that stop at the first error\<close>

fun mapM_result :: "('a \<Rightarrow> 'b result) \<Rightarrow> 'a list \<Rightarrow> 'b list result" where
  "mapM_result f [] = Inr []"
| "mapM_result f (x # xs) = rbind (f x) (\<lambda>y. rbind (mapM_result f xs) (\<lambda>ys. Inr (y # ys)))"

lemma mapM_result_Inr: "mapM_result f xs = Inr ys \<Longrightarrow> list_all2 (\<lambda>x y. f x = Inr y) xs ys"
  by (induction xs arbitrary: ys) (auto simp: result_simps)

lemma mapM_result_set: "mapM_result f xs = Inr ys \<Longrightarrow> set ys = {y. \<exists>x \<in> set xs. f x = Inr y}"
  by (induction xs arbitrary: ys) (auto simp: result_simps)

lemma mapM_result_Inl: "mapM_result f xs = Inl e \<Longrightarrow> \<exists>x \<in> set xs. f x = Inl e"
  by (induction xs) (auto simp: result_simps)

lemma mapM_result_length: "mapM_result f xs = Inr ys \<Longrightarrow> length ys = length xs"
  using mapM_result_Inr list_all2_lengthD by fastforce

text \<open>A loop that threads a state and stops at the first error.\<close>

fun foldM_result :: "('a \<Rightarrow> 's \<Rightarrow> 's result) \<Rightarrow> 'a list \<Rightarrow> 's \<Rightarrow> 's result" where
  "foldM_result f [] s = Inr s"
| "foldM_result f (x # xs) s = rbind (f x s) (foldM_result f xs)"

lemma foldM_result_invariant:
  assumes "\<And>x s s'. x \<in> set xs \<Longrightarrow> P s \<Longrightarrow> f x s = Inr s' \<Longrightarrow> P s'"
    and "P s" and "foldM_result f xs s = Inr t"
  shows "P t"
  using assms
proof (induction xs arbitrary: s)
  case Nil
  then show ?case by simp
next
  case (Cons x xs)
  from Cons.prems(3) obtain s' where s': "f x s = Inr s'" and rest: "foldM_result f xs s' = Inr t"
    by (auto simp: result_simps)
  from Cons.prems(1)[of x s s'] Cons.prems(2) s' have "P s'" by simp
  with Cons.IH Cons.prems(1) rest show ?case by (meson list.set_intros(2))
qed

text \<open>A loop that collects: each step adds \<open>h x\<close> to what \<open>g\<close> reads of the state.\<close>

lemma foldM_result_collect:
  assumes "foldM_result f xs s = Inr t"
    and "\<And>x s s'. x \<in> set xs \<Longrightarrow> f x s = Inr s' \<Longrightarrow> g s' = g s @ h x"
  shows "g t = g s @ concat (map h xs)"
  using assms
proof (induction xs arbitrary: s)
  case (Cons x xs)
  from Cons.prems(1) obtain s' where "f x s = Inr s'" and rest: "foldM_result f xs s' = Inr t"
    by (auto simp: result_simps)
  then have "g s' = g s @ h x" by (simp add: Cons.prems(2))
  moreover have "g t = g s' @ concat (map h xs)" using rest by (rule Cons.IH) (simp add: Cons.prems(2))
  ultimately show ?case by simp
qed simp

section \<open>Go maps from strings to strings\<close>

text \<open>
  A \<open>map[string]string\<close> may be \<open>nil\<close>, which reads as the empty map; \<open>None\<close> is the nil map.
  Indexing a missing key gives the zero value, the empty string.
\<close>

type_synonym gomap = "(string \<rightharpoonup> string) option"

definition gm_map :: "gomap \<Rightarrow> (string \<rightharpoonup> string)" where
  "gm_map m = (case m of None \<Rightarrow> Map.empty | Some f \<Rightarrow> f)"

definition gm_index :: "gomap \<Rightarrow> string \<Rightarrow> string" where
  "gm_index m k = (case gm_map m k of None \<Rightarrow> [] | Some v \<Rightarrow> v)"

definition gm_set :: "string \<Rightarrow> string \<Rightarrow> gomap \<Rightarrow> gomap" where
  "gm_set k v m = Some ((gm_map m)(k \<mapsto> v))"

text \<open>\<open>maps.Copy(dst, src)\<close> into a map that is not nil.\<close>

definition gm_copy :: "gomap \<Rightarrow> gomap \<Rightarrow> gomap" where
  "gm_copy dst src = Some (gm_map dst ++ gm_map src)"

lemma gm_map_simps [simp]: "gm_map None = Map.empty" "gm_map (Some f) = f"
  by (simp_all add: gm_map_def)

lemma gm_set_map [simp]: "gm_map (gm_set k v m) = (gm_map m)(k \<mapsto> v)"
  by (simp add: gm_set_def)

lemma gm_set_not_nil [simp]: "gm_set k v m \<noteq> None"
  by (simp add: gm_set_def)

lemma gm_copy_map [simp]: "gm_map (gm_copy d s) = gm_map d ++ gm_map s"
  by (simp add: gm_copy_def)

lemma gm_index_set [simp]: "gm_index (gm_set k v m) k' = (if k' = k then v else gm_index m k')"
  by (simp add: gm_index_def)

lemma gm_index_nil [simp]: "gm_index None k = []"
  by (simp add: gm_index_def)

lemma gm_index_Some: "gm_index (Some f) k = (case f k of None \<Rightarrow> [] | Some v \<Rightarrow> v)"
  by (simp add: gm_index_def)

section \<open>Lists\<close>

text \<open>The position of the first element that satisfies a predicate, as Go's index loops find it.\<close>

lemma find_Some_split:
  "find P xs = Some x \<Longrightarrow> \<exists>ys zs. xs = ys @ x # zs \<and> P x \<and> (\<forall>y \<in> set ys. \<not> P y)"
proof (induction xs)
  case (Cons a xs)
  show ?case
  proof (cases "P a")
    case True
    with Cons.prems show ?thesis by (auto intro: exI[of _ "[]"])
  next
    case False
    with Cons obtain ys zs where "xs = ys @ x # zs \<and> P x \<and> (\<forall>y \<in> set ys. \<not> P y)" by auto
    with False have "a # xs = (a # ys) @ x # zs \<and> P x \<and> (\<forall>y \<in> set (a # ys). \<not> P y)" by simp
    then show ?thesis by blast
  qed
qed simp

end
