(* ===== verification/Go_Strings.thy ===== *)
theory Go_Strings
  imports Naiserator_Prelude
begin

text \<open>
  What the source uses of Go's packages \<open>strings\<close>, \<open>strconv\<close>, \<open>hash/crc32\<close> and
  \<open>encoding/base32\<close>. A Go string is a sequence of bytes, so it is a \<^typ>\<open>string\<close> here and
  \<open>len\<close> is \<^const>\<open>length\<close>. Case mapping is that of the ASCII letters; a byte above 127 is left alone.
\<close>

unbundle bit_operations_syntax

section \<open>Package strings\<close>

definition HasPrefix :: "string \<Rightarrow> string \<Rightarrow> bool" where
  "HasPrefix s p \<longleftrightarrow> take (length p) s = p"

definition HasSuffix :: "string \<Rightarrow> string \<Rightarrow> bool" where
  "HasSuffix s p \<longleftrightarrow> length p \<le> length s \<and> drop (length s - length p) s = p"

definition TrimPrefix :: "string \<Rightarrow> string \<Rightarrow> string" where
  "TrimPrefix s p = (if HasPrefix s p then drop (length p) s else s)"

definition TrimSuffix :: "string \<Rightarrow> string \<Rightarrow> string" where
  "TrimSuffix s p = (if HasSuffix s p then take (length s - length p) s else s)"

definition TrimLeft :: "string \<Rightarrow> string \<Rightarrow> string" where
  "TrimLeft s cutset = dropWhile (\<lambda>c. c \<in> set cutset) s"

definition TrimRight :: "string \<Rightarrow> string \<Rightarrow> string" where
  "TrimRight s cutset = rev (dropWhile (\<lambda>c. c \<in> set cutset) (rev s))"

definition Trim :: "string \<Rightarrow> string \<Rightarrow> string" where
  "Trim s cutset = TrimRight (TrimLeft s cutset) cutset"

definition TrimSpace :: "string \<Rightarrow> string" where
  "TrimSpace s = Trim s [CHR '' '', CHR 0x09, CHR 0x0A, CHR 0x0B, CHR 0x0C, CHR 0x0D]"

definition lower_char :: "char \<Rightarrow> char" where
  "lower_char c = (let n = (of_char c :: nat) in if 65 \<le> n \<and> n \<le> 90 then char_of (n + 32) else c)"

definition upper_char :: "char \<Rightarrow> char" where
  "upper_char c = (let n = (of_char c :: nat) in if 97 \<le> n \<and> n \<le> 122 then char_of (n - 32) else c)"

definition ToLower :: "string \<Rightarrow> string" where
  "ToLower = map lower_char"

definition ToUpper :: "string \<Rightarrow> string" where
  "ToUpper = map upper_char"

text \<open>\<open>strings.Split\<close> at a separator of one byte, and \<open>strings.Join\<close>.\<close>

fun split_aux :: "char \<Rightarrow> string \<Rightarrow> string \<Rightarrow> string list" where
  "split_aux sep acc [] = [rev acc]"
| "split_aux sep acc (c # cs) =
     (if c = sep then rev acc # split_aux sep [] cs else split_aux sep (c # acc) cs)"

definition Split :: "string \<Rightarrow> char \<Rightarrow> string list" where
  "Split s sep = split_aux sep [] s"

fun Join :: "string list \<Rightarrow> string \<Rightarrow> string" where
  "Join [] sep = []"
| "Join [s] sep = s"
| "Join (s # t # ss) sep = s @ sep @ Join (t # ss) sep"

text \<open>\<open>strings.ReplaceAll\<close> of one byte by another, and \<open>strings.Replace(s, old, new, 1)\<close>.\<close>

definition ReplaceAllChar :: "string \<Rightarrow> char \<Rightarrow> char \<Rightarrow> string" where
  "ReplaceAllChar s old new = map (\<lambda>c. if c = old then new else c) s"

fun ReplaceFirst :: "string \<Rightarrow> string \<Rightarrow> string \<Rightarrow> string" where
  "ReplaceFirst [] old new = (if old = [] then new else [])"
| "ReplaceFirst (c # cs) old new =
     (if HasPrefix (c # cs) old then new @ drop (length old) (c # cs)
      else c # ReplaceFirst cs old new)"

fun Contains :: "string \<Rightarrow> string \<Rightarrow> bool" where
  "Contains [] sub = (sub = [])"
| "Contains (c # cs) sub = (HasPrefix (c # cs) sub \<or> Contains cs sub)"

lemma HasPrefix_iff: "HasPrefix s p \<longleftrightarrow> (\<exists>r. s = p @ r)"
proof
  assume "HasPrefix s p"
  then have "s = p @ drop (length p) s" by (metis HasPrefix_def append_take_drop_id)
  then show "\<exists>r. s = p @ r" ..
qed (auto simp: HasPrefix_def)

lemma HasSuffix_iff: "HasSuffix s p \<longleftrightarrow> (\<exists>r. s = r @ p)"
proof
  assume "HasSuffix s p"
  then have "s = take (length s - length p) s @ p" by (metis HasSuffix_def append_take_drop_id)
  then show "\<exists>r. s = r @ p" ..
qed (auto simp: HasSuffix_def)

lemma HasPrefix_append [simp]: "HasPrefix (p @ r) p"
  by (auto simp: HasPrefix_iff)

lemma HasPrefix_Nil [simp]: "HasPrefix s []"
  by (simp add: HasPrefix_def)

lemma HasSuffix_append [simp]: "HasSuffix (r @ p) p"
  by (auto simp: HasSuffix_iff)

lemma HasSuffix_Nil [simp]: "HasSuffix s []"
  by (simp add: HasSuffix_def)

lemma TrimSuffix_append [simp]: "TrimSuffix (r @ p) p = r"
  by (simp add: TrimSuffix_def)

lemma TrimPrefix_append [simp]: "TrimPrefix (p @ r) p = r"
  by (simp add: TrimPrefix_def)

lemma TrimRight_no_suffix:
  "TrimRight s cs = [] \<or> last (TrimRight s cs) \<notin> set cs"
proof (cases "dropWhile (\<lambda>c. c \<in> set cs) (rev s)")
  case Nil
  then show ?thesis by (simp add: TrimRight_def)
next
  case (Cons a as)
  then have "a \<notin> set cs" by (metis (full_types) dropWhile_eq_Cons_conv)
  with Cons show ?thesis by (simp add: TrimRight_def)
qed

lemma TrimRight_prefix: "\<exists>r. s = TrimRight s cs @ r"
proof -
  have "rev s = takeWhile (\<lambda>c. c \<in> set cs) (rev s) @ dropWhile (\<lambda>c. c \<in> set cs) (rev s)" by simp
  then have "s = TrimRight s cs @ rev (takeWhile (\<lambda>c. c \<in> set cs) (rev s))"
    by (metis TrimRight_def rev_append rev_rev_ident)
  then show ?thesis ..
qed

lemma Split_nonempty [simp]: "Split s c \<noteq> []"
proof -
  have "split_aux c acc s \<noteq> []" for acc by (induction c acc s rule: split_aux.induct) auto
  then show ?thesis by (simp add: Split_def)
qed

lemma Join_split_aux: "Join (split_aux c acc s) [c] = rev acc @ s"
proof (induction c acc s rule: split_aux.induct)
  case (2 sep acc c cs)
  show ?case
  proof (cases "c = sep")
    case True
    obtain y ys where ys: "split_aux sep [] cs = y # ys"
      using Split_nonempty[of cs sep] by (cases "split_aux sep [] cs") (auto simp: Split_def)
    from 2(1)[OF True] ys have "Join (y # ys) [sep] = cs" by simp
    with True ys show ?thesis by simp
  qed (use 2 in simp)
qed simp

text \<open>Joining what a split at the same separator gave returns the string.\<close>

lemma Join_Split: "Join (Split s c) [c] = s"
  by (simp add: Split_def Join_split_aux)

lemma split_aux_no_sep: "t \<in> set (split_aux c acc s) \<Longrightarrow> c \<notin> set acc \<Longrightarrow> c \<notin> set t"
  by (induction c acc s rule: split_aux.induct) (auto split: if_splits)

lemma split_aux_single: "c \<notin> set s \<Longrightarrow> split_aux c acc s = [rev acc @ s]"
  by (induction s arbitrary: acc) auto

lemma split_aux_append:
  "c \<notin> set s \<Longrightarrow> split_aux c acc (s @ c # t) = (rev acc @ s) # split_aux c [] t"
  by (induction s arbitrary: acc) auto

text \<open>Splitting what a join gave returns the parts, when no part holds the separator.\<close>

lemma Split_Join:
  "ss \<noteq> [] \<Longrightarrow> (\<forall>s \<in> set ss. c \<notin> set s) \<Longrightarrow> Split (Join ss [c]) c = ss"
  by (induction ss "[c]" rule: Join.induct)
    (auto simp: Split_def split_aux_single split_aux_append)

lemma ToLower_length [simp]: "length (ToLower s) = length s"
  by (simp add: ToLower_def)

lemma ToUpper_length [simp]: "length (ToUpper s) = length s"
  by (simp add: ToUpper_def)

lemma lower_char_idem [simp]: "lower_char (lower_char c) = lower_char c"
  by (auto simp: lower_char_def Let_def of_char_of take_bit_eq_mod)

lemma ToLower_idem [simp]: "ToLower (ToLower s) = ToLower s"
  by (simp add: ToLower_def)

text \<open>The verb \<open>%s\<close> between single quotes.\<close>

definition in_quotes :: "string \<Rightarrow> string" where
  "in_quotes s = [CHR 0x27] @ s @ [CHR 0x27]"

section \<open>Package strconv\<close>

definition digit_char :: "nat \<Rightarrow> char" where
  "digit_char d = char_of (48 + d)"

definition is_digit :: "char \<Rightarrow> bool" where
  "is_digit c \<longleftrightarrow> 48 \<le> (of_char c :: nat) \<and> (of_char c :: nat) \<le> 57"

definition digit_val :: "char \<Rightarrow> nat" where
  "digit_val c = of_char c - 48"

fun dec_nat :: "nat \<Rightarrow> string" where
  "dec_nat n = (if n < 10 then [digit_char n] else dec_nat (n div 10) @ [digit_char (n mod 10)])"

declare dec_nat.simps [simp del]

definition Itoa :: "int \<Rightarrow> string" where
  "Itoa i = (if i < 0 then CHR ''-'' # dec_nat (nat (- i)) else dec_nat (nat i))"

definition digits_val :: "string \<Rightarrow> nat" where
  "digits_val s = foldl (\<lambda>v c. 10 * v + digit_val c) 0 s"

text \<open>
  \<open>strconv.ParseInt(s, 10, bits)\<close>: an optional sign, at least one digit, digits only, and a value
  in the range of a signed integer of that many bits; anything else is an error (\<open>None\<close>).
\<close>

definition ParseInt :: "nat \<Rightarrow> string \<Rightarrow> int option" where
  "ParseInt bits s =
     (let neg = (case s of c # _ \<Rightarrow> c = CHR ''-'' | [] \<Rightarrow> False);
          body = (case s of c # cs \<Rightarrow> if c = CHR ''-'' \<or> c = CHR ''+'' then cs else s | [] \<Rightarrow> []);
          v = (if neg then - int (digits_val body) else int (digits_val body))
      in if body \<noteq> [] \<and> list_all is_digit body \<and> - (2 ^ (bits - 1)) \<le> v \<and> v < 2 ^ (bits - 1)
         then Some v else None)"

definition Atoi :: "string \<Rightarrow> int option" where
  "Atoi = ParseInt 64"

lemma of_digit_char: "d < 10 \<Longrightarrow> (of_char (digit_char d) :: nat) = 48 + d"
  by (simp add: digit_char_def of_char_of)

lemma is_digit_digit_char: "d < 10 \<Longrightarrow> is_digit (digit_char d)"
  by (simp add: is_digit_def of_digit_char)

lemma digit_val_digit_char: "d < 10 \<Longrightarrow> digit_val (digit_char d) = d"
  by (simp add: digit_val_def of_digit_char)

lemma dec_nat_digits: "list_all is_digit (dec_nat n) \<and> dec_nat n \<noteq> []"
proof (induction n rule: dec_nat.induct)
  case (1 n)
  show ?case
  proof (cases "n < 10")
    case True
    then show ?thesis by (simp add: dec_nat.simps[of n] is_digit_digit_char)
  next
    case False
    with 1 show ?thesis by (simp add: dec_nat.simps[of n] is_digit_digit_char)
  qed
qed

lemma digits_val_dec_nat: "digits_val (dec_nat n) = n"
proof (induction n rule: dec_nat.induct)
  case (1 n)
  show ?case
  proof (cases "n < 10")
    case True
    then show ?thesis by (simp add: dec_nat.simps[of n] digits_val_def digit_val_digit_char)
  next
    case False
    with 1 have "digits_val (dec_nat (n div 10)) = n div 10" by simp
    with False show ?thesis
      by (simp add: dec_nat.simps[of n] digits_val_def digit_val_digit_char)
  qed
qed

lemma dec_nat_inj: "dec_nat m = dec_nat n \<longleftrightarrow> m = n"
  by (metis digits_val_dec_nat)

lemma dec_nat_hd: "hd (dec_nat n) \<noteq> CHR ''-''" "hd (dec_nat n) \<noteq> CHR ''+''"
proof -
  have "is_digit (hd (dec_nat n))"
    using dec_nat_digits[of n] by (cases "dec_nat n") auto
  then show "hd (dec_nat n) \<noteq> CHR ''-''" "hd (dec_nat n) \<noteq> CHR ''+''"
    by (auto simp: is_digit_def)
qed

lemma Itoa_inj: "Itoa i = Itoa j \<longleftrightarrow> i = j"
proof -
  have "dec_nat m \<noteq> CHR ''-'' # dec_nat n" for m n
    by (metis dec_nat_hd(1) list.sel(1))
  then show ?thesis
    by (auto simp: Itoa_def dec_nat_inj split: if_splits) metis+
qed

lemma Itoa_nonempty [simp]: "Itoa i \<noteq> []"
  using dec_nat_digits by (simp add: Itoa_def)

text \<open>\<open>strconv.ParseInt\<close> reads back what \<open>strconv.Itoa\<close> printed, in range.\<close>

lemma ParseInt_Itoa:
  assumes "- (2 ^ (bits - 1)) \<le> i" and "i < 2 ^ (bits - 1)"
  shows "ParseInt bits (Itoa i) = Some i"
proof (cases "i < 0")
  case True
  with assms dec_nat_digits[of "nat (- i)"] show ?thesis
    by (simp add: ParseInt_def Itoa_def digits_val_dec_nat)
next
  case False
  obtain c cs where c: "dec_nat (nat i) = c # cs" using dec_nat_digits by (cases "dec_nat (nat i)") auto
  with dec_nat_hd[of "nat i"] have "c \<noteq> CHR ''-''" "c \<noteq> CHR ''+''" by auto
  with False assms dec_nat_digits[of "nat i"] digits_val_dec_nat[of "nat i"] c show ?thesis
    by (simp add: ParseInt_def Itoa_def)
qed

section \<open>Packages hash/crc32 and encoding/base32\<close>

text \<open>The IEEE checksum, bit by bit: the reflected polynomial \<open>0xEDB88320\<close>.\<close>

fun crc32_shift :: "nat \<Rightarrow> 32 word \<Rightarrow> 32 word" where
  "crc32_shift 0 c = c"
| "crc32_shift (Suc n) c =
     crc32_shift n (if c AND 1 = 1 then drop_bit 1 c XOR 0xEDB88320 else drop_bit 1 c)"

definition crc32_byte :: "32 word \<Rightarrow> char \<Rightarrow> 32 word" where
  "crc32_byte crc b = crc32_shift 8 (crc XOR of_nat (of_char b))"

definition ChecksumIEEE :: "string \<Rightarrow> 32 word" where
  "ChecksumIEEE bs = NOT (foldl crc32_byte (NOT 0) bs)"

definition PutUint32LE :: "32 word \<Rightarrow> nat list" where
  "PutUint32LE w = map (\<lambda>i. unat (drop_bit (8 * i) w AND 255)) [0, 1, 2, 3]"

definition byte_bits :: "nat \<Rightarrow> bool list" where
  "byte_bits b = map (\<lambda>i. b div 2 ^ i mod 2 = 1) [7, 6, 5, 4, 3, 2, 1, 0]"

definition bits_val :: "bool list \<Rightarrow> nat" where
  "bits_val bs = foldl (\<lambda>v b. 2 * v + (if b then 1 else 0)) 0 bs"

definition base32_alphabet :: string where
  "base32_alphabet = ''ABCDEFGHIJKLMNOPQRSTUVWXYZ234567''"

text \<open>Groups of five bits, the last one filled with zero bits; no padding characters.\<close>

fun base32_groups :: "bool list \<Rightarrow> nat list" where
  "base32_groups [] = []"
| "base32_groups (b # bs) =
     bits_val (take 5 ((b # bs) @ replicate 4 False)) # base32_groups (drop 4 bs)"

definition EncodeBase32 :: "nat list \<Rightarrow> string" where
  "EncodeBase32 bytes =
     map (\<lambda>g. base32_alphabet ! g) (base32_groups (concat (map byte_bits bytes)))"

lemma base32_groups_length: "length (base32_groups bs) = (length bs + 4) div 5"
proof (induction bs rule: base32_groups.induct)
  case (2 b bs)
  have "Suc ((n - 4 + 4) div 5) = (5 + n) div 5" for n :: nat by (cases "n < 4") auto
  with 2 show ?case by simp
qed simp

lemma byte_bits_length [simp]: "length (byte_bits b) = 8"
  by (simp add: byte_bits_def)

lemma PutUint32LE_length [simp]: "length (PutUint32LE w) = 4"
  by (simp add: PutUint32LE_def)

lemma EncodeBase32_length: "length (EncodeBase32 bytes) = (8 * length bytes + 4) div 5"
proof -
  have "length (concat (map byte_bits bytes)) = 8 * length bytes" by (induction bytes) auto
  then show ?thesis by (simp add: EncodeBase32_def base32_groups_length)
qed

end
