(* ===== verification/K8s_Types.thy ===== *)
theory K8s_Types
  imports Go_Strings
begin

text \<open>
  The data the program reads and writes: Kubernetes object metadata, the parts of the pod, workload,
  network and Google CNRM specifications that naiserator sets, and the nais.io manifests
  (\<open>Application\<close>, \<open>Naisjob\<close>) it reads. A record has the fields that the code under src/ touches.
  Pointers are options (\<open>nil\<close> is \<open>None\<close>); a slice is an option of a list only where the code tells
  the nil slice from the empty one.
\<close>

section \<open>Object metadata\<close>

record owner_reference =
  or_api_version :: string
  or_kind :: string
  or_name :: string
  or_uid :: string
  or_controller :: "bool option"
  or_block_owner_deletion :: "bool option"

record type_meta =
  tm_kind :: string
  tm_api_version :: string

record object_meta =
  om_name :: string
  om_generate_name :: string
  om_namespace :: string
  om_uid :: string
  om_resource_version :: string
  om_self_link :: string
  om_generation :: int
  om_labels :: gomap
  om_annotations :: gomap
  om_owner_references :: "owner_reference list option"
  om_finalizers :: "string list"
  om_deletion_timestamp :: "int option"

definition type_meta_zero :: type_meta where
  "type_meta_zero = \<lparr>tm_kind = [], tm_api_version = []\<rparr>"

definition object_meta_zero :: object_meta where
  "object_meta_zero = \<lparr>om_name = [], om_generate_name = [], om_namespace = [], om_uid = [],
     om_resource_version = [], om_self_link = [], om_generation = 0, om_labels = None,
     om_annotations = None, om_owner_references = None, om_finalizers = [],
     om_deletion_timestamp = None\<rparr>"

text \<open>\<open>GetOwnerReferences()\<close> as a loop sees it: the nil slice has no elements.\<close>

definition owner_refs :: "object_meta \<Rightarrow> owner_reference list" where
  "owner_refs m = (case om_owner_references m of None \<Rightarrow> [] | Some rs \<Rightarrow> rs)"

definition annotation :: "object_meta \<Rightarrow> string \<Rightarrow> string" where
  "annotation m k = gm_index (om_annotations m) k"

definition label :: "object_meta \<Rightarrow> string \<Rightarrow> string" where
  "label m k = gm_index (om_labels m) k"

record object_key =
  key_namespace :: string
  key_name :: string

definition meta_key :: "object_meta \<Rightarrow> object_key" where
  "meta_key m = \<lparr>key_namespace = om_namespace m, key_name = om_name m\<rparr>"

section \<open>Pods\<close>

datatype int_or_string = IntVal int | StrVal string

text \<open>\<open>EnvVarSource\<close>: a field of the pod, or a key of a secret (its name, the key, \<open>Optional\<close>).\<close>

datatype env_source =
    FieldRef string
  | SecretKeyRef (skr_name: string) (skr_key: string) (skr_optional: "bool option")

record env_var =
  ev_name :: string
  ev_value :: string
  ev_value_from :: "env_source option"

datatype env_from_source = ConfigMapRef string | SecretRef string

record volume_mount =
  vm_name :: string
  vm_mount_path :: string
  vm_sub_path :: string
  vm_read_only :: bool

datatype volume_source =
    EmptyDirVolume string
  | ConfigMapVolume string
  | SecretVolume string "(string \<times> string) list" "int option"
  | PVCVolume string bool
  | TokenVolume string string int

record volume =
  vol_name :: string
  vol_source :: volume_source

datatype handler =
    HTTPGet (http_path: string) (http_port: int_or_string)
  | ExecAction "string list"
  | SleepAction int

record probe_spec =
  pr_handler :: handler
  pr_initial_delay :: int
  pr_period :: int
  pr_failure_threshold :: int
  pr_timeout :: int

record container_port =
  cp_name :: string
  cp_port :: int
  cp_protocol :: string

record security_context =
  sc_allow_privilege_escalation :: bool
  sc_privileged :: bool
  sc_read_only_root :: bool
  sc_run_as_non_root :: bool
  sc_run_as_user :: int
  sc_run_as_group :: int
  sc_drop :: "string list"
  sc_seccomp :: string

type_synonym quantity = string

record resource_requirements =
  rr_requests :: "string \<rightharpoonup> quantity"
  rr_limits :: "string \<rightharpoonup> quantity"

record container =
  c_name :: string
  c_image :: string
  c_command :: "string list"
  c_args :: "string list"
  c_ports :: "container_port list"
  c_resources :: resource_requirements
  c_pull_policy :: string
  c_restart_policy :: "string option"
  c_lifecycle :: "handler option"
  c_env :: "env_var list"
  c_env_from :: "env_from_source list"
  c_volume_mounts :: "volume_mount list"
  c_liveness :: "probe_spec option"
  c_readiness :: "probe_spec option"
  c_startup :: "probe_spec option"
  c_security_context :: "security_context option"

definition resource_requirements_zero :: resource_requirements where
  "resource_requirements_zero = \<lparr>rr_requests = Map.empty, rr_limits = Map.empty\<rparr>"

definition container_zero :: container where
  "container_zero = \<lparr>c_name = [], c_image = [], c_command = [], c_args = [], c_ports = [],
     c_resources = resource_requirements_zero, c_pull_policy = [], c_restart_policy = None,
     c_lifecycle = None, c_env = [], c_env_from = [], c_volume_mounts = [], c_liveness = None,
     c_readiness = None, c_startup = None, c_security_context = None\<rparr>"

record toleration =
  tol_key :: string
  tol_operator :: string
  tol_value :: string
  tol_effect :: string

record selector_requirement =
  sr_key :: string
  sr_operator :: string
  sr_values :: "string list"

text \<open>Affinity: the required node selector terms, if any, and the weighted pod anti-affinity terms.\<close>

record anti_affinity_term =
  aa_weight :: int
  aa_expressions :: "selector_requirement list"
  aa_topology_key :: string

record affinity =
  af_node_terms :: "selector_requirement list list option"
  af_pod_anti_affinity :: "anti_affinity_term list"

record pod_security =
  ps_fs_group :: int
  ps_fs_group_change_policy :: string
  ps_seccomp :: string

record pod_spec =
  pod_init_containers :: "container list"
  pod_containers :: "container list"
  pod_service_account :: string
  pod_restart_policy :: string
  pod_dns_policy :: string
  pod_volumes :: "volume list"
  pod_image_pull_secrets :: "string list"
  pod_termination_grace :: "int option"
  pod_affinity :: "affinity option"
  pod_tolerations :: "toleration list"
  pod_security_context :: "pod_security option"
  pod_host_aliases :: "(string list \<times> string) list"

definition pod_spec_zero :: pod_spec where
  "pod_spec_zero = \<lparr>pod_init_containers = [], pod_containers = [], pod_service_account = [],
     pod_restart_policy = [], pod_dns_policy = [], pod_volumes = [], pod_image_pull_secrets = [],
     pod_termination_grace = None, pod_affinity = None, pod_tolerations = [],
     pod_security_context = None, pod_host_aliases = []\<rparr>"

record pod_template =
  pt_meta :: object_meta
  pt_spec :: pod_spec

section \<open>Workload resources\<close>

record deployment_strategy =
  ds_type :: string
  ds_rolling_update :: "(int_or_string \<times> int_or_string) option" \<comment> \<open>max unavailable, max surge\<close>

record deployment_spec =
  dep_replicas :: "int option"
  dep_match_labels :: "string \<rightharpoonup> string"
  dep_strategy :: deployment_strategy
  dep_progress_deadline :: "int option"
  dep_revision_history :: "int option"
  dep_template :: pod_template

record deployment_status =
  dst_updated_replicas :: int
  dst_replicas :: int
  dst_available_replicas :: int
  dst_observed_generation :: int

record job_spec =
  js_active_deadline :: "int option"
  js_backoff_limit :: "int option"
  js_completions :: "int option"
  js_completion_mode :: "string option"
  js_parallelism :: "int option"
  js_template :: pod_template
  js_ttl :: "int option"

record cronjob_spec =
  cj_time_zone :: "string option"
  cj_schedule :: string
  cj_job_meta :: object_meta
  cj_job_spec :: job_spec
  cj_suspend :: "bool option"
  cj_successful_history :: "int option"
  cj_failed_history :: "int option"
  cj_concurrency_policy :: string

section \<open>Network resources\<close>

record service_spec =
  svc_type :: string
  svc_cluster_ip :: string
  svc_selector :: "string \<rightharpoonup> string"
  svc_port_name :: string
  svc_protocol :: string
  svc_port :: int
  svc_target_port :: int_or_string

type_synonym label_selector = "(string \<times> string) list"

datatype ip_block = IPBlock string

record netpol_peer =
  np_namespace_selector :: "label_selector option"
  np_pod_selector :: "label_selector option"
  np_ip_block :: "ip_block option"

record netpol_port =
  npp_protocol :: "string option"
  npp_port :: "int_or_string option"

record netpol_rule =
  npr_peers :: "netpol_peer list"
  npr_ports :: "netpol_port list"

record netpol_spec =
  nps_pod_selector :: label_selector
  nps_policy_types :: "string list"
  nps_ingress :: "netpol_rule list"
  nps_egress :: "netpol_rule list"

record fqdn_rule =
  fq_ports :: "netpol_port list"
  fq_fqdns :: "string list"

record fqdn_spec =
  fqs_pod_selector :: label_selector
  fqs_egress :: "fqdn_rule list"
  fqs_policy_types :: "string list"

datatype path_type = PathTypeExact | PathTypePrefix | PathTypeImplementationSpecific

record ingress_backend =
  ib_service :: string
  ib_port :: int

record ingress_path =
  ip_path :: string
  ip_type :: path_type
  ip_backend :: ingress_backend

record ingress_rule =
  ir_host :: string
  ir_paths :: "ingress_path list"

record ingress_spec =
  is_class :: "string option"
  is_rules :: "ingress_rule list"

section \<open>Autoscaling, disruption budgets, roles, monitors\<close>

datatype metric_spec =
    CpuUtilization int
  | ExternalAverage string "string \<rightharpoonup> string" int

record hpa_spec =
  hpa_target_kind :: string
  hpa_target_api_version :: string
  hpa_target_name :: string
  hpa_metrics :: "metric_spec list"
  hpa_min :: "int option"
  hpa_max :: int
  hpa_scale_up_window :: "int option"

record pdb_spec =
  pdb_max_unavailable :: "int_or_string option"
  pdb_match_labels :: "string \<rightharpoonup> string"
  pdb_unhealthy_policy :: "string option"

record role_binding =
  rb_role_api_group :: string
  rb_role_kind :: string
  rb_role_name :: string
  rb_subject_kind :: string
  rb_subject_name :: string
  rb_subject_namespace :: string

record pod_monitor_spec =
  pm_job_label :: string
  pm_pod_target_labels :: "string list"
  pm_port :: string
  pm_path :: string
  pm_honor_labels :: bool
  pm_match_labels :: "string \<rightharpoonup> string"

section \<open>Google CNRM resources\<close>

record sql_instance_settings =
  sis_availability_type :: string
  sis_backup_enabled :: bool
  sis_backup_start_time :: string
  sis_point_in_time :: bool
  sis_backup_retention :: "(int \<times> int) option" \<comment> \<open>retained backups, transaction log days\<close>
  sis_edition :: string
  sis_require_ssl :: bool
  sis_private_network :: "string option"
  sis_disk_autoresize :: bool
  sis_disk_autoresize_limit :: int
  sis_disk_size :: int
  sis_disk_type :: string
  sis_tier :: string
  sis_flags :: "(string \<times> string) list"
  sis_insights :: "bool \<times> int \<times> bool \<times> bool"
  sis_maintenance :: "(int \<times> int) option"

record sql_instance_spec =
  si_database_version :: string
  si_region :: string
  si_settings :: sql_instance_settings
  si_resource_id :: string

record sql_database_spec =
  sdb_instance :: string
  sdb_resource_id :: string

record sql_user_spec =
  su_instance :: string
  su_password_key :: string
  su_password_secret :: string
  su_resource_id :: string

record sql_ssl_cert_spec =
  ssl_common_name :: string
  ssl_instance :: string
  ssl_instance_namespace :: string
  ssl_resource_id :: string

record lifecycle_condition =
  lcc_age :: int
  lcc_created_before :: string
  lcc_days_since_custom_time :: int
  lcc_num_newer_versions :: int
  lcc_with_state :: string

record lifecycle_rule =
  lcr_action :: string
  lcr_condition :: lifecycle_condition

record storage_bucket_spec =
  sb_location :: string
  sb_uniform_access :: bool
  sb_soft_delete_retention :: "int option"
  sb_retention_period :: "int option"
  sb_lifecycle_rules :: "lifecycle_rule list"
  sb_public_access_prevention :: string
  sb_resource_id :: string

record iam_resource_ref =
  irr_api_version :: string
  irr_kind :: string
  irr_name :: "string option"
  irr_external :: "string option"

record iam_policy_spec =
  ips_ref :: iam_resource_ref
  ips_bindings :: "(string \<times> string list) list"

record iam_policy_member_spec =
  ipm_member :: string
  ipm_role :: string
  ipm_ref :: iam_resource_ref

record bigquery_spec =
  bq_name :: string
  bq_location :: string
  bq_description :: string
  bq_cascading_delete :: bool
  bq_access :: "(string \<times> string) list"

section \<open>The nais.io manifests\<close>

record access_policy_rule =
  apr_application :: string
  apr_namespace :: string
  apr_cluster :: string

record external_rule =
  exr_host :: string
  exr_ipv4 :: string
  exr_ports :: "int list option"

record outbound_policy =
  out_rules :: "access_policy_rule list"
  out_external :: "external_rule list"

text \<open>An inbound rule is a rule with the permissions it grants.\<close>

record inbound_rule =
  inr_rule :: access_policy_rule
  inr_permissions :: "string list"

record access_policy =
  ap_inbound :: "inbound_rule list option"
  ap_outbound :: "outbound_policy option"

record scaling_strategy =
  ss_cpu :: "int option"
  ss_kafka :: "(string \<times> string \<times> int) option" \<comment> \<open>topic, consumer group, threshold\<close>
  ss_scale_up_window :: int

record replicas =
  rep_min :: int
  rep_max :: int
  rep_disable_autoscaling :: bool
  rep_cpu_threshold :: int
  rep_strategy :: "scaling_strategy option"

record nais_probe =
  prb_path :: string
  prb_port :: int
  prb_initial_delay :: int
  prb_period :: int
  prb_failure_threshold :: int
  prb_timeout :: int

record pre_stop_hook =
  psh_exec :: "string list option"
  psh_http :: "(string \<times> int option) option" \<comment> \<open>path, port\<close>

record nais_env_from =
  nef_config_map :: string
  nef_secret :: string

record files_from =
  ff_config_map :: string
  ff_secret :: string
  ff_pvc :: string
  ff_empty_dir :: "string option" \<comment> \<open>the medium\<close>
  ff_mount_path :: string

record resource_spec =
  rs_cpu :: string
  rs_memory :: string

record nais_resources =
  nr_limits :: "resource_spec option"
  nr_requests :: "resource_spec option"

record secret_path =
  sp_mount_path :: string
  sp_kv_path :: string
  sp_format :: string

record redirect =
  rd_from :: string
  rd_to :: string

text \<open>Cloud SQL: \<open>CloudSqlInstance\<close> and its parts; \<open>Users\<close> may be the nil slice.\<close>

record sql_insights =
  ins_enabled :: "bool option"
  ins_query_string_length :: int
  ins_record_application_tags :: bool
  ins_record_client_address :: bool

record sql_maintenance =
  mnt_day :: int
  mnt_hour :: "int option"

record sql_database_manifest =
  sdm_name :: string
  sdm_env_var_prefix :: string
  sdm_users :: "string list option"

record sql_instance_manifest =
  sim_name :: string
  sim_type :: string
  sim_tier :: string
  sim_disk_type :: string
  sim_disk_size :: int
  sim_disk_autoresize :: bool
  sim_disk_autoresize_limit :: int
  sim_high_availability :: bool
  sim_auto_backup_hour :: "int option"
  sim_cascading_delete :: bool
  sim_collation :: string
  sim_databases :: "sql_database_manifest list"
  sim_flags :: "(string \<times> string) list"
  sim_insights :: "sql_insights option"
  sim_maintenance :: "sql_maintenance option"
  sim_point_in_time :: bool
  sim_retained_backups :: "int option"
  sim_transaction_log_days :: "int option"

record bucket_manifest =
  bkm_name :: string
  bkm_cascading_delete :: bool
  bkm_retention_days :: "int option"
  bkm_lifecycle :: "lifecycle_condition option"
  bkm_public_access_prevention :: bool

record bigquery_manifest =
  bqm_name :: string
  bqm_description :: string
  bqm_cascading_delete :: bool
  bqm_permission :: string

record iam_permission =
  iap_role :: string
  iap_api_version :: string \<comment> \<open>of \<open>Resource\<close>, as are the kind and the name\<close>
  iap_kind :: string
  iap_name :: string

record gcp_spec =
  gcp_buckets :: "bucket_manifest list"
  gcp_bigquery :: "bigquery_manifest list"
  gcp_sql_instances :: "sql_instance_manifest list"
  gcp_permissions :: "iam_permission list"

text \<open>Identity: the sidecar settings that Azure AD and ID-porten share, and what each adds.\<close>

record wonderwall_sidecar =
  wws_enabled :: bool
  wws_auto_login :: bool
  wws_ignore_paths :: "string list"
  wws_resources :: "nais_resources option"

record idporten_sidecar = wonderwall_sidecar +
  ids_level :: string
  ids_locale :: string

record idporten =
  idp_enabled :: bool
  idp_sidecar :: "idporten_sidecar option"

text \<open>The claims, a tenant or a scope are values that the code only copies; they are strings here.\<close>

record azure_application =
  aza_enabled :: bool
  aza_reply_urls :: "string list"
  aza_tenant :: string
  aza_claims :: "string option"
  aza_single_page :: "bool option"
  aza_allow_all_users :: "bool option"

record azure =
  az_application :: "azure_application option"
  az_sidecar :: "wonderwall_sidecar option"

record login_enforce =
  len_enabled :: bool
  len_exclude_paths :: "string list"

record login =
  lgn_provider :: string
  lgn_enforce :: "login_enforce option"

record maskinporten =
  mpn_enabled :: bool
  mpn_consumed_scopes :: "string list"
  mpn_exposed_scopes :: "string list"

text \<open>Aiven services, observability, Vault.\<close>

record kafka =
  kfk_pool :: string
  kfk_streams :: bool

record aiven_instance = \<comment> \<open>\<open>OpenSearch\<close> and \<open>Valkey\<close>\<close>
  avn_instance :: string
  avn_access :: string

record auto_instrumentation =
  aui_enabled :: bool
  aui_runtime :: string
  aui_destinations :: "string list" \<comment> \<open>their IDs\<close>

record nais_logging =
  lgg_enabled :: bool
  lgg_destinations :: "string list"

record observability =
  obs_auto_instrumentation :: "auto_instrumentation option"
  obs_tracing :: "bool option" \<comment> \<open>\<open>Enabled\<close>\<close>
  obs_logging :: "nais_logging option"

record vault_manifest =
  vlt_enabled :: bool
  vlt_paths :: "secret_path list"

text \<open>What the getters of the source interfaces return for an Application or a Naisjob.\<close>

record workload_spec =
  ws_image :: string
  ws_port :: int
  ws_command :: "string list"
  ws_env :: "env_var list" \<comment> \<open>\<open>GetEnv().ToKubernetes()\<close>\<close>
  ws_env_from :: "nais_env_from list"
  ws_files_from :: "files_from list"
  ws_liveness :: "nais_probe option"
  ws_readiness :: "nais_probe option"
  ws_startup :: "nais_probe option"
  ws_pre_stop_hook :: "pre_stop_hook option"
  ws_pre_stop_hook_path :: string
  ws_prometheus_enabled :: bool
  ws_prometheus_port :: string
  ws_prometheus_path :: string
  ws_resources :: nais_resources
  ws_replicas :: replicas
  ws_strategy_type :: string
  ws_strategy_override :: "(int_or_string option \<times> int_or_string option) option" \<comment> \<open>max unavailable, max surge\<close>
  ws_termination_grace :: "int option"
  ws_service_port :: int
  ws_service_protocol :: string
  ws_ingresses :: "string list"
  ws_redirects :: "redirect list"
  ws_access_policy :: "access_policy option"
  ws_leader_election :: bool
  ws_web_proxy :: bool
  ws_skip_ca_bundle :: bool
  ws_vault :: "vault_manifest option"
  ws_idporten :: "idporten option"
  ws_azure :: "azure option"
  ws_login :: "login option"
  ws_maskinporten :: "maskinporten option"
  ws_tokenx :: "bool option" \<comment> \<open>\<open>Enabled\<close>\<close>
  ws_kafka :: "kafka option"
  ws_opensearch :: "aiven_instance option"
  ws_valkey :: "aiven_instance list"
  ws_observability :: "observability option"
  ws_frontend :: "string option option" \<comment> \<open>\<open>GeneratedConfig\<close> and its mount path\<close>
  ws_gcp :: "gcp_spec option"
  ws_postgres_cluster :: "string option"
  ws_schedule :: string \<comment> \<open>the remaining fields are those of a Naisjob\<close>
  ws_time_zone :: "string option"
  ws_restart_policy :: string
  ws_concurrency_policy :: string
  ws_active_deadline :: "int option"
  ws_backoff_limit :: "int option"
  ws_completions :: "int option"
  ws_completion_mode :: "string option"
  ws_parallelism :: "int option"
  ws_ttl :: "int option"
  ws_successful_history :: int
  ws_failed_history :: "int option"

record nais_status =
  st_sync_state :: string
  st_sync_hash :: string
  st_sync_time :: int
  st_correlation_id :: string
  st_effective_image :: string
  st_conditions :: "(string \<times> string) list"
  st_problems :: "string list"

record event_spec =
  evt_reporting_controller :: string
  evt_reporting_instance :: string
  evt_component :: string
  evt_action :: string
  evt_reason :: string
  evt_message :: string
  evt_type :: string
  evt_count :: int
  evt_event_time :: int
  evt_first_timestamp :: int
  evt_last_timestamp :: int
  evt_involved_name :: string
  evt_involved_uid :: string

section \<open>Clients of identity providers and Aiven services\<close>

record azure_ad_spec =
  aad_reply_urls :: "string list"
  aad_pre_authorized :: "inbound_rule list"
  aad_tenant :: string
  aad_secret_name :: string
  aad_claims :: "string option"
  aad_single_page :: "bool option"
  aad_allow_all_users :: "bool option"
  aad_logout_url :: string

record jwker_spec =
  jwk_access_policy :: access_policy
  jwk_secret_name :: string

record idporten_client_spec =
  ipc_secret_name :: string

record maskinporten_client_spec =
  mpc_consumed_scopes :: "string list"
  mpc_exposed_scopes :: "string list"
  mpc_secret_name :: string

record aiven_service_spec =
  avs_instance :: string \<comment> \<open>the pool, for Kafka\<close>
  avs_access :: string
  avs_secret_name :: string

record aiven_application_spec =
  aas_kafka :: "aiven_service_spec option"
  aas_opensearch :: "aiven_service_spec option"
  aas_valkey :: "aiven_service_spec list"

section \<open>Objects\<close>

datatype (plugins only: code size) payload =
    PDeployment deployment_spec deployment_status
  | PCronJob cronjob_spec
  | PJob job_spec
  | PHorizontalPodAutoscaler hpa_spec
  | PSecret "string \<rightharpoonup> string"
  | PConfigMap "string \<rightharpoonup> string"
  | PServiceAccount
  | PService service_spec
  | PPodDisruptionBudget pdb_spec
  | PNetworkPolicy netpol_spec
  | PFQDNNetworkPolicy fqdn_spec
  | PIngress ingress_spec
  | PRoleBinding role_binding
  | PPodMonitor pod_monitor_spec
  | PSQLInstance sql_instance_spec
  | PSQLDatabase sql_database_spec
  | PSQLUser sql_user_spec
  | PSQLSSLCert sql_ssl_cert_spec
  | PStorageBucket storage_bucket_spec
  | PStorageBucketAccessControl
  | PIAMServiceAccount string
  | PIAMPolicy iam_policy_spec
  | PIAMPolicyMember iam_policy_member_spec
  | PBigQueryDataset bigquery_spec
  | PEvent event_spec
  | PNamespace
  | PImage string
  | PAzureAdApplication azure_ad_spec
  | PJwker jwker_spec
  | PMaskinportenClient maskinporten_client_spec
  | PAivenApplication aiven_application_spec
  | PStream string
  | PPostgres "string option"
  | PApplication workload_spec nais_status
  | PNaisjob workload_spec nais_status
  | POther string

text \<open>The Go type of an object, what \<open>reflect.TypeOf\<close> compares.\<close>

datatype (plugins only: code size) go_type =
    TDeployment | TCronJob | TJob | THorizontalPodAutoscaler | TSecret | TConfigMap
  | TServiceAccount | TService | TPodDisruptionBudget | TNetworkPolicy | TFQDNNetworkPolicy
  | TIngress | TRoleBinding | TPodMonitor | TSQLInstance | TSQLDatabase | TSQLUser | TSQLSSLCert
  | TStorageBucket | TStorageBucketAccessControl | TIAMServiceAccount | TIAMPolicy
  | TIAMPolicyMember | TBigQueryDataset | TEvent | TNamespace | TImage | TPostgres
  | TAzureAdApplication | TJwker | TMaskinportenClient | TAivenApplication | TStream
  | TApplication | TNaisjob | TOther string

fun payload_type :: "payload \<Rightarrow> go_type" where
  "payload_type (PDeployment _ _) = TDeployment"
| "payload_type (PCronJob _) = TCronJob"
| "payload_type (PJob _) = TJob"
| "payload_type (PHorizontalPodAutoscaler _) = THorizontalPodAutoscaler"
| "payload_type (PSecret _) = TSecret"
| "payload_type (PConfigMap _) = TConfigMap"
| "payload_type PServiceAccount = TServiceAccount"
| "payload_type (PService _) = TService"
| "payload_type (PPodDisruptionBudget _) = TPodDisruptionBudget"
| "payload_type (PNetworkPolicy _) = TNetworkPolicy"
| "payload_type (PFQDNNetworkPolicy _) = TFQDNNetworkPolicy"
| "payload_type (PIngress _) = TIngress"
| "payload_type (PRoleBinding _) = TRoleBinding"
| "payload_type (PPodMonitor _) = TPodMonitor"
| "payload_type (PSQLInstance _) = TSQLInstance"
| "payload_type (PSQLDatabase _) = TSQLDatabase"
| "payload_type (PSQLUser _) = TSQLUser"
| "payload_type (PSQLSSLCert _) = TSQLSSLCert"
| "payload_type (PStorageBucket _) = TStorageBucket"
| "payload_type PStorageBucketAccessControl = TStorageBucketAccessControl"
| "payload_type (PIAMServiceAccount _) = TIAMServiceAccount"
| "payload_type (PIAMPolicy _) = TIAMPolicy"
| "payload_type (PIAMPolicyMember _) = TIAMPolicyMember"
| "payload_type (PBigQueryDataset _) = TBigQueryDataset"
| "payload_type (PEvent _) = TEvent"
| "payload_type PNamespace = TNamespace"
| "payload_type (PImage _) = TImage"
| "payload_type (PAzureAdApplication _) = TAzureAdApplication"
| "payload_type (PJwker _) = TJwker"
| "payload_type (PMaskinportenClient _) = TMaskinportenClient"
| "payload_type (PAivenApplication _) = TAivenApplication"
| "payload_type (PStream _) = TStream"
| "payload_type (PPostgres _) = TPostgres"
| "payload_type (PApplication _ _) = TApplication"
| "payload_type (PNaisjob _ _) = TNaisjob"
| "payload_type (POther k) = TOther k"

record k8s_object =
  obj_type_meta :: type_meta
  obj_meta :: object_meta
  obj_payload :: payload

definition obj_type :: "k8s_object \<Rightarrow> go_type" where
  "obj_type ob = payload_type (obj_payload ob)"

definition obj_name :: "k8s_object \<Rightarrow> string" where
  "obj_name ob = om_name (obj_meta ob)"

definition obj_namespace :: "k8s_object \<Rightarrow> string" where
  "obj_namespace ob = om_namespace (obj_meta ob)"

definition obj_key :: "k8s_object \<Rightarrow> object_key" where
  "obj_key ob = meta_key (obj_meta ob)"

definition map_meta :: "(object_meta \<Rightarrow> object_meta) \<Rightarrow> k8s_object \<Rightarrow> k8s_object" where
  "map_meta f ob = ob\<lparr>obj_meta := f (obj_meta ob)\<rparr>"

lemma map_meta_simps [simp]:
  "obj_meta (map_meta f ob) = f (obj_meta ob)"
  "obj_payload (map_meta f ob) = obj_payload ob"
  "obj_type_meta (map_meta f ob) = obj_type_meta ob"
  "obj_type (map_meta f ob) = obj_type ob"
  by (simp_all add: map_meta_def obj_type_def)

end
