(* ===== verification/Resource.thy ===== *)
theory Resource
  imports K8s_Types
begin

text \<open>
  Package \<open>resource\<close> (src/pkg/resourcecreator/resource): the \<open>Source\<close> interface that an
  \<open>Application\<close> and a \<open>Naisjob\<close> satisfy, the metadata every generated object gets
  (\<open>CreateObjectMeta\<close>), the short hashed name of a workload (\<open>CreateAppNamespaceHash\<close>), events, the
  list of resource operations, and the \<open>Ast\<close> that the resource creators extend.

  Functions of the libraries that naiserator calls and that are not part of the repository
  (\<open>nais/liberator\<close>, the Kubernetes API machinery) are the fields of the record
  \<open>liberator\<close>, an argument of the definitions that call them.
\<close>

section \<open>Sources\<close>

datatype workload_kind = Application | Naisjob

record source =
  src_kind :: workload_kind
  src_type_meta :: type_meta
  src_meta :: object_meta
  src_spec :: workload_spec
  src_status :: nais_status

abbreviation src_name :: "source \<Rightarrow> string" where
  "src_name s \<equiv> om_name (src_meta s)"

abbreviation src_namespace :: "source \<Rightarrow> string" where
  "src_namespace s \<equiv> om_namespace (src_meta s)"

abbreviation src_uid :: "source \<Rightarrow> string" where
  "src_uid s \<equiv> om_uid (src_meta s)"

definition object_of_source :: "source \<Rightarrow> k8s_object" where
  "object_of_source s = \<lparr>obj_type_meta = src_type_meta s, obj_meta = src_meta s,
     obj_payload = (case src_kind s of Application \<Rightarrow> PApplication (src_spec s) (src_status s)
                                     | Naisjob \<Rightarrow> PNaisjob (src_spec s) (src_status s))\<rparr>"

definition source_of_object :: "k8s_object \<Rightarrow> source option" where
  "source_of_object ob = (case obj_payload ob of
       PApplication sp st \<Rightarrow> Some \<lparr>src_kind = Application, src_type_meta = obj_type_meta ob,
         src_meta = obj_meta ob, src_spec = sp, src_status = st\<rparr>
     | PNaisjob sp st \<Rightarrow> Some \<lparr>src_kind = Naisjob, src_type_meta = obj_type_meta ob,
         src_meta = obj_meta ob, src_spec = sp, src_status = st\<rparr>
     | _ \<Rightarrow> None)"

definition source_type :: "workload_kind \<Rightarrow> go_type" where
  "source_type k = (case k of Application \<Rightarrow> TApplication | Naisjob \<Rightarrow> TNaisjob)"

lemma source_of_object_of_source [simp]: "source_of_object (object_of_source s) = Some s"
  by (cases "src_kind s") (simp_all add: source_of_object_def object_of_source_def)

lemma obj_type_object_of_source [simp]: "obj_type (object_of_source s) = source_type (src_kind s)"
  by (cases "src_kind s") (simp_all add: obj_type_def object_of_source_def source_type_def)

lemma obj_meta_object_of_source [simp]: "obj_meta (object_of_source s) = src_meta s"
  by (simp add: object_of_source_def)

lemma source_type_inj: "source_type k = source_type k' \<longleftrightarrow> k = k'"
  by (cases k; cases k') (simp_all add: source_type_def)

lemma source_of_object_type:
  "source_of_object ob = Some s \<Longrightarrow> obj_type ob = source_type (src_kind s) \<and> obj_meta ob = src_meta s"
  by (auto simp: source_of_object_def obj_type_def source_type_def split: payload.splits)

lemma source_of_object_Some:
  "obj_type ob = source_type k \<Longrightarrow> \<exists>s. source_of_object ob = Some s \<and> src_kind s = k"
  by (cases "obj_payload ob"; cases k) (auto simp: source_of_object_def obj_type_def source_type_def)

section \<open>The libraries\<close>

text \<open>Event reasons, package \<open>events\<close> of liberator.\<close>

record event_names =
  evn_Synchronized :: string
  evn_RolloutComplete :: string
  evn_FailedPrepare :: string
  evn_FailedGenerate :: string
  evn_FailedSynchronization :: string
  evn_FailedStatusUpdate :: string
  evn_Retrying :: string

text \<open>
  The random names and keys that the generators draw, and the week the clock shows: the record stands
  for the values of one run. A draw of a key is told from the others by a number.
\<close>

record name_generator =
  ng_ShortName :: "string \<Rightarrow> nat \<Rightarrow> string result"
  ng_SuffixedShortName :: "string \<Rightarrow> string \<Rightarrow> nat \<Rightarrow> string result" \<comment> \<open>base name, suffix, length\<close>
  ng_RandShortName :: "string \<Rightarrow> nat \<Rightarrow> string"
  ng_PrefixedRandShortName :: "string \<Rightarrow> string \<Rightarrow> nat \<Rightarrow> string" \<comment> \<open>prefix, base name, length\<close>
  ng_ISOWeek :: "int \<times> int" \<comment> \<open>\<open>time.Now().ISOWeek()\<close>\<close>
  ng_Keygen :: "nat \<Rightarrow> nat \<Rightarrow> nat list result" \<comment> \<open>draw, length in bytes\<close>

record mount_paths =
  mp_Azurerator :: string
  mp_DigdiratorIDPorten :: string
  mp_DigdiratorMaskinporten :: string
  mp_Jwker :: string
  mp_Kafkarator :: string
  mp_Sqeletor :: string

text \<open>Methods and constants of the API types that the creators of Aiven and Google resources use.\<close>

record api_methods =
  am_AivenApplication :: type_meta \<comment> \<open>of \<open>NewAivenApplicationBuilder\<close>\<close>
  am_TopicPrefix :: "object_meta \<Rightarrow> string" \<comment> \<open>\<open>Stream.TopicPrefix\<close>\<close>
  am_OpenSearchFullyQualifiedName :: "string \<Rightarrow> string \<Rightarrow> string"
  am_Instance :: "gcp_spec \<Rightarrow> sql_instance_manifest option" \<comment> \<open>\<open>GCP.Instance\<close>\<close>
  am_Database :: "sql_instance_manifest \<Rightarrow> sql_database_manifest option" \<comment> \<open>\<open>CloudSqlInstance.Database\<close>\<close>
  am_InsightsIsEnabled :: "sql_insights option \<Rightarrow> bool"
  am_DiskGoogleType :: "string \<Rightarrow> string"
  am_PermissionGoogleType :: "string \<Rightarrow> string"
  am_DiskTypeSSD :: string
  am_EditionEnterprise :: string
  am_PreventionInherited :: string
  am_PreventionEnforced :: string
  am_HashPermission :: "iam_permission \<Rightarrow> nat result" \<comment> \<open>\<open>hashstructure.Hash\<close>\<close>
  am_MergeResources :: "nais_resources \<Rightarrow> nais_resources \<Rightarrow> nais_resources result" \<comment> \<open>\<open>mergo.Merge\<close>: what the destination becomes\<close>
  am_MergeSqlInstance :: "sql_instance_manifest \<Rightarrow> sql_instance_manifest \<Rightarrow> sql_instance_manifest result"

record liberator =
  lib_events :: event_names
  lib_CorrelationIDAnnotation :: string
  lib_CorrelationID :: "source \<Rightarrow> string"
  lib_GetOwnerReference :: "source \<Rightarrow> owner_reference"
  lib_ObjectReference :: "source \<Rightarrow> string \<times> string" \<comment> \<open>name and uid\<close>
  lib_GetEffectiveImage :: "source \<Rightarrow> string"
  lib_ApplyDefaults :: "source \<Rightarrow> source result"
  lib_Hash :: "int \<Rightarrow> source \<Rightarrow> string result"
  lib_SetState :: "string \<Rightarrow> string \<Rightarrow> nais_status \<Rightarrow> nais_status" \<comment> \<open>\<open>SetSynchronizationStateWithCondition\<close>\<close>
  lib_SetError :: "string \<Rightarrow> nais_status \<Rightarrow> nais_status"
  lib_ClearProblems :: "nais_status \<Rightarrow> nais_status"
  lib_StrTrimMiddle :: "string \<Rightarrow> nat \<Rightarrow> string"
  lib_names :: name_generator
  lib_paths :: mount_paths
  lib_api :: api_methods
  lib_MatchesCluster :: "access_policy_rule \<Rightarrow> string \<Rightarrow> bool"
  lib_ParseQuantity :: "string \<Rightarrow> quantity option" \<comment> \<open>\<open>k8sResource.ParseQuantity\<close>\<close>
  lib_DefaultPortName :: string
  lib_DefaultServicePort :: int
  lib_DefaultMountPath :: "string \<Rightarrow> string" \<comment> \<open>\<open>GetDefaultMountPath\<close>\<close>
  lib_DefaultPVCMountPath :: "string \<Rightarrow> string" \<comment> \<open>\<open>GetDefaultPVCMountPath\<close>\<close>
  lib_DefaultSecretMountPath :: string
  lib_DefaultVaultMountPath :: string
  lib_StrategyRecreate :: string
  lib_MediumDisk :: string
  lib_MediumMemory :: string
  lib_NewRequirement :: "string \<Rightarrow> string \<Rightarrow> error" \<comment> \<open>\<open>labels.NewRequirement(key, Equals, value)\<close>\<close>
  lib_ParseSelector :: "string \<Rightarrow> (string \<times> string) list result" \<comment> \<open>\<open>fields.ParseSelector\<close>\<close>
  lib_ContainsFinalizer :: "object_meta \<Rightarrow> string \<Rightarrow> bool" \<comment> \<open>package \<open>controllerutil\<close>\<close>
  lib_AddFinalizer :: "object_meta \<Rightarrow> string \<Rightarrow> object_meta"
  lib_RemoveFinalizer :: "object_meta \<Rightarrow> string \<Rightarrow> object_meta"
  lib_GetRules :: "inbound_rule list \<Rightarrow> access_policy_rule list" \<comment> \<open>\<open>AccessPolicyInboundRules.GetRules\<close>\<close>

abbreviation lib_ShortName :: "liberator \<Rightarrow> string \<Rightarrow> nat \<Rightarrow> string result" where
  "lib_ShortName lib \<equiv> ng_ShortName (lib_names lib)"

text \<open>
  What the code relies on. The owner reference of a source names it, its kind and its UID; the
  setters of the status change what their names say and leave the synchronization hash and the
  effective image alone.
\<close>

definition owner_reference_law :: "liberator \<Rightarrow> bool" where
  "owner_reference_law lib \<longleftrightarrow> (\<forall>s. or_uid (lib_GetOwnerReference lib s) = src_uid s
     \<and> or_name (lib_GetOwnerReference lib s) = src_name s)"

definition status_laws :: "liberator \<Rightarrow> bool" where
  "status_laws lib \<longleftrightarrow>
     (\<forall>state msg st. st_sync_state (lib_SetState lib state msg st) = state
        \<and> st_sync_hash (lib_SetState lib state msg st) = st_sync_hash st
        \<and> st_effective_image (lib_SetState lib state msg st) = st_effective_image st) \<and>
     (\<forall>msg st. st_sync_hash (lib_SetError lib msg st) = st_sync_hash st
        \<and> st_sync_state (lib_SetError lib msg st) = st_sync_state st
        \<and> st_effective_image (lib_SetError lib msg st) = st_effective_image st) \<and>
     (\<forall>st. st_sync_hash (lib_ClearProblems lib st) = st_sync_hash st
        \<and> st_sync_state (lib_ClearProblems lib st) = st_sync_state st
        \<and> st_effective_image (lib_ClearProblems lib st) = st_effective_image st
        \<and> st_problems (lib_ClearProblems lib st) = [])"

definition finalizer_laws :: "liberator \<Rightarrow> bool" where
  "finalizer_laws lib \<longleftrightarrow> (\<forall>m f.
       (lib_ContainsFinalizer lib m f \<longleftrightarrow> f \<in> set (om_finalizers m))
     \<and> set (om_finalizers (lib_AddFinalizer lib m f)) = insert f (set (om_finalizers m))
     \<and> meta_key (lib_AddFinalizer lib m f) = meta_key m
     \<and> set (om_finalizers (lib_RemoveFinalizer lib m f)) = set (om_finalizers m) - {f}
     \<and> meta_key (lib_RemoveFinalizer lib m f) = meta_key m)"

text \<open>\<open>GetRules\<close> drops the permissions of the inbound rules.\<close>

definition inbound_rules_law :: "liberator \<Rightarrow> bool" where
  "inbound_rules_law lib \<longleftrightarrow> (\<forall>rs. lib_GetRules lib rs = map inr_rule rs)"

section \<open>Metadata, names and events\<close>

definition CreateObjectMeta :: "liberator \<Rightarrow> source \<Rightarrow> object_meta" where
  "CreateObjectMeta lib s = object_meta_zero
     \<lparr>om_name := src_name s,
      om_namespace := src_namespace s,
      om_labels := gm_set ''team'' (src_namespace s) (gm_set ''app'' (src_name s)
                     (gm_copy (Some Map.empty) (om_labels (src_meta s)))),
      om_annotations := Some [lib_CorrelationIDAnnotation lib \<mapsto> lib_CorrelationID lib s],
      om_owner_references := Some [lib_GetOwnerReference lib s]\<rparr>"

definition CreateAppNamespaceHash :: "source \<Rightarrow> string" where
  "CreateAppNamespaceHash s =
     (let name = (if length (src_name s) > 11 then take 11 (src_name s) else src_name s);
          namespace = (if length (src_namespace s) > 10 then take 10 (src_namespace s)
                       else src_namespace s);
          appNameSpace = name @ ''-'' @ namespace;
          checksum = ChecksumIEEE (src_name s @ ''-'' @ src_namespace s);
          bs = PutUint32LE checksum
      in appNameSpace @ ''-'' @ ToLower (EncodeBase32 bs))"

text \<open>The new event; the three readings of the clock in the Go code are the one value \<open>now\<close>.\<close>

definition CreateEvent :: "liberator \<Rightarrow> int \<Rightarrow> source \<Rightarrow> string \<Rightarrow> string \<Rightarrow> string \<Rightarrow> k8s_object" where
  "CreateEvent lib now s reason message typeStr =
     \<lparr>obj_type_meta = type_meta_zero,
      obj_meta = (CreateObjectMeta lib s)\<lparr>om_generate_name := ''naiserator-event-'', om_name := []\<rparr>,
      obj_payload = PEvent \<lparr>evt_reporting_controller = ''naiserator'',
         evt_reporting_instance = ''naiserator'', evt_component = ''naiserator'',
         evt_action = reason, evt_reason = reason,
         evt_message = lib_StrTrimMiddle lib message 1024,
         evt_type = typeStr, evt_count = 1, evt_event_time = now, evt_first_timestamp = now,
         evt_last_timestamp = now,
         evt_involved_name = fst (lib_ObjectReference lib s),
         evt_involved_uid = snd (lib_ObjectReference lib s)\<rparr>\<rparr>"

lemma CreateObjectMeta_simps [simp]:
  "om_name (CreateObjectMeta lib s) = src_name s"
  "om_namespace (CreateObjectMeta lib s) = src_namespace s"
  "label (CreateObjectMeta lib s) ''app'' = src_name s"
  "label (CreateObjectMeta lib s) ''team'' = src_namespace s"
  "om_owner_references (CreateObjectMeta lib s) = Some [lib_GetOwnerReference lib s]"
  by (simp_all add: CreateObjectMeta_def label_def)

section \<open>Operations\<close>

datatype operation_type =
    OperationCreateOrUpdate
  | OperationCreateOrRecreate
  | OperationCreateIfNotExists
  | OperationDeleteIfExists
  | AnnotateIfExistsOp
  | OperationOther string

record operation =
  op_resource :: k8s_object
  op_operation :: operation_type

type_synonym operations = "operation list"

definition Extract :: "operations \<Rightarrow> operation_type \<Rightarrow> operations" where
  "Extract ops t = filter (\<lambda>rop. op_operation rop = t) ops"

section \<open>The Ast\<close>

record ast =
  ast_operations :: operations
  ast_annotations :: "string \<rightharpoonup> string"
  ast_containers :: "container list"
  ast_env :: "env_var list"
  ast_env_from :: "env_from_source list"
  ast_init_containers :: "container list"
  ast_labels :: "string \<rightharpoonup> string"
  ast_volumes :: "volume list"
  ast_volume_mounts :: "volume_mount list"

definition NewAst :: ast where
  "NewAst = \<lparr>ast_operations = [], ast_annotations = Map.empty, ast_containers = [], ast_env = [],
     ast_env_from = [], ast_init_containers = [], ast_labels = Map.empty, ast_volumes = [],
     ast_volume_mounts = []\<rparr>"

definition AppendOperation :: "operation_type \<Rightarrow> k8s_object \<Rightarrow> ast \<Rightarrow> ast" where
  "AppendOperation t ob a =
     a\<lparr>ast_operations := ast_operations a @ [\<lparr>op_resource = ob, op_operation = t\<rparr>]\<rparr>"

definition AppendEnv :: "env_var list \<Rightarrow> ast \<Rightarrow> ast" where
  "AppendEnv vars a = a\<lparr>ast_env := ast_env a @ vars\<rparr>"

definition PrependEnv :: "env_var list \<Rightarrow> ast \<Rightarrow> ast" where
  "PrependEnv vars a = a\<lparr>ast_env := vars @ ast_env a\<rparr>"

lemma AppendOperation_simps [simp]:
  "ast_operations (AppendOperation t ob a) = ast_operations a @ [\<lparr>op_resource = ob, op_operation = t\<rparr>]"
  "ast_env (AppendOperation t ob a) = ast_env a"
  "ast_containers (AppendOperation t ob a) = ast_containers a"
  "ast_init_containers (AppendOperation t ob a) = ast_init_containers a"
  "ast_volumes (AppendOperation t ob a) = ast_volumes a"
  "ast_volume_mounts (AppendOperation t ob a) = ast_volume_mounts a"
  by (simp_all add: AppendOperation_def)

lemma Env_simps [simp]:
  "ast_operations (AppendEnv vs a) = ast_operations a"
  "ast_operations (PrependEnv vs a) = ast_operations a"
  "ast_env (AppendEnv vs a) = ast_env a @ vs"
  "ast_env (PrependEnv vs a) = vs @ ast_env a"
  by (simp_all add: AppendEnv_def PrependEnv_def)

section \<open>What a resource creator promises\<close>

text \<open>
  Every creator appends operations and never removes or reorders the ones already there. The
  objects it appends satisfy \<open>good\<close>, a predicate on what the source owns. Creators in sequence keep
  the promise.
\<close>

definition extends_with :: "(k8s_object \<Rightarrow> bool) \<Rightarrow> ast \<Rightarrow> ast \<Rightarrow> bool" where
  "extends_with good a a' \<longleftrightarrow> (\<exists>ops. ast_operations a' = ast_operations a @ ops
      \<and> (\<forall>rop \<in> set ops. good (op_resource rop)))"

lemma extends_with_refl [simp, intro]: "extends_with good a a"
  by (simp add: extends_with_def)

lemma extends_with_trans [trans]:
  "extends_with good a b \<Longrightarrow> extends_with good b c \<Longrightarrow> extends_with good a c"
  by (auto simp: extends_with_def)

lemma extends_with_mono:
  "extends_with good a b \<Longrightarrow> (\<And>x. good x \<Longrightarrow> good' x) \<Longrightarrow> extends_with good' a b"
  by (auto simp: extends_with_def)

lemma extends_with_AppendOperation [intro]: "good ob \<Longrightarrow> extends_with good a (AppendOperation t ob a)"
  by (simp add: extends_with_def)

lemma extends_with_same_ops: "ast_operations b = ast_operations a \<Longrightarrow> extends_with good a b"
  by (simp add: extends_with_def)

text \<open>
  The object belongs to the source: it carries the labels \<open>app\<close> and \<open>team\<close> by which it is found
  again, and the source's owner reference.
\<close>

definition owned_by :: "liberator \<Rightarrow> source \<Rightarrow> k8s_object \<Rightarrow> bool" where
  "owned_by lib s ob \<longleftrightarrow> om_namespace (obj_meta ob) = src_namespace s
     \<and> label (obj_meta ob) ''app'' = src_name s \<and> label (obj_meta ob) ''team'' = src_namespace s
     \<and> om_owner_references (obj_meta ob) = Some [lib_GetOwnerReference lib s]"

lemma owned_by_CreateObjectMeta:
  "obj_meta ob = CreateObjectMeta lib s \<Longrightarrow> owned_by lib s ob"
  by (simp add: owned_by_def)

locale resource_creator =
  fixes create :: "liberator \<Rightarrow> source \<Rightarrow> 'cfg \<Rightarrow> ast \<Rightarrow> ast result"
  assumes create_extends: "create lib s cfg a = Inr a' \<Longrightarrow> extends_with (owned_by lib s) a a'"
begin

lemma create_keeps_operations:
  "create lib s cfg a = Inr a' \<Longrightarrow>
     take (length (ast_operations a)) (ast_operations a') = ast_operations a"
  by (drule create_extends) (auto simp: extends_with_def)

lemma create_then_extends:
  assumes "create lib s cfg a = Inr b" and "extends_with (owned_by lib s) b c"
  shows "extends_with (owned_by lib s) a c"
  using create_extends[OF assms(1)] assms(2) by (rule extends_with_trans)

lemma create_from_empty_owned:
  assumes "create lib s cfg NewAst = Inr a" and "rop \<in> set (ast_operations a)"
  shows "owned_by lib s (op_resource rop)"
  using create_extends[OF assms(1)] assms(2) by (auto simp: extends_with_def NewAst_def)

end

section \<open>Properties\<close>

lemma CreateAppNamespaceHash_parts:
  "CreateAppNamespaceHash s = take 11 (src_name s) @ ''-'' @ take 10 (src_namespace s) @ ''-''
     @ ToLower (EncodeBase32 (PutUint32LE (ChecksumIEEE (src_name s @ ''-'' @ src_namespace s))))"
  by (simp add: CreateAppNamespaceHash_def Let_def)


end
