(* ===== verification/Kube_Client.thy ===== *)
theory Kube_Client
  imports Resource
begin

text \<open>
  The Kubernetes client. \<open>client.Client\<close> of controller-runtime is not part of the repository: it
  is a record of operations over an abstract cluster state \<open>'w\<close>, and an argument of every
  definition that talks to the cluster. A read is a function of the current state; a write returns
  the object as the server stored it, or an error, together with the next state. A write may change
  the state in any way (the server acts, other clients act), so interference is in the model.

  Package \<open>readonly\<close> (src/pkg/readonly/client.go) wraps a client and drops its write privileges; it
  is used for \<open>Prepare\<close> and in dry-run mode. The locale \<open>write_blocking_client\<close> states what its
  users rely on.
\<close>

section \<open>The client interface\<close>

record list_options =
  lo_labels :: "(string \<times> string) list"
  lo_fields :: "(string \<times> string) list"
  lo_namespace :: string

definition list_all_namespaces :: list_options where
  "list_all_namespaces = \<lparr>lo_labels = [], lo_fields = [], lo_namespace = []\<rparr>"

record 'w kube_client =
  kc_Get :: "go_type \<Rightarrow> object_key \<Rightarrow> 'w \<Rightarrow> k8s_object result"
  kc_List :: "go_type \<Rightarrow> list_options \<Rightarrow> 'w \<Rightarrow> k8s_object list result"
  kc_Create :: "k8s_object \<Rightarrow> 'w \<Rightarrow> k8s_object result \<times> 'w"
  kc_Delete :: "k8s_object \<Rightarrow> 'w \<Rightarrow> error \<times> 'w"
  kc_Update :: "k8s_object \<Rightarrow> 'w \<Rightarrow> k8s_object result \<times> 'w"
  kc_Patch :: "k8s_object \<Rightarrow> k8s_object \<Rightarrow> 'w \<Rightarrow> k8s_object result \<times> 'w" \<comment> \<open>modified, original\<close>
  kc_DeleteAllOf :: "go_type \<Rightarrow> list_options \<Rightarrow> 'w \<Rightarrow> error \<times> 'w"
  kc_Apply :: "k8s_object \<Rightarrow> 'w \<Rightarrow> error \<times> 'w"
  kc_StatusUpdate :: "k8s_object \<Rightarrow> 'w \<Rightarrow> k8s_object result \<times> 'w" \<comment> \<open>\<open>Status().Update\<close>\<close>
  kc_SubResourceUpdate :: "string \<Rightarrow> k8s_object \<Rightarrow> 'w \<Rightarrow> k8s_object result \<times> 'w"

section \<open>The read-only client\<close>

definition readonly_NewClient :: "'w kube_client \<Rightarrow> 'w kube_client" where
  "readonly_NewClient c =
     \<lparr>kc_Get = kc_Get c,
      kc_List = kc_List c,
      kc_Create = (\<lambda>ob w. (Inr ob, w)),
      kc_Delete = (\<lambda>ob w. (None, w)),
      kc_Update = (\<lambda>ob w. (Inr ob, w)),
      kc_Patch = (\<lambda>ob orig w. (Inr ob, w)),
      kc_DeleteAllOf = (\<lambda>t opts w. (None, w)),
      kc_Apply = (\<lambda>ob w. (None, w)),
      kc_StatusUpdate = kc_StatusUpdate c,
      kc_SubResourceUpdate = kc_SubResourceUpdate c\<rparr>"

text \<open>
  A program that uses a client: a tree of client calls, each continuing with the result of the
  call. \<open>run_client\<close> executes it.
\<close>

datatype 'a client_prog =
    Return 'a
  | DoGet go_type object_key "k8s_object result \<Rightarrow> 'a client_prog"
  | DoList go_type list_options "k8s_object list result \<Rightarrow> 'a client_prog"
  | DoCreate k8s_object "k8s_object result \<Rightarrow> 'a client_prog"
  | DoDelete k8s_object "error \<Rightarrow> 'a client_prog"
  | DoUpdate k8s_object "k8s_object result \<Rightarrow> 'a client_prog"
  | DoPatch k8s_object k8s_object "k8s_object result \<Rightarrow> 'a client_prog"
  | DoDeleteAllOf go_type list_options "error \<Rightarrow> 'a client_prog"
  | DoApply k8s_object "error \<Rightarrow> 'a client_prog"
  | DoStatusUpdate k8s_object "k8s_object result \<Rightarrow> 'a client_prog"
  | DoSubResourceUpdate string k8s_object "k8s_object result \<Rightarrow> 'a client_prog"

primrec run_client :: "'w kube_client \<Rightarrow> 'a client_prog \<Rightarrow> 'w \<Rightarrow> 'a \<times> 'w" where
  "run_client c (Return x) w = (x, w)"
| "run_client c (DoGet t k f) w = run_client c (f (kc_Get c t k w)) w"
| "run_client c (DoList t opts f) w = run_client c (f (kc_List c t opts w)) w"
| "run_client c (DoCreate ob f) w =
     run_client c (f (fst (kc_Create c ob w))) (snd (kc_Create c ob w))"
| "run_client c (DoDelete ob f) w =
     run_client c (f (fst (kc_Delete c ob w))) (snd (kc_Delete c ob w))"
| "run_client c (DoUpdate ob f) w =
     run_client c (f (fst (kc_Update c ob w))) (snd (kc_Update c ob w))"
| "run_client c (DoPatch ob orig f) w =
     run_client c (f (fst (kc_Patch c ob orig w))) (snd (kc_Patch c ob orig w))"
| "run_client c (DoDeleteAllOf t opts f) w =
     run_client c (f (fst (kc_DeleteAllOf c t opts w))) (snd (kc_DeleteAllOf c t opts w))"
| "run_client c (DoApply ob f) w =
     run_client c (f (fst (kc_Apply c ob w))) (snd (kc_Apply c ob w))"
| "run_client c (DoStatusUpdate ob f) w =
     run_client c (f (fst (kc_StatusUpdate c ob w))) (snd (kc_StatusUpdate c ob w))"
| "run_client c (DoSubResourceUpdate sub ob f) w =
     run_client c (f (fst (kc_SubResourceUpdate c sub ob w))) (snd (kc_SubResourceUpdate c sub ob w))"

text \<open>The program never uses the status writer or a subresource client.\<close>

primrec no_subresource_writes :: "'a client_prog \<Rightarrow> bool" where
  "no_subresource_writes (Return x) = True"
| "no_subresource_writes (DoGet t k f) = (\<forall>r. no_subresource_writes (f r))"
| "no_subresource_writes (DoList t opts f) = (\<forall>r. no_subresource_writes (f r))"
| "no_subresource_writes (DoCreate ob f) = (\<forall>r. no_subresource_writes (f r))"
| "no_subresource_writes (DoDelete ob f) = (\<forall>r. no_subresource_writes (f r))"
| "no_subresource_writes (DoUpdate ob f) = (\<forall>r. no_subresource_writes (f r))"
| "no_subresource_writes (DoPatch ob orig f) = (\<forall>r. no_subresource_writes (f r))"
| "no_subresource_writes (DoDeleteAllOf t opts f) = (\<forall>r. no_subresource_writes (f r))"
| "no_subresource_writes (DoApply ob f) = (\<forall>r. no_subresource_writes (f r))"
| "no_subresource_writes (DoStatusUpdate ob f) = False"
| "no_subresource_writes (DoSubResourceUpdate sub ob f) = False"

text \<open>Sequencing of programs.\<close>

primrec cp_bind :: "'a client_prog \<Rightarrow> ('a \<Rightarrow> 'b client_prog) \<Rightarrow> 'b client_prog" where
  "cp_bind (Return x) g = g x"
| "cp_bind (DoGet t k f) g = DoGet t k (\<lambda>r. cp_bind (f r) g)"
| "cp_bind (DoList t opts f) g = DoList t opts (\<lambda>r. cp_bind (f r) g)"
| "cp_bind (DoCreate ob f) g = DoCreate ob (\<lambda>r. cp_bind (f r) g)"
| "cp_bind (DoDelete ob f) g = DoDelete ob (\<lambda>r. cp_bind (f r) g)"
| "cp_bind (DoUpdate ob f) g = DoUpdate ob (\<lambda>r. cp_bind (f r) g)"
| "cp_bind (DoPatch ob orig f) g = DoPatch ob orig (\<lambda>r. cp_bind (f r) g)"
| "cp_bind (DoDeleteAllOf t opts f) g = DoDeleteAllOf t opts (\<lambda>r. cp_bind (f r) g)"
| "cp_bind (DoApply ob f) g = DoApply ob (\<lambda>r. cp_bind (f r) g)"
| "cp_bind (DoStatusUpdate ob f) g = DoStatusUpdate ob (\<lambda>r. cp_bind (f r) g)"
| "cp_bind (DoSubResourceUpdate sub ob f) g = DoSubResourceUpdate sub ob (\<lambda>r. cp_bind (f r) g)"

text \<open>\<open>if err := p; err != nil { return err }\<close>.\<close>

definition bind_error :: "error client_prog \<Rightarrow> error client_prog \<Rightarrow> error client_prog" where
  "bind_error p rest = cp_bind p (\<lambda>err. case err of Some e \<Rightarrow> Return (Some e) | None \<Rightarrow> rest)"

lemma run_client_bind:
  "run_client c (cp_bind p g) w = run_client c (g (fst (run_client c p w))) (snd (run_client c p w))"
  by (induction p arbitrary: w) simp_all

lemma no_subresource_writes_bind:
  "no_subresource_writes p \<Longrightarrow> (\<And>x. no_subresource_writes (g x)) \<Longrightarrow> no_subresource_writes (cp_bind p g)"
  by (induction p) simp_all

text \<open>\<open>x, err := p; if err != nil { return err }; k(x)\<close>.\<close>

definition bind_result :: "'a result client_prog \<Rightarrow> ('a \<Rightarrow> 'b result client_prog) \<Rightarrow> 'b result client_prog" where
  "bind_result p k = cp_bind p (\<lambda>r. case r of Inl e \<Rightarrow> Return (Inl e) | Inr x \<Rightarrow> k x)"

text \<open>The program only reads.\<close>

primrec reads_only :: "'a client_prog \<Rightarrow> bool" where
  "reads_only (Return x) = True"
| "reads_only (DoGet t k f) = (\<forall>r. reads_only (f r))"
| "reads_only (DoList t opts f) = (\<forall>r. reads_only (f r))"
| "reads_only (DoCreate ob f) = False"
| "reads_only (DoDelete ob f) = False"
| "reads_only (DoUpdate ob f) = False"
| "reads_only (DoPatch ob orig f) = False"
| "reads_only (DoDeleteAllOf t opts f) = False"
| "reads_only (DoApply ob f) = False"
| "reads_only (DoStatusUpdate ob f) = False"
| "reads_only (DoSubResourceUpdate sub ob f) = False"

lemma reads_only_bind: "reads_only p \<Longrightarrow> (\<And>x. reads_only (g x)) \<Longrightarrow> reads_only (cp_bind p g)"
  by (induction p) simp_all

lemma reads_only_no_subresource_writes: "reads_only p \<Longrightarrow> no_subresource_writes p"
  by (induction p) simp_all

lemma reads_only_state: "reads_only p \<Longrightarrow> snd (run_client c p w) = w"
  by (induction p) simp_all

lemma reads_only_same_reads:
  assumes "reads_only p" and "kc_Get c' = kc_Get c" and "kc_List c' = kc_List c"
  shows "run_client c' p w = run_client c p w"
  using assms by (induction p) simp_all

section \<open>What users of the read-only client rely on\<close>

locale write_blocking_client =
  fixes c :: "'w kube_client"
  assumes create_blocked: "kc_Create c ob w = (Inr ob, w)"
    and delete_blocked: "kc_Delete c ob w = (None, w)"
    and update_blocked: "kc_Update c ob w = (Inr ob, w)"
    and patch_blocked: "kc_Patch c ob orig w = (Inr ob, w)"
    and delete_all_of_blocked: "kc_DeleteAllOf c t opts w = (None, w)"
    and apply_blocked: "kc_Apply c ob w = (None, w)"
begin

lemmas blocked = create_blocked delete_blocked update_blocked patch_blocked
  delete_all_of_blocked apply_blocked

lemma run_keeps_state: "no_subresource_writes p \<Longrightarrow> snd (run_client c p w) = w"
  by (induction p arbitrary: w) (auto simp: blocked)

end

interpretation ro: write_blocking_client "readonly_NewClient c" for c
  by unfold_locales (simp_all add: readonly_NewClient_def)

lemma readonly_reads [simp]:
  "kc_Get (readonly_NewClient c) = kc_Get c" "kc_List (readonly_NewClient c) = kc_List c"
  "kc_StatusUpdate (readonly_NewClient c) = kc_StatusUpdate c"
  "kc_SubResourceUpdate (readonly_NewClient c) = kc_SubResourceUpdate c"
  by (simp_all add: readonly_NewClient_def)

lemma readonly_idem [simp]: "readonly_NewClient (readonly_NewClient c) = readonly_NewClient c"
  by (simp add: readonly_NewClient_def)

section \<open>What the program relies on of the API server\<close>

text \<open>
  The documented behaviour of the API server, for one client at a time, over the objects
  \<open>lk w\<close> stored in the state \<open>w\<close> by type and key: a read answers from the store; a create fails with
  AlreadyExists exactly when there is such an object; a delete fails with NotFound exactly
  when there is none; an update needs an object with the same resource version, else it fails with
  NotFound or Conflict; a failed write changes nothing; a write that succeeds changes that object
  only.
\<close>

type_synonym 'w lookup = "'w \<Rightarrow> go_type \<times> object_key \<Rightarrow> k8s_object option"

definition obj_id :: "k8s_object \<Rightarrow> go_type \<times> object_key" where
  "obj_id ob = (obj_type ob, obj_key ob)"

definition api_get :: "'w kube_client \<Rightarrow> 'w lookup \<Rightarrow> bool" where
  "api_get c lk \<longleftrightarrow> (\<forall>t k w. case lk w (t, k) of
       None \<Rightarrow> \<exists>e. kc_Get c t k w = Inl e \<and> IsNotFound e
     | Some ob \<Rightarrow> kc_Get c t k w = Inr ob \<and> obj_type ob = t \<and> obj_key ob = k)"

definition api_create :: "'w kube_client \<Rightarrow> 'w lookup \<Rightarrow> bool" where
  "api_create c lk \<longleftrightarrow> (\<forall>ob w. om_name (obj_meta ob) \<noteq> [] \<longrightarrow> (case kc_Create c ob w of
       (Inl e, w') \<Rightarrow> lk w' = lk w \<and> (IsAlreadyExists e \<longleftrightarrow> lk w (obj_id ob) \<noteq> None)
     | (Inr ob', w') \<Rightarrow> lk w (obj_id ob) = None \<and> obj_payload ob' = obj_payload ob
         \<and> obj_key ob' = obj_key ob \<and> lk w' = (lk w)(obj_id ob \<mapsto> ob')))"

definition api_delete :: "'w kube_client \<Rightarrow> 'w lookup \<Rightarrow> bool" where
  "api_delete c lk \<longleftrightarrow> (\<forall>ob w. case kc_Delete c ob w of
       (Some e, w') \<Rightarrow> lk w' = lk w \<and> (IsNotFound e \<longleftrightarrow> lk w (obj_id ob) = None)
     | (None, w') \<Rightarrow> lk w (obj_id ob) \<noteq> None \<and> lk w' = (lk w)(obj_id ob := None))"

definition api_update :: "'w kube_client \<Rightarrow> 'w lookup \<Rightarrow> bool" where
  "api_update c lk \<longleftrightarrow> (\<forall>ob w. case kc_Update c ob w of
       (Inl e, w') \<Rightarrow> lk w' = lk w
     | (Inr ob', w') \<Rightarrow> (\<exists>old. lk w (obj_id ob) = Some old
           \<and> om_resource_version (obj_meta old) = om_resource_version (obj_meta ob))
         \<and> obj_payload ob' = obj_payload ob \<and> obj_key ob' = obj_key ob
         \<and> om_owner_references (obj_meta ob') = om_owner_references (obj_meta ob)
         \<and> lk w' = (lk w)(obj_id ob \<mapsto> ob'))"

text \<open>A patch, for an original that is the current object, stores the modified object.\<close>

definition api_patch :: "'w kube_client \<Rightarrow> 'w lookup \<Rightarrow> bool" where
  "api_patch c lk \<longleftrightarrow> (\<forall>ob orig w. case kc_Patch c ob orig w of
       (Inl e, w') \<Rightarrow> lk w' = lk w \<and> (IsNotFound e \<longrightarrow> lk w (obj_id ob) = None)
     | (Inr ob', w') \<Rightarrow> obj_payload ob' = obj_payload ob \<and> obj_key ob' = obj_key ob
         \<and> om_annotations (obj_meta ob') = om_annotations (obj_meta ob)
         \<and> lk w' = (lk w)(obj_id ob \<mapsto> ob'))"

text \<open>A list without a field selector returns the stored objects that the options select.\<close>

definition list_matches :: "go_type \<Rightarrow> list_options \<Rightarrow> k8s_object \<Rightarrow> bool" where
  "list_matches t opts ob \<longleftrightarrow> obj_type ob = t
     \<and> (lo_namespace opts = [] \<or> lo_namespace opts = obj_namespace ob)
     \<and> list_all (\<lambda>(l, v). gm_map (om_labels (obj_meta ob)) l = Some v) (lo_labels opts)"

definition api_list :: "'w kube_client \<Rightarrow> 'w lookup \<Rightarrow> bool" where
  "api_list c lk \<longleftrightarrow> (\<forall>t opts w items. lo_fields opts = [] \<longrightarrow> kc_List c t opts w = Inr items \<longrightarrow>
     set items = {ob. lk w (obj_id ob) = Some ob \<and> list_matches t opts ob})"

definition api_server :: "'w kube_client \<Rightarrow> 'w lookup \<Rightarrow> bool" where
  "api_server c lk \<longleftrightarrow> api_get c lk \<and> api_create c lk \<and> api_delete c lk \<and> api_update c lk
     \<and> api_patch c lk \<and> api_list c lk"

lemma api_serverD:
  assumes "api_server c lk"
  shows "api_get c lk" "api_create c lk" "api_delete c lk" "api_update c lk" "api_patch c lk"
    "api_list c lk"
  using assms by (simp_all add: api_server_def)

lemma api_patch_Inr:
  assumes "api_patch c lk" and "kc_Patch c ob orig w = (Inr ob', w')"
  shows "obj_payload ob' = obj_payload ob \<and> obj_key ob' = obj_key ob
    \<and> om_annotations (obj_meta ob') = om_annotations (obj_meta ob) \<and> lk w' = (lk w)(obj_id ob \<mapsto> ob')"
  using assms(1)[unfolded api_patch_def, THEN spec[of _ ob], THEN spec[of _ orig], THEN spec[of _ w]]
    assms(2) by simp

lemma api_patch_Inl:
  assumes "api_patch c lk" and "kc_Patch c ob orig w = (Inl e, w')"
  shows "lk w' = lk w \<and> (IsNotFound e \<longrightarrow> lk w (obj_id ob) = None)"
  using assms(1)[unfolded api_patch_def, THEN spec[of _ ob], THEN spec[of _ orig], THEN spec[of _ w]]
    assms(2) by simp

lemma api_update_Inl:
  assumes "api_update c lk" and "kc_Update c ob w = (Inl e, w')"
  shows "lk w' = lk w"
  using assms(1)[unfolded api_update_def, THEN spec[of _ ob], THEN spec[of _ w]] assms(2) by simp

lemma api_list_set:
  assumes "api_list c lk" and "kc_List c t opts w = Inr items" and "lo_fields opts = []"
  shows "set items = {ob. lk w (obj_id ob) = Some ob \<and> list_matches t opts ob}"
  using assms unfolding api_list_def by blast

lemma api_get_None:
  "api_get c lk \<Longrightarrow> lk w (t, k) = None \<Longrightarrow> \<exists>e. kc_Get c t k w = Inl e \<and> IsNotFound e"
  unfolding api_get_def by (drule spec[of _ t], drule spec[of _ k], drule spec[of _ w]) simp

lemma api_get_Some:
  "api_get c lk \<Longrightarrow> lk w (t, k) = Some ob \<Longrightarrow> kc_Get c t k w = Inr ob \<and> obj_type ob = t \<and> obj_key ob = k"
  unfolding api_get_def by (drule spec[of _ t], drule spec[of _ k], drule spec[of _ w]) simp

lemma api_create_Inr:
  assumes "api_create c lk" and "kc_Create c ob w = (Inr ob', w')" and "om_name (obj_meta ob) \<noteq> []"
  shows "lk w (obj_id ob) = None \<and> obj_payload ob' = obj_payload ob \<and> obj_key ob' = obj_key ob
    \<and> lk w' = (lk w)(obj_id ob \<mapsto> ob')"
  using assms(1)[unfolded api_create_def, THEN spec[of _ ob], THEN spec[of _ w]] assms(2-) by simp

lemma api_create_Inl:
  assumes "api_create c lk" and "kc_Create c ob w = (Inl e, w')" and "om_name (obj_meta ob) \<noteq> []"
  shows "lk w' = lk w \<and> (IsAlreadyExists e \<longleftrightarrow> lk w (obj_id ob) \<noteq> None)"
  using assms(1)[unfolded api_create_def, THEN spec[of _ ob], THEN spec[of _ w]] assms(2-) by simp

lemma api_delete_None:
  assumes "api_delete c lk" and "kc_Delete c ob w = (None, w')"
  shows "lk w (obj_id ob) \<noteq> None \<and> lk w' = (lk w)(obj_id ob := None)"
  using assms(1)[unfolded api_delete_def, THEN spec[of _ ob], THEN spec[of _ w]] assms(2-) by simp

lemma api_delete_Some:
  assumes "api_delete c lk" and "kc_Delete c ob w = (Some e, w')"
  shows "lk w' = lk w \<and> (IsNotFound e \<longleftrightarrow> lk w (obj_id ob) = None)"
  using assms(1)[unfolded api_delete_def, THEN spec[of _ ob], THEN spec[of _ w]] assms(2-) by simp

lemma api_update_Inr:
  assumes "api_update c lk" and "kc_Update c ob w = (Inr ob', w')"
  shows "(\<exists>old. lk w (obj_id ob) = Some old
       \<and> om_resource_version (obj_meta old) = om_resource_version (obj_meta ob))
    \<and> obj_payload ob' = obj_payload ob \<and> obj_key ob' = obj_key ob
    \<and> om_owner_references (obj_meta ob') = om_owner_references (obj_meta ob)
    \<and> lk w' = (lk w)(obj_id ob \<mapsto> ob')"
  using assms(1)[unfolded api_update_def, THEN spec[of _ ob], THEN spec[of _ w]] assms(2-) by simp

section \<open>An API server in memory\<close>

text \<open>
  An instance of these assumptions, the counterpart of the fake client of the repository's tests:
  the objects as a list, and a counter from which resource versions and UIDs are made.
\<close>

record mem_server =
  mem_objects :: "k8s_object list"
  mem_counter :: nat

definition mem_lookup :: "mem_server lookup" where
  "mem_lookup m ident = find (\<lambda>ob. obj_id ob = ident) (mem_objects m)"

definition mem_Get :: "go_type \<Rightarrow> object_key \<Rightarrow> mem_server \<Rightarrow> k8s_object result" where
  "mem_Get t k m = (case mem_lookup m (t, k) of
       None \<Rightarrow> Inl (GoError ''not found'' ReasonNotFound) | Some ob \<Rightarrow> Inr ob)"

fun mem_visible :: "k8s_object list \<Rightarrow> k8s_object list" where
  "mem_visible [] = []"
| "mem_visible (ob # obs) = ob # filter (\<lambda>x. obj_id x \<noteq> obj_id ob) (mem_visible obs)"

definition mem_List :: "go_type \<Rightarrow> list_options \<Rightarrow> mem_server \<Rightarrow> k8s_object list result" where
  "mem_List t opts m = Inr (filter (list_matches t opts) (mem_visible (mem_objects m)))"

definition mem_stamp :: "nat \<Rightarrow> k8s_object \<Rightarrow> k8s_object" where
  "mem_stamp n = map_meta (\<lambda>mt. mt\<lparr>om_resource_version := dec_nat n,
     om_name := (if om_name mt = [] then om_generate_name mt @ dec_nat n else om_name mt),
     om_uid := (if om_uid mt = [] then ''uid-'' @ dec_nat n else om_uid mt)\<rparr>)"

definition mem_Create :: "k8s_object \<Rightarrow> mem_server \<Rightarrow> k8s_object result \<times> mem_server" where
  "mem_Create ob m = (if mem_lookup m (obj_id ob) \<noteq> None
       then (Inl (GoError ''already exists'' ReasonAlreadyExists), m)
       else let ob' = mem_stamp (mem_counter m) ob
            in (Inr ob', \<lparr>mem_objects = mem_objects m @ [ob'], mem_counter = Suc (mem_counter m)\<rparr>))"

definition mem_Delete :: "k8s_object \<Rightarrow> mem_server \<Rightarrow> error \<times> mem_server" where
  "mem_Delete ob m = (if mem_lookup m (obj_id ob) = None
       then (Some (GoError ''not found'' ReasonNotFound), m)
       else (None, m\<lparr>mem_objects := filter (\<lambda>x. obj_id x \<noteq> obj_id ob) (mem_objects m)\<rparr>))"

definition mem_replace :: "k8s_object \<Rightarrow> mem_server \<Rightarrow> mem_server" where
  "mem_replace ob m = \<lparr>mem_objects = ob # filter (\<lambda>x. obj_id x \<noteq> obj_id ob) (mem_objects m),
     mem_counter = Suc (mem_counter m)\<rparr>"

definition mem_Update :: "k8s_object \<Rightarrow> mem_server \<Rightarrow> k8s_object result \<times> mem_server" where
  "mem_Update ob m = (case mem_lookup m (obj_id ob) of
       None \<Rightarrow> (Inl (GoError ''not found'' ReasonNotFound), m)
     | Some old \<Rightarrow>
         if om_resource_version (obj_meta old) \<noteq> om_resource_version (obj_meta ob)
         then (Inl (GoError ''conflict'' ReasonConflict), m)
         else let ob' = map_meta (\<lambda>mt. mt\<lparr>om_resource_version := dec_nat (mem_counter m)\<rparr>) ob
              in (Inr ob', mem_replace ob' m))"

definition mem_client :: "mem_server kube_client" where
  "mem_client = \<lparr>kc_Get = mem_Get, kc_List = mem_List, kc_Create = mem_Create,
     kc_Delete = mem_Delete, kc_Update = mem_Update, kc_Patch = (\<lambda>ob orig. mem_Update ob),
     kc_DeleteAllOf = (\<lambda>t opts m.
        (None, m\<lparr>mem_objects := filter (\<lambda>ob. \<not> list_matches t opts ob) (mem_objects m)\<rparr>)),
     kc_Apply = (\<lambda>ob m. (err_of (fst (mem_Update ob m)), snd (mem_Update ob m))),
     kc_StatusUpdate = mem_Update, kc_SubResourceUpdate = (\<lambda>sub. mem_Update)\<rparr>"

lemma mem_client_simps [simp]:
  "kc_Get mem_client = mem_Get" "kc_List mem_client = mem_List" "kc_Create mem_client = mem_Create"
  "kc_Delete mem_client = mem_Delete" "kc_Update mem_client = mem_Update"
  "kc_Patch mem_client = (\<lambda>ob orig. mem_Update ob)" "kc_StatusUpdate mem_client = mem_Update"
  by (simp_all add: mem_client_def)

lemma mem_lookup_id: "mem_lookup m ident = Some ob \<Longrightarrow> obj_id ob = ident"
  by (auto simp: mem_lookup_def find_Some_iff)

lemma mem_lookup_replace: "mem_lookup (mem_replace ob m) = (mem_lookup m)(obj_id ob \<mapsto> ob)"
proof
  fix ident
  have "find (\<lambda>x. obj_id x = ident) (filter (\<lambda>x. obj_id x \<noteq> obj_id ob) xs) =
      find (\<lambda>x. obj_id x = ident) xs" if "ident \<noteq> obj_id ob" for xs
    using that by (induction xs) auto
  then show "mem_lookup (mem_replace ob m) ident = ((mem_lookup m)(obj_id ob \<mapsto> ob)) ident"
    by (auto simp: mem_lookup_def mem_replace_def)
qed

lemma obj_id_map_meta:
  "om_name (f (obj_meta ob)) = om_name (obj_meta ob) \<Longrightarrow>
   om_namespace (f (obj_meta ob)) = om_namespace (obj_meta ob) \<Longrightarrow>
   obj_id (map_meta f ob) = obj_id ob"
  by (simp add: obj_id_def obj_key_def meta_key_def)

lemma mem_api_get: "api_get mem_client mem_lookup"
  by (auto simp: api_get_def mem_Get_def IsNotFound_def obj_id_def dest: mem_lookup_id
      split: option.splits)

lemma mem_api_update: "api_update mem_client mem_lookup"
proof -
  have "case mem_Update ob m of (Inl e, m') \<Rightarrow> mem_lookup m' = mem_lookup m
     | (Inr ob', m') \<Rightarrow> (\<exists>old. mem_lookup m (obj_id ob) = Some old
           \<and> om_resource_version (obj_meta old) = om_resource_version (obj_meta ob))
         \<and> obj_payload ob' = obj_payload ob \<and> obj_key ob' = obj_key ob
         \<and> om_owner_references (obj_meta ob') = om_owner_references (obj_meta ob)
         \<and> mem_lookup m' = (mem_lookup m)(obj_id ob \<mapsto> ob')" for ob m
    by (auto simp: mem_Update_def Let_def mem_lookup_replace obj_id_map_meta obj_key_def meta_key_def
        split: option.splits)
  then show ?thesis by (simp add: api_update_def)
qed

lemma mem_api_delete: "api_delete mem_client mem_lookup"
proof -
  have "find (\<lambda>x. obj_id x = i) (filter (\<lambda>x. obj_id x \<noteq> j) xs) =
      (if i = j then None else find (\<lambda>x. obj_id x = i) xs)" for i j xs
    by (induction xs) auto
  then show ?thesis
    by (auto simp: api_delete_def mem_Delete_def mem_lookup_def IsNotFound_def fun_eq_iff)
qed

lemma mem_api_create: "api_create mem_client mem_lookup"
proof -
  have stamp: "obj_id (mem_stamp n ob) = obj_id ob" if "om_name (obj_meta ob) \<noteq> []" for n ob
    using that by (simp add: mem_stamp_def obj_id_map_meta)
  have find_snoc: "find P (xs @ [y]) = (case find P xs of Some z \<Rightarrow> Some z | None \<Rightarrow> if P y then Some y else None)"
    for P :: "k8s_object \<Rightarrow> bool" and xs y
    by (induction xs) auto
  have "mem_lookup \<lparr>mem_objects = mem_objects m @ [mem_stamp n ob], mem_counter = k\<rparr> =
      (mem_lookup m)(obj_id ob \<mapsto> mem_stamp n ob)"
    if "om_name (obj_meta ob) \<noteq> []" "mem_lookup m (obj_id ob) = None" for m n k ob
    using that by (auto simp: mem_lookup_def find_snoc stamp fun_eq_iff split: option.splits)
  then show ?thesis
    by (auto simp: api_create_def mem_Create_def Let_def IsAlreadyExists_def stamp[unfolded obj_id_def]
        mem_stamp_def obj_key_def meta_key_def)
qed

lemma mem_api_patch: "api_patch mem_client mem_lookup"
  by (auto simp: api_patch_def mem_Update_def Let_def mem_lookup_replace obj_id_map_meta obj_key_def
      meta_key_def IsNotFound_def split: option.splits)

lemma mem_api_list: "api_list mem_client mem_lookup"
proof -
  have "set (mem_visible obs) = {ob. find (\<lambda>x. obj_id x = obj_id ob) obs = Some ob}" for obs
    by (induction obs) auto
  then show ?thesis by (auto simp: api_list_def mem_List_def mem_lookup_def)
qed

lemma mem_api_server: "api_server mem_client mem_lookup"
  by (simp add: api_server_def mem_api_get mem_api_create mem_api_delete mem_api_update
      mem_api_patch mem_api_list)

end
