(* ===== verification/Updater.thy ===== *)
theory Updater
  imports Kube_Client
begin

text \<open>
  Package \<open>updater\<close> (src/updater/updater.go): the functions that persist one resource each
  (\<open>CreateOrUpdate\<close>, \<open>CreateOrRecreate\<close>, \<open>CreateIfNotExists\<close>, \<open>DeleteIfExists\<close>,
  \<open>AnnotateIfExists\<close>), the merge of an existing object into the new one (\<open>CopyMeta\<close>,
  \<open>CopyImmutable\<close>, \<open>KeepOwnerReference\<close>), the guard \<open>AssertValidOwnerReference\<close>, and \<open>FindAll\<close>.

  \<open>scheme.New\<close> gives the Go type registered for a group, version and kind; the scheme is an
  argument. \<open>CreateOrRecreate\<close> polls until the old object is gone: the clock is an argument and the
  loop is a partial function, \<open>None\<close> when it does not return. \<open>meta.Accessor\<close> succeeds on every
  object here, since all of them carry metadata.
\<close>

section \<open>Merging the existing object into the new one\<close>

definition CopyMeta :: "k8s_object \<Rightarrow> k8s_object \<Rightarrow> k8s_object" where
  "CopyMeta dst src = map_meta (\<lambda>m. m
     \<lparr>om_resource_version := om_resource_version (obj_meta src),
      om_uid := om_uid (obj_meta src),
      om_self_link := om_self_link (obj_meta src)\<rparr>) dst"

definition CopyAnnotation :: "string \<Rightarrow> k8s_object \<Rightarrow> k8s_object \<Rightarrow> k8s_object" where
  "CopyAnnotation key dst src = map_meta (\<lambda>m. m
     \<lparr>om_annotations :=
        (let anno = gm_map (om_annotations m); v = annotation (obj_meta src) key
         in if length v > 0 then Some (anno(key \<mapsto> v)) else Some anno)\<rparr>) dst"

definition CopyAnnotations :: "k8s_object \<Rightarrow> k8s_object \<Rightarrow> k8s_object" where
  "CopyAnnotations dst src = map_meta (\<lambda>m. m
     \<lparr>om_annotations := gm_copy (om_annotations m) (om_annotations (obj_meta src))\<rparr>) dst"

definition CopyCNRM :: "k8s_object \<Rightarrow> k8s_object \<Rightarrow> k8s_object" where
  "CopyCNRM = CopyAnnotation ''cnrm.cloud.google.com/state-into-spec''"

definition types_differ :: go_error where
  "types_differ = errorf ''source and destination types differ''"

definition CopyImmutable :: "k8s_object \<Rightarrow> k8s_object \<Rightarrow> k8s_object result" where
  "CopyImmutable dst src = (case obj_payload src of
       PService sp \<Rightarrow> (case obj_payload dst of
           PService dp \<Rightarrow> Inr (dst\<lparr>obj_payload := PService (dp\<lparr>svc_cluster_ip := svc_cluster_ip sp\<rparr>)\<rparr>)
         | _ \<Rightarrow> Inl types_differ)
     | PSQLInstance sp \<Rightarrow> (case obj_payload dst of
           PSQLInstance dp \<Rightarrow> Inr ((CopyCNRM dst src)
             \<lparr>obj_payload := PSQLInstance (dp\<lparr>si_resource_id := si_resource_id sp\<rparr>)\<rparr>)
         | _ \<Rightarrow> Inl types_differ)
     | PSQLDatabase sp \<Rightarrow> (case obj_payload dst of
           PSQLDatabase dp \<Rightarrow> Inr ((CopyCNRM dst src)
             \<lparr>obj_payload := PSQLDatabase (dp\<lparr>sdb_resource_id := sdb_resource_id sp\<rparr>)\<rparr>)
         | _ \<Rightarrow> Inl types_differ)
     | PSQLUser sp \<Rightarrow> (case obj_payload dst of
           PSQLUser dp \<Rightarrow> Inr ((CopyCNRM dst src)
             \<lparr>obj_payload := PSQLUser (dp\<lparr>su_resource_id := su_resource_id sp\<rparr>)\<rparr>)
         | _ \<Rightarrow> Inl types_differ)
     | PSQLSSLCert sp \<Rightarrow> (case obj_payload dst of
           PSQLSSLCert dp \<Rightarrow> Inr ((CopyCNRM dst src)
             \<lparr>obj_payload := PSQLSSLCert (dp\<lparr>ssl_resource_id := ssl_resource_id sp\<rparr>)\<rparr>)
         | _ \<Rightarrow> Inl types_differ)
     | PStorageBucket sp \<Rightarrow> (case obj_payload dst of
           PStorageBucket dp \<Rightarrow> Inr ((CopyCNRM dst src)
             \<lparr>obj_payload := PStorageBucket (dp\<lparr>sb_resource_id := sb_resource_id sp\<rparr>)\<rparr>)
         | _ \<Rightarrow> Inl types_differ)
     | PStorageBucketAccessControl \<Rightarrow> (case obj_payload dst of
           PStorageBucketAccessControl \<Rightarrow> Inr (CopyCNRM dst src)
         | _ \<Rightarrow> Inl types_differ)
     | _ \<Rightarrow> Inr dst)"

definition KeepOwnerReference :: "k8s_object \<Rightarrow> k8s_object \<Rightarrow> k8s_object" where
  "KeepOwnerReference dst src =
     (let existingReferences = owner_refs (obj_meta src)
      in if length existingReferences > 0
         then map_meta (\<lambda>m. m\<lparr>om_owner_references := om_owner_references (obj_meta src)\<rparr>) dst
         else dst)"

definition ownerReferenceSimilar :: "owner_reference \<Rightarrow> owner_reference \<Rightarrow> bool" where
  "ownerReferenceSimilar a b \<longleftrightarrow> or_name a = or_name b \<and> or_kind a = or_kind b"

definition AssertValidOwnerReference :: "k8s_object \<Rightarrow> k8s_object \<Rightarrow> bool \<Rightarrow> error" where
  "AssertValidOwnerReference dst src isPgNamespace =
     (let existingReferences = owner_refs (obj_meta src);
          newReferences = owner_refs (obj_meta dst)
      in if om_owner_references (obj_meta dst) = None \<and> isPgNamespace then None
         else if list_ex (\<lambda>dstRef. list_ex (\<lambda>srcRef. ownerReferenceSimilar srcRef dstRef)
                            existingReferences) newReferences then None
         else Some (errorf ''refusing to overwrite manually edited resource; please add the correct ownerReference in order to continue''))"

section \<open>Persisting one resource\<close>

type_synonym scheme = "type_meta \<Rightarrow> go_type result"

definition AnnotateIfExists :: "'w kube_client \<Rightarrow> scheme \<Rightarrow> k8s_object \<Rightarrow> 'w \<Rightarrow> error \<times> 'w" where
  "AnnotateIfExists cli scheme annotationSource w =
     (case scheme (obj_type_meta annotationSource) of
       Inl e \<Rightarrow> (Some (errorf_w ''internal error: '' e), w)
     | Inr t \<Rightarrow>
        (case kc_Get cli t (obj_key annotationSource) w of
          Inl e \<Rightarrow> if IsNotFound e then (None, w)
                   else (Some (errorf_w ''get for AnnotateIfExists: '' e), w)
        | Inr existing \<Rightarrow>
           (case kc_Patch cli (CopyAnnotations existing annotationSource) existing w of
             (Inl e, w') \<Rightarrow> if IsNotFound e then (None, w')
                            else (Some (errorf_w ''patch for AnnotateIfExists: '' e), w')
           | (Inr _, w') \<Rightarrow> (None, w'))))"

text \<open>The object that is sent to the server when \<open>CreateOrUpdate\<close> finds an existing one.\<close>

definition merge_existing :: "k8s_object \<Rightarrow> k8s_object \<Rightarrow> bool \<Rightarrow> k8s_object result" where
  "merge_existing res existing isPgNamespace =
     rbind (CopyImmutable (CopyMeta res existing) existing) (\<lambda>res2.
       case AssertValidOwnerReference res2 existing isPgNamespace of
         Some e \<Rightarrow> Inl e
       | None \<Rightarrow> Inr (KeepOwnerReference res2 existing))"

definition CreateOrUpdate :: "'w kube_client \<Rightarrow> scheme \<Rightarrow> k8s_object \<Rightarrow> 'w \<Rightarrow> error \<times> 'w" where
  "CreateOrUpdate cli scheme res w =
     (case scheme (obj_type_meta res) of
       Inl e \<Rightarrow> (Some (errorf_w ''internal error: '' e), w)
     | Inr t \<Rightarrow>
        (case kc_Get cli TNamespace \<lparr>key_namespace = [], key_name = obj_namespace res\<rparr> w of
          Inl e \<Rightarrow> (Some (errorf_w (''get namespace '' @ obj_namespace res @ '': '') e), w)
        | Inr namespace \<Rightarrow>
           (let isPgNamespace = (label (obj_meta namespace) ''nais.io/type'' = ''postgres'')
            in case kc_Get cli t (obj_key res) w of
                 Inl e \<Rightarrow> if IsNotFound e
                          then (case kc_Create cli res w of (r, w') \<Rightarrow> (err_of r, w'))
                          else (Some e, w)
               | Inr existing \<Rightarrow>
                  (case merge_existing res existing isPgNamespace of
                     Inl e \<Rightarrow> (Some e, w)
                   | Inr res' \<Rightarrow> (case kc_Update cli res' w of (r, w') \<Rightarrow> (err_of r, w'))))))"

record 'w clock =
  ck_now :: "'w \<Rightarrow> int" \<comment> \<open>nanoseconds\<close>
  ck_sleep :: "int \<Rightarrow> 'w \<Rightarrow> 'w"

abbreviation second_ns :: int where
  "second_ns \<equiv> 1000000000"

partial_function (option) await_deletion ::
  "'w kube_client \<Rightarrow> 'w clock \<Rightarrow> go_type \<Rightarrow> object_key \<Rightarrow> int \<Rightarrow> 'w \<Rightarrow> (error \<times> 'w) option" where
  "await_deletion cli ck t k timedOut w =
     (case kc_Get cli t k w of
       Inl e \<Rightarrow> if IsNotFound e then Some (None, w)
                else Some (Some (errorf_s ''internal error: '' e), w)
     | Inr _ \<Rightarrow> if ck_now ck w > timedOut
                then Some (Some (errorf (''timed out waiting for deletion of '' @ key_name k)), w)
                else await_deletion cli ck t k timedOut (ck_sleep ck second_ns w))"

definition CreateOrRecreate ::
  "'w kube_client \<Rightarrow> scheme \<Rightarrow> 'w clock \<Rightarrow> k8s_object \<Rightarrow> 'w \<Rightarrow> (error \<times> 'w) option" where
  "CreateOrRecreate cli scheme ck res w =
     (let (err, w1) = kc_Delete cli res w
      in if (case err of Some e \<Rightarrow> \<not> IsNotFound e | None \<Rightarrow> False) then Some (err, w1)
         else case scheme (obj_type_meta res) of
                Inl e \<Rightarrow> Some (Some (errorf_w ''internal error: '' e), w1)
              | Inr t \<Rightarrow>
                 (case await_deletion cli ck t (obj_key res) (ck_now ck w1 + (60 * second_ns + 5)) w1 of
                    None \<Rightarrow> None
                  | Some (Some e, w2) \<Rightarrow> Some (Some e, w2)
                  | Some (None, w2) \<Rightarrow>
                      (case kc_Create cli res w2 of (r, w3) \<Rightarrow> Some (err_of r, w3))))"

definition CreateIfNotExists :: "'w kube_client \<Rightarrow> k8s_object \<Rightarrow> 'w \<Rightarrow> error \<times> 'w" where
  "CreateIfNotExists cli res w = (case kc_Create cli res w of
       (Inl e, w') \<Rightarrow> if IsAlreadyExists e then (None, w') else (Some e, w')
     | (Inr _, w') \<Rightarrow> (None, w'))"

definition DeleteIfExists :: "'w kube_client \<Rightarrow> k8s_object \<Rightarrow> 'w \<Rightarrow> error \<times> 'w" where
  "DeleteIfExists cli res w = (case kc_Delete cli res w of
       (Some e, w') \<Rightarrow> if IsNotFound e then (None, w') else (Some e, w')
     | (None, w') \<Rightarrow> (None, w'))"

section \<open>Finding the resources of a source\<close>

definition hasOwnerReference :: "source \<Rightarrow> k8s_object \<Rightarrow> bool" where
  "hasOwnerReference s ob \<longleftrightarrow> list_ex (\<lambda>ref. or_uid ref = src_uid s) (owner_refs (obj_meta ob))"

definition withOwnerReference :: "source \<Rightarrow> k8s_object list \<Rightarrow> k8s_object list" where
  "withOwnerReference s resources = filter (hasOwnerReference s) resources"

definition app_selector :: "source \<Rightarrow> list_options" where
  "app_selector s = list_all_namespaces\<lparr>lo_labels := [(''app'', src_name s)]\<rparr>"

definition FindAll ::
  "'w kube_client \<Rightarrow> liberator \<Rightarrow> go_type list \<Rightarrow> source \<Rightarrow> 'w \<Rightarrow> k8s_object list result" where
  "FindAll cli lib types s w =
     (case lib_NewRequirement lib ''app'' (src_name s) of
       Some e \<Rightarrow> Inl e
     | None \<Rightarrow>
        rbind (mapM_result (\<lambda>t. case kc_List cli t (app_selector s) w of
                 Inl e \<Rightarrow> Inl (errorf_w ''list: '' e) | Inr items \<Rightarrow> Inr items) types)
          (\<lambda>lists. Inr (withOwnerReference s (concat lists))))"

section \<open>Lemmas\<close>

lemma CopyMeta_simps [simp]:
  "obj_payload (CopyMeta dst src) = obj_payload dst"
  "obj_type (CopyMeta dst src) = obj_type dst"
  "om_name (obj_meta (CopyMeta dst src)) = om_name (obj_meta dst)"
  "om_namespace (obj_meta (CopyMeta dst src)) = om_namespace (obj_meta dst)"
  "om_labels (obj_meta (CopyMeta dst src)) = om_labels (obj_meta dst)"
  "om_annotations (obj_meta (CopyMeta dst src)) = om_annotations (obj_meta dst)"
  "om_owner_references (obj_meta (CopyMeta dst src)) = om_owner_references (obj_meta dst)"
  "om_resource_version (obj_meta (CopyMeta dst src)) = om_resource_version (obj_meta src)"
  "om_uid (obj_meta (CopyMeta dst src)) = om_uid (obj_meta src)"
  by (simp_all add: CopyMeta_def)

text \<open>The field of an object that must not change once the object exists.\<close>

fun immutable_of :: "payload \<Rightarrow> string option" where
  "immutable_of (PService sp) = Some (svc_cluster_ip sp)"
| "immutable_of (PSQLInstance sp) = Some (si_resource_id sp)"
| "immutable_of (PSQLDatabase sp) = Some (sdb_resource_id sp)"
| "immutable_of (PSQLUser sp) = Some (su_resource_id sp)"
| "immutable_of (PSQLSSLCert sp) = Some (ssl_resource_id sp)"
| "immutable_of (PStorageBucket sp) = Some (sb_resource_id sp)"
| "immutable_of _ = None"

text \<open>The specification apart from that field.\<close>

fun mutable_part :: "payload \<Rightarrow> payload" where
  "mutable_part (PService sp) = PService (sp\<lparr>svc_cluster_ip := []\<rparr>)"
| "mutable_part (PSQLInstance sp) = PSQLInstance (sp\<lparr>si_resource_id := []\<rparr>)"
| "mutable_part (PSQLDatabase sp) = PSQLDatabase (sp\<lparr>sdb_resource_id := []\<rparr>)"
| "mutable_part (PSQLUser sp) = PSQLUser (sp\<lparr>su_resource_id := []\<rparr>)"
| "mutable_part (PSQLSSLCert sp) = PSQLSSLCert (sp\<lparr>ssl_resource_id := []\<rparr>)"
| "mutable_part (PStorageBucket sp) = PStorageBucket (sp\<lparr>sb_resource_id := []\<rparr>)"
| "mutable_part p = p"

text \<open>Everything in the metadata that an update takes from the new object.\<close>

definition same_desired_meta :: "object_meta \<Rightarrow> object_meta \<Rightarrow> bool" where
  "same_desired_meta m m' \<longleftrightarrow> om_name m = om_name m' \<and> om_namespace m = om_namespace m'
     \<and> om_labels m = om_labels m'"

lemma CopyCNRM_simps [simp]:
  "obj_payload (CopyCNRM dst src) = obj_payload dst"
  "om_owner_references (obj_meta (CopyCNRM dst src)) = om_owner_references (obj_meta dst)"
  "om_resource_version (obj_meta (CopyCNRM dst src)) = om_resource_version (obj_meta dst)"
  "om_uid (obj_meta (CopyCNRM dst src)) = om_uid (obj_meta dst)"
  "om_name (obj_meta (CopyCNRM dst src)) = om_name (obj_meta dst)"
  "om_namespace (obj_meta (CopyCNRM dst src)) = om_namespace (obj_meta dst)"
  "om_labels (obj_meta (CopyCNRM dst src)) = om_labels (obj_meta dst)"
  by (simp_all add: CopyCNRM_def CopyAnnotation_def)

lemma immutable_of_None:
  "payload_type p \<notin> {TService, TSQLInstance, TSQLDatabase, TSQLUser, TSQLSSLCert, TStorageBucket} \<Longrightarrow>
     immutable_of p = None"
  by (cases p) simp_all

lemma CopyImmutable_payload:
  assumes "CopyImmutable dst src = Inr d"
  shows "mutable_part (obj_payload d) = mutable_part (obj_payload dst)
    \<and> payload_type (obj_payload d) = payload_type (obj_payload dst)
    \<and> (payload_type (obj_payload dst) = payload_type (obj_payload src) \<longrightarrow>
         immutable_of (obj_payload d) = immutable_of (obj_payload src))"
  using assms
  by (cases "obj_payload src") (auto simp: CopyImmutable_def immutable_of_None split: payload.splits)

lemma CopyImmutable_meta:
  assumes "CopyImmutable dst src = Inr d"
  shows "om_owner_references (obj_meta d) = om_owner_references (obj_meta dst)
    \<and> om_resource_version (obj_meta d) = om_resource_version (obj_meta dst)
    \<and> om_uid (obj_meta d) = om_uid (obj_meta dst)
    \<and> same_desired_meta (obj_meta d) (obj_meta dst)"
  using assms
  by (cases "obj_payload src")
    (auto simp: CopyImmutable_def same_desired_meta_def split: payload.splits)

lemma AssertValid_iff:
  "AssertValidOwnerReference dst src pg = None \<longleftrightarrow>
     om_owner_references (obj_meta dst) = None \<and> pg \<or>
     (\<exists>d \<in> set (owner_refs (obj_meta dst)). \<exists>r \<in> set (owner_refs (obj_meta src)).
        or_name r = or_name d \<and> or_kind r = or_kind d)"
  by (auto simp: AssertValidOwnerReference_def Let_def list_ex_iff ownerReferenceSimilar_def)

lemma owner_refs_cong: "om_owner_references m = om_owner_references m' \<Longrightarrow> owner_refs m = owner_refs m'"
  by (simp add: owner_refs_def)

text \<open>The guard and the merge see the new object's owner references, whatever was copied before.\<close>

lemma merge_existing_InrD:
  assumes "merge_existing res existing pg = Inr res'"
  obtains d where "CopyImmutable (CopyMeta res existing) existing = Inr d"
    "AssertValidOwnerReference d existing pg = None" "res' = KeepOwnerReference d existing"
  using assms by (auto simp: merge_existing_def result_simps split: option.splits)

lemma KeepOwnerReference_simps [simp]:
  "obj_payload (KeepOwnerReference dst src) = obj_payload dst"
  "om_resource_version (obj_meta (KeepOwnerReference dst src)) = om_resource_version (obj_meta dst)"
  "om_uid (obj_meta (KeepOwnerReference dst src)) = om_uid (obj_meta dst)"
  "om_name (obj_meta (KeepOwnerReference dst src)) = om_name (obj_meta dst)"
  "om_namespace (obj_meta (KeepOwnerReference dst src)) = om_namespace (obj_meta dst)"
  "om_labels (obj_meta (KeepOwnerReference dst src)) = om_labels (obj_meta dst)"
  by (simp_all add: KeepOwnerReference_def Let_def)

lemma KeepOwnerReference_refs:
  "owner_refs (obj_meta src) \<noteq> [] \<Longrightarrow>
     om_owner_references (obj_meta (KeepOwnerReference dst src)) = om_owner_references (obj_meta src)"
  "owner_refs (obj_meta src) = [] \<Longrightarrow> KeepOwnerReference dst src = dst"
  by (simp_all add: KeepOwnerReference_def Let_def)

lemma merge_existing_guard:
  assumes "merge_existing res existing pg = Inr res'"
  shows "AssertValidOwnerReference res existing pg = None"
proof -
  from assms obtain d where d: "CopyImmutable (CopyMeta res existing) existing = Inr d"
    and ok: "AssertValidOwnerReference d existing pg = None" by (rule merge_existing_InrD)
  from CopyImmutable_meta[OF d] have "om_owner_references (obj_meta d) = om_owner_references (obj_meta res)"
    by simp
  with ok show ?thesis by (simp add: AssertValid_iff owner_refs_def)
qed

lemma merge_existing_facts:
  assumes "merge_existing res existing pg = Inr res'"
  shows "om_resource_version (obj_meta res') = om_resource_version (obj_meta existing)"
    and "om_uid (obj_meta res') = om_uid (obj_meta existing)"
    and "om_owner_references (obj_meta res') =
           (if owner_refs (obj_meta existing) = [] then om_owner_references (obj_meta res)
            else om_owner_references (obj_meta existing))"
    and "same_desired_meta (obj_meta res') (obj_meta res)"
    and "mutable_part (obj_payload res') = mutable_part (obj_payload res)"
    and "obj_type res = obj_type existing \<Longrightarrow>
           immutable_of (obj_payload res') = immutable_of (obj_payload existing)"
proof -
  from assms obtain d where d: "CopyImmutable (CopyMeta res existing) existing = Inr d"
    and res': "res' = KeepOwnerReference d existing" by (rule merge_existing_InrD)
  note m = CopyImmutable_meta[OF d] and p = CopyImmutable_payload[OF d]
  show "om_resource_version (obj_meta res') = om_resource_version (obj_meta existing)"
    "om_uid (obj_meta res') = om_uid (obj_meta existing)"
    using m by (simp_all add: res')
  show "om_owner_references (obj_meta res') =
      (if owner_refs (obj_meta existing) = [] then om_owner_references (obj_meta res)
       else om_owner_references (obj_meta existing))"
    using m by (simp add: res' KeepOwnerReference_refs)
  show "same_desired_meta (obj_meta res') (obj_meta res)"
    using m by (simp add: res' same_desired_meta_def)
  show "mutable_part (obj_payload res') = mutable_part (obj_payload res)"
    using p by (simp add: res')
  show "immutable_of (obj_payload res') = immutable_of (obj_payload existing)"
    if "obj_type res = obj_type existing"
    using p that by (simp add: res' obj_type_def)
qed


text \<open>The polling loop ends when the clock advances by the time slept.\<close>

definition clock_advances :: "'w clock \<Rightarrow> bool" where
  "clock_advances ck \<longleftrightarrow> (\<forall>d w. ck_now ck w + d \<le> ck_now ck (ck_sleep ck d w))"

lemma await_deletion_returns_aux:
  assumes "clock_advances ck"
  shows "timedOut - ck_now ck w < int n * second_ns \<Longrightarrow>
    \<exists>r. await_deletion cli ck t k timedOut w = Some r"
proof (induction n arbitrary: w)
  case 0
  then show ?case by (subst await_deletion.simps) (auto split: sum.splits)
next
  case (Suc n)
  let ?w = "ck_sleep ck second_ns w"
  from assms have "ck_now ck w + second_ns \<le> ck_now ck ?w" by (simp add: clock_advances_def)
  with Suc.prems have "timedOut - ck_now ck ?w < int n * second_ns" by (simp add: algebra_simps)
  from Suc.IH[OF this] show ?case by (subst await_deletion.simps) (auto split: sum.splits)
qed

lemma await_deletion_returns:
  assumes "clock_advances ck"
  shows "\<exists>r. await_deletion cli ck t k timedOut w = Some r"
proof -
  let ?n = "nat (timedOut - ck_now ck w) + 1"
  have "timedOut - ck_now ck w < int ?n * second_ns" by simp
  from await_deletion_returns_aux[OF assms this] show ?thesis .
qed

section \<open>The effect on the objects of the cluster\<close>

lemma CreateOrUpdate_lk:
  assumes "api_get cli lk" and "api_create cli lk" and "api_update cli lk"
    and "scheme (obj_type_meta res) = Inr (obj_type res)" and "om_name (obj_meta res) \<noteq> []"
    and "CreateOrUpdate cli scheme res w = (None, w')"
  shows "\<exists>ob. lk w' = (lk w)(obj_id res \<mapsto> ob) \<and> obj_id ob = obj_id res
     \<and> mutable_part (obj_payload ob) = mutable_part (obj_payload res)
     \<and> (lk w (obj_id res) = None \<longrightarrow> obj_payload ob = obj_payload res)"
proof -
  from assms(4,6) obtain ns where ns: "kc_Get cli TNamespace \<lparr>key_namespace = [], key_name = obj_namespace res\<rparr> w = Inr ns"
    by (auto simp: CreateOrUpdate_def split: sum.splits)
  show ?thesis
  proof (cases "lk w (obj_id res)")
    case None
    with assms(1) obtain e where "kc_Get cli (obj_type res) (obj_key res) w = Inl e" "IsNotFound e"
      unfolding obj_id_def by (auto dest: api_get_None)
    with assms(4,6) ns obtain ob where cr: "kc_Create cli res w = (Inr ob, w')"
      by (auto simp: CreateOrUpdate_def err_of_def split: prod.splits sum.splits)
    from api_create_Inr[OF assms(2) cr assms(5)] show ?thesis by (auto simp: obj_id_def obj_type_def)
  next
    case (Some existing)
    with assms(1) have get: "kc_Get cli (obj_type res) (obj_key res) w = Inr existing"
      unfolding obj_id_def by (auto dest: api_get_Some)
    with assms(4,6) ns obtain res' ob pg where me: "merge_existing res existing pg = Inr res'"
      and up: "kc_Update cli res' w = (Inr ob, w')"
      by (auto simp: CreateOrUpdate_def err_of_def Let_def split: prod.splits sum.splits)
    note facts = merge_existing_facts[OF me]
    from facts(4) have key: "obj_key res' = obj_key res"
      by (simp add: obj_key_def meta_key_def same_desired_meta_def)
    from me have ty: "obj_type res' = obj_type res"
      by (auto elim!: merge_existing_InrD dest: CopyImmutable_payload simp: obj_type_def)
    with api_update_Inr[OF assms(3) up] facts(5) key Some show ?thesis
      by (auto simp: obj_id_def obj_type_def)
  qed
qed

lemma DeleteIfExists_lk:
  assumes "api_delete cli lk"
  shows "lk (snd (DeleteIfExists cli res w)) =
    (if fst (DeleteIfExists cli res w) = None then (lk w)(obj_id res := None) else lk w)"
proof (cases "kc_Delete cli res w")
  case (Pair err w')
  show ?thesis
  proof (cases err)
    case None
    with Pair api_delete_None[OF assms, of res w w'] show ?thesis by (simp add: DeleteIfExists_def)
  next
    case (Some e)
    with Pair api_delete_Some[OF assms, of res w e w'] show ?thesis
      by (auto simp: DeleteIfExists_def)
  qed
qed

lemma CreateIfNotExists_lk:
  assumes "api_create cli lk" and "om_name (obj_meta res) \<noteq> []"
    and "CreateIfNotExists cli res w = (err, w')"
  shows "if lk w (obj_id res) \<noteq> None then err = None \<and> lk w' = lk w
    else if err \<noteq> None then lk w' = lk w
    else \<exists>ob. obj_payload ob = obj_payload res \<and> lk w' = (lk w)(obj_id res \<mapsto> ob)"
proof (cases "kc_Create cli res w")
  case (Pair r w1)
  show ?thesis
  proof (cases r)
    case (Inl e)
    with Pair api_create_Inl[OF assms(1) _ assms(2), of w e w1] assms(3) show ?thesis
      by (auto simp: CreateIfNotExists_def split: if_splits)
  next
    case (Inr ob)
    with Pair api_create_Inr[OF assms(1) _ assms(2), of w ob w1] assms(3) show ?thesis
      by (auto simp: CreateIfNotExists_def)
  qed
qed

lemma CreateOrRecreate_lk:
  assumes "clock_advances ck" and "api_create cli lk" and "om_name (obj_meta res) \<noteq> []"
  shows "\<exists>err w'. CreateOrRecreate cli scheme ck res w = Some (err, w')
    \<and> (err = None \<longrightarrow> (\<exists>ob. lk w' (obj_id res) = Some ob \<and> obj_payload ob = obj_payload res))"
proof -
  obtain derr w1 where del: "kc_Delete cli res w = (derr, w1)" by (cases "kc_Delete cli res w")
  show ?thesis
  proof (cases "\<exists>t. scheme (obj_type_meta res) = Inr t \<and> (case derr of Some e \<Rightarrow> IsNotFound e | None \<Rightarrow> True)")
    case False
    with del show ?thesis
      by (cases "scheme (obj_type_meta res)") (auto simp: CreateOrRecreate_def split: option.splits)
  next
    case True
    then obtain t where sch: "scheme (obj_type_meta res) = Inr t"
      and ok: "case derr of Some e \<Rightarrow> IsNotFound e | None \<Rightarrow> True" by auto
    obtain aerr w2 where aw: "await_deletion cli ck t (obj_key res)
        (ck_now ck w1 + (60 * second_ns + 5)) w1 = Some (aerr, w2)"
      using await_deletion_returns[OF assms(1)] by fastforce
    obtain r w3 where cr: "kc_Create cli res w2 = (r, w3)" by (cases "kc_Create cli res w2")
    from sch ok del aw cr have "CreateOrRecreate cli scheme ck res w =
        Some (case aerr of Some e \<Rightarrow> (Some e, w2) | None \<Rightarrow> (err_of r, w3))"
      by (auto simp: CreateOrRecreate_def split: option.splits)
    moreover have "\<exists>ob. lk w3 (obj_id res) = Some ob \<and> obj_payload ob = obj_payload res"
      if "err_of r = None"
    proof -
      from that obtain ob where "r = Inr ob" by (cases r) (auto simp: err_of_def)
      with api_create_Inr[OF assms(2) _ assms(3), of w2 ob w3] cr show ?thesis by simp
    qed
    ultimately show ?thesis by (cases aerr) auto
  qed
qed

text \<open>Sleeping is quiet when no other client writes meanwhile.\<close>

definition quiet_clock :: "'w clock \<Rightarrow> 'w lookup \<Rightarrow> bool" where
  "quiet_clock ck lk \<longleftrightarrow> (\<forall>d w. lk (ck_sleep ck d w) = lk w)"

lemma await_deletion_lk:
  assumes "await_deletion cli ck t k timedOut w = Some (err, w')" and "quiet_clock ck lk"
  shows "lk w' = lk w"
proof -
  have "quiet_clock ck lk \<longrightarrow> lk (snd r) = lk w" if "await_deletion cli ck t k timedOut w = Some r"
    for cli ck t k timedOut w r
    using that
    by (rule await_deletion.raw_induct[where P = "\<lambda>cli ck t k timedOut w r. quiet_clock ck lk \<longrightarrow> lk (snd r) = lk w", rotated])
      (fastforce simp: quiet_clock_def split: sum.splits if_splits)
  with assms show ?thesis by fastforce
qed

text \<open>An operation on one object leaves every other object alone.\<close>

definition touches_only ::
  "'w lookup \<Rightarrow> go_type \<times> object_key \<Rightarrow> ('w \<Rightarrow> (error \<times> 'w) option) \<Rightarrow> bool" where
  "touches_only lk i f \<longleftrightarrow> (\<forall>w err w' j. f w = Some (err, w') \<longrightarrow> j \<noteq> i \<longrightarrow> lk w' j = lk w j)"

lemma touches_onlyI:
  "(\<And>w err w' j. f w = Some (err, w') \<Longrightarrow> j \<noteq> i \<Longrightarrow> lk w' j = lk w j) \<Longrightarrow> touches_only lk i f"
  by (simp add: touches_only_def)

lemma touches_onlyD: "touches_only lk i f \<Longrightarrow> f w = Some (err, w') \<Longrightarrow> j \<noteq> i \<Longrightarrow> lk w' j = lk w j"
  unfolding touches_only_def by blast

text \<open>The scheme knows the type of the object, and the object has a name.\<close>

definition persistable :: "scheme \<Rightarrow> k8s_object \<Rightarrow> bool" where
  "persistable scheme ob \<longleftrightarrow> scheme (obj_type_meta ob) = Inr (obj_type ob) \<and> om_name (obj_meta ob) \<noteq> []"

lemma create_touches:
  assumes "api_create cli lk" and "kc_Create cli ob w = (r, w')" and "om_name (obj_meta ob) \<noteq> []"
    and "j \<noteq> obj_id ob"
  shows "lk w' j = lk w j"
  using api_create_Inr[OF assms(1) _ assms(3)] api_create_Inl[OF assms(1) _ assms(3)] assms(2,4)
  by (cases r) fastforce+

lemma merge_existing_id:
  assumes "merge_existing res existing pg = Inr res'"
  shows "obj_id res' = obj_id res"
proof -
  from merge_existing_facts(4)[OF assms] have "obj_key res' = obj_key res"
    by (simp add: obj_key_def meta_key_def same_desired_meta_def)
  moreover from assms have "obj_type res' = obj_type res"
    by (auto elim!: merge_existing_InrD dest: CopyImmutable_payload simp: obj_type_def)
  ultimately show ?thesis by (simp add: obj_id_def)
qed

lemma update_touches:
  assumes "api_update cli lk" and "kc_Update cli ob w = (r, w')" and "j \<noteq> obj_id ob"
  shows "lk w' j = lk w j"
  using api_update_Inr[OF assms(1)] api_update_Inl[OF assms(1)] assms(2,3)
  by (cases r) fastforce+

lemma delete_touches:
  assumes "api_delete cli lk" and "kc_Delete cli ob w = (r, w')" and "j \<noteq> obj_id ob"
  shows "lk w' j = lk w j"
  using api_delete_None[OF assms(1)] api_delete_Some[OF assms(1)] assms(2,3)
  by (cases r) fastforce+

lemma CreateOrUpdate_touches:
  assumes "api_server cli lk" and "persistable scheme res"
  shows "touches_only lk (obj_id res) (\<lambda>w. Some (CreateOrUpdate cli scheme res w))"
proof (rule touches_onlyI)
  fix w err w' j
  assume run: "Some (CreateOrUpdate cli scheme res w) = Some (err, w')" and j: "j \<noteq> obj_id res"
  consider "w' = w" | r where "kc_Create cli res w = (r, w')"
    | existing pg res' r where "merge_existing res existing pg = Inr res'" "kc_Update cli res' w = (r, w')"
    using run by (auto simp: CreateOrUpdate_def Let_def split: sum.splits prod.splits if_splits)
  then show "lk w' j = lk w j"
    using assms j
    by cases (auto simp: persistable_def merge_existing_id dest: api_serverD
        intro: create_touches update_touches)
qed

lemma DeleteIfExists_touches:
  assumes "api_server cli lk"
  shows "touches_only lk (obj_id res) (\<lambda>w. Some (DeleteIfExists cli res w))"
  by (rule touches_onlyI)
    (auto simp: DeleteIfExists_def dest!: delete_touches[OF api_serverD(3)[OF assms]]
      split: prod.splits option.splits if_splits)

lemma CreateIfNotExists_touches:
  assumes "api_server cli lk" and "persistable scheme res"
  shows "touches_only lk (obj_id res) (\<lambda>w. Some (CreateIfNotExists cli res w))"
  using assms(2)
  by (auto intro!: touches_onlyI simp: CreateIfNotExists_def persistable_def
      dest!: create_touches[OF api_serverD(2)[OF assms(1)]]
      split: prod.splits sum.splits if_splits)

lemma CreateOrRecreate_touches:
  assumes api: "api_server cli lk" and "persistable scheme res" and "quiet_clock ck lk"
  shows "touches_only lk (obj_id res) (CreateOrRecreate cli scheme ck res)"
proof (rule touches_onlyI)
  fix w err w' j
  assume run: "CreateOrRecreate cli scheme ck res w = Some (err, w')" and j: "j \<noteq> obj_id res"
  obtain derr w1 where del: "kc_Delete cli res w = (derr, w1)" by (cases "kc_Delete cli res w")
  from delete_touches[OF api_serverD(3)[OF api] del j] have w1: "lk w1 j = lk w j" .
  from run del consider "w' = w1"
    | t to aerr where "await_deletion cli ck t (obj_key res) to w1 = Some (aerr, w')"
    | t to aerr w2 r where "await_deletion cli ck t (obj_key res) to w1 = Some (aerr, w2)"
        "kc_Create cli res w2 = (r, w')"
    by (auto simp: CreateOrRecreate_def split: sum.splits prod.splits if_splits option.splits)
  then show "lk w' j = lk w j"
  proof cases
    case (3 t to aerr w2 r)
    with create_touches[OF api_serverD(2)[OF api] 3(2) _ j] assms(2) w1
      await_deletion_lk[OF 3(1) assms(3)] show ?thesis by (simp add: persistable_def)
  qed (use w1 await_deletion_lk[OF _ assms(3)] in fastforce)+
qed

text \<open>An object with the annotations of another one.\<close>

definition has_annotations_of :: "k8s_object \<Rightarrow> k8s_object \<Rightarrow> bool" where
  "has_annotations_of src ob \<longleftrightarrow> gm_map (om_annotations (obj_meta src)) \<subseteq>\<^sub>m gm_map (om_annotations (obj_meta ob))"

lemma CopyAnnotations_facts:
  "has_annotations_of src (CopyAnnotations dst src)" "obj_payload (CopyAnnotations dst src) = obj_payload dst"
  "obj_id (CopyAnnotations dst src) = obj_id dst"
  by (auto simp: has_annotations_of_def CopyAnnotations_def map_le_def obj_id_map_meta)

lemma AnnotateIfExists_lk:
  assumes api: "api_server cli lk" and "persistable scheme res"
    and run: "AnnotateIfExists cli scheme res w = (err, w')"
  shows "lk w' = lk w \<and> (err = None \<longrightarrow> lk w (obj_id res) = None)
    \<or> (\<exists>old ob. lk w (obj_id res) = Some old \<and> lk w' = (lk w)(obj_id res \<mapsto> ob)
        \<and> obj_payload ob = obj_payload old \<and> has_annotations_of res ob)"
proof (cases "lk w (obj_id res)")
  case None
  with api_get_None[OF api_serverD(1)[OF api]] run assms(2) show ?thesis
    unfolding obj_id_def by (fastforce simp: AnnotateIfExists_def persistable_def)
next
  case (Some old)
  with api_get_Some[OF api_serverD(1)[OF api]]
  have get: "kc_Get cli (obj_type res) (obj_key res) w = Inr old" and old: "obj_id old = obj_id res"
    unfolding obj_id_def by fastforce+
  let ?new = "CopyAnnotations old res"
  obtain r w1 where p: "kc_Patch cli ?new old w = (r, w1)" by (cases "kc_Patch cli ?new old w")
  show ?thesis
  proof (cases r)
    case (Inl e)
    with api_patch_Inl[OF api_serverD(5)[OF api], of ?new old w e w1] p Some old run get assms(2)
    show ?thesis by (auto simp: AnnotateIfExists_def persistable_def CopyAnnotations_facts split: if_splits)
  next
    case (Inr ob)
    with api_patch_Inr[OF api_serverD(5)[OF api], of ?new old w ob w1] p Some old run get assms(2)
      CopyAnnotations_facts(1)[of res old] CopyAnnotations_facts(2,3)[of old res]
    show ?thesis by (auto simp: AnnotateIfExists_def persistable_def has_annotations_of_def)
  qed
qed

lemma AnnotateIfExists_touches:
  assumes "api_server cli lk" and "persistable scheme res"
  shows "touches_only lk (obj_id res) (\<lambda>w. Some (AnnotateIfExists cli scheme res w))"
  by (rule touches_onlyI) (use AnnotateIfExists_lk[OF assms] in fastforce)

section \<open>Properties\<close>

text \<open>C10. \<open>CreateOrUpdate\<close> never overwrites a resource that another owner holds: when an object with the
  same type and key exists and none of its owner references has the name and kind of one of the new
  object's owner references, the call fails and the cluster is unchanged. The only exception is a new
  object without owner references in a Postgres namespace.\<close>

theorem CreateOrUpdate_refuses_foreign:
  assumes "kc_Get cli t (obj_key res) w = Inr existing"
    and "scheme (obj_type_meta res) = Inr t"
    and "kc_Get cli TNamespace \<lparr>key_namespace = [], key_name = obj_namespace res\<rparr> w = Inr ns"
    and "\<And>d r. d \<in> set (owner_refs (obj_meta res)) \<Longrightarrow> r \<in> set (owner_refs (obj_meta existing)) \<Longrightarrow>
           \<not> ownerReferenceSimilar r d"
    and "om_owner_references (obj_meta res) \<noteq> None \<or> label (obj_meta ns) ''nais.io/type'' \<noteq> ''postgres''"
  shows "fst (CreateOrUpdate cli scheme res w) \<noteq> None \<and> snd (CreateOrUpdate cli scheme res w) = w"
proof -
  let ?pg = "label (obj_meta ns) ''nais.io/type'' = ''postgres''"
  have "AssertValidOwnerReference res existing ?pg \<noteq> None"
    using assms(4,5) unfolding AssertValid_iff ownerReferenceSimilar_def by blast
  then obtain e where "merge_existing res existing ?pg = Inl e"
    using merge_existing_guard by (metis sum.exhaust)
  with assms(1,2,3) show ?thesis by (simp add: CreateOrUpdate_def)
qed



text \<open>\<open>FindAll\<close> returns exactly the objects of the listed types that carry the label \<open>app\<close> with
  the name of the source and an owner reference with its UID, and it fails when the label
  requirement is invalid or one of the lists fails.\<close>

lemma FindAll_exact:
  "case FindAll cli lib types s w of
     Inr obs \<Rightarrow> set obs = {ob. hasOwnerReference s ob \<and> (\<exists>t \<in> set types. \<exists>items.
        kc_List cli t (app_selector s) w = Inr items \<and> ob \<in> set items)}
   | Inl e \<Rightarrow> (\<exists>e'. lib_NewRequirement lib ''app'' (src_name s) = Some e')
        \<or> (\<exists>t \<in> set types. \<exists>e'. kc_List cli t (app_selector s) w = Inl e')"
proof (cases "FindAll cli lib types s w")
  case (Inl e)
  then show ?thesis
    by (fastforce simp: FindAll_def result_simps split: option.splits sum.splits dest!: mapM_result_Inl)
next
  case (Inr obs)
  then obtain lists where lists: "mapM_result (\<lambda>t. case kc_List cli t (app_selector s) w of
      Inl e \<Rightarrow> Inl (errorf_w ''list: '' e) | Inr items \<Rightarrow> Inr items) types = Inr lists"
    and obs: "obs = withOwnerReference s (concat lists)"
    by (auto simp: FindAll_def result_simps split: option.splits)
  have "(case r of Inl e \<Rightarrow> Inl (errorf_w ''list: '' e) | Inr items \<Rightarrow> Inr items) = Inr y \<longleftrightarrow> r = Inr y"
    for r :: "k8s_object list result" and y by (cases r) simp_all
  with mapM_result_set[OF lists]
  have "set lists = {items. \<exists>t \<in> set types. kc_List cli t (app_selector s) w = Inr items}" by simp
  then have "set (concat lists) = {ob. \<exists>t \<in> set types. \<exists>items.
      kc_List cli t (app_selector s) w = Inr items \<and> ob \<in> set items}"
    by auto
  with Inr obs show ?thesis by (auto simp: withOwnerReference_def)
qed

end
