(* ===== verification/Sync_Support.thy ===== *)
theory Sync_Support
  imports Updater
begin

text \<open>
  The parts of package \<open>synchronizer\<close> (src/pkg/synchronizer) that both the reconciler and the
  rollout monitor use: the record of the \<open>Synchronizer\<close>, events (\<open>reportEvent\<close>,
  \<open>reportError\<close>), \<open>UpdateResource\<close>, and correlationid.go and externalimage.go.

  \<open>'w\<close> is the cluster, the clock and the random generator; \<open>'opt\<close> is the configuration object that
  a generator's \<open>Prepare\<close> hands to its \<open>Generate\<close>. Logs and metrics are not modelled.
\<close>

section \<open>Generators and the synchronizer\<close>

text \<open>
  \<open>Prepare\<close> of a generator is a program over a client (\<^typ>\<open>'a client_prog\<close>); the client it runs
  on is chosen by the synchronizer.
\<close>

record 'opt generator =
  gen_Prepare :: "source \<Rightarrow> 'opt result client_prog"
  gen_Generate :: "source \<Rightarrow> 'opt \<Rightarrow> operations result"

record ('w, 'opt) synchronizer =
  sy_client :: "'w kube_client"
  sy_simple_client :: "'w kube_client"
  sy_generator :: "'opt generator"
  sy_listers :: "go_type list"
  sy_scheme :: scheme
  sy_gvk_for_lister :: "go_type \<Rightarrow> type_meta result" \<comment> \<open>\<open>apiutil.GVKForObject(lister, scheme)\<close>\<close>
  sy_lib :: liberator
  sy_clock :: "'w clock"
  sy_uuid :: "'w \<Rightarrow> string result \<times> 'w" \<comment> \<open>\<open>uuid.NewRandom\<close>\<close>
  sy_uuid_New :: "'w \<Rightarrow> string \<times> 'w" \<comment> \<open>\<open>uuid.New\<close>\<close>
  sy_uuid_ID :: "string \<Rightarrow> nat" \<comment> \<open>\<open>UUID.ID\<close>\<close>
  sy_features_cnrm :: bool
  sy_aiven_generation :: int

record 'opt rollout =
  ro_source :: source
  ro_operations :: operations
  ro_options :: 'opt
  ro_correlation_id :: string
  ro_hash :: string

section \<open>Events\<close>

definition event_message :: "k8s_object \<Rightarrow> string option" where
  "event_message ob = (case obj_payload ob of PEvent e \<Rightarrow> Some (evt_message e) | _ \<Rightarrow> None)"

definition bump_event :: "event_spec \<Rightarrow> object_meta \<Rightarrow> k8s_object \<Rightarrow> k8s_object" where
  "bump_event rep repMeta ob = (case obj_payload ob of
       PEvent e \<Rightarrow> ob\<lparr>obj_payload := PEvent (e\<lparr>evt_count := to_int32 (evt_count e + 1),
           evt_last_timestamp := evt_last_timestamp rep\<rparr>),
         obj_meta := (obj_meta ob)\<lparr>om_annotations := om_annotations repMeta\<rparr>\<rparr>
     | _ \<Rightarrow> ob)"

definition reportEvent ::
  "('w, 'opt) synchronizer \<Rightarrow> k8s_object \<Rightarrow> 'w \<Rightarrow> k8s_object result \<times> 'w" where
  "reportEvent n reportedEvent w = (case obj_payload reportedEvent of
     PEvent rep \<Rightarrow>
       (case lib_ParseSelector (sy_lib n) (''involvedObject.name='' @ evt_involved_name rep
               @ '',involvedObject.uid='' @ evt_involved_uid rep) of
          Inl e \<Rightarrow> (Inl (errorf_s ''internal error: unable to parse query: '' e), w)
        | Inr selector \<Rightarrow>
           (let listed = kc_List (sy_simple_client n) TEvent
                  (list_all_namespaces\<lparr>lo_fields := selector\<rparr>) w
            in case listed of
                 Inl e \<Rightarrow> if \<not> IsNotFound e
                   then (Inl (errorf_s (''get events for app '' @ [CHR 0x27] @ evt_involved_name rep
                               @ [CHR 0x27] @ '': '') e), w)
                   else kc_Create (sy_client n) reportedEvent w
               | Inr items \<Rightarrow>
                   (case find (\<lambda>ob. event_message ob = Some (evt_message rep)) items of
                      Some event \<Rightarrow>
                        kc_Update (sy_client n) (bump_event rep (obj_meta reportedEvent) event) w
                    | None \<Rightarrow> kc_Create (sy_client n) reportedEvent w)))
   | _ \<Rightarrow> (Inl (errorf ''not an event''), w))"

definition reportError ::
  "('w, 'opt) synchronizer \<Rightarrow> string \<Rightarrow> go_error \<Rightarrow> source \<Rightarrow> 'w \<Rightarrow> 'w" where
  "reportError n eventSource err source w =
     snd (reportEvent n (CreateEvent (sy_lib n) (ck_now (sy_clock n) w) source eventSource
            (err_msg err) ''Warning'') w)"

section \<open>Reading and updating the source\<close>

text \<open>\<open>Get\<close> into a typed \<open>Source\<close>.\<close>

definition get_source ::
  "'w kube_client \<Rightarrow> workload_kind \<Rightarrow> object_key \<Rightarrow> 'w \<Rightarrow> source result" where
  "get_source cli kind key w = rbind (kc_Get cli (source_type kind) key w) (\<lambda>ob.
     case source_of_object ob of
       Some s \<Rightarrow> Inr s
     | None \<Rightarrow> Inl (errorf ''no kind is registered for the object''))"

text \<open>What \<open>%T\<close> prints for the two kinds of source.\<close>

definition source_go_type :: "workload_kind \<Rightarrow> string" where
  "source_go_type k = (case k of Application \<Rightarrow> ''*nais_io_v1alpha1.Application''
                               | Naisjob \<Rightarrow> ''*nais_io_v1.Naisjob'')"

definition UpdateResource ::
  "('w, 'opt) synchronizer \<Rightarrow> source \<Rightarrow> (source \<Rightarrow> 'w \<Rightarrow> error \<times> 'w) \<Rightarrow> 'w \<Rightarrow> error \<times> 'w" where
  "UpdateResource n source updateFunc w =
     (case get_source (sy_client n) (src_kind source) (meta_key (src_meta source)) w of
        Inl e \<Rightarrow> (Some (errorf_s (''get newest version of '' @ source_go_type (src_kind source) @ '': '') e), w)
      | Inr existing \<Rightarrow> updateFunc existing w)"

section \<open>Correlation ID and image\<close>

definition ensureCorrelationID ::
  "('w, 'opt) synchronizer \<Rightarrow> source \<Rightarrow> 'w \<Rightarrow> source result \<times> 'w" where
  "ensureCorrelationID n source w =
     (let key = lib_CorrelationIDAnnotation (sy_lib n);
          anno = (case om_annotations (src_meta source) of None \<Rightarrow> Map.empty | Some m \<Rightarrow> m)
      in if length (gm_index (Some anno) key) \<noteq> 0 then (Inr source, w)
         else case sy_uuid n w of
                (Inl e, w') \<Rightarrow> (Inl (errorf_s ''generate deployment correlation ID: '' e), w')
              | (Inr ident, w') \<Rightarrow>
                  (Inr (source\<lparr>src_meta := (src_meta source)
                          \<lparr>om_annotations := Some (anno(key \<mapsto> ident))\<rparr>\<rparr>), w'))"

definition ErrImageNotFound :: go_error where
  "ErrImageNotFound = errorf ''external image resource not found''"

definition key_string :: "object_key \<Rightarrow> string" where
  "key_string k = key_namespace k @ ''/'' @ key_name k"

definition getExternalImage :: "source \<Rightarrow> 'w kube_client \<Rightarrow> 'w \<Rightarrow> string result" where
  "getExternalImage source kube w =
     (let key = \<lparr>key_namespace = src_namespace source, key_name = src_name source\<rparr>
      in case kc_Get kube TImage key w of
           Inl e \<Rightarrow> if \<not> IsNotFound e then Inl (errorf_s ''query existing image: '' e)
                    else Inl (errorf_w (key_string key @ '': '') ErrImageNotFound)
         | Inr img \<Rightarrow> Inr (case obj_payload img of PImage i \<Rightarrow> i | _ \<Rightarrow> []))"

definition imageHasChanged :: "liberator \<Rightarrow> string \<Rightarrow> source \<Rightarrow> bool" where
  "imageHasChanged lib wantedImage source =
     (if length (lib_GetEffectiveImage lib source) = 0 \<and> length (ws_image (src_spec source)) > 0
      then False else wantedImage \<noteq> lib_GetEffectiveImage lib source)"

definition getWantedImage :: "source \<Rightarrow> 'w kube_client \<Rightarrow> 'w \<Rightarrow> string result" where
  "getWantedImage source kube w =
     (let wantedImage = ws_image (src_spec source)
      in if length wantedImage = 0 then getExternalImage source kube w else Inr wantedImage)"

definition updateEffectiveImage :: "source \<Rightarrow> string \<Rightarrow> source" where
  "updateEffectiveImage source wantedImage =
     source\<lparr>src_status := (src_status source)\<lparr>st_effective_image := wantedImage\<rparr>\<rparr>"

end
