(* ===== verification/Rollout_Monitor.thy ===== *)
theory Rollout_Monitor
  imports Resource
begin

text \<open>
  The registry of rollout monitors (src/pkg/synchronizer/monitoring.go): \<open>MonitorRollout\<close> cancels
  the monitor that runs for the same application, registers a new one and starts its goroutine;
  \<open>cancelMonitor\<close> cancels a registered monitor. The critical sections under
  \<open>rolloutMonitorLock\<close> are the atomic operations on \<^typ>\<open>string\<close>-identified monitors; the
  goroutines and their interleavings are the step relation \<open>mon_step\<close>.

  A monitor is identified by a UUID, but the code compares \<open>uuid.ID()\<close>, which is a function of
  part of the UUID; it is the argument \<open>ident\<close>.
\<close>

section \<open>The registry\<close>

record monitors =
  mo_registry :: "object_key \<rightharpoonup> string" \<comment> \<open>the UUID of the registered monitor\<close>
  mo_cancelled :: "string set" \<comment> \<open>the monitors whose context is cancelled\<close>

definition monitors_empty :: monitors where
  "monitors_empty = \<lparr>mo_registry = Map.empty, mo_cancelled = {}\<rparr>"

definition cancelMonitor ::
  "(string \<Rightarrow> nat) \<Rightarrow> object_key \<Rightarrow> string option \<Rightarrow> monitors \<Rightarrow> monitors" where
  "cancelMonitor ident objectKey expected m =
     (case mo_registry m objectKey of
        None \<Rightarrow> m
      | Some rid \<Rightarrow>
          if (case expected of None \<Rightarrow> False | Some e \<Rightarrow> ident rid \<noteq> ident e) then m
          else m\<lparr>mo_cancelled := insert rid (mo_cancelled m),
                 mo_registry := (mo_registry m)(objectKey := None)\<rparr>)"

text \<open>The second critical section of \<open>MonitorRollout\<close>.\<close>

definition register_monitor :: "object_key \<Rightarrow> string \<Rightarrow> monitors \<Rightarrow> monitors" where
  "register_monitor objectKey uuid m = m\<lparr>mo_registry := (mo_registry m)(objectKey \<mapsto> uuid)\<rparr>"

definition MonitorRollout :: "(string \<Rightarrow> nat) \<Rightarrow> object_key \<Rightarrow> string \<Rightarrow> monitors \<Rightarrow> monitors" where
  "MonitorRollout ident objectKey uuid m =
     register_monitor objectKey uuid (cancelMonitor ident objectKey None m)"

section \<open>Goroutines\<close>

text \<open>
  A goroutine of \<open>MonitorRollout\<close> runs \<open>monitorRolloutRoutine\<close>; when that returns it calls its own
  \<open>cancel()\<close> and then \<open>cancelMonitor\<close> with its own identity.
\<close>

datatype phase = Running | Returned | CancelledSelf | Finished

record goroutine =
  gr_key :: object_key
  gr_phase :: phase

record mon_state =
  ms_monitors :: monitors
  ms_calls :: "object_key set" \<comment> \<open>\<open>MonitorRollout\<close> calls between the two critical sections\<close>
  ms_threads :: "string \<rightharpoonup> goroutine"

definition mon_init :: mon_state where
  "mon_init = \<lparr>ms_monitors = monitors_empty, ms_calls = {}, ms_threads = Map.empty\<rparr>"

definition set_phase :: "string \<Rightarrow> phase \<Rightarrow> mon_state \<Rightarrow> mon_state" where
  "set_phase u p s = s\<lparr>ms_threads := (ms_threads s)(u := map_option (\<lambda>g. g\<lparr>gr_phase := p\<rparr>) (ms_threads s u))\<rparr>"

text \<open>
  Two calls of \<open>MonitorRollout\<close> for one key do not overlap, since the work queue of
  controller-runtime hands a key to one worker at a time; calls for different keys and all
  goroutines interleave freely. A goroutine returns when its rollout is complete or when it sees that
  its context is cancelled.
\<close>

inductive mon_step :: "(string \<Rightarrow> nat) \<Rightarrow> mon_state \<Rightarrow> mon_state \<Rightarrow> bool" for ident where
  call_begin: "k \<notin> ms_calls s \<Longrightarrow> mon_step ident s
      (s\<lparr>ms_calls := insert k (ms_calls s),
         ms_monitors := cancelMonitor ident k None (ms_monitors s)\<rparr>)"
| call_register: "k \<in> ms_calls s \<Longrightarrow> (\<And>v. v \<in> dom (ms_threads s) \<Longrightarrow> ident v \<noteq> ident u) \<Longrightarrow> mon_step ident s
      (s\<lparr>ms_calls := ms_calls s - {k},
         ms_monitors := register_monitor k u (ms_monitors s),
         ms_threads := (ms_threads s)(u \<mapsto> \<lparr>gr_key = k, gr_phase = Running\<rparr>)\<rparr>)"
| routine_returns: "ms_threads s u = Some \<lparr>gr_key = k, gr_phase = Running\<rparr> \<Longrightarrow> mon_step ident s
      (set_phase u Returned s)"
| cancel_self: "ms_threads s u = Some \<lparr>gr_key = k, gr_phase = Returned\<rparr> \<Longrightarrow> mon_step ident s
      ((set_phase u CancelledSelf s)
         \<lparr>ms_monitors := (ms_monitors s)\<lparr>mo_cancelled := insert u (mo_cancelled (ms_monitors s))\<rparr>\<rparr>)"
| unregister: "ms_threads s u = Some \<lparr>gr_key = k, gr_phase = CancelledSelf\<rparr> \<Longrightarrow> mon_step ident s
      ((set_phase u Finished s)
         \<lparr>ms_monitors := cancelMonitor ident k (Some u) (ms_monitors s)\<rparr>)"

inductive mon_reachable :: "(string \<Rightarrow> nat) \<Rightarrow> mon_state \<Rightarrow> bool" for ident where
  init: "mon_reachable ident mon_init"
| step: "mon_reachable ident s \<Longrightarrow> mon_step ident s s' \<Longrightarrow> mon_reachable ident s'"

inductive_cases mon_stepE: "mon_step ident s s'"

text \<open>A call of \<open>MonitorRollout\<close> that is not interrupted is its two critical sections in a row.\<close>

lemma MonitorRollout_steps:
  assumes "k \<notin> ms_calls s" and "\<And>v. v \<in> dom (ms_threads s) \<Longrightarrow> ident v \<noteq> ident u"
  obtains s1 s2 where "mon_step ident s s1" "mon_step ident s1 s2"
    "ms_monitors s2 = MonitorRollout ident k u (ms_monitors s)"
proof -
  let ?s1 = "s\<lparr>ms_calls := insert k (ms_calls s), ms_monitors := cancelMonitor ident k None (ms_monitors s)\<rparr>"
  have "mon_step ident s ?s1" using assms(1) by (rule call_begin)
  moreover have "mon_step ident ?s1 (?s1\<lparr>ms_calls := ms_calls ?s1 - {k},
      ms_monitors := register_monitor k u (ms_monitors ?s1),
      ms_threads := (ms_threads ?s1)(u \<mapsto> \<lparr>gr_key = k, gr_phase = Running\<rparr>)\<rparr>)"
    by (rule call_register) (use assms(2) in auto)
  ultimately show thesis by (rule that) (simp add: MonitorRollout_def)
qed

section \<open>The invariant\<close>

text \<open>A goroutine that is running and not cancelled, for the key.\<close>

definition active :: "mon_state \<Rightarrow> object_key \<Rightarrow> string \<Rightarrow> bool" where
  "active s k u \<longleftrightarrow> u \<notin> mo_cancelled (ms_monitors s) \<and>
     (\<exists>g. ms_threads s u = Some g \<and> gr_key g = k)"

definition mon_inv :: "(string \<Rightarrow> nat) \<Rightarrow> mon_state \<Rightarrow> bool" where
  "mon_inv ident s \<longleftrightarrow>
     inj_on ident (dom (ms_threads s))
   \<and> mo_cancelled (ms_monitors s) \<subseteq> dom (ms_threads s)
   \<and> (\<forall>k u. active s k u \<longrightarrow> mo_registry (ms_monitors s) k = Some u)
   \<and> (\<forall>k u. mo_registry (ms_monitors s) k = Some u \<longrightarrow>
        (\<exists>p. ms_threads s u = Some \<lparr>gr_key = k, gr_phase = p\<rparr> \<and> p \<noteq> Finished))
   \<and> (\<forall>k. k \<in> ms_calls s \<longrightarrow> mo_registry (ms_monitors s) k = None)"

lemma mon_invI:
  assumes "inj_on ident (dom (ms_threads s))"
    and "mo_cancelled (ms_monitors s) \<subseteq> dom (ms_threads s)"
    and "\<And>k u. active s k u \<Longrightarrow> mo_registry (ms_monitors s) k = Some u"
    and "\<And>k u. mo_registry (ms_monitors s) k = Some u \<Longrightarrow>
        \<exists>p. ms_threads s u = Some \<lparr>gr_key = k, gr_phase = p\<rparr> \<and> p \<noteq> Finished"
    and "\<And>k. k \<in> ms_calls s \<Longrightarrow> mo_registry (ms_monitors s) k = None"
  shows "mon_inv ident s"
  using assms unfolding mon_inv_def by blast

lemma mon_invD:
  assumes "mon_inv ident s"
  shows "inj_on ident (dom (ms_threads s))"
    and "mo_cancelled (ms_monitors s) \<subseteq> dom (ms_threads s)"
    and "active s k u \<Longrightarrow> mo_registry (ms_monitors s) k = Some u"
    and "mo_registry (ms_monitors s) k = Some u \<Longrightarrow>
        \<exists>p. ms_threads s u = Some \<lparr>gr_key = k, gr_phase = p\<rparr> \<and> p \<noteq> Finished"
    and "k \<in> ms_calls s \<Longrightarrow> mo_registry (ms_monitors s) k = None"
  using assms unfolding mon_inv_def by blast+

lemma mon_inv_init: "mon_inv ident mon_init"
  by (rule mon_invI) (simp_all add: mon_init_def monitors_empty_def active_def)

lemma cancelMonitor_None:
  "mo_registry (cancelMonitor ident k None m) = (mo_registry m)(k := None)"
  "mo_cancelled (cancelMonitor ident k None m) =
     (case mo_registry m k of None \<Rightarrow> mo_cancelled m | Some r \<Rightarrow> insert r (mo_cancelled m))"
  by (auto simp: cancelMonitor_def split: option.splits)

lemma set_phase_simps [simp]:
  "ms_monitors (set_phase u p s) = ms_monitors s" "ms_calls (set_phase u p s) = ms_calls s"
  "dom (ms_threads (set_phase u p s)) = dom (ms_threads s)"
  "ms_threads (set_phase u p s) v = (if v = u then map_option (\<lambda>g. g\<lparr>gr_phase := p\<rparr>) (ms_threads s u)
     else ms_threads s v)"
  by (auto simp: set_phase_def dom_def)

lemma inv_call_begin:
  assumes "mon_inv ident s"
  shows "mon_inv ident (s\<lparr>ms_calls := insert k (ms_calls s),
    ms_monitors := cancelMonitor ident k None (ms_monitors s)\<rparr>)"
proof (rule mon_invI, goal_cases)
  case 2
  then show ?case using mon_invD(2,4)[OF assms]
    by (fastforce simp: cancelMonitor_None split: option.splits)
next
  case (3 j u)
  then have "active s j u" and "mo_registry (ms_monitors s) k \<noteq> Some u"
    by (auto simp: active_def cancelMonitor_None split: option.splits)
  with mon_invD(3)[OF assms] show ?case by (auto simp: cancelMonitor_None)
qed (use mon_invD[OF assms] in \<open>auto simp: cancelMonitor_None split: if_splits\<close>)

lemma inv_call_register:
  assumes inv: "mon_inv ident s" and k: "k \<in> ms_calls s"
    and fresh: "\<And>v. v \<in> dom (ms_threads s) \<Longrightarrow> ident v \<noteq> ident u"
  shows "mon_inv ident (s\<lparr>ms_calls := ms_calls s - {k},
    ms_monitors := register_monitor k u (ms_monitors s),
    ms_threads := (ms_threads s)(u \<mapsto> \<lparr>gr_key = k, gr_phase = Running\<rparr>)\<rparr>)"
proof -
  from fresh have u: "ms_threads s u = None" by (cases "ms_threads s u") blast+
  show ?thesis
  proof (rule mon_invI, goal_cases)
    case 1
    then show ?case using mon_invD(1)[OF inv] fresh by (simp add: inj_on_insert) (metis DiffE imageE)
  next
    case 2
    then show ?case using mon_invD(2)[OF inv] by (auto simp: register_monitor_def)
  next
    case (3 j v)
    show ?case
    proof (cases "v = u")
      case False
      with 3 have "active s j v" by (auto simp: active_def register_monitor_def)
      from mon_invD(3)[OF inv this] mon_invD(5)[OF inv k] show ?thesis
        by (auto simp: register_monitor_def)
    qed (use 3 in \<open>auto simp: active_def register_monitor_def\<close>)
  next
    case (4 j v)
    with mon_invD(4)[OF inv] u show ?case
      by (fastforce simp: register_monitor_def split: if_splits)
  next
    case (5 j)
    with mon_invD(5)[OF inv] show ?case by (auto simp: register_monitor_def)
  qed
qed

lemma inv_set_phase:
  assumes "mon_inv ident s" and "p \<noteq> Finished"
  shows "mon_inv ident (set_phase u p s)"
proof (rule mon_invI, goal_cases)
  case (3 j v)
  then have "active s j v" by (auto simp: active_def split: if_splits)
  from mon_invD(3)[OF assms(1) this] show ?case by simp
next
  case (4 j v)
  with mon_invD(4)[OF assms(1), of j v] assms(2) show ?case by auto
qed (use mon_invD[OF assms(1)] in auto)

lemma inv_cancel:
  assumes "mon_inv ident s" and "u \<in> dom (ms_threads s)"
  shows "mon_inv ident (s\<lparr>ms_monitors := (ms_monitors s)
    \<lparr>mo_cancelled := insert u (mo_cancelled (ms_monitors s))\<rparr>\<rparr>)"
proof (rule mon_invI, goal_cases)
  case (3 j v)
  then have "active s j v" by (auto simp: active_def)
  from mon_invD(3)[OF assms(1) this] show ?case by simp
qed (use mon_invD[OF assms(1)] assms(2) in auto)

text \<open>A monitor that unregisters itself removes its own entry or nothing.\<close>

lemma cancel_expected:
  assumes inv: "mon_inv ident s" and u: "ms_threads s u = Some \<lparr>gr_key = k, gr_phase = p\<rparr>"
  shows "cancelMonitor ident k (Some u) (ms_monitors s) =
    (if mo_registry (ms_monitors s) k = Some u
     then (ms_monitors s)\<lparr>mo_cancelled := insert u (mo_cancelled (ms_monitors s)),
            mo_registry := (mo_registry (ms_monitors s))(k := None)\<rparr>
     else ms_monitors s)"
proof (cases "mo_registry (ms_monitors s) k")
  case (Some v)
  from mon_invD(4)[OF inv Some] have "v \<in> dom (ms_threads s)" by blast
  with u mon_invD(1)[OF inv] have "ident v = ident u \<longleftrightarrow> v = u" by (auto simp: inj_on_def)
  with Some show ?thesis by (auto simp: cancelMonitor_def)
qed (simp add: cancelMonitor_def)

lemma inv_unregister:
  assumes inv: "mon_inv ident s" and u: "ms_threads s u = Some \<lparr>gr_key = k, gr_phase = p\<rparr>"
  shows "mon_inv ident ((set_phase u Finished s)
    \<lparr>ms_monitors := cancelMonitor ident k (Some u) (ms_monitors s)\<rparr>)"
proof (rule mon_invI, goal_cases)
  case 1
  then show ?case using mon_invD(1)[OF inv] by simp
next
  case 2
  then show ?case using mon_invD(2)[OF inv] u by (auto simp: cancel_expected[OF inv u])
next
  case (3 j v)
  then have "active s j v"
    by (auto simp: active_def cancel_expected[OF inv u] split: if_splits)
  with 3 mon_invD(3)[OF inv this] show ?case
    by (auto simp: active_def cancel_expected[OF inv u] split: if_splits)
next
  case (4 j v)
  then have reg: "mo_registry (ms_monitors s) j = Some v" and "j = k \<longrightarrow> v \<noteq> u"
    by (auto simp: cancel_expected[OF inv u] split: if_splits)
  with mon_invD(4)[OF inv reg] u show ?case by auto
next
  case (5 j)
  with mon_invD(5)[OF inv] show ?case by (auto simp: cancel_expected[OF inv u])
qed

lemma mon_inv_step:
  assumes "mon_inv ident s" and "mon_step ident s s'"
  shows "mon_inv ident s'"
  using assms(2)
proof (cases rule: mon_step.cases)
  case (cancel_self u k)
  with inv_cancel[OF inv_set_phase[OF assms(1), of CancelledSelf u], of u] show ?thesis by auto
qed (use assms(1) in \<open>simp_all add: inv_call_begin inv_call_register inv_set_phase inv_unregister\<close>)

lemma mon_reachable_inv: "mon_reachable ident s \<Longrightarrow> mon_inv ident s"
  by (induction rule: mon_reachable.induct) (auto intro: mon_inv_init mon_inv_step)

section \<open>Properties\<close>

text \<open>C12. In every interleaving of \<open>MonitorRollout\<close> calls and monitor goroutines, at most one monitor per
  application is active (started and not cancelled), and it is the registered one.\<close>

theorem one_monitor_per_key:
  assumes "mon_reachable ident s" and "active s k u" and "active s k v"
  shows "u = v \<and> mo_registry (ms_monitors s) k = Some u"
  using mon_invD(3)[OF mon_reachable_inv[OF assms(1)] assms(2)]
    mon_invD(3)[OF mon_reachable_inv[OF assms(1)] assms(3)] by simp


end
