(* ===== verification/Synchronizer.thy ===== *)
theory Synchronizer
  imports Sync_Support Rollout_Monitor
begin

text \<open>
  The reconciler (src/pkg/synchronizer/synchronizer.go): \<open>Prepare\<close>, \<open>ClusterOperations\<close>, \<open>Sync\<close>,
  the deletion path and \<open>Reconcile\<close> itself with its deferred status update.

  A commit is a function on the cluster; \<open>None\<close> stands for a commit that does not return, which only
  the polling loop of \<open>CreateOrRecreate\<close> could cause. The state of a synchronizer is the cluster, the
  cache of listable kinds and the registry of rollout monitors.
\<close>

section \<open>State\<close>

record 'w sync_state =
  ss_world :: 'w
  ss_listable :: "type_meta \<rightharpoonup> bool"
  ss_monitors :: monitors

record 'w commit =
  cm_gvk :: type_meta
  cm_fn :: "'w \<Rightarrow> (error \<times> 'w) option"

abbreviation NaiseratorFinalizer :: string where
  "NaiseratorFinalizer \<equiv> ''naiserator.nais.io/finalizer''"

definition prepareRetryInterval :: int where
  "prepareRetryInterval = 30 * 60 * second_ns"

abbreviation IAMServiceAccountNamespace :: string where
  "IAMServiceAccountNamespace \<equiv> ''serviceaccounts''"

section \<open>Deletion of a workload\<close>

definition appIsDeleted :: "source \<Rightarrow> bool" where
  "appIsDeleted app \<longleftrightarrow> om_deletion_timestamp (src_meta app) \<noteq> None"

fun delete_each :: "'w kube_client \<Rightarrow> k8s_object list \<Rightarrow> 'w \<Rightarrow> error \<times> 'w" where
  "delete_each cli [] w = (None, w)"
| "delete_each cli (item # items) w = (case kc_Delete cli item w of
     (Some e, w') \<Rightarrow> (Some e, w')
   | (None, w') \<Rightarrow> delete_each cli items w')"

definition list_and_delete ::
  "'w kube_client \<Rightarrow> go_type \<Rightarrow> list_options \<Rightarrow> 'w \<Rightarrow> error \<times> 'w" where
  "list_and_delete cli t opts w = (case kc_List cli t opts w of
     Inl e \<Rightarrow> (Some e, w) | Inr items \<Rightarrow> delete_each cli items w)"

definition cnrm_list_options :: "source \<Rightarrow> list_options" where
  "cnrm_list_options app = \<lparr>lo_labels = [(''app'', src_name app), (''team'', src_namespace app)],
     lo_fields = [], lo_namespace = IAMServiceAccountNamespace\<rparr>"

definition deleteCNRMResources ::
  "('w, 'opt) synchronizer \<Rightarrow> source \<Rightarrow> 'w \<Rightarrow> error \<times> 'w" where
  "deleteCNRMResources n app w =
     (if \<not> sy_features_cnrm n then (None, w)
      else case lib_NewRequirement (sy_lib n) ''app'' (src_name app) of
        Some e \<Rightarrow> (Some e, w)
      | None \<Rightarrow> (case lib_NewRequirement (sy_lib n) ''team'' (src_namespace app) of
          Some e \<Rightarrow> (Some e, w)
        | None \<Rightarrow> (case list_and_delete (sy_client n) TIAMServiceAccount (cnrm_list_options app) w of
            (Some e, w1) \<Rightarrow> (Some e, w1)
          | (None, w1) \<Rightarrow> list_and_delete (sy_client n) TIAMPolicy (cnrm_list_options app) w1)))"

definition deleteImageResource ::
  "('w, 'opt) synchronizer \<Rightarrow> source \<Rightarrow> 'w \<Rightarrow> error \<times> 'w" where
  "deleteImageResource n src w =
     (let key = \<lparr>key_namespace = src_namespace src, key_name = src_name src\<rparr>
      in case kc_Get (sy_client n) TImage key w of
           Inl e \<Rightarrow> if IsNotFound e then (None, w) else (Some e, w)
         | Inr img \<Rightarrow> (case kc_Delete (sy_client n) img w of
             (Some e, w') \<Rightarrow> if IsNotFound e then (None, w') else (Some e, w')
           | (None, w') \<Rightarrow> (None, w')))"

definition cleanUpAfterAppDeletion ::
  "('w, 'opt) synchronizer \<Rightarrow> source \<Rightarrow> 'w \<Rightarrow> error \<times> 'w" where
  "cleanUpAfterAppDeletion n app w =
     (if \<not> lib_ContainsFinalizer (sy_lib n) (src_meta app) NaiseratorFinalizer then (None, w)
      else case deleteCNRMResources n app w of
        (Some e, w1) \<Rightarrow> (Some e, w1)
      | (None, w1) \<Rightarrow> (case deleteImageResource n app w1 of
          (Some e, w2) \<Rightarrow> (Some e, w2)
        | (None, w2) \<Rightarrow>
            (case kc_Update (sy_client n) (object_of_source (app\<lparr>src_meta :=
                    lib_RemoveFinalizer (sy_lib n) (src_meta app) NaiseratorFinalizer\<rparr>)) w2 of
               (r, w3) \<Rightarrow> (err_of r, w3))))"

section \<open>Listable kinds\<close>

definition lister_matches :: "('w, 'opt) synchronizer \<Rightarrow> type_meta \<Rightarrow> go_type \<Rightarrow> bool" where
  "lister_matches n objGvk lister = (case sy_gvk_for_lister n lister of
     Inl e \<Rightarrow> False
   | Inr listGvk \<Rightarrow> tm_api_version listGvk = tm_api_version objGvk
       \<and> TrimSuffix (tm_kind listGvk) ''List'' = tm_kind objGvk)"

definition isListable ::
  "('w, 'opt) synchronizer \<Rightarrow> type_meta \<Rightarrow> (type_meta \<rightharpoonup> bool) \<Rightarrow> bool \<times> (type_meta \<rightharpoonup> bool)" where
  "isListable n objGvk cache = (case cache objGvk of
     Some listable \<Rightarrow> (listable, cache)
   | None \<Rightarrow> if list_ex (lister_matches n objGvk) (sy_listers n)
             then (True, cache(objGvk \<mapsto> True)) else (False, cache(objGvk \<mapsto> False)))"

definition checkListable ::
  "('w, 'opt) synchronizer \<Rightarrow> type_meta \<Rightarrow> (type_meta \<rightharpoonup> bool) \<Rightarrow> (type_meta \<rightharpoonup> bool)" where
  "checkListable n kind cache = snd (isListable n kind cache)"

section \<open>Operations on the cluster\<close>

definition intersects :: "operations \<Rightarrow> k8s_object \<Rightarrow> bool" where
  "intersects ops existing = list_ex (\<lambda>rop. obj_type (op_resource rop) = obj_type existing
     \<and> obj_name (op_resource rop) = obj_name existing) ops"

definition Unreferenced ::
  "('w, 'opt) synchronizer \<Rightarrow> 'opt rollout \<Rightarrow> 'w \<Rightarrow> k8s_object list result" where
  "Unreferenced n r w =
     (case FindAll (sy_client n) (sy_lib n) (sy_listers n) (ro_source r) w of
        Inl e \<Rightarrow> Inl (errorf_s ''discovering unreferenced resources: '' e)
      | Inr resources \<Rightarrow> Inr (filter (\<lambda>existing. \<not> intersects (ro_operations r) existing) resources))"

text \<open>The function of the switch on the operation; \<open>None\<close> is its default case.\<close>

definition operation_fn ::
  "('w, 'opt) synchronizer \<Rightarrow> operation \<Rightarrow> ('w \<Rightarrow> (error \<times> 'w) option) option" where
  "operation_fn n rop = (case op_operation rop of
     OperationCreateOrUpdate \<Rightarrow> Some (\<lambda>w. Some (CreateOrUpdate (sy_client n) (sy_scheme n) (op_resource rop) w))
   | OperationCreateOrRecreate \<Rightarrow> Some (CreateOrRecreate (sy_client n) (sy_scheme n) (sy_clock n) (op_resource rop))
   | OperationCreateIfNotExists \<Rightarrow> Some (\<lambda>w. Some (CreateIfNotExists (sy_client n) (op_resource rop) w))
   | OperationDeleteIfExists \<Rightarrow> Some (\<lambda>w. Some (DeleteIfExists (sy_client n) (op_resource rop) w))
   | AnnotateIfExistsOp \<Rightarrow> Some (\<lambda>w. Some (AnnotateIfExists (sy_client n) (sy_scheme n) (op_resource rop) w))
   | OperationOther name \<Rightarrow> None)"

definition operation_name :: "operation_type \<Rightarrow> string" where
  "operation_name t = (case t of OperationCreateOrUpdate \<Rightarrow> ''CreateOrUpdate''
     | OperationCreateOrRecreate \<Rightarrow> ''CreateOrRecreate''
     | OperationCreateIfNotExists \<Rightarrow> ''CreateIfNotExists''
     | OperationDeleteIfExists \<Rightarrow> ''CreateDeleteIfExists''
     | AnnotateIfExistsOp \<Rightarrow> ''AnnotateIfExists''
     | OperationOther name \<Rightarrow> name)"

text \<open>The loop over the operations: the commits, or the operation it gave up on.\<close>

fun operation_commits ::
  "('w, 'opt) synchronizer \<Rightarrow> operations \<Rightarrow> (type_meta \<rightharpoonup> bool) \<Rightarrow>
     (operation_type + 'w commit list) \<times> (type_meta \<rightharpoonup> bool)" where
  "operation_commits n [] cache = (Inr [], cache)"
| "operation_commits n (rop # ops) cache =
     (let gvk = obj_type_meta (op_resource rop); cache1 = checkListable n gvk cache
      in case operation_fn n rop of
           None \<Rightarrow> (Inl (op_operation rop), cache1)
         | Some fn \<Rightarrow> (case operation_commits n ops cache1 of
             (Inl t, cache2) \<Rightarrow> (Inl t, cache2)
           | (Inr cs, cache2) \<Rightarrow> (Inr (\<lparr>cm_gvk = gvk, cm_fn = fn\<rparr> # cs), cache2)))"

definition failing_commit :: "go_error \<Rightarrow> 'w commit" where
  "failing_commit e = \<lparr>cm_gvk = type_meta_zero, cm_fn = (\<lambda>w. Some (Some e, w))\<rparr>"

definition delete_commit :: "('w, 'opt) synchronizer \<Rightarrow> k8s_object \<Rightarrow> 'w commit" where
  "delete_commit n rsrc = \<lparr>cm_gvk = obj_type_meta rsrc,
     cm_fn = (\<lambda>w. Some (DeleteIfExists (sy_client n) rsrc w))\<rparr>"

definition ClusterOperations ::
  "('w, 'opt) synchronizer \<Rightarrow> 'opt rollout \<Rightarrow> (type_meta \<rightharpoonup> bool) \<Rightarrow> 'w \<Rightarrow>
     'w commit list \<times> (type_meta \<rightharpoonup> bool)" where
  "ClusterOperations n r cache w =
     (case operation_commits n (ro_operations r) cache of
        (Inl t, cache') \<Rightarrow>
          ([failing_commit (errorf (''BUG: no such operation '' @ operation_name t))], cache')
      | (Inr funcs, cache') \<Rightarrow>
          (let deletes = (case Unreferenced n r w of
                 Inl e \<Rightarrow> [failing_commit (errorf_s ''unable to clean up obsolete resources: '' e)]
               | Inr unreferenced \<Rightarrow> map (delete_commit n) unreferenced)
           in (deletes @ funcs, cache')))"

fun rolloutWithRetryAndMetrics :: "'w commit list \<Rightarrow> 'w \<Rightarrow> ((bool \<times> error) \<times> 'w) option" where
  "rolloutWithRetryAndMetrics [] w = Some ((False, None), w)"
| "rolloutWithRetryAndMetrics (c # cs) w = (case cm_fn c w of
     None \<Rightarrow> None
   | Some (Some e, w') \<Rightarrow>
       (let retry = IsConflict e;
            reason = (if err_reason e = ReasonUnknown then ''validation error''
                      else reason_string (err_reason e))
        in Some ((retry, Some (errorf (''persisting '' @ tm_kind (cm_gvk c) @ '' to Kubernetes: ''
              @ reason @ '': '' @ err_msg e))), w'))
   | Some (None, w') \<Rightarrow> rolloutWithRetryAndMetrics cs w')"

definition Sync ::
  "('w, 'opt) synchronizer \<Rightarrow> 'opt rollout \<Rightarrow> 'w sync_state \<Rightarrow> ((bool \<times> error) \<times> 'w sync_state) option" where
  "Sync n r st =
     (let (commits, cache') = ClusterOperations n r (ss_listable st) (ss_world st)
      in case rolloutWithRetryAndMetrics commits (ss_world st) of
           None \<Rightarrow> None
         | Some (res, w') \<Rightarrow> Some (res, st\<lparr>ss_world := w', ss_listable := cache'\<rparr>))"

section \<open>Preparing a rollout\<close>

text \<open>
  The result, the source as it is afterwards (it is changed in place), and the next state.
  \<open>Inr None\<close> is the nil rollout: nothing to do. Both kinds of source satisfy \<open>ImageSource\<close>.
\<close>

definition Prepare ::
  "('w, 'opt) synchronizer \<Rightarrow> source \<Rightarrow> 'w \<Rightarrow> ('opt rollout option result \<times> source) \<times> 'w" where
  "Prepare n source0 w =
     (case lib_ApplyDefaults (sy_lib n) source0 of
        Inl e \<Rightarrow> ((Inl (errorf_s ''BUG: merge default values into application: '' e), source0), w)
      | Inr source1 \<Rightarrow>
     (case lib_Hash (sy_lib n) (sy_aiven_generation n) source1 of
        Inl e \<Rightarrow> ((Inl (errorf_s ''BUG: create application hash: '' e), source1), w)
      | Inr hash \<Rightarrow>
     (let readOnlyClient = readonly_NewClient (sy_client n)
      in case getWantedImage source1 readOnlyClient w of
        Inl e \<Rightarrow> ((Inl (errorf_w ''get wanted image: '' e), source1), w)
      | Inr wantedImage \<Rightarrow>
          if \<not> imageHasChanged (sy_lib n) wantedImage source1
             \<and> st_sync_hash (src_status source1) = hash
          then ((Inr None, source1), w)
          else let source2 = updateEffectiveImage source1 wantedImage
            in case ensureCorrelationID n source2 w of
              (Inl e, w1) \<Rightarrow> ((Inl e, source2), w1)
            | (Inr source3, w1) \<Rightarrow>
               (case run_client readOnlyClient (gen_Prepare (sy_generator n) source3) w1 of
                  (Inl e, w2) \<Rightarrow>
                    ((Inl (errorf_w ''preparing rollout configuration: '' e), source3), w2)
                | (Inr opts, w2) \<Rightarrow>
                    ((Inr (Some \<lparr>ro_source = source3, ro_operations = [], ro_options = opts,
                         ro_correlation_id = lib_CorrelationID (sy_lib n) source3,
                         ro_hash = hash\<rparr>), source3), w2)))))"

section \<open>Reconcile\<close>

record ctrl_result =
  cr_requeue_after :: int

definition no_requeue :: ctrl_result where
  "no_requeue = \<lparr>cr_requeue_after = 0\<rparr>"

definition map_status :: "(nais_status \<Rightarrow> nais_status) \<Rightarrow> source \<Rightarrow> source" where
  "map_status f s = s\<lparr>src_status := f (src_status s)\<rparr>"

definition start_monitor ::
  "('w, 'opt) synchronizer \<Rightarrow> source \<Rightarrow> 'w sync_state \<Rightarrow> 'w sync_state" where
  "start_monitor n app st = (case sy_uuid_New n (ss_world st) of (uuid, w') \<Rightarrow>
     st\<lparr>ss_world := w',
        ss_monitors := MonitorRollout (sy_uuid_ID n)
          \<lparr>key_namespace = src_namespace app, key_name = src_name app\<rparr> uuid (ss_monitors st)\<rparr>)"

text \<open>The callback of the deferred update: the team label first if it is wrong, then the status.\<close>

definition store_status ::
  "('w, 'opt) synchronizer \<Rightarrow> source \<Rightarrow> source \<Rightarrow> 'w \<Rightarrow> error \<times> 'w" where
  "store_status n app existing w =
     (let labels = om_labels (src_meta existing);
          needsLabelUpdate = (labels = None \<or> gm_index labels ''team'' \<noteq> src_namespace existing);
          labelled = existing\<lparr>src_meta := (src_meta existing)
             \<lparr>om_labels := gm_set ''team'' (src_namespace existing) labels\<rparr>\<rparr>;
          (r, w1) = (if needsLabelUpdate
             then (case kc_Update (sy_client n) (object_of_source labelled) w of
                     (Inl e, w') \<Rightarrow> (Inl e, w')
                   | (Inr ob, w') \<Rightarrow> (Inr (case source_of_object ob of Some s \<Rightarrow> s | None \<Rightarrow> labelled), w'))
             else (Inr existing, w))
      in case r of
           Inl e \<Rightarrow> (Some e, w1)
         | Inr existing1 \<Rightarrow>
            (case kc_StatusUpdate (sy_client n)
                    (object_of_source (existing1\<lparr>src_status := src_status app\<rparr>)) w1 of
               (r2, w2) \<Rightarrow> (err_of r2, w2)))"

definition deferred_update :: "('w, 'opt) synchronizer \<Rightarrow> source \<Rightarrow> 'w \<Rightarrow> 'w" where
  "deferred_update n app w = (case UpdateResource n app (store_status n app) w of
     (Some e, w') \<Rightarrow> reportError n (evn_FailedStatusUpdate (lib_events (sy_lib n))) e app w'
   | (None, w') \<Rightarrow> w')"

text \<open>
  The body of \<open>Reconcile\<close> after the source has been read: the source as it is at the end, whether the
  deferred update is to run (\<open>changed\<close>), the returned pair, and the next state.
\<close>

type_synonym 'w reconciled = "((source \<times> bool) \<times> (ctrl_result \<times> error)) \<times> 'w sync_state"

definition reconcile_failed ::
  "('w, 'opt) synchronizer \<Rightarrow> source \<Rightarrow> string \<Rightarrow> go_error \<Rightarrow> 'w sync_state \<Rightarrow> source \<times> 'w sync_state" where
  "reconcile_failed n app state err st =
     (let app1 = map_status (\<lambda>x. lib_SetError (sy_lib n) (err_msg err)
                   (lib_SetState (sy_lib n) state (err_msg err) x)) app
      in (app1, st\<lparr>ss_world := reportError n (st_sync_state (src_status app1)) err app1 (ss_world st)\<rparr>))"

definition reconcile_synchronized ::
  "('w, 'opt) synchronizer \<Rightarrow> source \<Rightarrow> string \<Rightarrow> 'w sync_state \<Rightarrow> 'w reconciled" where
  "reconcile_synchronized n app hash st =
     (let syncMsg = ''Deployment has been processed; waiting for completion...'';
          now = ck_now (sy_clock n) (ss_world st);
          app1 = map_status (\<lambda>x. (lib_SetState (sy_lib n) (evn_Synchronized (lib_events (sy_lib n))) syncMsg x)
                   \<lparr>st_sync_hash := hash, st_sync_time := now\<rparr>) app;
          w1 = snd (reportEvent n (CreateEvent (sy_lib n) now app1
                 (st_sync_state (src_status app1)) syncMsg ''Normal'') (ss_world st))
      in (((app1, True), (no_requeue, None)), start_monitor n app1 (st\<lparr>ss_world := w1\<rparr>)))"

definition reconcile_sync_failed ::
  "('w, 'opt) synchronizer \<Rightarrow> source \<Rightarrow> string \<Rightarrow> bool \<Rightarrow> go_error \<Rightarrow> 'w sync_state \<Rightarrow> 'w reconciled" where
  "reconcile_sync_failed n app hash retry err st =
     (if retry
      then let app1 = map_status (lib_SetState (sy_lib n)
                        (evn_Retrying (lib_events (sy_lib n))) (err_msg err)) app
           in (((app1, True), (no_requeue, Some err)),
               st\<lparr>ss_world := reportError n (st_sync_state (src_status app1)) err app1 (ss_world st)\<rparr>)
      else let app1 = map_status (\<lambda>x. (lib_SetError (sy_lib n) (err_msg err)
                        (lib_SetState (sy_lib n) (evn_FailedSynchronization (lib_events (sy_lib n)))
                          (err_msg err) x))\<lparr>st_sync_hash := hash\<rparr>) app
           in (((app1, True), (no_requeue, None)),
               st\<lparr>ss_world := reportError n (st_sync_state (src_status app1)) err app1 (ss_world st)\<rparr>))"

definition reconcile_rollout ::
  "('w, 'opt) synchronizer \<Rightarrow> source \<Rightarrow> 'opt rollout \<Rightarrow> 'w sync_state \<Rightarrow> 'w reconciled option" where
  "reconcile_rollout n app r st =
     (case gen_Generate (sy_generator n) (ro_source r) (ro_options r) of
        Inl e \<Rightarrow> (case reconcile_failed n app (evn_FailedGenerate (lib_events (sy_lib n))) e st of
          (app1, st1) \<Rightarrow> Some (((app1, True), (no_requeue, Some e)), st1))
      | Inr ops \<Rightarrow>
          (let app1 = map_status (\<lambda>x. x\<lparr>st_correlation_id := ro_correlation_id r\<rparr>) app
           in case Sync n (r\<lparr>ro_operations := ops\<rparr>) st of
                None \<Rightarrow> None
              | Some ((retry, Some e), st1) \<Rightarrow>
                  Some (reconcile_sync_failed n app1 (ro_hash r) retry e st1)
              | Some ((retry, None), st1) \<Rightarrow> Some (reconcile_synchronized n app1 (ro_hash r) st1)))"

definition reconcile_body ::
  "('w, 'opt) synchronizer \<Rightarrow> source \<Rightarrow> 'w sync_state \<Rightarrow> 'w reconciled option" where
  "reconcile_body n app st =
     (if appIsDeleted app
      then (case cleanUpAfterAppDeletion n app (ss_world st) of
              (Some e, w1) \<Rightarrow> Some (((app, True), (no_requeue, Some e)), st\<lparr>ss_world := w1\<rparr>)
            | (None, w1) \<Rightarrow> Some (((app, False), (no_requeue, None)), st\<lparr>ss_world := w1\<rparr>))
      else if \<not> lib_ContainsFinalizer (sy_lib n) (src_meta app) NaiseratorFinalizer
      then (let app1 = app\<lparr>src_meta := lib_AddFinalizer (sy_lib n) (src_meta app) NaiseratorFinalizer\<rparr>
            in case kc_Update (sy_client n) (object_of_source app1) (ss_world st) of
                 (Inl e, w1) \<Rightarrow> Some (((app1, True), (no_requeue, Some e)), st\<lparr>ss_world := w1\<rparr>)
               | (Inr _, w1) \<Rightarrow> Some (((app1, False), (no_requeue, None)), st\<lparr>ss_world := w1\<rparr>))
      else (case Prepare n app (ss_world st) of
              ((Inl e, app1), w1) \<Rightarrow>
                (case reconcile_failed n app1 (evn_FailedPrepare (lib_events (sy_lib n))) e
                        (st\<lparr>ss_world := w1\<rparr>) of
                   (app2, st2) \<Rightarrow>
                     Some (((app2, True), (\<lparr>cr_requeue_after = prepareRetryInterval\<rparr>, None)), st2))
            | ((Inr None, app1), w1) \<Rightarrow>
                (let st1 = st\<lparr>ss_world := w1\<rparr>;
                     st2 = (if st_sync_state (src_status app1) = evn_Synchronized (lib_events (sy_lib n))
                            then start_monitor n app1 st1 else st1)
                 in Some (((app1, False), (no_requeue, None)), st2))
            | ((Inr (Some r), app1), w1) \<Rightarrow> reconcile_rollout n app1 r (st\<lparr>ss_world := w1\<rparr>)))"

definition Reconcile ::
  "('w, 'opt) synchronizer \<Rightarrow> workload_kind \<Rightarrow> object_key \<Rightarrow> 'w sync_state \<Rightarrow>
     ((ctrl_result \<times> error) \<times> 'w sync_state) option" where
  "Reconcile n kind key st =
     (case get_source (sy_client n) kind key (ss_world st) of
        Inl e \<Rightarrow> Some ((no_requeue, if IsNotFound e then None else Some e), st)
      | Inr app0 \<Rightarrow>
          (let app = map_status (\<lambda>x. lib_ClearProblems (sy_lib n) (x\<lparr>st_conditions := []\<rparr>)) app0
           in case reconcile_body n app st of
                None \<Rightarrow> None
              | Some (((app1, changed), res), st1) \<Rightarrow>
                  Some (res, if changed then st1\<lparr>ss_world := deferred_update n app1 (ss_world st1)\<rparr>
                             else st1)))"

section \<open>Commits\<close>

lemma rollout_append:
  "rolloutWithRetryAndMetrics (xs @ ys) w = Some ((retry, None), w') \<Longrightarrow>
     \<exists>w1. rolloutWithRetryAndMetrics xs w = Some ((False, None), w1)
       \<and> rolloutWithRetryAndMetrics ys w1 = Some ((retry, None), w')"
  by (induction xs arbitrary: w) (auto simp: Let_def split: option.splits)

lemma rollout_retry: "rolloutWithRetryAndMetrics cs w = Some ((retry, None), w') \<Longrightarrow> \<not> retry"
  by (induction cs arbitrary: w) (auto simp: Let_def split: option.splits)

lemma delete_commit_fn [simp]: "cm_fn (delete_commit n ob) = (\<lambda>w. Some (DeleteIfExists (sy_client n) ob w))"
  by (simp add: delete_commit_def)

lemma rollout_deletes:
  assumes "api_delete (sy_client n) lk"
  shows "rolloutWithRetryAndMetrics (map (delete_commit n) obs) w = Some ((retry, None), w') \<Longrightarrow>
    lk w' = (\<lambda>i. if i \<in> obj_id ` set obs then None else lk w i)"
proof (induction obs arbitrary: w)
  case (Cons ob obs)
  obtain w1 where del: "DeleteIfExists (sy_client n) ob w = (None, w1)"
    and rest: "rolloutWithRetryAndMetrics (map (delete_commit n) obs) w1 = Some ((retry, None), w')"
    using Cons.prems by (auto simp: Let_def split: option.splits prod.splits)
  from DeleteIfExists_lk[OF assms, of ob w] del have "lk w1 = (lk w)(obj_id ob := None)" by simp
  with Cons.IH[OF rest] show ?case by (intro ext) auto
qed simp

text \<open>What an operation leaves in the cluster under the identity of its resource.\<close>

definition op_post :: "operation \<Rightarrow> k8s_object option \<Rightarrow> bool" where
  "op_post rop v = (let res = op_resource rop in case op_operation rop of
     OperationCreateOrUpdate \<Rightarrow>
       (\<exists>ob. v = Some ob \<and> mutable_part (obj_payload ob) = mutable_part (obj_payload res))
   | OperationCreateOrRecreate \<Rightarrow> (\<exists>ob. v = Some ob \<and> obj_payload ob = obj_payload res)
   | OperationCreateIfNotExists \<Rightarrow> v \<noteq> None
   | OperationDeleteIfExists \<Rightarrow> v = None
   | AnnotateIfExistsOp \<Rightarrow> (\<forall>ob. v = Some ob \<longrightarrow> has_annotations_of res ob)
   | OperationOther name \<Rightarrow> False)"

definition op_id :: "operation \<Rightarrow> go_type \<times> object_key" where
  "op_id rop = obj_id (op_resource rop)"

text \<open>The assumptions on the environment of a synchronization, in one place.\<close>

definition sync_env :: "('w, 'opt) synchronizer \<Rightarrow> 'w lookup \<Rightarrow> bool" where
  "sync_env n lk \<longleftrightarrow> api_server (sy_client n) lk \<and> clock_advances (sy_clock n) \<and> quiet_clock (sy_clock n) lk"

lemma operation_fn_touches:
  assumes "sync_env n lk" and "persistable (sy_scheme n) (op_resource rop)"
    and "operation_fn n rop = Some fn"
  shows "touches_only lk (op_id rop) fn"
  using assms
  by (auto simp: operation_fn_def op_id_def sync_env_def CreateOrUpdate_touches
      CreateOrRecreate_touches CreateIfNotExists_touches DeleteIfExists_touches
      AnnotateIfExists_touches split: operation_type.splits)

lemma operation_fn_post:
  assumes env: "sync_env n lk" and per: "persistable (sy_scheme n) (op_resource rop)"
    and fn: "operation_fn n rop = Some fn" and run: "fn w = Some (None, w')"
  shows "op_post rop (lk w' (op_id rop))"
proof -
  let ?c = "sy_client n" and ?res = "op_resource rop"
  note api = api_serverD[OF env[unfolded sync_env_def, THEN conjunct1]]
  from per have sch: "sy_scheme n (obj_type_meta ?res) = Inr (obj_type ?res)"
    and name: "om_name (obj_meta ?res) \<noteq> []" by (simp_all add: persistable_def)
  show ?thesis
  proof (cases "op_operation rop")
    case OperationCreateOrUpdate
    with fn run CreateOrUpdate_lk[where scheme = "sy_scheme n" and res = ?res, OF api(1,2,4) sch name] show ?thesis
      by (fastforce simp: operation_fn_def op_post_def op_id_def Let_def)
  next
    case OperationCreateOrRecreate
    with fn run CreateOrRecreate_lk[OF _ api(2) name, of "sy_clock n" "sy_scheme n" w] env show ?thesis
      by (auto simp: operation_fn_def op_post_def op_id_def sync_env_def Let_def)
  next
    case OperationCreateIfNotExists
    with fn run CreateIfNotExists_lk[OF api(2) name, of w None w'] show ?thesis
      by (auto simp: operation_fn_def op_post_def op_id_def Let_def split: if_splits)
  next
    case OperationDeleteIfExists
    with fn run DeleteIfExists_lk[OF api(3), of ?res w] show ?thesis
      by (auto simp: operation_fn_def op_post_def op_id_def Let_def)
  next
    case AnnotateIfExistsOp
    with fn run AnnotateIfExists_lk[OF env[unfolded sync_env_def, THEN conjunct1] per, of w None w']
    show ?thesis by (auto simp: operation_fn_def op_post_def op_id_def Let_def)
  next
    case (OperationOther name)
    with fn show ?thesis by (simp add: operation_fn_def)
  qed
qed

lemma operation_commits_Cons:
  assumes "operation_commits n (rop # ops) cache = (Inr cs, cache')"
  obtains fn cs' cache1 where "operation_fn n rop = Some fn"
    "cs = \<lparr>cm_gvk = obj_type_meta (op_resource rop), cm_fn = fn\<rparr> # cs'"
    "operation_commits n ops cache1 = (Inr cs', cache')"
  using assms by (auto simp: Let_def split: option.splits sum.splits prod.splits)

text \<open>The last operation of a list on each object: a later one on the same object may undo an earlier one.\<close>

fun last_on :: "operations \<Rightarrow> operation \<Rightarrow> bool" where
  "last_on [] rop = False"
| "last_on (x # ops) rop = (last_on ops rop \<or> rop = x \<and> op_id x \<notin> op_id ` set ops)"

lemma last_on_set: "last_on ops rop \<Longrightarrow> rop \<in> set ops"
  by (induction ops) auto

lemma last_on_distinct: "distinct (map op_id ops) \<Longrightarrow> last_on ops rop \<longleftrightarrow> rop \<in> set ops"
  by (induction ops) (auto dest: last_on_set)

lemma operations_run:
  assumes "sync_env n lk" and "\<forall>rop \<in> set ops. persistable (sy_scheme n) (op_resource rop)"
    and "operation_commits n ops cache = (Inr cs, cache')"
    and "rolloutWithRetryAndMetrics cs w = Some ((retry, None), w')"
  shows "(\<forall>rop. last_on ops rop \<longrightarrow> op_post rop (lk w' (op_id rop)))
    \<and> (\<forall>i. i \<notin> op_id ` set ops \<longrightarrow> lk w' i = lk w i)"
  using assms(2-)
proof (induction ops arbitrary: cache cs w)
  case (Cons rop ops)
  from Cons.prems(2) obtain fn cs' cache1 where fn: "operation_fn n rop = Some fn"
    and cs: "cs = \<lparr>cm_gvk = obj_type_meta (op_resource rop), cm_fn = fn\<rparr> # cs'"
    and rest: "operation_commits n ops cache1 = (Inr cs', cache')"
    by (rule operation_commits_Cons)
  from Cons.prems(3) cs obtain w1 where w1: "fn w = Some (None, w1)"
    and run: "rolloutWithRetryAndMetrics cs' w1 = Some ((retry, None), w')"
    by (auto simp: Let_def split: option.splits)
  from Cons.prems(1) have per: "persistable (sy_scheme n) (op_resource rop)" by simp
  have ih: "(\<forall>r. last_on ops r \<longrightarrow> op_post r (lk w' (op_id r))) \<and> (\<forall>i. i \<notin> op_id ` set ops \<longrightarrow> lk w' i = lk w1 i)"
    using Cons.prems(1) by (intro Cons.IH[OF _ rest run]) auto
  moreover have "op_post rop (lk w1 (op_id rop))" by (rule operation_fn_post[OF assms(1) per fn w1])
  moreover have "lk w1 i = lk w i" if "i \<noteq> op_id rop" for i
    using touches_onlyD[OF operation_fn_touches[OF assms(1) per fn] w1 that] .
  moreover have "lk w' (op_id rop) = lk w1 (op_id rop)" if "op_id rop \<notin> op_id ` set ops"
    using ih that by blast
  ultimately show ?case by auto
qed simp

section \<open>Obsolete resources\<close>

text \<open>
  An object is obsolete for a rollout when it was made for the source before (a listed type, the
  label \<open>app\<close> with the name of the source, an owner reference with its UID) and no operation of the
  rollout has its type and name.
\<close>

definition obsolete :: "('w, 'opt) synchronizer \<Rightarrow> 'opt rollout \<Rightarrow> k8s_object \<Rightarrow> bool" where
  "obsolete n r ob \<longleftrightarrow> obj_type ob \<in> set (sy_listers n)
     \<and> gm_map (om_labels (obj_meta ob)) ''app'' = Some (src_name (ro_source r))
     \<and> hasOwnerReference (ro_source r) ob \<and> \<not> intersects (ro_operations r) ob"

lemma FindAll_set:
  assumes "api_list cli lk" and "FindAll cli lib types s w = Inr obs"
  shows "set obs = {ob. lk w (obj_id ob) = Some ob \<and> obj_type ob \<in> set types
    \<and> gm_map (om_labels (obj_meta ob)) ''app'' = Some (src_name s) \<and> hasOwnerReference s ob}"
proof -
  obtain lists where lists: "mapM_result (\<lambda>t. case kc_List cli t (app_selector s) w of
      Inl e \<Rightarrow> Inl (errorf_w ''list: '' e) | Inr items \<Rightarrow> Inr items) types = Inr lists"
    and obs: "obs = withOwnerReference s (concat lists)"
    using assms(2) by (auto simp: FindAll_def result_simps split: option.splits)
  from mapM_result_Inr[OF lists] have all: "list_all2 (\<lambda>t items. set items =
      {ob. lk w (obj_id ob) = Some ob \<and> list_matches t (app_selector s) ob}) types lists"
  proof (rule list_all2_mono)
    fix t items
    assume "(case kc_List cli t (app_selector s) w of
        Inl e \<Rightarrow> Inl (errorf_w ''list: '' e) | Inr items \<Rightarrow> Inr items) = Inr items"
    then have "kc_List cli t (app_selector s) w = Inr items" by (simp split: sum.splits)
    then show "set items = {ob. lk w (obj_id ob) = Some ob \<and> list_matches t (app_selector s) ob}"
      by (rule api_list_set[OF assms(1)]) (simp add: app_selector_def list_all_namespaces_def)
  qed
  have "set (concat lists) = {ob. lk w (obj_id ob) = Some ob \<and>
      (\<exists>t \<in> set types. list_matches t (app_selector s) ob)}"
    using all by (induction rule: list_all2_induct) auto
  then show ?thesis
    by (auto simp: obs withOwnerReference_def list_matches_def app_selector_def list_all_namespaces_def)
qed

lemma Unreferenced_set:
  assumes "api_list (sy_client n) lk" and "Unreferenced n r w = Inr obs"
  shows "set obs = {ob. lk w (obj_id ob) = Some ob \<and> obsolete n r ob}"
  using assms(2) FindAll_set[OF assms(1)]
  by (auto simp: Unreferenced_def obsolete_def split: sum.splits)

lemma obsolete_not_op:
  assumes "obsolete n r ob" and "rop \<in> set (ro_operations r)"
  shows "obj_id ob \<noteq> op_id rop"
  using assms
  by (auto simp: obsolete_def intersects_def list_ex_iff op_id_def obj_id_def obj_key_def
      meta_key_def obj_name_def)

lemma ClusterOperations_success:
  assumes "ClusterOperations n r cache w = (commits, cache')"
    and "rolloutWithRetryAndMetrics commits w = Some ((retry, None), w')"
  obtains obs cs where "Unreferenced n r w = Inr obs"
    "operation_commits n (ro_operations r) cache = (Inr cs, cache')"
    "commits = map (delete_commit n) obs @ cs"
  using assms
  by (auto simp: ClusterOperations_def Let_def failing_commit_def split: sum.splits prod.splits)

section \<open>Properties of a synchronization\<close>

lemma Sync_effects:
  assumes "sync_env n lk"
    and "\<And>rop. rop \<in> set (ro_operations r) \<Longrightarrow> persistable (sy_scheme n) (op_resource rop)"
    and "Sync n r st = Some ((retry, None), st')"
  shows "(\<forall>rop. last_on (ro_operations r) rop \<longrightarrow> op_post rop (lk (ss_world st') (op_id rop)))
    \<and> (\<forall>i ob. lk (ss_world st) i = Some ob \<and> obsolete n r ob \<longrightarrow> lk (ss_world st') i = None)
    \<and> (\<forall>i. i \<notin> op_id ` set (ro_operations r)
         \<and> (\<forall>ob. lk (ss_world st) i = Some ob \<longrightarrow> \<not> obsolete n r ob)
         \<longrightarrow> lk (ss_world st') i = lk (ss_world st) i)"
proof -
  let ?w = "ss_world st"
  from assms(1) have api: "api_server (sy_client n) lk" by (simp add: sync_env_def)
  have self: "obj_id ob = i" if "lk w i = Some ob" for w i ob
    using api_get_Some[OF api_serverD(1)[OF api], of w "fst i" "snd i" ob] that by (auto simp: obj_id_def)
  obtain commits cache' where ops: "ClusterOperations n r (ss_listable st) ?w = (commits, cache')"
    by fastforce
  with assms(3) obtain w' where run: "rolloutWithRetryAndMetrics commits ?w = Some ((retry, None), w')"
    and st': "ss_world st' = w'"
    by (auto simp: Sync_def split: option.splits prod.splits)
  from ops run obtain obs cs where un: "Unreferenced n r ?w = Inr obs"
    and oc: "operation_commits n (ro_operations r) (ss_listable st) = (Inr cs, cache')"
    and commits: "commits = map (delete_commit n) obs @ cs"
    by (rule ClusterOperations_success)
  from rollout_append[OF run[unfolded commits]] obtain w1 where
    del: "rolloutWithRetryAndMetrics (map (delete_commit n) obs) ?w = Some ((False, None), w1)"
    and rest: "rolloutWithRetryAndMetrics cs w1 = Some ((retry, None), w')" by blast
  note w1 = rollout_deletes[OF api_serverD(3)[OF api] del]
  note obs = Unreferenced_set[OF api_serverD(6)[OF api] un]
  from assms(2) have per: "\<forall>rop \<in> set (ro_operations r). persistable (sy_scheme n) (op_resource rop)"
    by blast
  note post = operations_run[OF assms(1) per oc rest, THEN conjunct1]
    and frame = operations_run[OF assms(1) per oc rest, THEN conjunct2, rule_format]
  have "lk w' i = None" if "lk ?w i = Some ob" "obsolete n r ob" for i ob
  proof -
    from that self[OF that(1)] have "ob \<in> set obs" and "i = obj_id ob" by (auto simp: obs)
    with w1 have "lk w1 i = None" by auto
    moreover have "i \<notin> op_id ` set (ro_operations r)"
      using obsolete_not_op[OF that(2)] \<open>i = obj_id ob\<close> by (metis imageE)
    ultimately show ?thesis using frame[of i] by simp
  qed
  moreover have "lk w' i = lk ?w i" if "i \<notin> op_id ` set (ro_operations r)"
    "\<And>ob. lk ?w i = Some ob \<Longrightarrow> \<not> obsolete n r ob" for i
  proof -
    from that(2) self have "i \<notin> obj_id ` set obs" by (auto simp: obs)
    with w1 frame[OF that(1)] show ?thesis by simp
  qed
  ultimately show ?thesis using post by (simp add: st')
qed


text \<open>C21. \<open>rolloutWithRetryAndMetrics\<close> runs the commits in order and stops at the first one that fails: a
  failed result means that all commits before one of them succeeded and that one failed, the
  later ones not having run; and the rollout is to be retried exactly when the failure was a write
  conflict.\<close>

theorem rollout_stops_at_first_error:
  "rolloutWithRetryAndMetrics cs w = Some ((retry, Some e), w') \<Longrightarrow>
     \<exists>done c rest w1 cause. cs = done @ c # rest
       \<and> rolloutWithRetryAndMetrics done w = Some ((False, None), w1)
       \<and> cm_fn c w1 = Some (Some cause, w') \<and> (retry \<longleftrightarrow> IsConflict cause)"
proof (induction cs arbitrary: w)
  case (Cons c cs)
  show ?case
  proof (cases "\<exists>w1. cm_fn c w = Some (None, w1)")
    case True
    then obtain w1 where w1: "cm_fn c w = Some (None, w1)" by blast
    with Cons.prems have "rolloutWithRetryAndMetrics cs w1 = Some ((retry, Some e), w')" by simp
    from Cons.IH[OF this] obtain pre c' rest w2 cause where "cs = pre @ c' # rest"
      "rolloutWithRetryAndMetrics pre w1 = Some ((False, None), w2)"
      "cm_fn c' w2 = Some (Some cause, w')" "retry \<longleftrightarrow> IsConflict cause" by blast
    with w1 show ?thesis
      by (intro exI[of _ "c # pre"] exI[of _ c'] exI[of _ rest] exI[of _ w2] exI[of _ cause]) simp
  next
    case False
    with Cons.prems obtain cause where "cm_fn c w = Some (Some cause, w')" "retry \<longleftrightarrow> IsConflict cause"
      by (auto simp: Let_def split: option.splits)
    then show ?thesis
      by (intro exI[of _ "[]"] exI[of _ c] exI[of _ cs] exI[of _ w] exI[of _ cause]) simp
  qed
qed simp

text \<open>A rollout with an operation that the synchronizer does not know changes nothing: \<open>Sync\<close> fails, asks
  for no retry, and the cluster is as it was.\<close>

lemma Sync_unknown_operation:
  assumes "rop \<in> set (ro_operations r)" and "op_operation rop = OperationOther name"
  shows "\<exists>e st'. Sync n r st = Some ((False, Some e), st') \<and> ss_world st' = ss_world st"
proof -
  have "\<exists>t cache'. operation_commits n ops cache = (Inl t, cache')" if "rop \<in> set ops" for ops cache
    using that
  proof (induction ops arbitrary: cache)
    case (Cons a ops)
    show ?case
    proof (cases "operation_fn n a")
      case (Some fn)
      with Cons.prems assms(2) have "rop \<in> set ops" by (auto simp: operation_fn_def)
      from Cons.IH[OF this, of "checkListable n (obj_type_meta (op_resource a)) cache"] Some
      show ?thesis by (auto simp: Let_def)
    qed (simp add: Let_def)
  qed simp
  with assms(1) obtain t cache' where "operation_commits n (ro_operations r) (ss_listable st) = (Inl t, cache')"
    by blast
  then show ?thesis
    by (simp add: Sync_def ClusterOperations_def failing_commit_def Let_def IsConflict_def errorf_def)
qed

text \<open>The cache of listable kinds never answers wrongly: if the entries of the cache are right (as in
  the empty cache), then \<open>isListable\<close> answers whether some registered lister has the kind's group and
  version and its kind followed by \<open>List\<close>, and the entries are right afterwards.\<close>

lemma isListable_correct:
  assumes "\<And>k b. cache k = Some b \<Longrightarrow> b = list_ex (lister_matches n k) (sy_listers n)"
    and "isListable n gvk cache = (b, cache')"
  shows "b = list_ex (lister_matches n gvk) (sy_listers n)
    \<and> (\<forall>k b. cache' k = Some b \<longrightarrow> b = list_ex (lister_matches n k) (sy_listers n))"
  using assms by (auto simp: isListable_def split: option.splits if_splits)

section \<open>The deletion path\<close>

lemma delete_each_lk:
  assumes "api_delete cli lk"
  shows "delete_each cli items w = (None, w') \<Longrightarrow>
    lk w' = (\<lambda>i. if i \<in> obj_id ` set items then None else lk w i)"
proof (induction items arbitrary: w)
  case (Cons ob items)
  then obtain w1 where w1: "kc_Delete cli ob w = (None, w1)" "delete_each cli items w1 = (None, w')"
    by (auto split: prod.splits option.splits)
  from api_delete_None[OF assms w1(1)] Cons.IH[OF w1(2)] show ?case by (intro ext) auto
qed simp

lemma list_and_delete_lk:
  assumes "api_server cli lk" and "list_and_delete cli t opts w = (None, w')" and "lo_fields opts = []"
  shows "lk w' = (\<lambda>i. case lk w i of None \<Rightarrow> None
    | Some ob \<Rightarrow> if list_matches t opts ob then None else Some ob)"
proof -
  note api = api_serverD[OF assms(1)]
  from assms(2) obtain items where items: "kc_List cli t opts w = Inr items"
    and del: "delete_each cli items w = (None, w')"
    by (auto simp: list_and_delete_def split: sum.splits)
  have self: "obj_id ob = i" if "lk w i = Some ob" for i ob
    using api_get_Some[OF api(1), of w "fst i" "snd i" ob] that by (auto simp: obj_id_def)
  have "i \<in> obj_id ` set items \<longleftrightarrow> (\<exists>ob. lk w i = Some ob \<and> list_matches t opts ob)" for i
    unfolding api_list_set[OF api(6) items assms(3)]
  proof
    assume "\<exists>ob. lk w i = Some ob \<and> list_matches t opts ob"
    then obtain ob where "lk w i = Some ob" "list_matches t opts ob" by blast
    with self[of i ob] show "i \<in> obj_id ` {ob. lk w (obj_id ob) = Some ob \<and> list_matches t opts ob}"
      by (intro image_eqI[of _ _ ob]) simp_all
  qed auto
  with delete_each_lk[OF api(3) del] show ?thesis by (intro ext) (auto split: option.splits)
qed

lemma deleteImageResource_lk:
  assumes "api_server (sy_client n) lk" and "deleteImageResource n src w = (None, w')"
  shows "lk w' = (lk w)((TImage, \<lparr>key_namespace = src_namespace src, key_name = src_name src\<rparr>) := None)"
proof -
  let ?i = "(TImage, \<lparr>key_namespace = src_namespace src, key_name = src_name src\<rparr>)"
  note api = api_serverD[OF assms(1)]
  show ?thesis
  proof (cases "lk w ?i")
    case None
    with api_get_None[OF api(1) None] assms(2) show ?thesis
      by (auto simp: deleteImageResource_def Let_def fun_upd_idem split: if_splits)
  next
    case (Some img)
    from api_get_Some[OF api(1) Some] have get: "kc_Get (sy_client n) TImage (snd ?i) w = Inr img"
      and ident: "obj_id img = ?i" by (auto simp: obj_id_def)
    obtain r w1 where del: "kc_Delete (sy_client n) img w = (r, w1)" by (cases "kc_Delete (sy_client n) img w")
    with api_delete_Some[OF api(3), of img w _ w1] api_delete_None[OF api(3), of img w w1] ident Some get assms(2)
    show ?thesis by (cases r) (auto simp: deleteImageResource_def Let_def split: if_splits)
  qed
qed

lemma deleteCNRMResources_lk:
  assumes "api_server (sy_client n) lk" and "sy_features_cnrm n"
    and "deleteCNRMResources n app w = (None, w')"
  shows "lk w' = (\<lambda>i. case lk w i of None \<Rightarrow> None
    | Some ob \<Rightarrow> if list_matches TIAMServiceAccount (cnrm_list_options app) ob
        \<or> list_matches TIAMPolicy (cnrm_list_options app) ob then None else Some ob)"
proof -
  from assms(2,3) obtain w1 where w1: "list_and_delete (sy_client n) TIAMServiceAccount (cnrm_list_options app) w = (None, w1)"
    and w2: "list_and_delete (sy_client n) TIAMPolicy (cnrm_list_options app) w1 = (None, w')"
    by (auto simp: deleteCNRMResources_def split: option.splits prod.splits)
  have "lo_fields (cnrm_list_options app) = []" by (simp add: cnrm_list_options_def)
  from list_and_delete_lk[OF assms(1) w1 this] list_and_delete_lk[OF assms(1) w2 this] show ?thesis
    by (auto simp: fun_eq_iff split: option.splits)
qed


section \<open>Reconcile terminates\<close>

lemma operation_fn_returns:
  assumes "clock_advances (sy_clock n)" and "operation_fn n rop = Some fn"
  shows "\<exists>r. fn w = Some r"
proof (cases "op_operation rop = OperationCreateOrRecreate")
  case True
  with assms(2) have fn: "fn = CreateOrRecreate (sy_client n) (sy_scheme n) (sy_clock n) (op_resource rop)"
    by (simp add: operation_fn_def)
  let ?k = "obj_key (op_resource rop)"
  obtain derr w1 where del: "kc_Delete (sy_client n) (op_resource rop) w = (derr, w1)" by fastforce
  show ?thesis
  proof (cases "sy_scheme n (obj_type_meta (op_resource rop))")
    case (Inr t)
    obtain e w2 where aw: "await_deletion (sy_client n) (sy_clock n) t ?k
        (ck_now (sy_clock n) w1 + (60 * second_ns + 5)) w1 = Some (e, w2)"
      using await_deletion_returns[OF assms(1)] by fastforce
    show ?thesis
      unfolding fn CreateOrRecreate_def using Inr del aw
      by (cases e) (auto split: prod.splits option.splits)
  qed (use del in \<open>auto simp: fn CreateOrRecreate_def split: option.splits\<close>)
qed (use assms(2) in \<open>auto simp: operation_fn_def split: operation_type.splits\<close>)

lemma rollout_returns:
  assumes "\<And>c w. c \<in> set cs \<Longrightarrow> \<exists>r. cm_fn c w = Some r"
  shows "\<exists>r. rolloutWithRetryAndMetrics cs w = Some r"
  using assms
proof (induction cs arbitrary: w)
  case (Cons c cs)
  from Cons.prems[of c w] obtain e w1 where "cm_fn c w = Some (e, w1)" by auto
  moreover have "\<exists>r. rolloutWithRetryAndMetrics cs w1 = Some r" using Cons by simp
  ultimately show ?case by (cases e) (auto simp: Let_def)
qed (rule exI, rule rolloutWithRetryAndMetrics.simps(1))

lemma operation_commits_return:
  assumes "clock_advances (sy_clock n)"
  shows "operation_commits n ops cache = (Inr cs, cache') \<Longrightarrow> c \<in> set cs \<Longrightarrow> \<exists>r. cm_fn c w = Some r"
proof (induction ops arbitrary: cache cs)
  case (Cons rop ops)
  from Cons.prems(1) obtain fn cs' cache1 where fn: "operation_fn n rop = Some fn"
    and cs: "cs = \<lparr>cm_gvk = obj_type_meta (op_resource rop), cm_fn = fn\<rparr> # cs'"
    and rest: "operation_commits n ops cache1 = (Inr cs', cache')"
    by (rule operation_commits_Cons)
  with Cons.IH[OF rest] Cons.prems(2) operation_fn_returns[OF assms fn] show ?case by auto
qed simp

lemma Sync_returns:
  assumes "clock_advances (sy_clock n)"
  shows "\<exists>r. Sync n r0 st = Some r"
proof -
  obtain cs cache' where ops: "ClusterOperations n r0 (ss_listable st) (ss_world st) = (cs, cache')"
    by fastforce
  have "\<exists>r. cm_fn c w = Some r" if "c \<in> set cs" for c w
  proof (cases "operation_commits n (ro_operations r0) (ss_listable st)")
    case (Pair x cache1)
    with ops that operation_commits_return[OF assms, of "ro_operations r0" "ss_listable st" _ cache1 c w]
    show ?thesis
      by (cases x) (auto simp: ClusterOperations_def Let_def failing_commit_def split: sum.splits)
  qed
  from rollout_returns[of cs "ss_world st", OF this] ops show ?thesis by (auto simp: Sync_def)
qed

text \<open>C20. \<open>Reconcile\<close> always returns when time passes: whatever the cluster answers and whatever the
  generator produces, the reconciliation of a key ends with a result (polling for a deleted object
  is the only loop, and it times out).\<close>

theorem Reconcile_returns:
  assumes "clock_advances (sy_clock n)"
  shows "\<exists>res st'. Reconcile n kind key st = Some (res, st')"
proof -
  have roll: "\<exists>x. reconcile_rollout n app r st1 = Some x" for app r st1
  proof (cases "gen_Generate (sy_generator n) (ro_source r) (ro_options r)")
    case (Inr ops)
    obtain retry err st2 where "Sync n (r\<lparr>ro_operations := ops\<rparr>) st1 = Some ((retry, err), st2)"
      using Sync_returns[OF assms, of "r\<lparr>ro_operations := ops\<rparr>" st1] by auto
    with Inr show ?thesis by (cases err) (simp_all add: reconcile_rollout_def Let_def)
  qed (auto simp: reconcile_rollout_def split: prod.splits)
  have "\<exists>x. reconcile_body n app st = Some x" for app
    unfolding reconcile_body_def Let_def using roll
    by (auto split: prod.splits option.splits sum.splits)
  then show ?thesis unfolding Reconcile_def Let_def
    by (auto split: sum.splits option.splits) (metis option.distinct(1))
qed

section \<open>Properties of Reconcile\<close>

lemma map_status_simps [simp]:
  "src_status (map_status f s) = f (src_status s)" "src_meta (map_status f s) = src_meta s"
  "src_spec (map_status f s) = src_spec s" "src_kind (map_status f s) = src_kind s"
  by (simp_all add: map_status_def)

lemma getExternalImage_readonly: "getExternalImage s (readonly_NewClient c) w = getExternalImage s c w"
  by (simp add: getExternalImage_def Let_def)

lemma status_lawsD:
  assumes "status_laws lib"
  shows "st_sync_state (lib_SetState lib state msg st) = state"
    "st_sync_hash (lib_SetState lib state msg st) = st_sync_hash st"
    "st_sync_hash (lib_SetError lib msg st) = st_sync_hash st"
    "st_sync_state (lib_SetError lib msg st) = st_sync_state st"
  using assms by (simp_all add: status_laws_def)

text \<open>C19. What a rollout leaves in the status of its source. After a synchronization without error the
  source is \<open>Synchronized\<close> and has the new synchronization hash. After a failure that is not a write
  conflict it is \<open>FailedSynchronization\<close>, has the new hash too (so that the failing specification is not
  tried again until it changes), and the work queue sees no error. After a write conflict it is
  \<open>Retrying\<close>, keeps its old hash, and the error is returned, so that the work queue tries again.\<close>

theorem rollout_outcome:
  assumes "status_laws (sy_lib n)"
    and "gen_Generate (sy_generator n) (ro_source r) (ro_options r) = Inr ops"
    and "Sync n (r\<lparr>ro_operations := ops\<rparr>) st = Some ((retry, err), st1)"
    and "reconcile_rollout n app r st = Some (((app', changed), (res, ret)), st')"
  shows "changed \<and> res = no_requeue \<and> (case err of
      None \<Rightarrow> st_sync_hash (src_status app') = ro_hash r
        \<and> st_sync_state (src_status app') = evn_Synchronized (lib_events (sy_lib n)) \<and> ret = None
    | Some e \<Rightarrow> if retry
        then st_sync_hash (src_status app') = st_sync_hash (src_status app)
          \<and> st_sync_state (src_status app') = evn_Retrying (lib_events (sy_lib n)) \<and> ret = Some e
        else st_sync_hash (src_status app') = ro_hash r
          \<and> st_sync_state (src_status app') = evn_FailedSynchronization (lib_events (sy_lib n))
          \<and> ret = None)"
  using assms(2-) status_lawsD[OF assms(1)]
  by (cases err; cases retry)
    (auto simp: reconcile_rollout_def reconcile_synchronized_def reconcile_sync_failed_def Let_def)

text \<open>A workload whose specification and image have not changed since its last synchronization causes
  no write: when the hash in the status is the hash of the specification (with defaults applied) and
  the image is unchanged, \<open>Reconcile\<close> returns without error and without requeueing, and the state is
  as it was, except that monitoring is started again if the rollout was not complete.\<close>

lemma Reconcile_unchanged:
  assumes "get_source (sy_client n) kind key (ss_world st) = Inr app0"
    and "app = map_status (\<lambda>x. lib_ClearProblems (sy_lib n) (x\<lparr>st_conditions := []\<rparr>)) app0"
    and "\<not> appIsDeleted app0"
    and "lib_ContainsFinalizer (sy_lib n) (src_meta app0) NaiseratorFinalizer"
    and "lib_ApplyDefaults (sy_lib n) app = Inr app1"
    and "lib_Hash (sy_lib n) (sy_aiven_generation n) app1 = Inr (st_sync_hash (src_status app1))"
    and "getWantedImage app1 (sy_client n) (ss_world st) = Inr img"
    and "\<not> imageHasChanged (sy_lib n) img app1"
  shows "Reconcile n kind key st = Some ((no_requeue, None),
    if st_sync_state (src_status app1) = evn_Synchronized (lib_events (sy_lib n))
    then start_monitor n app1 st else st)"
proof -
  have "getWantedImage app1 (readonly_NewClient (sy_client n)) (ss_world st) = Inr img"
    using assms(7) by (simp add: getWantedImage_def getExternalImage_readonly Let_def split: if_splits)
  with assms(5,6,8) have "Prepare n app (ss_world st) = ((Inr None, app1), ss_world st)"
    by (simp add: Prepare_def Let_def)
  with assms(1-4) show ?thesis
    by (simp add: Reconcile_def reconcile_body_def appIsDeleted_def Let_def)
qed

text \<open>C22. No resource is created for a workload before its finalizer is in place: for a workload that is not
  being deleted and has no finalizer, a \<open>Reconcile\<close> whose update succeeds makes exactly one write, the
  update of the workload with the finalizer added.\<close>

theorem Reconcile_adds_finalizer_first:
  assumes "get_source (sy_client n) kind key (ss_world st) = Inr app0" and "\<not> appIsDeleted app0"
    and "finalizer_laws (sy_lib n)" and "NaiseratorFinalizer \<notin> set (om_finalizers (src_meta app0))"
    and "app1 = (map_status (\<lambda>x. lib_ClearProblems (sy_lib n) (x\<lparr>st_conditions := []\<rparr>)) app0)
           \<lparr>src_meta := lib_AddFinalizer (sy_lib n) (src_meta app0) NaiseratorFinalizer\<rparr>"
    and "kc_Update (sy_client n) (object_of_source app1) (ss_world st) = (Inr ob, w1)"
  shows "Reconcile n kind key st = Some ((no_requeue, None), st\<lparr>ss_world := w1\<rparr>)
    \<and> set (om_finalizers (src_meta app1)) = insert NaiseratorFinalizer (set (om_finalizers (src_meta app0)))
    \<and> src_spec app1 = src_spec app0"
proof -
  from assms(3,4) have "\<not> lib_ContainsFinalizer (sy_lib n) (src_meta app0) NaiseratorFinalizer"
    and "set (om_finalizers (src_meta app1)) = insert NaiseratorFinalizer (set (om_finalizers (src_meta app0)))"
    by (auto simp: finalizer_laws_def assms(5))
  with assms(1,2,6) show ?thesis
    by (simp add: Reconcile_def reconcile_body_def appIsDeleted_def assms(5) Let_def)
qed

end
