(* ===== verification/Samples.thy ===== *)
theory Samples
  imports Synchronizer
begin

text \<open>
  Concrete values for the witnesses: an instance of the library functions that satisfies the laws the
  properties assume of them, a small application, and a synchronizer over the API server in memory.
\<close>

definition sample_spec :: workload_spec where
  "sample_spec = \<lparr>ws_image = ''image:1'', ws_port = 8080, ws_command = [], ws_env = [], ws_env_from = [],
     ws_files_from = [], ws_liveness = None, ws_readiness = None, ws_startup = None,
     ws_pre_stop_hook = None, ws_pre_stop_hook_path = [], ws_prometheus_enabled = False,
     ws_prometheus_port = [], ws_prometheus_path = [],
     ws_resources = \<lparr>nr_limits = None, nr_requests = None\<rparr>,
     ws_replicas = \<lparr>rep_min = 2, rep_max = 4, rep_disable_autoscaling = False,
        rep_cpu_threshold = 50, rep_strategy = None\<rparr>,
     ws_strategy_type = [], ws_strategy_override = None, ws_termination_grace = None,
     ws_service_port = 80, ws_service_protocol = ''http'', ws_ingresses = [], ws_redirects = [],
     ws_access_policy = None, ws_leader_election = False, ws_web_proxy = False,
     ws_skip_ca_bundle = False, ws_vault = None,
     ws_idporten = None, ws_azure = None, ws_login = None, ws_maskinporten = None,
     ws_tokenx = None, ws_kafka = None, ws_opensearch = None, ws_valkey = [], ws_observability = None,
     ws_frontend = None, ws_gcp = None, ws_postgres_cluster = None, ws_schedule = [],
     ws_time_zone = None, ws_restart_policy = [], ws_concurrency_policy = [],
     ws_active_deadline = None, ws_backoff_limit = None, ws_completions = None,
     ws_completion_mode = None, ws_parallelism = None, ws_ttl = None, ws_successful_history = 0,
     ws_failed_history = None\<rparr>"

definition sample_status :: nais_status where
  "sample_status = \<lparr>st_sync_state = [], st_sync_hash = ''old'', st_sync_time = 0, st_correlation_id = [],
     st_effective_image = ''image:1'', st_conditions = [], st_problems = []\<rparr>"

definition sample_app :: source where
  "sample_app = \<lparr>src_kind = Application,
     src_type_meta = \<lparr>tm_kind = ''Application'', tm_api_version = ''nais.io/v1alpha1''\<rparr>,
     src_meta = object_meta_zero\<lparr>om_name := ''app'', om_namespace := ''team'', om_uid := ''u1'',
       om_finalizers := [''naiserator.nais.io/finalizer'']\<rparr>,
     src_spec = sample_spec, src_status = sample_status\<rparr>"

definition sample_names :: name_generator where
  "sample_names = \<lparr>ng_ShortName = (\<lambda>s n. Inr (take n s)),
     ng_SuffixedShortName = (\<lambda>s suffix n. Inr (take n (s @ ''-'' @ suffix))),
     ng_RandShortName = (\<lambda>s n. take n s), ng_PrefixedRandShortName = (\<lambda>p s n. take n (p @ ''-'' @ s)),
     ng_ISOWeek = (2026, 7), ng_Keygen = (\<lambda>draw n. Inr (replicate n draw))\<rparr>"

definition sample_paths :: mount_paths where
  "sample_paths = \<lparr>mp_Azurerator = ''/var/run/secrets/nais.io/azure'',
     mp_DigdiratorIDPorten = ''/var/run/secrets/nais.io/idporten'',
     mp_DigdiratorMaskinporten = ''/var/run/secrets/nais.io/maskinporten'',
     mp_Jwker = ''/var/run/secrets/nais.io/jwker'', mp_Kafkarator = ''/var/run/secrets/nais.io/kafka'',
     mp_Sqeletor = ''/var/run/secrets/nais.io/sqlcertificate''\<rparr>"

definition sample_api :: api_methods where
  "sample_api = \<lparr>am_AivenApplication = \<lparr>tm_kind = ''AivenApplication'', tm_api_version = ''aiven.nais.io/v1''\<rparr>,
     am_TopicPrefix = (\<lambda>m. om_namespace m @ ''.'' @ om_name m @ ''_stream_''),
     am_OpenSearchFullyQualifiedName = (\<lambda>i ns. ''opensearch-'' @ ns @ ''-'' @ i),
     am_Instance = (\<lambda>g. case gcp_sql_instances g of [] \<Rightarrow> None | i # _ \<Rightarrow> Some i),
     am_Database = (\<lambda>i. case sim_databases i of [] \<Rightarrow> None | d # _ \<Rightarrow> Some d),
     am_InsightsIsEnabled = (\<lambda>i. case i of None \<Rightarrow> True | Some x \<Rightarrow> ins_enabled x \<noteq> Some False),
     am_DiskGoogleType = (\<lambda>d. ''PD_'' @ d), am_PermissionGoogleType = id,
     am_DiskTypeSSD = ''SSD'', am_EditionEnterprise = ''ENTERPRISE'',
     am_PreventionInherited = ''inherited'', am_PreventionEnforced = ''enforced'',
     am_HashPermission = (\<lambda>p. Inr (length (iap_role p))),
     am_MergeResources = (\<lambda>dst src. Inr dst),
     am_MergeSqlInstance = (\<lambda>dst src. Inr (dst\<lparr>sim_databases :=
       if sim_databases dst = [] then sim_databases src else sim_databases dst\<rparr>))\<rparr>"

definition sample_lib :: liberator where
  "sample_lib = \<lparr>lib_events = \<lparr>evn_Synchronized = ''Synchronized'', evn_RolloutComplete = ''RolloutComplete'',
       evn_FailedPrepare = ''FailedPrepare'', evn_FailedGenerate = ''FailedGenerate'',
       evn_FailedSynchronization = ''FailedSynchronization'',
       evn_FailedStatusUpdate = ''FailedStatusUpdate'', evn_Retrying = ''Retrying''\<rparr>,
     lib_CorrelationIDAnnotation = ''nais.io/deploymentCorrelationID'',
     lib_CorrelationID = (\<lambda>s. annotation (src_meta s) ''nais.io/deploymentCorrelationID''),
     lib_GetOwnerReference = (\<lambda>s. \<lparr>or_api_version = tm_api_version (src_type_meta s),
       or_kind = tm_kind (src_type_meta s), or_name = src_name s, or_uid = src_uid s,
       or_controller = None, or_block_owner_deletion = None\<rparr>),
     lib_ObjectReference = (\<lambda>s. (src_name s, src_uid s)),
     lib_GetEffectiveImage = (\<lambda>s. st_effective_image (src_status s)),
     lib_ApplyDefaults = Inr,
     lib_Hash = (\<lambda>g s. Inr ''new''),
     lib_SetState = (\<lambda>state msg st. st\<lparr>st_sync_state := state, st_conditions := [(state, msg)]\<rparr>),
     lib_SetError = (\<lambda>msg st. st\<lparr>st_problems := st_problems st @ [msg]\<rparr>),
     lib_ClearProblems = (\<lambda>st. st\<lparr>st_problems := []\<rparr>),
     lib_StrTrimMiddle = (\<lambda>s n. take n s),
     lib_names = sample_names, lib_paths = sample_paths, lib_api = sample_api,
     lib_MatchesCluster = (\<lambda>r c. True),
     lib_ParseQuantity = Some,
     lib_DefaultPortName = ''http'', lib_DefaultServicePort = 80,
     lib_DefaultMountPath = (\<lambda>s. ''/var/run/configmaps/'' @ s),
     lib_DefaultPVCMountPath = (\<lambda>s. ''/var/run/pvc/'' @ s),
     lib_DefaultSecretMountPath = ''/var/run/secrets'', lib_DefaultVaultMountPath = ''/var/run/vault'',
     lib_StrategyRecreate = ''Recreate'', lib_MediumDisk = ''Disk'', lib_MediumMemory = ''Memory'',
     lib_NewRequirement = (\<lambda>k v. None),
     lib_ParseSelector = (\<lambda>s. Inr []),
     lib_ContainsFinalizer = (\<lambda>m f. f \<in> set (om_finalizers m)),
     lib_AddFinalizer = (\<lambda>m f. m\<lparr>om_finalizers := om_finalizers m @ [f]\<rparr>),
     lib_RemoveFinalizer = (\<lambda>m f. m\<lparr>om_finalizers := filter (\<lambda>x. x \<noteq> f) (om_finalizers m)\<rparr>),
     lib_GetRules = map inr_rule\<rparr>"

lemma sample_status_laws: "status_laws sample_lib"
  by (simp add: status_laws_def sample_lib_def)

lemma sample_finalizer_laws: "finalizer_laws sample_lib"
  by (auto simp: finalizer_laws_def sample_lib_def meta_key_def)

definition mem_clock :: "mem_server clock" where
  "mem_clock = \<lparr>ck_now = (\<lambda>m. int (mem_counter m)),
     ck_sleep = (\<lambda>d m. m\<lparr>mem_counter := mem_counter m + nat d\<rparr>)\<rparr>"

lemma mem_clock_advances: "clock_advances mem_clock"
  by (simp add: clock_advances_def mem_clock_def)

lemma mem_clock_quiet: "quiet_clock mem_clock mem_lookup"
  by (simp add: quiet_clock_def mem_clock_def mem_lookup_def fun_eq_iff)

definition sample_scheme :: scheme where
  "sample_scheme tm = (if tm_kind tm = ''Service'' then Inr TService
     else if tm_kind tm = ''ServiceAccount'' then Inr TServiceAccount else Inl (errorf ''unknown kind''))"

definition sample_object :: "string \<Rightarrow> payload \<Rightarrow> string \<Rightarrow> owner_reference list option \<Rightarrow> k8s_object" where
  "sample_object kind p name refs = \<lparr>obj_type_meta = \<lparr>tm_kind = kind, tm_api_version = ''v1''\<rparr>,
     obj_meta = object_meta_zero\<lparr>om_name := name, om_namespace := ''team'',
       om_labels := Some [''app'' \<mapsto> ''app''], om_owner_references := refs\<rparr>, obj_payload = p\<rparr>"

definition sample_ref :: owner_reference where
  "sample_ref = lib_GetOwnerReference sample_lib sample_app"

definition foreign_ref :: owner_reference where
  "foreign_ref = sample_ref\<lparr>or_name := ''other'', or_uid := ''u2''\<rparr>"

definition sample_namespace :: k8s_object where
  "sample_namespace = \<lparr>obj_type_meta = type_meta_zero, obj_meta = object_meta_zero\<lparr>om_name := ''team''\<rparr>,
     obj_payload = PNamespace\<rparr>"

definition sample_sa :: k8s_object where
  "sample_sa = sample_object ''ServiceAccount'' PServiceAccount ''app'' (Some [sample_ref])"

text \<open>A cluster with the namespace and an obsolete service account of the application.\<close>

definition stale_sa :: k8s_object where
  "stale_sa = sample_object ''ServiceAccount'' PServiceAccount ''stale'' (Some [sample_ref])"

definition sample_server :: mem_server where
  "sample_server = \<lparr>mem_objects = [sample_namespace, stale_sa], mem_counter = 0\<rparr>"

definition foreign_server :: mem_server where
  "foreign_server = \<lparr>mem_objects = [sample_namespace,
     sample_object ''ServiceAccount'' PServiceAccount ''app'' (Some [foreign_ref])], mem_counter = 0\<rparr>"

definition sample_generator :: "unit generator" where
  "sample_generator = \<lparr>gen_Prepare = (\<lambda>s. Return (Inr ())),
     gen_Generate = (\<lambda>s opts. Inr [\<lparr>op_resource = sample_sa, op_operation = OperationCreateOrUpdate\<rparr>])\<rparr>"

definition sample_synchronizer :: "(mem_server, unit) synchronizer" where
  "sample_synchronizer = \<lparr>sy_client = mem_client, sy_simple_client = mem_client,
     sy_generator = sample_generator, sy_listers = [TServiceAccount], sy_scheme = sample_scheme,
     sy_gvk_for_lister = (\<lambda>t. Inr \<lparr>tm_kind = ''ServiceAccountList'', tm_api_version = ''v1''\<rparr>),
     sy_lib = sample_lib, sy_clock = mem_clock,
     sy_uuid = (\<lambda>m. (Inr (''uuid-'' @ dec_nat (mem_counter m)), m\<lparr>mem_counter := Suc (mem_counter m)\<rparr>)),
     sy_uuid_New = (\<lambda>m. (''uuid-'' @ dec_nat (mem_counter m), m\<lparr>mem_counter := Suc (mem_counter m)\<rparr>)),
     sy_uuid_ID = length, sy_features_cnrm = True, sy_aiven_generation = 0\<rparr>"

lemma sample_env: "sync_env sample_synchronizer mem_lookup"
  by (simp add: sync_env_def sample_synchronizer_def mem_api_server mem_clock_advances mem_clock_quiet)

definition sample_rollout :: "unit rollout" where
  "sample_rollout = \<lparr>ro_source = sample_app,
     ro_operations = [\<lparr>op_resource = sample_sa, op_operation = OperationCreateOrUpdate\<rparr>],
     ro_options = (), ro_correlation_id = [], ro_hash = ''new''\<rparr>"

definition sample_state :: "mem_server sync_state" where
  "sample_state = \<lparr>ss_world = sample_server, ss_listable = Map.empty, ss_monitors = monitors_empty\<rparr>"

lemmas sample_defs = sample_spec_def sample_status_def sample_app_def sample_lib_def sample_names_def sample_paths_def sample_api_def mem_clock_def
  sample_scheme_def sample_object_def sample_ref_def foreign_ref_def sample_namespace_def sample_sa_def
  stale_sa_def sample_server_def foreign_server_def sample_generator_def sample_synchronizer_def
  sample_rollout_def sample_state_def

end
