(* ===== verification/Witnesses.thy ===== *)
theory Witnesses
  imports Samples
begin

text \<open>
  For every property with a hypothesis, a concrete case where the hypotheses hold, with the
  definitions evaluated.
\<close>

section \<open>Clients and the updater\<close>

lemma foreign_get:
  "kc_Get mem_client TServiceAccount (obj_key sample_sa) foreign_server =
     Inr (sample_object ''ServiceAccount'' PServiceAccount ''app'' (Some [foreign_ref]))"
  "kc_Get mem_client TNamespace \<lparr>key_namespace = [], key_name = obj_namespace sample_sa\<rparr> foreign_server =
     Inr sample_namespace"
  by (simp_all add: mem_Get_def mem_lookup_def foreign_server_def obj_id_def obj_type_def obj_key_def
      meta_key_def obj_namespace_def sample_sa_def sample_namespace_def sample_object_def object_meta_zero_def)

lemma sample_sa_scheme: "sample_scheme (obj_type_meta sample_sa) = Inr TServiceAccount"
  "obj_type sample_sa = TServiceAccount" "om_name (obj_meta sample_sa) = ''app''"
  by (simp_all add: sample_scheme_def sample_sa_def sample_object_def obj_type_def object_meta_zero_def)

lemma sample_sa_facts:
  "owner_refs (obj_meta sample_sa) = [sample_ref]" "obj_payload sample_sa = PServiceAccount"
  "om_owner_references (obj_meta sample_sa) = Some [sample_ref]"
  "owner_refs (obj_meta (sample_object ''ServiceAccount'' PServiceAccount ''app'' (Some [foreign_ref]))) = [foreign_ref]"
  "\<not> ownerReferenceSimilar foreign_ref sample_ref"
  by (simp_all add: sample_sa_def sample_object_def owner_refs_def ownerReferenceSimilar_def foreign_ref_def
      sample_ref_def sample_lib_def sample_app_def object_meta_zero_def)

lemma sample_persistable: "persistable sample_scheme sample_sa"
  by (simp add: persistable_def sample_sa_scheme)

theorem CreateOrUpdate_refuses_foreign_witness:
  "fst (CreateOrUpdate mem_client sample_scheme sample_sa foreign_server) \<noteq> None
   \<and> snd (CreateOrUpdate mem_client sample_scheme sample_sa foreign_server) = foreign_server"
  by (rule CreateOrUpdate_refuses_foreign[where t = TServiceAccount and ns = sample_namespace
      and existing = "sample_object ''ServiceAccount'' PServiceAccount ''app'' (Some [foreign_ref])"])
    (simp_all only: foreign_get sample_sa_scheme sample_sa_facts list.set, simp_all add: sample_sa_facts)

text \<open>A Service that exists with a cluster IP, and the new version of it without one.\<close>

definition sample_svc :: "string \<Rightarrow> k8s_object" where
  "sample_svc ip = sample_object ''Service'' (PService \<lparr>svc_type = ''ClusterIP'', svc_cluster_ip = ip, svc_selector = Map.empty,
     svc_port_name = ''http'', svc_protocol = ''TCP'', svc_port = 80, svc_target_port = StrVal ''http''\<rparr>) ''app'' (Some [sample_ref])"


lemma fst_None_cases: "fst p = None \<Longrightarrow> p = (None, snd p)"
  by (cases p) simp


section \<open>Rollout monitors\<close>

definition sample_key :: object_key where
  "sample_key = \<lparr>key_namespace = ''team'', key_name = ''app''\<rparr>"

definition started :: mon_state where
  "started = \<lparr>ms_monitors = \<lparr>mo_registry = [sample_key \<mapsto> ''a''], mo_cancelled = {}\<rparr>, ms_calls = {},
     ms_threads = [''a'' \<mapsto> \<lparr>gr_key = sample_key, gr_phase = Running\<rparr>]\<rparr>"

lemma started_reachable: "mon_reachable length started"
proof -
  let ?s1 = "mon_init\<lparr>ms_calls := {sample_key}, ms_monitors := monitors_empty\<rparr>"
  have "mon_step length mon_init (mon_init\<lparr>ms_calls := insert sample_key (ms_calls mon_init),
      ms_monitors := cancelMonitor length sample_key None (ms_monitors mon_init)\<rparr>)"
    by (rule call_begin) (simp add: mon_init_def)
  then have "mon_reachable length ?s1"
    using mon_reachable.step[OF mon_reachable.init, of length]
    by (simp add: mon_init_def cancelMonitor_def monitors_empty_def)
  moreover have "mon_step length ?s1 (?s1\<lparr>ms_calls := ms_calls ?s1 - {sample_key},
      ms_monitors := register_monitor sample_key ''a'' (ms_monitors ?s1),
      ms_threads := (ms_threads ?s1)(''a'' \<mapsto> \<lparr>gr_key = sample_key, gr_phase = Running\<rparr>)\<rparr>)"
    by (rule call_register) (simp_all add: mon_init_def)
  ultimately show ?thesis
    using mon_reachable.step
    by (fastforce simp: started_def mon_init_def monitors_empty_def register_monitor_def)
qed

theorem one_monitor_per_key_witness:
  "mo_registry (ms_monitors started) sample_key = Some ''a''"
  using one_monitor_per_key[OF started_reachable, of sample_key "''a''" "''a''"]
  by (simp add: active_def started_def)

definition returned :: mon_state where
  "returned = started\<lparr>ms_monitors := \<lparr>mo_registry = [sample_key \<mapsto> ''a''], mo_cancelled = {''a''}\<rparr>,
     ms_threads := [''a'' \<mapsto> \<lparr>gr_key = sample_key, gr_phase = CancelledSelf\<rparr>]\<rparr>"

lemma returned_reachable: "mon_reachable length returned"
proof -
  have "mon_reachable length (set_phase ''a'' Returned started)"
    using mon_reachable.step[OF started_reachable routine_returns[of started "''a''" sample_key]]
    by (simp add: started_def)
  from mon_reachable.step[OF this cancel_self[of _ "''a''" sample_key]] show ?thesis
    by (simp add: started_def returned_def set_phase_def)
qed


section \<open>The synchronizer\<close>

lemma sample_sync_ok:
  "Sync sample_synchronizer sample_rollout sample_state =
     Some ((False, None), snd (the (Sync sample_synchronizer sample_rollout sample_state)))"
proof -
  have "map_option fst (Sync sample_synchronizer sample_rollout sample_state) = Some (False, None)"
    by code_simp
  then show ?thesis by (cases "Sync sample_synchronizer sample_rollout sample_state") auto
qed

lemma stale_obsolete: "obsolete sample_synchronizer sample_rollout stale_sa"
  "mem_lookup sample_server (obj_id stale_sa) = Some stale_sa"
  by (simp_all add: obsolete_def sample_defs obj_type_def hasOwnerReference_def owner_refs_def intersects_def
      obj_name_def object_meta_zero_def mem_lookup_def obj_id_def)


theorem rollout_stops_at_first_error_witness:
  "\<exists>done c rest w1 cause. [failing_commit (errorf ''x'')] = done @ c # rest
     \<and> rolloutWithRetryAndMetrics done (0::nat) = Some ((False, None), w1)
     \<and> cm_fn c w1 = Some (Some cause, 0) \<and> (False \<longleftrightarrow> IsConflict cause)"
  by (rule rollout_stops_at_first_error[where e = "errorf ''persisting  to Kubernetes: validation error: x''"])
    (simp add: failing_commit_def errorf_def IsConflict_def type_meta_zero_def)


theorem Reconcile_returns_witness:
  "\<exists>res st'. Reconcile sample_synchronizer Application sample_key sample_state = Some (res, st')"
  by (rule Reconcile_returns) (simp add: sample_synchronizer_def mem_clock_advances)

theorem rollout_outcome_witness:
  "\<exists>app' st'. reconcile_rollout sample_synchronizer sample_app (sample_rollout\<lparr>ro_operations := []\<rparr>) sample_state =
       Some (((app', True), (no_requeue, None)), st')
     \<and> st_sync_hash (src_status app') = ''new'' \<and> st_sync_state (src_status app') = ''Synchronized''"
proof -
  let ?r = "sample_rollout\<lparr>ro_operations := []\<rparr>"
  have ops: "gen_Generate (sy_generator sample_synchronizer) (ro_source ?r) (ro_options ?r)
      = Inr (ro_operations sample_rollout)"
    by (simp add: sample_synchronizer_def sample_generator_def sample_rollout_def)
  have r: "?r\<lparr>ro_operations := ro_operations sample_rollout\<rparr> = sample_rollout" "ro_hash ?r = ''new''"
    by (simp_all add: sample_rollout_def)
  obtain st1 where sync: "Sync sample_synchronizer sample_rollout sample_state = Some ((False, None), st1)"
    using sample_sync_ok by blast
  obtain app' changed res ret st' where run: "reconcile_rollout sample_synchronizer sample_app ?r sample_state =
      Some (((app', changed), (res, ret)), st')"
    unfolding reconcile_rollout_def ops sum.case Let_def r sync
    by (auto simp: reconcile_synchronized_def Let_def)
  have "status_laws (sy_lib sample_synchronizer)" by (simp add: sample_synchronizer_def sample_status_laws)
  from rollout_outcome[OF this ops _ run, unfolded r, OF sync] run show ?thesis
    by (auto simp: r sample_synchronizer_def sample_lib_def)
qed

definition new_app :: source where
  "new_app = sample_app\<lparr>src_meta := (src_meta sample_app)\<lparr>om_finalizers := []\<rparr>\<rparr>"

definition new_state :: "mem_server sync_state" where
  "new_state = sample_state\<lparr>ss_world := \<lparr>mem_objects = [object_of_source new_app], mem_counter = 0\<rparr>\<rparr>"

lemma new_get: "get_source (sy_client sample_synchronizer) Application sample_key (ss_world new_state)
    = Inr new_app"
  by (simp add: get_source_def result_simps sample_synchronizer_def mem_Get_def mem_lookup_def new_state_def
      sample_state_def obj_id_def obj_key_def meta_key_def sample_key_def new_app_def sample_app_def
      object_meta_zero_def)

theorem Reconcile_adds_finalizer_first_witness:
  "\<exists>w1. Reconcile sample_synchronizer Application sample_key new_state =
     Some ((no_requeue, None), new_state\<lparr>ss_world := w1\<rparr>)"
proof -
  let ?app1 = "(map_status (\<lambda>x. lib_ClearProblems sample_lib (x\<lparr>st_conditions := []\<rparr>)) new_app)
    \<lparr>src_meta := lib_AddFinalizer sample_lib (src_meta new_app) NaiseratorFinalizer\<rparr>"
  have lib: "sy_lib sample_synchronizer = sample_lib" "sy_client sample_synchronizer = mem_client"
    by (simp_all add: sample_synchronizer_def)
  have app: "\<not> appIsDeleted new_app" "NaiseratorFinalizer \<notin> set (om_finalizers (src_meta new_app))"
    by (simp_all add: appIsDeleted_def new_app_def sample_app_def object_meta_zero_def)
  have "is_ok (fst (mem_Update (object_of_source ?app1) (ss_world new_state)))" by code_simp
  then obtain ob w1 where "mem_Update (object_of_source ?app1) (ss_world new_state) = (Inr ob, w1)"
    by (cases "mem_Update (object_of_source ?app1) (ss_world new_state)")
      (auto simp: is_ok_def split: sum.splits)
  with Reconcile_adds_finalizer_first[OF new_get app(1) _ app(2) refl, of ob w1] sample_finalizer_laws
  show ?thesis by (auto simp: lib)
qed

end
