(* ===== verification/Options.thy ===== *)
theory Options
  imports Synchronizer "HOL-Library.List_Lexorder"
begin

text \<open>
  The configuration (src/pkg/naiserator/config: config.go, validate.go), the \<open>Options\<close> that
  \<open>Prepare\<close> of a generator makes from it and from the cluster (src/pkg/generators/config.go), and the
  string helpers of src/pkg/util/strings.go. The creators read the options through the getters.
  How viper reads the configuration from flags, files and the environment is not modelled.
\<close>

section \<open>Configuration\<close>

record features =
  fe_AccessPolicyNotAllowedCIDRs :: "string list"
  fe_Azurerator :: bool
  fe_CNRM :: bool
  fe_GARToleration :: bool
  fe_GCP :: bool
  fe_HAProxy :: bool
  fe_IDPorten :: bool
  fe_Jwker :: bool
  fe_Kafkarator :: bool
  fe_Maskinporten :: bool
  fe_NAVCABundle :: bool
  fe_NetworkPolicy :: bool
  fe_PostgresOperator :: bool
  fe_PrometheusOperator :: bool
  fe_SQLInstanceInSharedVpc :: bool
  fe_Texas :: bool
  fe_Vault :: bool
  fe_Webhook :: bool
  fe_Wonderwall :: bool

record otel_collector =
  oc_labels :: "string list"
  oc_namespace :: string
  oc_port :: int
  oc_protocol :: string
  oc_service :: string
  oc_tls :: bool

record observability_config =
  ob_logging_destinations :: "string list"
  ob_otel_enabled :: bool
  ob_otel_collector :: otel_collector
  ob_otel_auto_enabled :: bool
  ob_otel_app_config :: string
  ob_otel_destinations :: "string list"

record gateway_mapping =
  gm_domain_suffix :: string
  gm_ingress_class :: string

record proxy_config =
  px_address :: string
  px_exclude :: "string list"

record vault_config =
  vc_address :: string
  vc_init_container_image :: string
  vc_auth_path :: string
  vc_kv_path :: string

record host_alias =
  ha_host :: string
  ha_address :: string

record config =
  cfg_AivenGeneration :: int
  cfg_AivenProject :: string
  cfg_AivenRange :: string
  cfg_APIServerIP :: string
  cfg_ClusterName :: string
  cfg_DocURL :: string
  cfg_DryRun :: bool
  cfg_FQDNPolicyEnabled :: bool
  cfg_Features :: features
  cfg_FrontendTelemetryURL :: string
  cfg_DomainIngressClassMapping :: "gateway_mapping list"
  cfg_GoogleCloudSQLProxyContainerImage :: string
  cfg_GoogleProjectID :: string
  cfg_HostAliases :: "host_alias list"
  cfg_ImagePullSecrets :: "string list"
  cfg_LeaderElectionImage :: string
  cfg_MaxConcurrentReconciles :: int
  cfg_NaisNamespace :: string
  cfg_Observability :: observability_config
  cfg_Proxy :: proxy_config
  cfg_TexasImage :: string
  cfg_Vault :: vault_config
  cfg_WonderwallImage :: string

text \<open>\<open>Vault.Validate\<close>: the messages of the multierror; the error is nil when there are none.\<close>

definition vault_Validate :: "vault_config \<Rightarrow> string list" where
  "vault_Validate v =
     (if length (vc_address v) = 0 then [''vault address not found in environment''] else [])
   @ (if length (vc_init_container_image v) = 0 then [''vault init container image not found in environment''] else [])
   @ (if length (vc_auth_path v) = 0 then [''vault auth path not found in environment''] else [])
   @ (if length (vc_kv_path v) = 0 then [''vault kv path not specified''] else [])"

section \<open>Options\<close>

record sql_instance_state =
  sqs_exists :: bool
  sqs_private_ip_in_shared_vpc :: bool

record options =
  opt_Config :: config
  opt_GoogleTeamProjectID :: string
  opt_Image :: string
  opt_NumReplicas :: int
  opt_Team :: string
  opt_SqlInstance :: sql_instance_state
  opt_PostgresClusterEngine :: string

definition new_options :: "config \<Rightarrow> options" where
  "new_options cfg = \<lparr>opt_Config = cfg, opt_GoogleTeamProjectID = [], opt_Image = [], opt_NumReplicas = 0,
     opt_Team = [], opt_SqlInstance = \<lparr>sqs_exists = False, sqs_private_ip_in_shared_vpc = False\<rparr>,
     opt_PostgresClusterEngine = []\<rparr>"

definition GetAccessPolicyNotAllowedCIDRs :: "options \<Rightarrow> string list" where
  [simp]: "GetAccessPolicyNotAllowedCIDRs opt = fe_AccessPolicyNotAllowedCIDRs (cfg_Features (opt_Config opt))"

definition GetAivenGeneration :: "options \<Rightarrow> int" where
  [simp]: "GetAivenGeneration opt = cfg_AivenGeneration (opt_Config opt)"

definition GetAivenProject :: "options \<Rightarrow> string" where
  [simp]: "GetAivenProject opt = cfg_AivenProject (opt_Config opt)"

definition GetAivenRange :: "options \<Rightarrow> string" where
  [simp]: "GetAivenRange opt = cfg_AivenRange (opt_Config opt)"

definition GetAPIServerIP :: "options \<Rightarrow> string" where
  [simp]: "GetAPIServerIP opt = cfg_APIServerIP (opt_Config opt)"

definition GetClusterName :: "options \<Rightarrow> string" where
  [simp]: "GetClusterName opt = cfg_ClusterName (opt_Config opt)"

definition GetDocUrl :: "options \<Rightarrow> string" where
  [simp]: "GetDocUrl opt = cfg_DocURL (opt_Config opt)"

definition GetFrontendOptions :: "options \<Rightarrow> string" where
  [simp]: "GetFrontendOptions opt = cfg_FrontendTelemetryURL (opt_Config opt)"

definition GetFQDNPolicy :: "options \<Rightarrow> bool" where
  [simp]: "GetFQDNPolicy opt = cfg_FQDNPolicyEnabled (opt_Config opt)"

definition GetGoogleCloudSQLProxyContainerImage :: "options \<Rightarrow> string" where
  [simp]: "GetGoogleCloudSQLProxyContainerImage opt = cfg_GoogleCloudSQLProxyContainerImage (opt_Config opt)"

definition GetGoogleProjectID :: "options \<Rightarrow> string" where
  [simp]: "GetGoogleProjectID opt = cfg_GoogleProjectID (opt_Config opt)"

definition GetGoogleTeamProjectID :: "options \<Rightarrow> string" where
  [simp]: "GetGoogleTeamProjectID opt = opt_GoogleTeamProjectID opt"

definition GetHostAliases :: "options \<Rightarrow> host_alias list" where
  [simp]: "GetHostAliases opt = cfg_HostAliases (opt_Config opt)"

definition GetImagePullSecrets :: "options \<Rightarrow> string list" where
  [simp]: "GetImagePullSecrets opt = cfg_ImagePullSecrets (opt_Config opt)"

definition GetLeaderElectionImage :: "options \<Rightarrow> string" where
  [simp]: "GetLeaderElectionImage opt = cfg_LeaderElectionImage (opt_Config opt)"

definition GetNaisNamespace :: "options \<Rightarrow> string" where
  [simp]: "GetNaisNamespace opt = cfg_NaisNamespace (opt_Config opt)"

definition GetNumReplicas :: "options \<Rightarrow> int" where
  [simp]: "GetNumReplicas opt = opt_NumReplicas opt"

definition GetObservability :: "options \<Rightarrow> observability_config" where
  [simp]: "GetObservability opt = cfg_Observability (opt_Config opt)"

definition GetTeam :: "options \<Rightarrow> string" where
  [simp]: "GetTeam opt = opt_Team opt"

definition GetVaultOptions :: "options \<Rightarrow> vault_config" where
  [simp]: "GetVaultOptions opt = cfg_Vault (opt_Config opt)"

definition GetWebProxyOptions :: "options \<Rightarrow> proxy_config" where
  [simp]: "GetWebProxyOptions opt = cfg_Proxy (opt_Config opt)"

definition GetWonderwallOptions :: "options \<Rightarrow> string" where
  [simp]: "GetWonderwallOptions opt = cfg_WonderwallImage (opt_Config opt)"

definition IsAzureratorEnabled :: "options \<Rightarrow> bool" where
  [simp]: "IsAzureratorEnabled opt = fe_Azurerator (cfg_Features (opt_Config opt))"

definition IsCNRMEnabled :: "options \<Rightarrow> bool" where
  [simp]: "IsCNRMEnabled opt = fe_CNRM (cfg_Features (opt_Config opt))"

definition IsGARTolerationEnabled :: "options \<Rightarrow> bool" where
  [simp]: "IsGARTolerationEnabled opt = fe_GARToleration (cfg_Features (opt_Config opt))"

definition IsGCPEnabled :: "options \<Rightarrow> bool" where
  [simp]: "IsGCPEnabled opt = fe_GCP (cfg_Features (opt_Config opt))"

definition IsIDPortenEnabled :: "options \<Rightarrow> bool" where
  [simp]: "IsIDPortenEnabled opt = fe_IDPorten (cfg_Features (opt_Config opt))"

definition IsJwkerEnabled :: "options \<Rightarrow> bool" where
  [simp]: "IsJwkerEnabled opt = fe_Jwker (cfg_Features (opt_Config opt))"

definition IsHAProxyEnabled :: "options \<Rightarrow> bool" where
  [simp]: "IsHAProxyEnabled opt = fe_HAProxy (cfg_Features (opt_Config opt))"

definition IsKafkaratorEnabled :: "options \<Rightarrow> bool" where
  [simp]: "IsKafkaratorEnabled opt = fe_Kafkarator (cfg_Features (opt_Config opt))"

definition IsMaskinportenEnabled :: "options \<Rightarrow> bool" where
  [simp]: "IsMaskinportenEnabled opt = fe_Maskinporten (cfg_Features (opt_Config opt))"

definition IsNAVCABundleEnabled :: "options \<Rightarrow> bool" where
  [simp]: "IsNAVCABundleEnabled opt = fe_NAVCABundle (cfg_Features (opt_Config opt))"

definition IsNetworkPolicyEnabled :: "options \<Rightarrow> bool" where
  [simp]: "IsNetworkPolicyEnabled opt = fe_NetworkPolicy (cfg_Features (opt_Config opt))"

definition IsPrometheusOperatorEnabled :: "options \<Rightarrow> bool" where
  [simp]: "IsPrometheusOperatorEnabled opt = fe_PrometheusOperator (cfg_Features (opt_Config opt))"

definition IsTexasEnabled :: "options \<Rightarrow> bool" where
  [simp]: "IsTexasEnabled opt = fe_Texas (cfg_Features (opt_Config opt))"

definition IsVaultEnabled :: "options \<Rightarrow> bool" where
  [simp]: "IsVaultEnabled opt = fe_Vault (cfg_Features (opt_Config opt))"

definition IsWonderwallEnabled :: "options \<Rightarrow> bool" where
  [simp]: "IsWonderwallEnabled opt = fe_Wonderwall (cfg_Features (opt_Config opt))"

definition PostgresOperatorEnabled :: "options \<Rightarrow> bool" where
  [simp]: "PostgresOperatorEnabled opt = fe_PostgresOperator (cfg_Features (opt_Config opt))"

definition ShouldCreateSqlInstanceInSharedVpc :: "options \<Rightarrow> bool" where
  [simp]: "ShouldCreateSqlInstanceInSharedVpc opt = fe_SQLInstanceInSharedVpc (cfg_Features (opt_Config opt))"

definition SqlInstanceExists :: "options \<Rightarrow> bool" where
  [simp]: "SqlInstanceExists opt = sqs_exists (opt_SqlInstance opt)"

definition SqlInstanceHasPrivateIpInSharedVpc :: "options \<Rightarrow> bool" where
  [simp]: "SqlInstanceHasPrivateIpInSharedVpc opt = sqs_private_ip_in_shared_vpc (opt_SqlInstance opt)"

definition TexasImage :: "options \<Rightarrow> string" where
  [simp]: "TexasImage opt = cfg_TexasImage (opt_Config opt)"

definition GetPostgresClusterEngine :: "options \<Rightarrow> string" where
  [simp]: "GetPostgresClusterEngine opt = opt_PostgresClusterEngine opt"

section \<open>Ingress classes by domain\<close>

definition longest_domain_suffix :: "gateway_mapping list \<Rightarrow> string \<Rightarrow> string" where
  "longest_domain_suffix mapping domain = foldl (\<lambda>longest value.
     if HasSuffix domain (gm_domain_suffix value) \<and> length (gm_domain_suffix value) > length longest
     then gm_domain_suffix value else longest) [] mapping"

definition GetDomains :: "options \<Rightarrow> string list" where
  "GetDomains opt = sort (map gm_domain_suffix (cfg_DomainIngressClassMapping (opt_Config opt)))"

text \<open>\<open>%q\<close> of a string of printable characters.\<close>

definition quoted :: "string \<Rightarrow> string" where
  "quoted s = [CHR 0x22] @ concat (map (\<lambda>c. if c = CHR 0x22 \<or> c = CHR 0x5C then [CHR 0x5C, c] else [c]) s)
     @ [CHR 0x22]"

definition GetIngressClasses :: "options \<Rightarrow> string \<Rightarrow> string list result" where
  "GetIngressClasses opt domain =
     (let mapping = cfg_DomainIngressClassMapping (opt_Config opt);
          longestDomainSuffix = longest_domain_suffix mapping domain;
          classes = map gm_ingress_class
            (filter (\<lambda>value. gm_domain_suffix value = longestDomainSuffix) mapping)
      in if length classes = 0
         then Inl (errorf (''the domain '' @ quoted domain @ '' cannot be used in cluster ''
                @ quoted (GetClusterName opt) @ ''; use one of '' @ Join (GetDomains opt) '', ''))
         else Inr classes)"

section \<open>Replicas\<close>

definition numReplicas :: "deployment_spec option \<Rightarrow> int \<Rightarrow> int \<Rightarrow> int" where
  "numReplicas deployment minReplicas maxReplicas =
     (if minReplicas = 0 \<and> maxReplicas = 0 then 0
      else if minReplicas = maxReplicas then to_int32 minReplicas
      else case (case deployment of None \<Rightarrow> None | Some d \<Rightarrow> dep_replicas d) of
             Some replicas \<Rightarrow> max (to_int32 minReplicas) replicas
           | None \<Rightarrow> to_int32 minReplicas)"

section \<open>Trimming strings\<close>

text \<open>Slicing out of range panics. Lengths are of bytes.\<close>

definition slice_to :: "string \<Rightarrow> int \<Rightarrow> string result" where
  "slice_to s n = (if n < 0 \<or> n > int (length s) then Inl (go_panic ''slice bounds out of range'')
                   else Inr (take (nat n) s))"

definition slice_from :: "string \<Rightarrow> int \<Rightarrow> string result" where
  "slice_from s n = (if n < 0 \<or> n > int (length s) then Inl (go_panic ''slice bounds out of range'')
                     else Inr (drop (nat n) s))"

abbreviation strTrimMiddleTruncate :: string where
  "strTrimMiddleTruncate \<equiv> ''---[truncated]---''"

abbreviation strTrimRightTruncate :: string where
  "strTrimRightTruncate \<equiv> ''...''"

definition StrTrimRight :: "string \<Rightarrow> int \<Rightarrow> string result" where
  "StrTrimRight s maxlen =
     (let l = int (length strTrimRightTruncate)
      in if maxlen > l then rbind (slice_to s (maxlen - l)) (\<lambda>t. Inr (t @ strTrimRightTruncate))
         else slice_to s maxlen)"

definition StrTrimMiddle :: "string \<Rightarrow> int \<Rightarrow> string result" where
  "StrTrimMiddle s maxlen =
     (if int (length s) \<le> maxlen then Inr s
      else let newlen = maxlen - int (length strTrimMiddleTruncate)
           in if newlen < int (length strTrimMiddleTruncate) then StrTrimRight s maxlen
              else let partlen = newlen div 2
                   in rbind (slice_to s partlen) (\<lambda>a.
                        rbind (slice_from s (int (length s) - partlen)) (\<lambda>b.
                          Inr (a @ strTrimMiddleTruncate @ b))))"

definition SetAnnotation :: "object_meta \<Rightarrow> string \<Rightarrow> string \<Rightarrow> object_meta" where
  "SetAnnotation m key value = m\<lparr>om_annotations := gm_set key value (om_annotations m)\<rparr>"

section \<open>Properties\<close>

lemma longest_domain_suffix_spec:
  "HasSuffix domain (longest_domain_suffix mapping domain)
   \<and> (\<forall>v \<in> set mapping. HasSuffix domain (gm_domain_suffix v) \<longrightarrow>
        length (gm_domain_suffix v) \<le> length (longest_domain_suffix mapping domain))
   \<and> (longest_domain_suffix mapping domain = [] \<or>
        longest_domain_suffix mapping domain \<in> gm_domain_suffix ` set mapping)"
  unfolding longest_domain_suffix_def
proof (induction mapping rule: rev_induct)
  case Nil
  then show ?case by (simp add: HasSuffix_def)
next
  case (snoc v mapping)
  then show ?case by (auto intro: order_trans less_imp_le)
qed

text \<open>C39. The ingress classes of a host name are those of the longest configured domain suffix: when some
  configured suffix matches, the classes are exactly those of the mappings (there may be several) whose
  suffix is the longest matching one, in configuration order; when none matches there is an error.\<close>

theorem GetIngressClasses_longest:
  "case GetIngressClasses opt domain of
     Inr classes \<Rightarrow> (\<exists>sfx \<in> gm_domain_suffix ` set (cfg_DomainIngressClassMapping (opt_Config opt)).
        HasSuffix domain sfx
        \<and> (\<forall>v \<in> set (cfg_DomainIngressClassMapping (opt_Config opt)).
             HasSuffix domain (gm_domain_suffix v) \<longrightarrow> length (gm_domain_suffix v) \<le> length sfx)
        \<and> classes = map gm_ingress_class (filter (\<lambda>v. gm_domain_suffix v = sfx)
             (cfg_DomainIngressClassMapping (opt_Config opt))))
   | Inl e \<Rightarrow> (\<forall>v \<in> set (cfg_DomainIngressClassMapping (opt_Config opt)).
        \<not> HasSuffix domain (gm_domain_suffix v))"
proof -
  let ?m = "cfg_DomainIngressClassMapping (opt_Config opt)"
  let ?l = "longest_domain_suffix ?m domain"
  note spec = longest_domain_suffix_spec[of domain ?m]
  show ?thesis
  proof (cases "?l \<in> gm_domain_suffix ` set ?m")
    case True
    then have "GetIngressClasses opt domain = Inr (map gm_ingress_class (filter (\<lambda>v. gm_domain_suffix v = ?l) ?m))"
      by (auto simp: GetIngressClasses_def Let_def filter_empty_conv)
    with True spec show ?thesis by (auto intro: bexI[of _ ?l])
  next
    case False
    with spec have nil: "?l = []" by blast
    have "\<not> HasSuffix domain (gm_domain_suffix v)" if v: "v \<in> set ?m" for v
    proof
      assume "HasSuffix domain (gm_domain_suffix v)"
      with spec v nil have "gm_domain_suffix v = []" by fastforce
      with v have "[] \<in> gm_domain_suffix ` set ?m" by (metis imageI)
      with False nil show False by simp
    qed
    moreover from False have "filter (\<lambda>v. gm_domain_suffix v = ?l) ?m = []"
      by (auto simp: filter_empty_conv) (metis imageI)
    then have "\<exists>e. GetIngressClasses opt domain = Inl e" by (simp add: GetIngressClasses_def Let_def)
    ultimately show ?thesis by auto
  qed
qed

text \<open>The number of replicas of a rollout: for limits that fit in 32 bits it is the minimum when the
  autoscaler is off (minimum equal to maximum) or there is no deployment yet, and otherwise the larger
  of the minimum and the current number; so it is never below the minimum, and a running deployment is
  never scaled down by a rollout while the autoscaler is on.\<close>

lemma numReplicas_carries_over:
  assumes "in_int32 minReplicas"
  shows "numReplicas deployment minReplicas maxReplicas =
      (if minReplicas = maxReplicas then minReplicas
       else case Option.bind deployment dep_replicas of None \<Rightarrow> minReplicas | Some r \<Rightarrow> max minReplicas r)
    \<and> minReplicas \<le> numReplicas deployment minReplicas maxReplicas"
  using assms by (auto simp: numReplicas_def to_int32_id split: option.splits)

text \<open>\<open>StrTrimMiddle\<close> never panics for a non-negative limit and never returns more than the limit; a
  string that fits is returned as it is.\<close>

lemma StrTrimMiddle_bounded:
  assumes "0 \<le> maxlen"
  shows "\<exists>t. StrTrimMiddle s maxlen = Inr t \<and> int (length t) \<le> maxlen
    \<and> (int (length s) \<le> maxlen \<longrightarrow> t = s)"
proof (cases "int (length s) \<le> maxlen")
  case False
  then show ?thesis
    using assms
    by (auto simp: StrTrimMiddle_def StrTrimRight_def slice_to_def slice_from_def Let_def result_simps)
qed (simp add: StrTrimMiddle_def)

end
