(* ===== verification/Pod.thy ===== *)
theory Pod
  imports Options
begin

text \<open>
  Package \<open>pod\<close> (src/pkg/resourcecreator/pod: pod.go, helpers.go, toleration.go): the pod
  specification of a workload, its main container, environment, volumes, probes, lifecycle hooks and
  security context. A panic of the Go code (an index out of range, \<open>MustParse\<close>, a nil dereference) is an
  error with the reason \<^const>\<open>ReasonPanic\<close>. Maps that Go shares between the \<open>Ast\<close> and an object are
  written back to the \<open>Ast\<close>.
\<close>

section \<open>Volumes and environment\<close>

definition FromFilesSecretVolumeWithMode ::
  "string \<Rightarrow> string \<Rightarrow> (string \<times> string) list \<Rightarrow> int option \<Rightarrow> volume" where
  "FromFilesSecretVolumeWithMode volumeName secretName items mode =
     \<lparr>vol_name = volumeName, vol_source = SecretVolume secretName items mode\<rparr>"

definition FromFilesSecretVolume :: "string \<Rightarrow> string \<Rightarrow> (string \<times> string) list \<Rightarrow> volume" where
  "FromFilesSecretVolume volumeName secretName items =
     FromFilesSecretVolumeWithMode volumeName secretName items None"

definition FromFilesVolumeMount :: "string \<Rightarrow> string \<Rightarrow> string \<Rightarrow> bool \<Rightarrow> volume_mount" where
  "FromFilesVolumeMount name mountPath defaultMountPath readOnly =
     \<lparr>vm_name = name, vm_mount_path = (if length mountPath = 0 then defaultMountPath else mountPath),
      vm_sub_path = [], vm_read_only = readOnly\<rparr>"

definition EnvFromSecret :: "string \<Rightarrow> env_from_source" where
  "EnvFromSecret name = SecretRef name"

definition fromEnvConfigmap :: "string \<Rightarrow> env_from_source" where
  "fromEnvConfigmap name = ConfigMapRef name"

definition add_volume :: "volume \<Rightarrow> volume_mount \<Rightarrow> ast \<Rightarrow> ast" where
  "add_volume v vm a = a\<lparr>ast_volumes := ast_volumes a @ [v], ast_volume_mounts := ast_volume_mounts a @ [vm]\<rparr>"

definition WithAdditionalSecret :: "string \<Rightarrow> string \<Rightarrow> ast \<Rightarrow> ast" where
  "WithAdditionalSecret secretName mountPath =
     add_volume (FromFilesSecretVolume secretName secretName [])
       (FromFilesVolumeMount secretName [] mountPath True)"

definition WithAdditionalEnvFromSecret :: "string \<Rightarrow> ast \<Rightarrow> ast" where
  "WithAdditionalEnvFromSecret secretName a = a\<lparr>ast_env_from := ast_env_from a @ [EnvFromSecret secretName]\<rparr>"

definition FromFilesPVCVolume :: "string \<Rightarrow> string \<Rightarrow> volume" where
  "FromFilesPVCVolume volumeName pvcName = \<lparr>vol_name = volumeName, vol_source = PVCVolume pvcName False\<rparr>"

definition naisMediumToStorageMedium :: "liberator \<Rightarrow> string \<Rightarrow> string" where
  "naisMediumToStorageMedium lib medium =
     (if medium = lib_MediumDisk lib then [] else if medium = lib_MediumMemory lib then ''Memory'' else [])"

definition FilesFromEmptyDir :: "liberator \<Rightarrow> string \<Rightarrow> string \<Rightarrow> volume" where
  "FilesFromEmptyDir lib volumeName medium =
     \<lparr>vol_name = volumeName, vol_source = EmptyDirVolume (naisMediumToStorageMedium lib medium)\<rparr>"

definition fromFilesConfigmapVolume :: "string \<Rightarrow> string \<Rightarrow> volume" where
  "fromFilesConfigmapVolume volumeName configMapName =
     \<lparr>vol_name = volumeName, vol_source = ConfigMapVolume configMapName\<rparr>"

fun envFrom :: "nais_env_from list \<Rightarrow> ast \<Rightarrow> ast" where
  "envFrom [] a = a"
| "envFrom (env # envs) a = envFrom envs
     (if length (nef_config_map env) > 0
      then a\<lparr>ast_env_from := ast_env_from a @ [fromEnvConfigmap (nef_config_map env)]\<rparr>
      else if length (nef_secret env) > 0
      then a\<lparr>ast_env_from := ast_env_from a @ [EnvFromSecret (nef_secret env)]\<rparr>
      else a)"

text \<open>The loop of \<open>filesFrom\<close>, with its four counters.\<close>

fun filesFrom_loop :: "liberator \<Rightarrow> files_from list \<Rightarrow> nat \<Rightarrow> nat \<Rightarrow> nat \<Rightarrow> nat \<Rightarrow> ast \<Rightarrow> ast" where
  "filesFrom_loop lib [] configs secrets persistence emptyDirs a = a"
| "filesFrom_loop lib (file # files) configs secrets persistence emptyDirs a =
     (if length (ff_config_map file) > 0
      then let name = ''config-'' @ Itoa (int (configs + 1))
           in filesFrom_loop lib files (configs + 1) secrets persistence emptyDirs
                (add_volume (fromFilesConfigmapVolume name (ff_config_map file))
                   (FromFilesVolumeMount name (ff_mount_path file)
                      (lib_DefaultMountPath lib (ff_config_map file)) True) a)
      else if length (ff_secret file) > 0
      then let name = ''secret-'' @ Itoa (int (secrets + 1))
           in filesFrom_loop lib files configs (secrets + 1) persistence emptyDirs
                (add_volume (FromFilesSecretVolume name (ff_secret file) [])
                   (FromFilesVolumeMount name (ff_mount_path file) (lib_DefaultSecretMountPath lib) True) a)
      else if length (ff_pvc file) > 0
      then let name = ''pvc-'' @ Itoa (int (persistence + 1))
           in filesFrom_loop lib files configs secrets (persistence + 1) emptyDirs
                (add_volume (FromFilesPVCVolume name (ff_pvc file))
                   (FromFilesVolumeMount name (ff_mount_path file)
                      (lib_DefaultPVCMountPath lib (ff_pvc file)) False) a)
      else case ff_empty_dir file of
             Some medium \<Rightarrow>
               if length (ff_mount_path file) > 0
               then let name = ''emptydir-'' @ Itoa (int (emptyDirs + 1))
                    in filesFrom_loop lib files configs secrets persistence (emptyDirs + 1)
                         (add_volume (FilesFromEmptyDir lib name medium)
                            (FromFilesVolumeMount name (ff_mount_path file) (ff_mount_path file) False) a)
               else filesFrom_loop lib files configs secrets persistence emptyDirs a
           | None \<Rightarrow> filesFrom_loop lib files configs secrets persistence emptyDirs a)"

definition filesFrom :: "liberator \<Rightarrow> files_from list \<Rightarrow> ast \<Rightarrow> ast" where
  "filesFrom lib naisFilesFrom a = filesFrom_loop lib naisFilesFrom 0 0 0 0 a"

text \<open>\<open>regNameNormalizer.ReplaceAllString(s, "-")\<close>: each longest run of other characters is one dash.\<close>

definition name_char :: "char \<Rightarrow> bool" where
  "name_char c \<longleftrightarrow> c \<in> {CHR ''a''..CHR ''z''} \<or> c \<in> {CHR ''0''..CHR ''9''} \<or> c = CHR ''-''"

fun normalize_name :: "bool \<Rightarrow> string \<Rightarrow> string" where
  "normalize_name in_run [] = []"
| "normalize_name in_run (c # cs) =
     (if name_char c then c # normalize_name False cs
      else if in_run then normalize_name True cs else CHR ''-'' # normalize_name True cs)"

definition generateNameFromMountPath :: "string \<Rightarrow> string" where
  "generateNameFromMountPath mountPath = Trim (normalize_name False (ToLower mountPath)) ''-''"

section \<open>Security context\<close>

definition runAsUser :: "gomap \<Rightarrow> int" where
  "runAsUser annotations = (case gm_map annotations ''nais.io/run-as-user'' of
     None \<Rightarrow> 1069
   | Some val \<Rightarrow> (case Atoi val of None \<Rightarrow> 1069 | Some uid \<Rightarrow> uid))"

definition runAsGroup :: "gomap \<Rightarrow> int" where
  "runAsGroup annotations = (case gm_map annotations ''nais.io/run-as-group'' of
     None \<Rightarrow> runAsUser annotations
   | Some val \<Rightarrow> (case Atoi val of None \<Rightarrow> runAsUser annotations | Some uid \<Rightarrow> uid))"

definition readOnlyFileSystem :: "gomap \<Rightarrow> bool" where
  "readOnlyFileSystem annotations = (case gm_map annotations ''nais.io/read-only-file-system'' of
     None \<Rightarrow> True | Some val \<Rightarrow> ToLower val \<noteq> ''false'')"

definition DefaultContainerSecurityContext :: security_context where
  "DefaultContainerSecurityContext = \<lparr>sc_allow_privilege_escalation = False, sc_privileged = False,
     sc_read_only_root = True, sc_run_as_non_root = True, sc_run_as_user = 1069,
     sc_run_as_group = 1069, sc_drop = [''ALL''], sc_seccomp = ''RuntimeDefault''\<rparr>"

definition configureSecurityContext :: "gomap \<Rightarrow> security_context" where
  "configureSecurityContext annotations = DefaultContainerSecurityContext
     \<lparr>sc_run_as_user := runAsUser annotations, sc_run_as_group := runAsGroup annotations,
      sc_read_only_root := readOnlyFileSystem annotations\<rparr>"

section \<open>Tolerations and affinity\<close>

abbreviation NaisGarTolerationKey :: string where
  "NaisGarTolerationKey \<equiv> ''nais.io/gar''"

abbreviation NaisGarNodeSelectorKey :: string where
  "NaisGarNodeSelectorKey \<equiv> ''nais.io/gar-node-pool''"

abbreviation GarImagePrefix :: string where
  "GarImagePrefix \<equiv> ''europe-north1-docker.pkg.dev/''"

definition SetupTolerations :: "options \<Rightarrow> string \<Rightarrow> toleration list" where
  "SetupTolerations cfg img =
     (if IsGARTolerationEnabled cfg \<and> HasPrefix img GarImagePrefix
      then [\<lparr>tol_key = NaisGarTolerationKey, tol_operator = ''Equal'', tol_value = ''true'',
             tol_effect = ''NoSchedule''\<rparr>]
      else [])"

definition nodeSelectorTerm :: "string \<Rightarrow> string \<Rightarrow> selector_requirement list" where
  "nodeSelectorTerm key value = [\<lparr>sr_key = key, sr_operator = ''In'', sr_values = [value]\<rparr>]"

definition appAffinity :: "string \<Rightarrow> anti_affinity_term list" where
  "appAffinity appName = [\<lparr>aa_weight = 10,
     aa_expressions = [\<lparr>sr_key = ''app'', sr_operator = ''In'', sr_values = [appName]\<rparr>],
     aa_topology_key = ''kubernetes.io/hostname''\<rparr>]"

text \<open>The slice is nil exactly when no toleration was appended to it.\<close>

definition ConfigureAffinity :: "string \<Rightarrow> toleration list \<Rightarrow> affinity" where
  "ConfigureAffinity appName tolerations =
     (if tolerations = [] then \<lparr>af_node_terms = None, af_pod_anti_affinity = appAffinity appName\<rparr>
      else \<lparr>af_node_terms = Some (map (\<lambda>t. nodeSelectorTerm NaisGarNodeSelectorKey (tol_value t))
               (filter (\<lambda>t. tol_key t = NaisGarTolerationKey) tolerations)),
            af_pod_anti_affinity = appAffinity appName\<rparr>)"

section \<open>The pod specification\<close>

text \<open>The loop of \<open>reorderContainers\<close>: index, delta, the remaining containers, and the new slice.\<close>

fun reorder_loop ::
  "string \<Rightarrow> nat \<Rightarrow> nat \<Rightarrow> container list \<Rightarrow> container list \<Rightarrow> container list result" where
  "reorder_loop appName i delta [] reordered = Inr reordered"
| "reorder_loop appName i delta (c # cs) reordered =
     (if c_name c = appName then reorder_loop appName (i + 1) 0 cs (reordered[0 := c])
      else if i + delta < length reordered
      then reorder_loop appName (i + 1) delta cs (reordered[i + delta := c])
      else Inl (go_panic ''index out of range''))"

definition reorderContainers :: "string \<Rightarrow> container list \<Rightarrow> container list result" where
  "reorderContainers appName containers =
     reorder_loop appName 0 1 containers (replicate (length containers) container_zero)"

definition imagePullSecrets :: "options \<Rightarrow> string list" where
  "imagePullSecrets cfg = GetImagePullSecrets cfg"

definition hostAliases :: "options \<Rightarrow> (string list \<times> string) list" where
  "hostAliases cfg = map (\<lambda>h. ([ha_host h], ha_address h)) (GetHostAliases cfg)"

abbreviation tmp_mount :: volume_mount where
  "tmp_mount \<equiv> \<lparr>vm_name = ''writable-tmp'', vm_mount_path = ''/tmp'', vm_sub_path = [], vm_read_only = False\<rparr>"

definition CreateSpec ::
  "ast \<Rightarrow> options \<Rightarrow> string \<Rightarrow> gomap \<Rightarrow> string \<Rightarrow> int option \<Rightarrow> pod_spec result" where
  "CreateSpec a cfg appName annotations restartPolicy terminationGracePeriodSeconds =
     (if length (ast_containers a) = 0 then Inr pod_spec_zero
      else rbind (reorderContainers appName (ast_containers a)) (\<lambda>containers.
        let volumes = ast_volumes a @ [\<lparr>vol_name = ''writable-tmp'', vol_source = EmptyDirVolume []\<rparr>];
            main = (containers ! 0)\<lparr>c_volume_mounts := c_volume_mounts (containers ! 0) @ [tmp_mount]\<rparr>;
            tolerations = SetupTolerations cfg (c_image main);
            affinity = ConfigureAffinity appName tolerations
        in Inr \<lparr>pod_init_containers = ast_init_containers a,
             pod_containers = containers[0 := main\<lparr>c_security_context := Some (configureSecurityContext annotations)\<rparr>],
             pod_service_account = appName,
             pod_restart_policy = restartPolicy,
             pod_dns_policy = ''ClusterFirst'',
             pod_volumes = volumes,
             pod_image_pull_secrets = imagePullSecrets cfg,
             pod_termination_grace = terminationGracePeriodSeconds,
             pod_affinity = Some affinity,
             pod_tolerations = tolerations,
             pod_security_context = Some \<lparr>ps_fs_group = 1069,
               ps_fs_group_change_policy = ''OnRootMismatch'', ps_seccomp = ''RuntimeDefault''\<rparr>,
             pod_host_aliases = (if length (GetHostAliases cfg) > 0 then hostAliases cfg else [])\<rparr>))"

section \<open>The main container\<close>

definition MustParse :: "liberator \<Rightarrow> string \<Rightarrow> quantity result" where
  "MustParse lib s = (case lib_ParseQuantity lib s of
     None \<Rightarrow> Inl (go_panic (''cannot parse '' @ s)) | Some q \<Rightarrow> Inr q)"

definition resource_list :: "liberator \<Rightarrow> resource_spec option \<Rightarrow> (string \<rightharpoonup> quantity) result" where
  "resource_list lib r = (case r of
     None \<Rightarrow> Inr Map.empty
   | Some spec \<Rightarrow> rbind (MustParse lib (rs_memory spec)) (\<lambda>memory.
       if length (rs_cpu spec) > 0
       then rbind (MustParse lib (rs_cpu spec)) (\<lambda>cpu. Inr [''memory'' \<mapsto> memory, ''cpu'' \<mapsto> cpu])
       else Inr [''memory'' \<mapsto> memory]))"

definition ResourceLimits :: "liberator \<Rightarrow> nais_resources \<Rightarrow> resource_requirements result" where
  "ResourceLimits lib reqs =
     rbind (resource_list lib (nr_limits reqs)) (\<lambda>limits.
       rbind (resource_list lib (nr_requests reqs)) (\<lambda>requests.
         Inr \<lparr>rr_requests = requests, rr_limits = limits\<rparr>))"

definition AppClientID :: "source \<Rightarrow> string \<Rightarrow> string" where
  "AppClientID s cluster = cluster @ '':'' @ src_namespace s @ '':'' @ src_name s"

definition defaultPreStopHook :: handler where
  "defaultPreStopHook = SleepAction 5"

definition lifecycle :: "liberator \<Rightarrow> string \<Rightarrow> pre_stop_hook option \<Rightarrow> handler result" where
  "lifecycle lib preStopHookPath preStopHook =
     (if length preStopHookPath > 0 \<and> preStopHook \<noteq> None
      then Inl (errorf ''can only use one of spec.preStopHookPath or spec.preStopHook'')
      else if length preStopHookPath > 0
      then Inr (HTTPGet (TrimLeft preStopHookPath ''/'') (StrVal (lib_DefaultPortName lib)))
      else case preStopHook of
        None \<Rightarrow> Inr defaultPreStopHook
      | Some hook \<Rightarrow>
         (case (psh_exec hook, psh_http hook) of
            (Some _, Some _) \<Rightarrow> Inl (errorf ''can only use one type of preStopHook, either exec or http'')
          | (Some command, None) \<Rightarrow> Inr (ExecAction command)
          | (None, None) \<Rightarrow> Inl (go_panic ''nil pointer dereference'')
          | (None, Some (path, port)) \<Rightarrow>
              Inr (HTTPGet path (case port of None \<Rightarrow> StrVal (lib_DefaultPortName lib)
                                            | Some p \<Rightarrow> IntVal (to_int32 p)))))"

definition leadingSlash :: "string \<Rightarrow> string" where
  "leadingSlash s = (if HasPrefix s ''/'' then s else ''/'' @ s)"

definition probe :: "int \<Rightarrow> nais_probe \<Rightarrow> probe_spec" where
  "probe appPort p =
     (let port = (if prb_port p = 0 then appPort else prb_port p)
      in \<lparr>pr_handler = HTTPGet (leadingSlash (prb_path p)) (IntVal (to_int32 port)),
          pr_initial_delay = to_int32 (prb_initial_delay p),
          pr_period = to_int32 (prb_period p),
          pr_failure_threshold = to_int32 (prb_failure_threshold p),
          pr_timeout = to_int32 (prb_timeout p)\<rparr>)"

definition optional_probe :: "int \<Rightarrow> nais_probe option \<Rightarrow> probe_spec option" where
  "optional_probe appPort p = (case p of
     None \<Rightarrow> None | Some q \<Rightarrow> if length (prb_path q) > 0 then Some (probe appPort q) else None)"

abbreviation value_env :: "string \<Rightarrow> string \<Rightarrow> env_var" where
  "value_env n v \<equiv> \<lparr>ev_name = n, ev_value = v, ev_value_from = None\<rparr>"

definition defaultEnvVars :: "source \<Rightarrow> options \<Rightarrow> string \<Rightarrow> env_var list" where
  "defaultEnvVars s cfg appImage =
     (let port = (if ws_port (src_spec s) = 0 then ''8080'' else Itoa (ws_port (src_spec s)))
      in [value_env ''NAIS_APP_NAME'' (src_name s),
          value_env ''NAIS_NAMESPACE'' (src_namespace s),
          value_env ''NAIS_APP_IMAGE'' appImage,
          value_env ''NAIS_CLUSTER_NAME'' (GetClusterName cfg),
          value_env ''NAIS_CLIENT_ID'' (AppClientID s (GetClusterName cfg)),
          \<lparr>ev_name = ''NAIS_POD_NAME'', ev_value = [], ev_value_from = Some (FieldRef ''metadata.name'')\<rparr>,
          value_env ''LOG4J_FORMAT_MSG_NO_LOOKUPS'' ''true'',
          value_env ''PORT'' port,
          value_env ''BIND_ADDRESS'' (''0.0.0.0:'' @ port)]
       @ (if length (GetGoogleTeamProjectID cfg) > 0
          then [value_env ''GOOGLE_CLOUD_PROJECT'' (GetGoogleTeamProjectID cfg),
                value_env ''GCP_TEAM_PROJECT_ID'' (GetGoogleTeamProjectID cfg)]
          else []))"

definition CreateContainerEnvVars :: "liberator \<Rightarrow> source \<Rightarrow> options \<Rightarrow> ast \<Rightarrow> ast" where
  "CreateContainerEnvVars lib app cfg a =
     a\<lparr>ast_env := (ast_env a @ defaultEnvVars app cfg (lib_GetEffectiveImage lib app)) @ ws_env (src_spec app)\<rparr>"

definition container_ports :: "liberator \<Rightarrow> source \<Rightarrow> options \<Rightarrow> container_port list result" where
  "container_ports lib app cfg =
     (let spec = src_spec app;
          http = \<lparr>cp_name = lib_DefaultPortName lib, cp_port = to_int32 (ws_port spec), cp_protocol = ''TCP''\<rparr>
      in if IsPrometheusOperatorEnabled cfg \<and> ws_prometheus_port spec \<noteq> []
         then (case ParseInt 32 (ws_prometheus_port spec) of
                 None \<Rightarrow> Inl (errorf ''invalid port provided, unable to convert to int32'')
               | Some promPort \<Rightarrow>
                   if promPort \<noteq> 0 \<and> promPort \<noteq> ws_port spec
                   then Inr [http, \<lparr>cp_name = ''metrics'', cp_port = to_int32 promPort, cp_protocol = ''TCP''\<rparr>]
                   else Inr [http])
         else Inr [http])"

definition CreateAppContainer :: "liberator \<Rightarrow> source \<Rightarrow> options \<Rightarrow> ast \<Rightarrow> ast result" where
  "CreateAppContainer lib app cfg a0 =
     (let spec = src_spec app;
          a = envFrom (ws_env_from spec) (filesFrom lib (ws_files_from spec) a0)
      in rbind (lifecycle lib (ws_pre_stop_hook_path spec) (ws_pre_stop_hook spec)) (\<lambda>hook.
         rbind (container_ports lib app cfg) (\<lambda>ports.
         rbind (ResourceLimits lib (ws_resources spec)) (\<lambda>limits.
           Inr (a\<lparr>ast_containers := ast_containers a @ [container_zero
             \<lparr>c_name := src_name app,
              c_image := lib_GetEffectiveImage lib app,
              c_ports := ports,
              c_command := ws_command spec,
              c_resources := limits,
              c_pull_policy := ''IfNotPresent'',
              c_lifecycle := Some hook,
              c_env := ast_env a,
              c_env_from := ast_env_from a,
              c_volume_mounts := ast_volume_mounts a,
              c_liveness := optional_probe (ws_port spec) (ws_liveness spec),
              c_readiness := optional_probe (ws_port spec) (ws_readiness spec),
              c_startup := optional_probe (ws_port spec) (ws_startup spec)\<rparr>]\<rparr>)))))"

definition CreateNaisjobContainer :: "liberator \<Rightarrow> source \<Rightarrow> options \<Rightarrow> ast \<Rightarrow> ast result" where
  "CreateNaisjobContainer lib naisjob cfg a0 =
     (let spec = src_spec naisjob;
          a = envFrom (ws_env_from spec) (filesFrom lib (ws_files_from spec) a0)
      in rbind (lifecycle lib [] (ws_pre_stop_hook spec)) (\<lambda>hook.
         rbind (ResourceLimits lib (ws_resources spec)) (\<lambda>limits.
           Inr (a\<lparr>ast_containers := ast_containers a @ [container_zero
             \<lparr>c_name := src_name naisjob,
              c_image := lib_GetEffectiveImage lib naisjob,
              c_command := ws_command spec,
              c_resources := limits,
              c_pull_policy := ''IfNotPresent'',
              c_lifecycle := Some hook,
              c_env := ast_env a,
              c_env_from := ast_env_from a,
              c_volume_mounts := ast_volume_mounts a\<rparr>]\<rparr>))))"

section \<open>Metadata of the pod\<close>

text \<open>The annotations of the object are those of the \<open>Ast\<close>, the same map.\<close>

definition CreateAppObjectMeta :: "liberator \<Rightarrow> source \<Rightarrow> options \<Rightarrow> ast \<Rightarrow> object_meta \<times> ast" where
  "CreateAppObjectMeta lib app cfg a =
     (let spec = src_spec app; meta = CreateObjectMeta lib app;
          port = (if length (ws_prometheus_port spec) = 0 then Itoa (ws_port spec)
                  else ws_prometheus_port spec);
          anno1 = (ast_annotations a)(''kubectl.kubernetes.io/default-container'' \<mapsto> src_name app);
          anno2 = (if IsGCPEnabled cfg
                   then anno1(''cluster-autoscaler.kubernetes.io/safe-to-evict'' \<mapsto> ''true'') else anno1);
          anno3 = (if ws_prometheus_enabled spec
                   then anno2(''prometheus.io/scrape'' \<mapsto> ''true'', ''prometheus.io/port'' \<mapsto> port,
                          ''prometheus.io/path'' \<mapsto> ws_prometheus_path spec)
                   else anno2)
      in (meta\<lparr>om_labels := gm_copy (om_labels meta) (Some (ast_labels a)), om_annotations := Some anno3\<rparr>,
          a\<lparr>ast_annotations := anno3\<rparr>))"

definition CreateNaisjobObjectMeta :: "liberator \<Rightarrow> source \<Rightarrow> options \<Rightarrow> ast \<Rightarrow> object_meta \<times> ast" where
  "CreateNaisjobObjectMeta lib naisjob cfg a =
     (let meta = CreateObjectMeta lib naisjob;
          anno = (ast_annotations a)(''kubectl.kubernetes.io/default-container'' \<mapsto> src_name naisjob)
      in (meta\<lparr>om_labels := gm_set ''nais.io/naisjob'' ''true''
                 (gm_copy (om_labels meta) (Some (ast_labels a))),
               om_annotations := Some anno\<rparr>,
          a\<lparr>ast_annotations := anno\<rparr>))"

section \<open>Lemmas\<close>

text \<open>Before the main container has been seen, the containers move up by one place.\<close>

lemma reorder_loop_before:
  assumes "\<forall>c \<in> set cs. c_name c \<noteq> appName" and "length cs \<le> length ys"
  shows "reorder_loop appName (length pre) 1 (cs @ rest) (x # pre @ ys) =
      reorder_loop appName (length pre + length cs) 1 rest (x # pre @ cs @ drop (length cs) ys)"
  using assms
proof (induction cs arbitrary: pre ys)
  case (Cons c cs)
  from Cons.prems(2) obtain y ys' where ys: "ys = y # ys'" by (cases ys) auto
  have "reorder_loop appName (length pre) 1 ((c # cs) @ rest) (x # pre @ ys) =
      reorder_loop appName (length (pre @ [c])) 1 (cs @ rest) (x # (pre @ [c]) @ ys')"
    using Cons.prems(1) by (simp add: ys list_update_append)
  also have "\<dots> = reorder_loop appName (length (pre @ [c]) + length cs) 1 rest
      (x # (pre @ [c]) @ cs @ drop (length cs) ys')"
    using Cons.prems by (intro Cons.IH) (auto simp: ys)
  finally show ?case by (simp add: ys)
qed simp

text \<open>After it, they stay where they are.\<close>

lemma reorder_loop_after:
  assumes "\<forall>c \<in> set cs. c_name c \<noteq> appName" and "length cs \<le> length ys"
  shows "reorder_loop appName (length pre + 1) 0 cs (x # pre @ ys) =
      Inr (x # pre @ cs @ drop (length cs) ys)"
  using assms
proof (induction cs arbitrary: pre ys)
  case (Cons c cs)
  from Cons.prems(2) obtain y ys' where ys: "ys = y # ys'" by (cases ys) auto
  have "reorder_loop appName (length pre + 1) 0 (c # cs) (x # pre @ ys) =
      reorder_loop appName (length (pre @ [c]) + 1) 0 cs (x # (pre @ [c]) @ ys')"
    using Cons.prems(1) by (simp add: ys list_update_append)
  also have "\<dots> = Inr (x # (pre @ [c]) @ cs @ drop (length cs) ys')"
    using Cons.prems by (intro Cons.IH) (auto simp: ys)
  finally show ?case by (simp add: ys)
qed simp

lemma reorderContainers_unique:
  assumes "\<forall>x \<in> set (pre @ post). c_name x \<noteq> appName" and "c_name c = appName"
  shows "reorderContainers appName (pre @ c # post) = Inr (c # pre @ post)"
proof -
  let ?z = container_zero and ?ys = "replicate (length pre + length post) container_zero"
  have "reorderContainers appName (pre @ c # post) =
      reorder_loop appName (length ([] :: container list)) 1 (pre @ c # post) (?z # [] @ ?ys)"
    by (simp add: reorderContainers_def)
  also have "\<dots> = reorder_loop appName (length pre) 1 (c # post) (?z # pre @ replicate (length post) ?z)"
    using reorder_loop_before[of pre appName ?ys "[]" "c # post" ?z] assms(1) by simp
  also have "\<dots> = reorder_loop appName (length pre + 1) 0 post (c # pre @ replicate (length post) ?z)"
    using assms(2) by simp
  also have "\<dots> = Inr (c # pre @ post)"
    using reorder_loop_after[of post appName "replicate (length post) ?z" pre c] assms(1) by simp
  finally show ?thesis .
qed

lemma reorderContainers_missing:
  assumes "\<forall>x \<in> set cs. c_name x \<noteq> appName" and "cs \<noteq> []"
  shows "\<exists>e. reorderContainers appName cs = Inl e \<and> IsPanic e"
proof -
  obtain init x where cs: "cs = init @ [x]" using assms(2) by (cases cs rule: rev_cases) auto
  let ?z = container_zero and ?ys = "replicate (length init) container_zero"
  have "reorderContainers appName cs =
      reorder_loop appName (length ([] :: container list)) 1 (init @ [x]) (?z # [] @ ?ys)"
    by (simp add: reorderContainers_def cs)
  also have "\<dots> = reorder_loop appName (length init) 1 [x] (?z # init)"
    using reorder_loop_before[of init appName ?ys "[]" "[x]" ?z] assms(1) by (simp add: cs)
  finally show ?thesis using assms(1) by (simp add: cs IsPanic_def go_panic_def)
qed

text \<open>The names that the counters have used up.\<close>

definition used_names :: "nat \<Rightarrow> nat \<Rightarrow> nat \<Rightarrow> nat \<Rightarrow> string set" where
  "used_names c s p e = (\<lambda>i. ''config-'' @ Itoa (int i)) ` {1..c} \<union> (\<lambda>i. ''secret-'' @ Itoa (int i)) ` {1..s}
     \<union> (\<lambda>i. ''pvc-'' @ Itoa (int i)) ` {1..p} \<union> (\<lambda>i. ''emptydir-'' @ Itoa (int i)) ` {1..e}"

lemma used_names_fresh:
  "''config-'' @ Itoa (int (c + 1)) \<notin> used_names c s p e"
  "''secret-'' @ Itoa (int (s + 1)) \<notin> used_names c s p e"
  "''pvc-'' @ Itoa (int (p + 1)) \<notin> used_names c s p e"
  "''emptydir-'' @ Itoa (int (e + 1)) \<notin> used_names c s p e"
  by (auto simp: used_names_def Itoa_inj)

lemma used_names_Suc:
  "used_names (c + 1) s p e = insert (''config-'' @ Itoa (int (c + 1))) (used_names c s p e)"
  "used_names c (s + 1) p e = insert (''secret-'' @ Itoa (int (s + 1))) (used_names c s p e)"
  "used_names c s (p + 1) e = insert (''pvc-'' @ Itoa (int (p + 1))) (used_names c s p e)"
  "used_names c s p (e + 1) = insert (''emptydir-'' @ Itoa (int (e + 1))) (used_names c s p e)"
  by (auto simp: used_names_def atLeastAtMostSuc_conv)

definition named_volumes :: "ast \<Rightarrow> string set \<Rightarrow> bool" where
  "named_volumes a names \<longleftrightarrow> distinct (map vol_name (ast_volumes a)) \<and> vol_name ` set (ast_volumes a) \<subseteq> names
     \<and> map vm_name (ast_volume_mounts a) = map vol_name (ast_volumes a)"

lemma named_volumes_add:
  assumes "vol_name v = n" and "vm_name vm = n" and "n \<notin> names" and "named_volumes a names"
  shows "named_volumes (add_volume v vm a) (insert n names)"
  using assms by (auto simp: named_volumes_def add_volume_def)

lemma volume_names [simp]:
  "vol_name (fromFilesConfigmapVolume n x) = n" "vol_name (FromFilesSecretVolume n x items) = n"
  "vol_name (FromFilesPVCVolume n x) = n" "vol_name (FilesFromEmptyDir lib n x) = n"
  "vm_name (FromFilesVolumeMount n mp d ro) = n"
  by (simp_all add: fromFilesConfigmapVolume_def FromFilesSecretVolume_def
      FromFilesSecretVolumeWithMode_def FromFilesPVCVolume_def FilesFromEmptyDir_def FromFilesVolumeMount_def)

lemma filesFrom_loop_named:
  "named_volumes a (used_names c s p e) \<Longrightarrow> \<exists>names. named_volumes (filesFrom_loop lib files c s p e a) names"
proof (induction files arbitrary: c s p e a)
  case (Cons f files)
  note add = named_volumes_add[OF _ _ _ Cons.prems]
  consider (cm) "length (ff_config_map f) > 0"
    | (sec) "\<not> length (ff_config_map f) > 0" "length (ff_secret f) > 0"
    | (pvc) "\<not> length (ff_config_map f) > 0" "\<not> length (ff_secret f) > 0" "length (ff_pvc f) > 0"
    | (dir) "\<not> length (ff_config_map f) > 0" "\<not> length (ff_secret f) > 0" "\<not> length (ff_pvc f) > 0"
    by blast
  then show ?case
  proof cases
    case cm
    show ?thesis unfolding filesFrom_loop.simps Let_def if_P[OF cm]
      by (rule Cons.IH, unfold used_names_Suc, rule add[OF _ _ used_names_fresh(1)]) simp_all
  next
    case sec
    show ?thesis unfolding filesFrom_loop.simps Let_def if_not_P[OF sec(1)] if_P[OF sec(2)]
      by (rule Cons.IH, unfold used_names_Suc, rule add[OF _ _ used_names_fresh(2)]) simp_all
  next
    case pvc
    show ?thesis
      unfolding filesFrom_loop.simps Let_def if_not_P[OF pvc(1)] if_not_P[OF pvc(2)] if_P[OF pvc(3)]
      by (rule Cons.IH, unfold used_names_Suc, rule add[OF _ _ used_names_fresh(3)]) simp_all
  next
    case dir
    have "\<exists>names. named_volumes (filesFrom_loop lib files c s p (e + 1)
        (add_volume (FilesFromEmptyDir lib (''emptydir-'' @ Itoa (int (e + 1))) medium)
          (FromFilesVolumeMount (''emptydir-'' @ Itoa (int (e + 1))) (ff_mount_path f) (ff_mount_path f) False) a))
        names" for medium
      by (rule Cons.IH, unfold used_names_Suc, rule add[OF _ _ used_names_fresh(4)]) simp_all
    with Cons.IH[OF Cons.prems] show ?thesis
      unfolding filesFrom_loop.simps Let_def if_not_P[OF dir(1)] if_not_P[OF dir(2)] if_not_P[OF dir(3)]
      by (simp split: option.splits)
  qed
qed auto

lemma filesFrom_loop_names:
  assumes "named_volumes a (used_names c s p e)"
  shows "distinct (map vol_name (ast_volumes (filesFrom_loop lib files c s p e a)))
    \<and> map vm_name (ast_volume_mounts (filesFrom_loop lib files c s p e a)) =
        map vol_name (ast_volumes (filesFrom_loop lib files c s p e a))"
  using filesFrom_loop_named[OF assms] by (auto simp: named_volumes_def)

text \<open>A pre-stop hook with neither a command nor a request makes the generator dereference nil.\<close>

lemma lifecycle_empty_hook_panics:
  "\<exists>err. lifecycle lib [] (Some \<lparr>psh_exec = None, psh_http = None\<rparr>) = Inl err \<and> IsPanic err"
  by (simp add: lifecycle_def IsPanic_def go_panic_def)

section \<open>Properties\<close>

text \<open>\<open>reorderContainers\<close> puts the main container first and keeps the other containers in their order,
  when exactly one container has the name of the application; when none has, it panics.\<close>

lemma reorderContainers_main_first:
  "(\<forall>pre c post. (\<forall>x \<in> set (pre @ post). c_name x \<noteq> appName) \<and> c_name c = appName \<longrightarrow>
      reorderContainers appName (pre @ c # post) = Inr (c # pre @ post))
   \<and> (\<forall>cs. (\<forall>x \<in> set cs. c_name x \<noteq> appName) \<and> cs \<noteq> [] \<longrightarrow>
      (\<exists>e. reorderContainers appName cs = Inl e \<and> IsPanic e))"
  using reorderContainers_unique reorderContainers_missing by blast

text \<open>The pod specification of a workload: its first container is the main container, which always
  runs unprivileged, without privilege escalation, as non-root, with all capabilities dropped and the
  runtime's seccomp profile, whatever the annotations say; it is otherwise the container of the \<open>Ast\<close> with
  a writable \<open>/tmp\<close> added. The sidecars follow unchanged and in order, and every container of the \<open>Ast\<close> is there.\<close>

lemma CreateSpec_secure:
  assumes "ast_containers a = pre @ c # post" and "c_name c = appName"
    and "\<forall>x \<in> set (pre @ post). c_name x \<noteq> appName"
    and "CreateSpec a cfg appName annotations policy grace = Inr spec"
  shows "\<exists>sc. pod_containers spec = c\<lparr>c_volume_mounts := c_volume_mounts c @ [tmp_mount],
        c_security_context := Some sc\<rparr> # pre @ post
    \<and> \<not> sc_privileged sc \<and> \<not> sc_allow_privilege_escalation sc \<and> sc_run_as_non_root sc
    \<and> sc_drop sc = [''ALL''] \<and> sc_seccomp sc = ''RuntimeDefault''
    \<and> vm_name tmp_mount \<in> vol_name ` set (pod_volumes spec)"
  using assms(4) reorderContainers_unique[OF assms(3,2)]
  by (auto simp: CreateSpec_def assms(1) result_simps Let_def configureSecurityContext_def
      DefaultContainerSecurityContext_def)

text \<open>The volumes that \<open>filesFrom\<close> makes have distinct names, and the mounts of the container refer to
  exactly these volumes, one each, in the same order.\<close>

lemma filesFrom_distinct:
  assumes "ast_volumes a = []" and "ast_volume_mounts a = []"
  shows "distinct (map vol_name (ast_volumes (filesFrom lib files a)))
    \<and> map vm_name (ast_volume_mounts (filesFrom lib files a)) =
        map vol_name (ast_volumes (filesFrom lib files a))"
  using filesFrom_loop_names[of a 0 0 0 0 lib files] assms by (simp add: filesFrom_def named_volumes_def)

end
