(* ===== verification/Workloads.thy ===== *)
theory Workloads
  imports Pod
begin

text \<open>
  The creators of the workload resources (src/pkg/resourcecreator: deployment, batch, service,
  serviceaccount, horizontalpodautoscaler, poddisruptionbudget, podmonitor, secret), and
  \<open>wonderwall.IsEnabled\<close>, on which the Service depends. Every \<open>Create\<close> is a function from an \<open>Ast\<close> to
  the extended \<open>Ast\<close>, and an instance of the locale \<open>resource_creator\<close>.
\<close>

section \<open>Deployment\<close>

definition deploymentStrategy :: "liberator \<Rightarrow> source \<Rightarrow> deployment_strategy" where
  "deploymentStrategy lib app =
     (if ws_strategy_type (src_spec app) = lib_StrategyRecreate lib
      then \<lparr>ds_type = ''Recreate'', ds_rolling_update = None\<rparr>
      else let defaults = (IntVal 0, StrVal ''25%'');
               rolling = (case ws_strategy_override (src_spec app) of
                  None \<Rightarrow> defaults
                | Some (maxUnavailable, maxSurge) \<Rightarrow>
                    (case maxUnavailable of None \<Rightarrow> fst defaults | Some v \<Rightarrow> v,
                     case maxSurge of None \<Rightarrow> snd defaults | Some v \<Rightarrow> v))
           in \<lparr>ds_type = ''RollingUpdate'', ds_rolling_update = Some rolling\<rparr>)"

definition deploymentSpec :: "liberator \<Rightarrow> source \<Rightarrow> options \<Rightarrow> ast \<Rightarrow> (deployment_spec \<times> ast) result" where
  "deploymentSpec lib app cfg a =
     rbind (CreateSpec a cfg (src_name app) (om_annotations (src_meta app)) ''Always''
              (ws_termination_grace (src_spec app))) (\<lambda>podSpec.
       case CreateAppObjectMeta lib app cfg a of (meta, a') \<Rightarrow>
         Inr (\<lparr>dep_replicas = Some (GetNumReplicas cfg),
               dep_match_labels = [''app'' \<mapsto> src_name app],
               dep_strategy = deploymentStrategy lib app,
               dep_progress_deadline = Some 300,
               dep_revision_history = Some 3,
               dep_template = \<lparr>pt_meta = meta, pt_spec = podSpec\<rparr>\<rparr>, a'))"

definition with_annotation :: "string \<Rightarrow> string \<Rightarrow> object_meta \<Rightarrow> object_meta" where
  "with_annotation k v m = m\<lparr>om_annotations := gm_set k v (om_annotations m)\<rparr>"

definition copy_change_cause :: "source \<Rightarrow> object_meta \<Rightarrow> object_meta" where
  "copy_change_cause app m = (case gm_map (om_annotations (src_meta app)) ''kubernetes.io/change-cause'' of
     None \<Rightarrow> m | Some val \<Rightarrow> with_annotation ''kubernetes.io/change-cause'' val m)"

definition deployment_status_zero :: deployment_status where
  "deployment_status_zero = \<lparr>dst_updated_replicas = 0, dst_replicas = 0, dst_available_replicas = 0,
     dst_observed_generation = 0\<rparr>"

definition deployment_Create :: "liberator \<Rightarrow> source \<Rightarrow> options \<Rightarrow> ast \<Rightarrow> ast result" where
  "deployment_Create lib app cfg a =
     (case deploymentSpec lib app cfg a of
        Inl e \<Rightarrow> Inl (errorf_w ''create deployment: '' e)
      | Inr (spec, a') \<Rightarrow>
          Inr (AppendOperation OperationCreateOrUpdate
            \<lparr>obj_type_meta = \<lparr>tm_kind = ''Deployment'', tm_api_version = ''apps/v1''\<rparr>,
             obj_meta = with_annotation ''reloader.stakater.com/search'' ''true''
               (copy_change_cause app (CreateObjectMeta lib app)),
             obj_payload = PDeployment spec deployment_status_zero\<rparr> a'))"

section \<open>CronJob and Job\<close>

definition RestartPolicy :: "string \<Rightarrow> string" where
  "RestartPolicy restartPolicy = (if restartPolicy = ''OnFailure'' then ''OnFailure'' else ''Never'')"

definition CreateJobSpec :: "liberator \<Rightarrow> source \<Rightarrow> options \<Rightarrow> ast \<Rightarrow> (job_spec \<times> ast) result" where
  "CreateJobSpec lib naisjob cfg a =
     (let spec = src_spec naisjob
      in rbind (CreateSpec a cfg (src_name naisjob) (om_annotations (src_meta naisjob))
                  (RestartPolicy (ws_restart_policy spec)) (ws_termination_grace spec)) (\<lambda>podSpec.
         case CreateNaisjobObjectMeta lib naisjob cfg a of (meta, a') \<Rightarrow>
           Inr (\<lparr>js_active_deadline = ws_active_deadline spec,
                 js_backoff_limit = ws_backoff_limit spec,
                 js_completions = ws_completions spec,
                 js_completion_mode = ws_completion_mode spec,
                 js_parallelism = ws_parallelism spec,
                 js_template = \<lparr>pt_meta = meta, pt_spec = podSpec\<rparr>,
                 js_ttl = ws_ttl spec\<rparr>, a')))"

definition CreateCronJob :: "liberator \<Rightarrow> source \<Rightarrow> options \<Rightarrow> ast \<Rightarrow> ast result" where
  "CreateCronJob lib naisjob cfg a =
     rbind (CreateJobSpec lib naisjob cfg a) (\<lambda>(jobSpec, a').
       let spec = src_spec naisjob;
           suspend = (ws_schedule spec = []);
           schedule = (if ws_schedule spec = [] then ''0 0 1 1 *'' else ws_schedule spec)
       in Inr (AppendOperation OperationCreateOrUpdate
            \<lparr>obj_type_meta = \<lparr>tm_kind = ''CronJob'', tm_api_version = ''batch/v1''\<rparr>,
             obj_meta = copy_change_cause naisjob (CreateObjectMeta lib naisjob),
             obj_payload = PCronJob \<lparr>cj_time_zone = ws_time_zone spec,
               cj_schedule = schedule,
               cj_job_meta = CreateObjectMeta lib naisjob,
               cj_job_spec = jobSpec,
               cj_suspend = Some suspend,
               cj_successful_history = Some (ws_successful_history spec),
               cj_failed_history = ws_failed_history spec,
               cj_concurrency_policy = ws_concurrency_policy spec\<rparr>\<rparr> a'))"

text \<open>Kubernetes names are ASCII, so a rune is a byte.\<close>

fun truncate_loop :: "string \<Rightarrow> int \<Rightarrow> int \<Rightarrow> string" where
  "truncate_loop [] count mx = []"
| "truncate_loop (c # cs) count mx = c # (if count + 1 \<ge> mx then [] else truncate_loop cs (count + 1) mx)"

definition truncateString :: "string \<Rightarrow> int \<Rightarrow> string" where
  "truncateString str mx = (if int (length str) < mx then str else truncate_loop str 0 mx)"

definition CreateJobFromCronJob :: "k8s_object \<Rightarrow> cronjob_spec \<Rightarrow> k8s_object" where
  "CreateJobFromCronJob cronJob spec =
     (let m = obj_meta cronJob
      in \<lparr>obj_type_meta = \<lparr>tm_kind = ''Job'', tm_api_version = ''batch/v1''\<rparr>,
          obj_meta = object_meta_zero
            \<lparr>om_name := truncateString (om_name m) 48 @ ''-'' @ Itoa (om_generation m),
             om_namespace := om_namespace m,
             om_labels := om_labels m,
             om_annotations := Some [''cronjob.kubernetes.io/instantiate'' \<mapsto> ''manual''],
             om_owner_references := Some
               [\<lparr>or_api_version = tm_api_version (obj_type_meta cronJob),
                 or_kind = tm_kind (obj_type_meta cronJob),
                 or_name = om_name m, or_uid = om_uid m,
                 or_controller = Some True, or_block_owner_deletion = Some True\<rparr>]\<rparr>,
          obj_payload = PJob (cj_job_spec spec)\<rparr>)"

section \<open>Service\<close>

text \<open>\<open>idporten != nil && idporten.Sidecar != nil && idporten.Sidecar.Enabled\<close>, and likewise for Azure.\<close>

definition idporten_sidecar_enabled :: "source \<Rightarrow> bool" where
  "idporten_sidecar_enabled s = (case ws_idporten (src_spec s) of None \<Rightarrow> False
     | Some idp \<Rightarrow> (case idp_sidecar idp of None \<Rightarrow> False | Some sc \<Rightarrow> wws_enabled sc))"

definition azure_sidecar_enabled :: "source \<Rightarrow> bool" where
  "azure_sidecar_enabled s = (case ws_azure (src_spec s) of None \<Rightarrow> False
     | Some az \<Rightarrow> (case az_sidecar az of None \<Rightarrow> False | Some sc \<Rightarrow> wws_enabled sc))"

definition wonderwall_IsEnabled :: "source \<Rightarrow> options \<Rightarrow> bool" where
  "wonderwall_IsEnabled s cfg =
     (let idPortenEnabled = idporten_sidecar_enabled s;
          azureEnabled = azure_sidecar_enabled s;
          loginEnabled = (ws_login (src_spec s) \<noteq> None)
      in IsWonderwallEnabled cfg \<and> (idPortenEnabled \<or> azureEnabled \<or> loginEnabled))"

abbreviation wonderwall_Port :: int where
  "wonderwall_Port \<equiv> 7564"

definition service_Create :: "liberator \<Rightarrow> source \<Rightarrow> options \<Rightarrow> ast \<Rightarrow> ast" where
  "service_Create lib s cfg a =
     (let targetPort = (if wonderwall_IsEnabled s cfg then IntVal wonderwall_Port
                        else StrVal (lib_DefaultPortName lib))
      in AppendOperation OperationCreateOrUpdate
           \<lparr>obj_type_meta = \<lparr>tm_kind = ''Service'', tm_api_version = ''v1''\<rparr>,
            obj_meta = CreateObjectMeta lib s,
            obj_payload = PService \<lparr>svc_type = ''ClusterIP'', svc_cluster_ip = [],
              svc_selector = [''app'' \<mapsto> src_name s],
              svc_port_name = ws_service_protocol (src_spec s), svc_protocol = ''TCP'',
              svc_port = ws_service_port (src_spec s), svc_target_port = targetPort\<rparr>\<rparr> a)"

section \<open>Service account\<close>

definition GcpServiceAccountName :: "string \<Rightarrow> string \<Rightarrow> string" where
  "GcpServiceAccountName name projectId = name @ ''@'' @ projectId @ ''.iam.gserviceaccount.com''"

abbreviation TokenVolumeName :: string where "TokenVolumeName \<equiv> ''nais-token''"
abbreviation TokenMountPath :: string where "TokenMountPath \<equiv> ''/var/run/secrets/nais.io/serviceaccount''"
abbreviation TokenFileName :: string where "TokenFileName \<equiv> ''token''"

definition mountToken :: "ast \<Rightarrow> ast" where
  "mountToken a = AppendEnv [value_env ''NAIS_SERVICE_ACCOUNT_TOKEN_PATH'' (TokenMountPath @ ''/'' @ TokenFileName)]
     (add_volume \<lparr>vol_name = TokenVolumeName, vol_source = TokenVolume TokenFileName ''nais'' 600\<rparr>
       \<lparr>vm_name = TokenVolumeName, vm_mount_path = TokenMountPath, vm_sub_path = [], vm_read_only = True\<rparr> a)"

definition serviceaccount_Create :: "liberator \<Rightarrow> source \<Rightarrow> options \<Rightarrow> ast \<Rightarrow> ast" where
  "serviceaccount_Create lib s cfg a =
     (let meta = CreateObjectMeta lib s;
          meta1 = (if IsGCPEnabled cfg
                   then with_annotation ''iam.gke.io/gcp-service-account''
                          (GcpServiceAccountName (CreateAppNamespaceHash s) (GetGoogleProjectID cfg)) meta
                   else meta)
      in mountToken (AppendOperation OperationCreateIfNotExists
           \<lparr>obj_type_meta = \<lparr>tm_kind = ''ServiceAccount'', tm_api_version = ''v1''\<rparr>,
            obj_meta = meta1, obj_payload = PServiceAccount\<rparr> a))"

section \<open>Autoscaler, disruption budget, monitor, secret\<close>

definition createKafkaMetricSpec :: "string \<times> string \<times> int \<Rightarrow> metric_spec" where
  "createKafkaMetricSpec kafka = (case kafka of (topic, consumerGroup, threshold) \<Rightarrow>
     ExternalAverage ''kafka_consumergroup_group_lag''
       [''topic'' \<mapsto> topic, ''group'' \<mapsto> consumerGroup] threshold)"

definition createCpuMetricSpec :: "int \<Rightarrow> metric_spec" where
  "createCpuMetricSpec percentage = CpuUtilization (to_int32 percentage)"

definition hpa_Create :: "liberator \<Rightarrow> source \<Rightarrow> ast \<Rightarrow> ast" where
  "hpa_Create lib s a =
     (let replicas = ws_replicas (src_spec s)
      in if rep_max replicas \<le> 0 then a
         else if rep_disable_autoscaling replicas \<or> rep_min replicas = rep_max replicas then a
         else let metricSpecs = (case rep_strategy replicas of
                    Some st \<Rightarrow>
                      (case ss_cpu st of Some cpu \<Rightarrow> [createCpuMetricSpec cpu] | None \<Rightarrow> [])
                      @ (case ss_kafka st of Some kafka \<Rightarrow> [createKafkaMetricSpec kafka] | None \<Rightarrow> [])
                  | None \<Rightarrow> [createCpuMetricSpec (rep_cpu_threshold replicas)]);
                  window = (case rep_strategy replicas of
                    Some st \<Rightarrow> if ss_scale_up_window st > 0 then Some (to_int32 (ss_scale_up_window st)) else None
                  | None \<Rightarrow> None)
              in AppendOperation OperationCreateOrUpdate
                   \<lparr>obj_type_meta = \<lparr>tm_kind = ''HorizontalPodAutoscaler'', tm_api_version = ''autoscaling/v2''\<rparr>,
                    obj_meta = CreateObjectMeta lib s,
                    obj_payload = PHorizontalPodAutoscaler \<lparr>hpa_target_kind = ''Deployment'',
                      hpa_target_api_version = ''apps/v1'', hpa_target_name = src_name s,
                      hpa_metrics = metricSpecs, hpa_min = Some (to_int32 (rep_min replicas)),
                      hpa_max = to_int32 (rep_max replicas), hpa_scale_up_window = window\<rparr>\<rparr> a)"

definition pdb_Create :: "liberator \<Rightarrow> source \<Rightarrow> ast \<Rightarrow> ast" where
  "pdb_Create lib s a =
     (let replicas = ws_replicas (src_spec s)
      in if rep_max replicas = 1 \<or> rep_min replicas = 1 then a
         else AppendOperation OperationCreateOrUpdate
           \<lparr>obj_type_meta = \<lparr>tm_kind = ''PodDisruptionBudget'', tm_api_version = ''policy/v1''\<rparr>,
            obj_meta = CreateObjectMeta lib s,
            obj_payload = PPodDisruptionBudget \<lparr>pdb_max_unavailable = Some (IntVal 1),
              pdb_match_labels = [''app'' \<mapsto> src_name s], pdb_unhealthy_policy = Some ''AlwaysAllow''\<rparr>\<rparr> a)"

definition podmonitor_Create :: "liberator \<Rightarrow> source \<Rightarrow> options \<Rightarrow> ast \<Rightarrow> ast" where
  "podmonitor_Create lib s cfg a =
     (let spec = src_spec s
      in if \<not> ws_prometheus_enabled spec \<or> \<not> IsPrometheusOperatorEnabled cfg then a
         else let promPort = ws_prometheus_port spec;
                  port = (if length promPort > 0 \<and> promPort \<noteq> Itoa (ws_port spec) then ''metrics''
                          else lib_DefaultPortName lib)
              in AppendOperation OperationCreateOrUpdate
                   \<lparr>obj_type_meta = \<lparr>tm_kind = ''PodMonitor'', tm_api_version = ''monitoring.coreos.com/v1''\<rparr>,
                    obj_meta = CreateObjectMeta lib s,
                    obj_payload = PPodMonitor \<lparr>pm_job_label = ''app.kubernetes.io/name'',
                      pm_pod_target_labels = [''app'', ''team''], pm_port = port,
                      pm_path = ws_prometheus_path spec, pm_honor_labels = False,
                      pm_match_labels = [''app'' \<mapsto> src_name s]\<rparr>\<rparr> a)"

definition OpaqueSecret :: "object_meta \<Rightarrow> string \<Rightarrow> (string \<rightharpoonup> string) \<Rightarrow> k8s_object" where
  "OpaqueSecret objectMeta secretName secrets =
     \<lparr>obj_type_meta = \<lparr>tm_kind = ''Secret'', tm_api_version = ''v1''\<rparr>,
      obj_meta = objectMeta\<lparr>om_name := secretName\<rparr>, obj_payload = PSecret secrets\<rparr>"

section \<open>The creators keep the contract\<close>

lemma owned_by_same:
  assumes "om_namespace (obj_meta ob) = src_namespace s"
    and "om_labels (obj_meta ob) = om_labels (CreateObjectMeta lib s)"
    and "om_owner_references (obj_meta ob) = om_owner_references (CreateObjectMeta lib s)"
  shows "owned_by lib s ob"
  using assms CreateObjectMeta_simps(3,4)[of lib s] by (simp add: owned_by_def label_def)

lemma meta_steps [simp]:
  "om_namespace (with_annotation k v m) = om_namespace m" "om_labels (with_annotation k v m) = om_labels m"
  "om_owner_references (with_annotation k v m) = om_owner_references m" "om_name (with_annotation k v m) = om_name m"
  "om_namespace (copy_change_cause app m) = om_namespace m" "om_labels (copy_change_cause app m) = om_labels m"
  "om_owner_references (copy_change_cause app m) = om_owner_references m"
  "om_name (copy_change_cause app m) = om_name m"
  by (simp_all add: with_annotation_def copy_change_cause_def split: option.splits)

lemma add_volume_operations [simp]: "ast_operations (add_volume v vm a) = ast_operations a"
  by (simp add: add_volume_def)

lemma CreateAppObjectMeta_operations: "CreateAppObjectMeta lib app cfg a = (m, a') \<Longrightarrow> ast_operations a' = ast_operations a"
  by (auto simp: CreateAppObjectMeta_def Let_def)

lemma CreateNaisjobObjectMeta_operations:
  "CreateNaisjobObjectMeta lib job cfg a = (m, a') \<Longrightarrow> ast_operations a' = ast_operations a"
  by (auto simp: CreateNaisjobObjectMeta_def Let_def)

lemma extends_append:
  "ast_operations a' = ast_operations a \<Longrightarrow> good ob \<Longrightarrow> extends_with good a (AppendOperation t ob a')"
  by (simp add: extends_with_def)

lemma deploymentSpec_operations: "deploymentSpec lib s cfg a = Inr (spec, a') \<Longrightarrow> ast_operations a' = ast_operations a"
  by (cases "CreateAppObjectMeta lib s cfg a")
    (auto simp: deploymentSpec_def result_simps dest: CreateAppObjectMeta_operations)

lemma CreateJobSpec_operations: "CreateJobSpec lib s cfg a = Inr (spec, a') \<Longrightarrow> ast_operations a' = ast_operations a"
  by (cases "CreateNaisjobObjectMeta lib s cfg a")
    (auto simp: CreateJobSpec_def Let_def result_simps dest: CreateNaisjobObjectMeta_operations)

interpretation deployment: resource_creator deployment_Create
proof
  fix lib s cfg a a'
  assume "deployment_Create lib s cfg a = Inr a'"
  then show "extends_with (owned_by lib s) a a'"
    by (auto simp: deployment_Create_def intro!: extends_append owned_by_same
        dest: deploymentSpec_operations split: sum.splits)
qed

interpretation cronjob: resource_creator CreateCronJob
proof
  fix lib s cfg a a'
  assume "CreateCronJob lib s cfg a = Inr a'"
  then show "extends_with (owned_by lib s) a a'"
    by (auto simp: CreateCronJob_def Let_def result_simps intro!: extends_append owned_by_same
        dest: CreateJobSpec_operations)
qed

interpretation service: resource_creator "\<lambda>lib s cfg a. Inr (service_Create lib s cfg a)"
  by unfold_locales (auto simp: service_Create_def Let_def intro!: extends_append owned_by_same)

interpretation serviceaccount: resource_creator "\<lambda>lib s cfg a. Inr (serviceaccount_Create lib s cfg a)"
proof
  fix lib s cfg a a'
  assume "Inr (serviceaccount_Create lib s cfg a) = (Inr a' :: ast result)"
  moreover have "ast_operations (mountToken b) = ast_operations b" for b
    by (simp add: mountToken_def)
  ultimately show "extends_with (owned_by lib s) a a'"
    by (auto simp: serviceaccount_Create_def Let_def extends_with_def intro!: owned_by_same)
qed

interpretation hpa: resource_creator "\<lambda>lib s (cfg :: unit) a. Inr (hpa_Create lib s a)"
  by unfold_locales (auto simp: hpa_Create_def Let_def intro!: extends_append owned_by_same)

interpretation pdb: resource_creator "\<lambda>lib s (cfg :: unit) a. Inr (pdb_Create lib s a)"
  by unfold_locales (auto simp: pdb_Create_def Let_def intro!: extends_append owned_by_same)

interpretation podmonitor: resource_creator "\<lambda>lib s cfg a. Inr (podmonitor_Create lib s cfg a)"
  by unfold_locales (auto simp: podmonitor_Create_def Let_def intro!: extends_append owned_by_same)

section \<open>Lemmas\<close>

lemma truncate_loop_take: "count < mx \<Longrightarrow> truncate_loop str count mx = take (nat (mx - count)) str"
proof (induction str arbitrary: count)
  case (Cons c cs)
  have "nat (mx - count) = Suc (nat (mx - (count + 1)))" using Cons.prems by simp
  with Cons show ?case by (cases "count + 1 < mx") simp_all
qed simp

lemma truncateString_take: "0 < mx \<Longrightarrow> truncateString str mx = take (nat mx) str"
  by (auto simp: truncateString_def truncate_loop_take)

lemma ParseInt_Itoa_eq: "ParseInt bits (Itoa p) = Some q \<Longrightarrow> q = p"
proof (cases "p < 0")
  case False
  obtain c cs where c: "dec_nat (nat p) = c # cs" using dec_nat_digits by (cases "dec_nat (nat p)") auto
  with dec_nat_hd[of "nat p"] have "c \<noteq> CHR ''-''" "c \<noteq> CHR ''+''" by auto
  moreover assume "ParseInt bits (Itoa p) = Some q"
  ultimately show ?thesis
    using False digits_val_dec_nat[of "nat p"] c by (auto simp: ParseInt_def Itoa_def split: if_splits)
qed (auto simp: ParseInt_def Itoa_def digits_val_dec_nat Let_def split: if_splits)

section \<open>Properties\<close>

text \<open>Everything that the workload creators append to the \<open>Ast\<close> belongs to the workload: it is in its
  namespace, carries the labels \<open>app\<close> and \<open>team\<close> by which the synchronizer finds it again, and has the
  workload as its only owner; and no creator drops or reorders operations that are already there.\<close>

lemma workload_creators_owned:
  "(\<forall>a'. deployment_Create lib s cfg a = Inr a' \<longrightarrow> extends_with (owned_by lib s) a a')
   \<and> (\<forall>a'. CreateCronJob lib s cfg a = Inr a' \<longrightarrow> extends_with (owned_by lib s) a a')
   \<and> extends_with (owned_by lib s) a (service_Create lib s cfg a)
   \<and> extends_with (owned_by lib s) a (serviceaccount_Create lib s cfg a)
   \<and> extends_with (owned_by lib s) a (hpa_Create lib s a)
   \<and> extends_with (owned_by lib s) a (pdb_Create lib s a)
   \<and> extends_with (owned_by lib s) a (podmonitor_Create lib s cfg a)"
  by (intro conjI allI impI)
    (erule deployment.create_extends | erule cronjob.create_extends | rule service.create_extends[OF refl]
      serviceaccount.create_extends[OF refl] hpa.create_extends[OF refl] pdb.create_extends[OF refl]
      podmonitor.create_extends[OF refl])+

text \<open>The selectors agree with the pods: when the \<open>Ast\<close> has no \<open>app\<close> label of its own, the pods of the
  generated Deployment carry the labels that its own selector, the Service, the disruption budget and the
  pod monitor select by.\<close>

lemma deployment_selects_own_pods:
  assumes "ast_labels a ''app'' = None" and "deploymentSpec lib s cfg a = Inr (spec, a')"
  shows "dep_match_labels spec \<subseteq>\<^sub>m gm_map (om_labels (pt_meta (dep_template spec)))
    \<and> dep_match_labels spec = [''app'' \<mapsto> src_name s] \<and> om_namespace (pt_meta (dep_template spec)) = src_namespace s"
  using assms
  by (auto simp: deploymentSpec_def result_simps CreateAppObjectMeta_def Let_def map_le_def map_add_def
      CreateObjectMeta_def split: prod.splits option.splits)

text \<open>The Job that the monitor starts for a Naisjob without a schedule: its name has at most 63 characters,
  the limit of a label value, as long as the generation has at most 14 digits; it is in the namespace of
  the CronJob and is owned by it.\<close>

lemma CreateJobFromCronJob_name:
  assumes "0 \<le> om_generation (obj_meta cj)" and "length (Itoa (om_generation (obj_meta cj))) \<le> 14"
  shows "length (om_name (obj_meta (CreateJobFromCronJob cj spec))) \<le> 63
    \<and> om_namespace (obj_meta (CreateJobFromCronJob cj spec)) = om_namespace (obj_meta cj)
    \<and> map or_uid (owner_refs (obj_meta (CreateJobFromCronJob cj spec))) = [om_uid (obj_meta cj)]"
  using assms
  by (simp add: CreateJobFromCronJob_def Let_def truncateString_take owner_refs_def object_meta_zero_def)

text \<open>The names of two Jobs collide when the names of the Naisjobs agree in the first 48 characters.\<close>

lemma job_names_collide:
  assumes "take 48 (om_name (obj_meta cj)) = take 48 (om_name (obj_meta cj'))"
    and "om_generation (obj_meta cj) = om_generation (obj_meta cj')"
  shows "om_name (obj_meta (CreateJobFromCronJob cj spec)) = om_name (obj_meta (CreateJobFromCronJob cj' spec'))"
  using assms by (simp add: CreateJobFromCronJob_def Let_def truncateString_take)

text \<open>The pod monitor scrapes a port that exists: when the Prometheus port of the workload is absent or
  written as a decimal number other than 0 without leading zeros, and the container can be generated, the
  port name in the pod monitor is one of the container's port names.\<close>

lemma podmonitor_port_exists:
  assumes "IsPrometheusOperatorEnabled cfg" and "ws_prometheus_enabled (src_spec s)"
    and "ws_prometheus_port (src_spec s) = [] \<or> (\<exists>p. p \<noteq> 0 \<and> ws_prometheus_port (src_spec s) = Itoa p)"
    and "container_ports lib s cfg = Inr ports"
  shows "\<exists>ob pm. ast_operations (podmonitor_Create lib s cfg a) =
       ast_operations a @ [\<lparr>op_resource = ob, op_operation = OperationCreateOrUpdate\<rparr>]
     \<and> obj_payload ob = PPodMonitor pm \<and> pm_port pm \<in> cp_name ` set ports"
proof (cases "ws_prometheus_port (src_spec s) = []")
  case True
  with assms show ?thesis by (auto simp: podmonitor_Create_def container_ports_def Let_def)
next
  case False
  with assms(3) obtain p where p: "p \<noteq> 0" "ws_prometheus_port (src_spec s) = Itoa p" by blast
  obtain q where q: "ParseInt 32 (Itoa p) = Some q"
    using assms(1,4) False p by (auto simp: container_ports_def Let_def split: option.splits)
  have "q = p" using q by (rule ParseInt_Itoa_eq)
  with assms(1,2,4) p q False show ?thesis
    by (auto simp: podmonitor_Create_def container_ports_def Let_def Itoa_inj split: if_splits)
qed

text \<open>With the port written as \<open>0\<close> the monitor refers to a port that the container does not have.\<close>

lemma podmonitor_port_zero:
  assumes "IsPrometheusOperatorEnabled cfg" and "ws_prometheus_enabled (src_spec s)"
    and "ws_prometheus_port (src_spec s) = ''0''" and "ws_port (src_spec s) = 8080"
    and "lib_DefaultPortName lib = ''http''"
  shows "\<exists>ob pm. last (ast_operations (podmonitor_Create lib s cfg a)) =
       \<lparr>op_resource = ob, op_operation = OperationCreateOrUpdate\<rparr>
     \<and> obj_payload ob = PPodMonitor pm \<and> pm_port pm = ''metrics''
     \<and> container_ports lib s cfg = Inr [\<lparr>cp_name = ''http'', cp_port = 8080, cp_protocol = ''TCP''\<rparr>]"
proof -
  have zero: "''0'' = Itoa 0" by code_simp
  have "Itoa 8080 \<noteq> ''0''" unfolding zero Itoa_inj by simp
  moreover have "ParseInt 32 ''0'' = Some 0" unfolding zero by (rule ParseInt_Itoa) simp_all
  moreover have "to_int32 8080 = 8080" by (rule to_int32_id) (simp add: in_int32_def)
  ultimately
  show ?thesis using assms by (simp add: podmonitor_Create_def container_ports_def Let_def)
qed

end
