(* ===== verification/Monitoring.thy ===== *)
theory Monitoring
  imports Workloads
begin

text \<open>
  What a rollout monitor does (src/pkg/synchronizer/monitoring.go): \<open>monitorRolloutRoutine\<close> polls the
  Deployment or CronJob of the workload until the rollout is complete, starts the Job of a Naisjob
  without a schedule, reports the event \<open>RolloutComplete\<close>, and then stores the state in the status.

  The \<open>select\<close> between the timer and the cancelled context is a list of choices. The result of a check is
  whether to go on; a nil dereference is an error with the reason \<^const>\<open>ReasonPanic\<close>.
\<close>

section \<open>Model\<close>

record completionState =
  cs_eventReported :: bool
  cs_applicationUpdated :: bool

definition completionState_zero :: completionState where
  "completionState_zero = \<lparr>cs_eventReported = False, cs_applicationUpdated = False\<rparr>"

definition saveK8sEvent :: "completionState \<Rightarrow> bool" where
  "saveK8sEvent s \<longleftrightarrow> \<not> cs_eventReported s"

definition setSynchronizationState :: "completionState \<Rightarrow> bool" where
  "setSynchronizationState s \<longleftrightarrow> \<not> cs_applicationUpdated s \<and> cs_eventReported s"

abbreviation RolloutMessageCompleted :: string where
  "RolloutMessageCompleted \<equiv> ''Rollout has completed''"

abbreviation RolloutMessageCronJobCompleted :: string where
  "RolloutMessageCronJobCompleted \<equiv> ''No support for monitoring CronJobs''"

definition setSyncStatus :: "liberator \<Rightarrow> source \<Rightarrow> string \<Rightarrow> source" where
  "setSyncStatus lib app synchronizationState =
     map_status (lib_SetState lib synchronizationState ''Successfully deployed.'') app"

definition store_sync_status :: "('w, 'opt) synchronizer \<Rightarrow> string \<Rightarrow> source \<Rightarrow> 'w \<Rightarrow> error \<times> 'w" where
  "store_sync_status n rolloutStatus app w =
     (case kc_StatusUpdate (sy_client n) (object_of_source (setSyncStatus (sy_lib n) app rolloutStatus)) w of
        (r, w') \<Rightarrow> (err_of r, w'))"

text \<open>The error, the caller's copy of the completion state as it would be at the end, and the next state.\<close>

definition completeRolloutRoutine ::
  "('w, 'opt) synchronizer \<Rightarrow> source \<Rightarrow> completionState \<Rightarrow> string \<Rightarrow> string \<Rightarrow> 'w
     \<Rightarrow> (error \<times> completionState) \<times> 'w" where
  "completeRolloutRoutine n app completion rolloutStatus rolloutMessage w =
     (case (if saveK8sEvent completion
            then (case reportEvent n (CreateEvent (sy_lib n) (ck_now (sy_clock n) w) app
                         rolloutStatus rolloutMessage ''Normal'') w of
                    (r, w') \<Rightarrow> ((err_of r, completion\<lparr>cs_eventReported := (err_of r = None)\<rparr>), w'))
            else ((None, completion), w)) of
        ((Some e, completion1), w1) \<Rightarrow>
          ((Some (errorf_s ''unable to report rollout complete event: '' e), completion1), w1)
      | ((None, completion1), w1) \<Rightarrow>
          if setSynchronizationState completion1
          then (case UpdateResource n app (store_sync_status n rolloutStatus) w1 of
                  (err, w2) \<Rightarrow>
                    ((map_option (errorf_s ''store application sync status: '') err,
                      completion1\<lparr>cs_applicationUpdated := (err = None)\<rparr>), w2))
          else ((None, completion1), w1))"

definition applicationDeploymentComplete :: "int \<Rightarrow> deployment_spec \<Rightarrow> deployment_status \<Rightarrow> bool result" where
  "applicationDeploymentComplete generation spec status = (case dep_replicas spec of
     None \<Rightarrow> Inl (go_panic ''nil pointer dereference'')
   | Some replicas \<Rightarrow> Inr (dst_updated_replicas status = replicas \<and> dst_replicas status = replicas
       \<and> dst_available_replicas status = replicas \<and> dst_observed_generation status \<ge> generation))"

definition monitorApplication ::
  "('w, 'opt) synchronizer \<Rightarrow> source \<Rightarrow> object_key \<Rightarrow> completionState \<Rightarrow> 'w \<Rightarrow> bool result \<times> 'w" where
  "monitorApplication n app objectKey completion w =
     (case kc_Get (sy_client n) TDeployment objectKey w of
        Inl e \<Rightarrow> (Inr True, w)
      | Inr deploy \<Rightarrow>
         (case obj_payload deploy of
            PDeployment spec status \<Rightarrow>
             (case applicationDeploymentComplete (om_generation (obj_meta deploy)) spec status of
                Inl e \<Rightarrow> (Inl e, w)
              | Inr complete \<Rightarrow>
                  if \<not> complete then (Inr True, w)
                  else (case completeRolloutRoutine n app completion
                               (evn_RolloutComplete (lib_events (sy_lib n))) RolloutMessageCompleted w of
                          ((err, _), w') \<Rightarrow> (Inr (err \<noteq> None), w')))
          | _ \<Rightarrow> (Inr True, w)))"

definition monitorNaisjob ::
  "('w, 'opt) synchronizer \<Rightarrow> source \<Rightarrow> object_key \<Rightarrow> completionState \<Rightarrow> 'w \<Rightarrow> bool result \<times> 'w" where
  "monitorNaisjob n app objectKey completion w =
     (case kc_Get (sy_client n) TCronJob objectKey w of
        Inl e \<Rightarrow> (Inr True, w)
      | Inr cronJob \<Rightarrow>
         (case obj_payload cronJob of
            PCronJob spec \<Rightarrow>
             (let (err, w1) =
                (if cj_suspend spec = Some True
                 then (case kc_Create (sy_client n) (CreateJobFromCronJob cronJob spec) w of
                         (r, w') \<Rightarrow> (case err_of r of
                            Some e \<Rightarrow> if IsAlreadyExists e then (None, w') else (Some e, w')
                          | None \<Rightarrow> (None, w')))
                 else (None, w))
              in case err of
                   Some e \<Rightarrow> (Inr True, w1)
                 | None \<Rightarrow> (case completeRolloutRoutine n app completion
                               (evn_RolloutComplete (lib_events (sy_lib n))) RolloutMessageCronJobCompleted w1 of
                          ((err2, _), w2) \<Rightarrow> (Inr (err2 \<noteq> None), w2)))
          | _ \<Rightarrow> (Inr True, w)))"

text \<open>One check; the completion state is passed by value.\<close>

definition monitor_tick ::
  "('w, 'opt) synchronizer \<Rightarrow> source \<Rightarrow> completionState \<Rightarrow> 'w \<Rightarrow> bool result \<times> 'w" where
  "monitor_tick n app completion w =
     (let objectKey = \<lparr>key_namespace = src_namespace app, key_name = src_name app\<rparr>
      in if tm_kind (src_type_meta app) = ''Naisjob'' then monitorNaisjob n app objectKey completion w
         else monitorApplication n app objectKey completion w)"

datatype choice = Timer | Cancelled

text \<open>\<open>None\<close>: the routine is still waiting after the given choices; a panic ends it too.\<close>

fun monitorRolloutRoutine ::
  "('w, 'opt) synchronizer \<Rightarrow> source \<Rightarrow> choice list \<Rightarrow> 'w \<Rightarrow> unit result option \<times> 'w" where
  "monitorRolloutRoutine n app [] w = (None, w)"
| "monitorRolloutRoutine n app (Cancelled # cs) w = (Some (Inr ()), w)"
| "monitorRolloutRoutine n app (Timer # cs) w = (case monitor_tick n app completionState_zero w of
     (Inl e, w') \<Rightarrow> (Some (Inl e), w')
   | (Inr shouldContinue, w') \<Rightarrow>
       if shouldContinue then monitorRolloutRoutine n app cs w' else (Some (Inr ()), w'))"

section \<open>Lemmas\<close>

lemma completeRolloutRoutine_zero:
  "completeRolloutRoutine n app completionState_zero state msg w =
     (case reportEvent n (CreateEvent (sy_lib n) (ck_now (sy_clock n) w) app state msg ''Normal'') w of
        (Inl e, w1) \<Rightarrow> ((Some (errorf_s ''unable to report rollout complete event: '' e),
            \<lparr>cs_eventReported = False, cs_applicationUpdated = False\<rparr>), w1)
      | (Inr ob, w1) \<Rightarrow> (case UpdateResource n app (store_sync_status n state) w1 of
            (err, w2) \<Rightarrow> ((map_option (errorf_s ''store application sync status: '') err,
              \<lparr>cs_eventReported = True, cs_applicationUpdated = (err = None)\<rparr>), w2)))"
  by (auto simp: completeRolloutRoutine_def completionState_zero_def saveK8sEvent_def setSynchronizationState_def
      err_of_def split: prod.splits sum.splits)

lemma completeRolloutRoutine_ok:
  assumes "completeRolloutRoutine n app completionState_zero state msg w = ((None, c), w')"
  obtains ob w1 where
    "reportEvent n (CreateEvent (sy_lib n) (ck_now (sy_clock n) w) app state msg ''Normal'') w = (Inr ob, w1)"
    "UpdateResource n app (store_sync_status n state) w1 = (None, w')"
  using assms by (auto simp: completeRolloutRoutine_zero split: prod.splits sum.splits)

section \<open>Properties\<close>


text \<open>A Naisjob without a schedule is run: for an API server that behaves as documented, if the check of a
  Naisjob whose CronJob is suspended ends the monitoring, then the Job made from the CronJob exists
  when the completion is reported (it was created, or was there already); the CronJob's name must not be empty.\<close>

lemma monitorNaisjob_runs_job:
  assumes "api_create (sy_client n) lk"
    and "kc_Get (sy_client n) TCronJob key w = Inr cronJob" and "obj_payload cronJob = PCronJob spec"
    and "cj_suspend spec = Some True"
    and "monitorNaisjob n app key completionState_zero w = (Inr False, w')"
  shows "\<exists>w1 c. lk w1 (obj_id (CreateJobFromCronJob cronJob spec)) \<noteq> None
    \<and> completeRolloutRoutine n app completionState_zero (evn_RolloutComplete (lib_events (sy_lib n)))
        RolloutMessageCronJobCompleted w1 = ((None, c), w')"
proof -
  let ?job = "CreateJobFromCronJob cronJob spec"
  have name: "om_name (obj_meta ?job) \<noteq> []"
    by (simp add: CreateJobFromCronJob_def Let_def)
  obtain r w1 where cr: "kc_Create (sy_client n) ?job w = (r, w1)" by (cases "kc_Create (sy_client n) ?job w")
  have exists: "lk w1 (obj_id ?job) \<noteq> None" if "\<And>e. r = Inl e \<Longrightarrow> IsAlreadyExists e"
    using api_create_Inr[OF assms(1) _ name, of w] api_create_Inl[OF assms(1) _ name, of w] cr that
    by (cases r) fastforce+
  obtain err c w2 where run: "completeRolloutRoutine n app completionState_zero
      (evn_RolloutComplete (lib_events (sy_lib n))) RolloutMessageCronJobCompleted w1 = ((err, c), w2)"
    by (metis prod.exhaust)
  from assms(2-5) cr run have "\<And>e. r = Inl e \<Longrightarrow> IsAlreadyExists e" "err = None" "w2 = w'"
    by (auto simp: monitorNaisjob_def err_of_def split: sum.splits if_splits)
  with exists run show ?thesis by blast
qed

text \<open>The monitor reports before it stores: the state \<open>RolloutComplete\<close> reaches the status of the workload
  only after the event has been stored in the cluster. When the event cannot be reported, the routine
  fails and the only call made was the report.\<close>

lemma status_only_after_event:
  "case reportEvent n (CreateEvent (sy_lib n) (ck_now (sy_clock n) w) app state msg ''Normal'') w of
     (Inl e, w1) \<Rightarrow> snd (completeRolloutRoutine n app completionState_zero state msg w) = w1
        \<and> (\<exists>err. fst (fst (completeRolloutRoutine n app completionState_zero state msg w)) = Some err)
   | (Inr ev, w1) \<Rightarrow> snd (completeRolloutRoutine n app completionState_zero state msg w) =
        snd (UpdateResource n app (store_sync_status n state) w1)"
  by (auto simp: completeRolloutRoutine_zero split: prod.splits sum.splits)

end
