(* ===== verification/Creators.thy ===== *)
theory Creators
  imports Workloads
begin

text \<open>
  What every resource creator keeps of the \<open>Ast\<close>, as one relation between the \<open>Ast\<close> before and after, so that
  the generators inherit it from their parts: the objects it adds belong to the source, the init containers it
  adds run without privileges, and every volume it mounts is one it declares.
\<close>

named_theorems creator_intros \<open>how a step goes on, backwards from its last change\<close>
named_theorems belongs_intros \<open>objects whose metadata comes from \<open>CreateObjectMeta\<close>\<close>

section \<open>Objects that belong to a source\<close>

text \<open>
  Most objects are owned (\<^const>\<open>owned_by\<close>). An owner reference cannot cross namespaces, so the objects that
  live outside the namespace of the source have none; they are found by their labels.
\<close>

definition belongs_to :: "liberator \<Rightarrow> source \<Rightarrow> k8s_object \<Rightarrow> bool" where
  "belongs_to lib s ob \<longleftrightarrow> label (obj_meta ob) ''app'' = src_name s \<and> label (obj_meta ob) ''team'' = src_namespace s
     \<and> (om_namespace (obj_meta ob) = src_namespace s \<and> om_owner_references (obj_meta ob) = Some [lib_GetOwnerReference lib s]
        \<or> om_namespace (obj_meta ob) \<in> {''serviceaccounts'', ''pg-'' @ src_namespace s}
          \<and> om_owner_references (obj_meta ob) = None)"

lemma owned_belongs: "owned_by lib s ob \<Longrightarrow> belongs_to lib s ob"
  by (simp add: owned_by_def belongs_to_def)

section \<open>Containers\<close>

definition hardened :: "container \<Rightarrow> bool" where
  "hardened c \<longleftrightarrow> (case c_security_context c of None \<Rightarrow> False
     | Some sc \<Rightarrow> \<not> sc_privileged sc \<and> \<not> sc_allow_privilege_escalation sc \<and> sc_run_as_non_root sc
         \<and> sc_drop sc = [''ALL''] \<and> sc_seccomp sc = ''RuntimeDefault'')"

lemma hardened_default [simp]:
  "c_security_context c = Some DefaultContainerSecurityContext \<Longrightarrow> hardened c"
  by (simp add: hardened_def DefaultContainerSecurityContext_def)

definition mounts_within :: "volume_mount list \<Rightarrow> volume list \<Rightarrow> bool" where
  "mounts_within ms vs \<longleftrightarrow> vm_name ` set ms \<subseteq> vol_name ` set vs"

lemma mounts_within_simps [simp]:
  "mounts_within [] vs"
  "mounts_within (ms @ ms') vs \<longleftrightarrow> mounts_within ms vs \<and> mounts_within ms' vs"
  "mounts_within (m # ms) vs \<longleftrightarrow> vm_name m \<in> vol_name ` set vs \<and> mounts_within ms vs"
  by (auto simp: mounts_within_def)

lemma mounts_within_mono: "mounts_within ms vs \<Longrightarrow> mounts_within ms (us @ vs @ ws)"
  by (auto simp: mounts_within_def)

text \<open>What is added to the pod: hardened init containers, and mounts of added volumes only.\<close>

definition pod_extends :: "ast \<Rightarrow> ast \<Rightarrow> bool" where
  "pod_extends a a' \<longleftrightarrow> ast_containers a' = ast_containers a
     \<and> (\<exists>cs vs ms. ast_init_containers a' = ast_init_containers a @ cs
          \<and> ast_volumes a' = ast_volumes a @ vs \<and> ast_volume_mounts a' = ast_volume_mounts a @ ms
          \<and> list_all hardened cs \<and> mounts_within ms vs
          \<and> list_all (\<lambda>c. mounts_within (c_volume_mounts c) vs) cs)"

lemma pod_extendsI:
  assumes "ast_containers a' = ast_containers a" "ast_init_containers a' = ast_init_containers a @ cs"
    "ast_volumes a' = ast_volumes a @ vs" "ast_volume_mounts a' = ast_volume_mounts a @ ms"
    "list_all hardened cs" "mounts_within ms vs" "list_all (\<lambda>c. mounts_within (c_volume_mounts c) vs) cs"
  shows "pod_extends a a'"
  using assms unfolding pod_extends_def by blast

lemma pod_extends_refl [simp, intro]: "pod_extends a a"
  by (rule pod_extendsI[where cs = "[]" and vs = "[]" and ms = "[]"]) simp_all

lemma pod_extends_same:
  "ast_containers a' = ast_containers a \<Longrightarrow> ast_init_containers a' = ast_init_containers a \<Longrightarrow>
   ast_volumes a' = ast_volumes a \<Longrightarrow> ast_volume_mounts a' = ast_volume_mounts a \<Longrightarrow> pod_extends a a'"
  by (rule pod_extendsI[where cs = "[]" and vs = "[]" and ms = "[]"]) simp_all

lemma pod_extends_trans:
  assumes "pod_extends a b" and "pod_extends b c"
  shows "pod_extends a c"
proof -
  from assms(1) obtain cs vs ms where 1: "ast_containers b = ast_containers a"
    "ast_init_containers b = ast_init_containers a @ cs" "ast_volumes b = ast_volumes a @ vs"
    "ast_volume_mounts b = ast_volume_mounts a @ ms" "list_all hardened cs" "mounts_within ms vs"
    "list_all (\<lambda>c. mounts_within (c_volume_mounts c) vs) cs" unfolding pod_extends_def by blast
  from assms(2) obtain cs' vs' ms' where 2: "ast_containers c = ast_containers b"
    "ast_init_containers c = ast_init_containers b @ cs'" "ast_volumes c = ast_volumes b @ vs'"
    "ast_volume_mounts c = ast_volume_mounts b @ ms'" "list_all hardened cs'" "mounts_within ms' vs'"
    "list_all (\<lambda>c. mounts_within (c_volume_mounts c) vs') cs'" unfolding pod_extends_def by blast
  have "mounts_within xs vs \<Longrightarrow> mounts_within xs (vs @ vs')" "mounts_within xs vs' \<Longrightarrow> mounts_within xs (vs @ vs')" for xs
    using mounts_within_mono[of xs vs "[]" vs'] mounts_within_mono[of xs vs' vs "[]"] by auto
  with 1 2 show ?thesis
    by (intro pod_extendsI[where cs = "cs @ cs'" and vs = "vs @ vs'" and ms = "ms @ ms'"])
      (auto simp: list_all_iff)
qed

section \<open>The contract\<close>

definition creator_step :: "liberator \<Rightarrow> source \<Rightarrow> ast \<Rightarrow> ast \<Rightarrow> bool" where
  "creator_step lib s a a' \<longleftrightarrow> extends_with (belongs_to lib s) a a' \<and> pod_extends a a'"

lemma creator_stepI: "extends_with (belongs_to lib s) a a' \<Longrightarrow> pod_extends a a' \<Longrightarrow> creator_step lib s a a'"
  by (simp add: creator_step_def)

lemma creator_step_owned: "extends_with (owned_by lib s) a a' \<Longrightarrow> pod_extends a a' \<Longrightarrow> creator_step lib s a a'"
  by (auto simp: creator_step_def intro: extends_with_mono owned_belongs)

lemma creator_step_refl [simp, intro]: "creator_step lib s a a"
  by (simp add: creator_step_def)

lemma creator_step_trans [trans]:
  "creator_step lib s a b \<Longrightarrow> creator_step lib s b c \<Longrightarrow> creator_step lib s a c"
  by (auto simp: creator_step_def intro: extends_with_trans pod_extends_trans)

lemma creator_step_AppendOperation [intro]:
  "belongs_to lib s ob \<Longrightarrow> creator_step lib s a (AppendOperation t ob a)"
  by (auto intro!: creator_stepI pod_extends_same)

lemma creator_step_same:
  "ast_operations a' = ast_operations a \<Longrightarrow> pod_extends a a' \<Longrightarrow> creator_step lib s a a'"
  by (auto intro: creator_stepI extends_with_same_ops)

text \<open>Loops of creators.\<close>

lemma creator_step_foldM:
  assumes "\<And>x a a'. x \<in> set xs \<Longrightarrow> f x a = Inr a' \<Longrightarrow> creator_step lib s a a'" and "foldM_result f xs a = Inr a'"
  shows "creator_step lib s a a'"
  by (rule foldM_result_invariant[where P = "creator_step lib s a" and f = f and xs = xs])
    (use assms creator_step_trans in blast)+

locale workload_creator =
  fixes create :: "liberator \<Rightarrow> source \<Rightarrow> 'cfg \<Rightarrow> ast \<Rightarrow> ast result"
  assumes create_step: "create lib s cfg a = Inr a' \<Longrightarrow> creator_step lib s a a'"
begin

lemma create_then:
  assumes "creator_step lib s a b" and "create lib s cfg b = Inr c"
  shows "creator_step lib s a c"
  using assms(1) create_step[OF assms(2)] by (rule creator_step_trans)

lemma created_objects_belong:
  assumes "create lib s cfg NewAst = Inr a" and "rop \<in> set (ast_operations a)"
  shows "belongs_to lib s (op_resource rop)"
  using create_step[OF assms(1)] assms(2) by (auto simp: creator_step_def extends_with_def NewAst_def)

end

section \<open>Changes of the pod only\<close>

lemma Env_other_fields [simp]:
  "ast_containers (AppendEnv es a) = ast_containers a" "ast_containers (PrependEnv es a) = ast_containers a"
  "ast_init_containers (AppendEnv es a) = ast_init_containers a"
  "ast_init_containers (PrependEnv es a) = ast_init_containers a"
  "ast_volumes (AppendEnv es a) = ast_volumes a" "ast_volumes (PrependEnv es a) = ast_volumes a"
  "ast_volume_mounts (AppendEnv es a) = ast_volume_mounts a"
  "ast_volume_mounts (PrependEnv es a) = ast_volume_mounts a"
  by (simp_all add: AppendEnv_def PrependEnv_def)

lemma pod_extends_env [simp, intro]:
  "pod_extends a (AppendEnv vs a)" "pod_extends a (PrependEnv vs a)" "pod_extends a (AppendOperation t ob a)"
  "pod_extends a (a\<lparr>ast_labels := ls\<rparr>)" "pod_extends a (a\<lparr>ast_env_from := fs\<rparr>)" "pod_extends a (a\<lparr>ast_env := es\<rparr>)"
  "pod_extends a (a\<lparr>ast_annotations := as\<rparr>)"
  by (rule pod_extends_same; simp)+

lemma pod_extends_add_volume: "vm_name m = vol_name v \<Longrightarrow> pod_extends a (add_volume v m a)"
  by (rule pod_extendsI[where cs = "[]" and vs = "[v]" and ms = "[m]"]) (simp_all add: add_volume_def)

lemma creator_step_WithAdditionalSecret [intro]: "creator_step lib s a (WithAdditionalSecret name path a)"
  by (auto simp: WithAdditionalSecret_def intro!: creator_step_same pod_extends_add_volume)

lemma creator_step_WithAdditionalEnvFromSecret [intro]:
  "creator_step lib s a (WithAdditionalEnvFromSecret name a)"
  by (rule creator_step_same) (simp_all add: WithAdditionalEnvFromSecret_def)

text \<open>The same steps as rules that peel off the last change of the \<open>Ast\<close>.\<close>

lemma creator_step_then [creator_intros]:
  assumes "creator_step lib s a b"
  shows "creator_step lib s a (b\<lparr>ast_labels := ls\<rparr>)" "creator_step lib s a (b\<lparr>ast_env := es\<rparr>)"
    "creator_step lib s a (b\<lparr>ast_env_from := fs\<rparr>)" "creator_step lib s a (b\<lparr>ast_annotations := as\<rparr>)"
    "creator_step lib s a (AppendEnv es b)" "creator_step lib s a (PrependEnv es b)"
    "creator_step lib s a (WithAdditionalSecret name path b)"
    "creator_step lib s a (WithAdditionalEnvFromSecret name b)"
  using assms by (rule creator_step_trans; auto intro: creator_step_same)+

lemma creator_step_then_operation [creator_intros]:
  "creator_step lib s a b \<Longrightarrow> belongs_to lib s ob \<Longrightarrow> creator_step lib s a (AppendOperation t ob b)"
  by (rule creator_step_trans) auto

lemma creator_step_then_volume [creator_intros]:
  "creator_step lib s a b \<Longrightarrow> vm_name m = vol_name v \<Longrightarrow> creator_step lib s a (add_volume v m b)"
  by (rule creator_step_trans) (auto intro: creator_step_same pod_extends_add_volume)

lemma belongs_to_renamed [belongs_intros]:
  "obj_meta ob = (CreateObjectMeta lib s)\<lparr>om_name := n\<rparr> \<Longrightarrow> belongs_to lib s ob"
  using CreateObjectMeta_simps[of lib s] by (simp add: belongs_to_def label_def)

lemma belongs_to_meta [belongs_intros]: "obj_meta ob = CreateObjectMeta lib s \<Longrightarrow> belongs_to lib s ob"
  by (rule owned_belongs[OF owned_by_CreateObjectMeta])

section \<open>The creators of the workload\<close>

lemma mountToken_step: "creator_step lib s a (mountToken a)"
proof (rule creator_step_same)
  show "pod_extends a (mountToken a)" unfolding mountToken_def
    by (rule pod_extends_trans[OF pod_extends_add_volume pod_extends_env(1)]) simp
qed (simp add: mountToken_def)

lemma service_pod: "pod_extends a (service_Create lib s cfg a)"
  by (simp add: service_Create_def Let_def)

lemma hpa_pod: "pod_extends a (hpa_Create lib s a)"
  by (simp add: hpa_Create_def Let_def)

lemma pdb_pod: "pod_extends a (pdb_Create lib s a)"
  by (simp add: pdb_Create_def Let_def)

lemma podmonitor_pod: "pod_extends a (podmonitor_Create lib s cfg a)"
  by (simp add: podmonitor_Create_def Let_def)

lemma serviceaccount_pod: "pod_extends a (serviceaccount_Create lib s cfg a)"
  using mountToken_step unfolding serviceaccount_Create_def Let_def creator_step_def
  by (blast intro: pod_extends_trans pod_extends_env(3))

lemma CreateContainerEnvVars_step: "creator_step lib s a (CreateContainerEnvVars lib s cfg a)"
  by (rule creator_step_same) (simp_all add: CreateContainerEnvVars_def)

interpretation service_w: workload_creator "\<lambda>lib s cfg a. Inr (service_Create lib s cfg a)"
  by unfold_locales (auto intro: creator_step_owned service.create_extends service_pod)

interpretation serviceaccount_w: workload_creator "\<lambda>lib s cfg a. Inr (serviceaccount_Create lib s cfg a)"
  by unfold_locales (auto intro: creator_step_owned serviceaccount.create_extends serviceaccount_pod)

interpretation hpa_w: workload_creator "\<lambda>lib s (cfg :: unit) a. Inr (hpa_Create lib s a)"
  by unfold_locales (auto intro: creator_step_owned hpa.create_extends hpa_pod)

interpretation pdb_w: workload_creator "\<lambda>lib s (cfg :: unit) a. Inr (pdb_Create lib s a)"
  by unfold_locales (auto intro: creator_step_owned pdb.create_extends pdb_pod)

interpretation podmonitor_w: workload_creator "\<lambda>lib s cfg a. Inr (podmonitor_Create lib s cfg a)"
  by unfold_locales (auto intro: creator_step_owned podmonitor.create_extends podmonitor_pod)

section \<open>The main container\<close>

text \<open>
  \<open>CreateAppContainer\<close> and \<open>CreateNaisjobContainer\<close> add one container; the files it mounts come with their
  volumes.
\<close>

lemma filesFrom_loop_pod: "pod_extends a (filesFrom_loop lib files c s p e a)"
proof (induction files arbitrary: c s p e a)
  case (Cons f files)
  have add: "vm_name m = vol_name v \<Longrightarrow> pod_extends a (filesFrom_loop lib files c' s' p' e' (add_volume v m a))"
    for m v c' s' p' e'
    using Cons.IH pod_extends_add_volume pod_extends_trans by blast
  show ?case by (auto simp: Let_def Cons.IH split: option.splits intro!: add)
qed simp

lemma envFrom_pod: "pod_extends a (envFrom envs a)"
  by (induction envs a rule: envFrom.induct) (auto intro: pod_extends_trans)

lemma mounted_files_pod: "pod_extends a (envFrom envs (filesFrom lib files a))"
  unfolding filesFrom_def by (rule pod_extends_trans[OF filesFrom_loop_pod envFrom_pod])

lemma envFrom_operations [simp]: "ast_operations (envFrom envs a) = ast_operations a"
  by (induction envs a rule: envFrom.induct) auto

lemma filesFrom_operations [simp]: "ast_operations (filesFrom lib files a) = ast_operations a"
proof -
  have "ast_operations (filesFrom_loop lib files c s p e a) = ast_operations a" for c s p e
    by (induction files arbitrary: c s p e a) (auto simp: Let_def split: option.splits)
  then show ?thesis by (simp add: filesFrom_def)
qed

text \<open>A container was added to what a step made, with the mounts the \<open>Ast\<close> has.\<close>

definition adds_main :: "liberator \<Rightarrow> source \<Rightarrow> ast \<Rightarrow> ast \<Rightarrow> bool" where
  "adds_main lib s a a' \<longleftrightarrow> (\<exists>b c. creator_step lib s a b \<and> a' = b\<lparr>ast_containers := ast_containers b @ [c]\<rparr>
     \<and> c_name c = src_name s \<and> c_image c = lib_GetEffectiveImage lib s \<and> c_volume_mounts c = ast_volume_mounts b
     \<and> c_env c = ast_env b)"

lemma CreateAppContainer_main: "CreateAppContainer lib s cfg a = Inr a' \<Longrightarrow> adds_main lib s a a'"
  unfolding adds_main_def
  by (rule exI[of _ "envFrom (ws_env_from (src_spec s)) (filesFrom lib (ws_files_from (src_spec s)) a)"])
    (auto simp: CreateAppContainer_def Let_def result_simps intro!: creator_step_same mounted_files_pod)

lemma CreateNaisjobContainer_main: "CreateNaisjobContainer lib s cfg a = Inr a' \<Longrightarrow> adds_main lib s a a'"
  unfolding adds_main_def
  by (rule exI[of _ "envFrom (ws_env_from (src_spec s)) (filesFrom lib (ws_files_from (src_spec s)) a)"])
    (auto simp: CreateNaisjobContainer_def Let_def result_simps intro!: creator_step_same mounted_files_pod)

end
