(* ===== verification/Go_Url.thy ===== *)
theory Go_Url
  imports Go_Strings
begin

text \<open>
  Package \<open>net/url\<close> of the Go library, as far as the program uses it: \<open>Parse\<close>, the fields \<open>Scheme\<close>,
  \<open>Host\<close> and \<open>Path\<close>, and \<open>String\<close>; and the validation of ingress URLs of src/pkg/util/url.go. The text of parse errors is not modelled. A host in brackets (an IPv6 literal)
  is a parse error here: no such host can pass \<open>ValidateUrl\<close> or be the host of an ingress rule.
\<close>

section \<open>Escaping\<close>

datatype enc_mode = EncPath | EncHost | EncUser | EncFragment

definition is_alnum :: "char \<Rightarrow> bool" where
  "is_alnum c \<longleftrightarrow> (let n = of_char c :: nat in 48 \<le> n \<and> n \<le> 57 \<or> 65 \<le> n \<and> n \<le> 90 \<or> 97 \<le> n \<and> n \<le> 122)"

definition shouldEscape :: "enc_mode \<Rightarrow> char \<Rightarrow> bool" where
  "shouldEscape mode c =
     (if is_alnum c then False
      else if mode = EncHost \<and> c \<in> set (''!$&'' @ [CHR 0x27] @ ''()*+,;=:[]<>'' @ [CHR 0x22]) then False
      else if c \<in> set ''-_.~'' then False
      else if c \<in> set ''$&+,/:;=?@''
           then (case mode of EncPath \<Rightarrow> c = CHR ''?'' | EncUser \<Rightarrow> c \<in> set ''@/?:''
                   | EncFragment \<Rightarrow> False | EncHost \<Rightarrow> True)
      else if mode = EncFragment \<and> c \<in> set ''!()*'' then False
      else True)"

definition is_hex :: "char \<Rightarrow> bool" where
  "is_hex c \<longleftrightarrow> (let n = of_char c :: nat in 48 \<le> n \<and> n \<le> 57 \<or> 65 \<le> n \<and> n \<le> 70 \<or> 97 \<le> n \<and> n \<le> 102)"

definition unhex :: "char \<Rightarrow> nat" where
  "unhex c = (let n = of_char c :: nat in if n \<le> 57 then n - 48 else if n \<le> 70 then n - 55 else n - 87)"

definition hex_digit :: "nat \<Rightarrow> char" where
  "hex_digit n = (if n < 10 then char_of (48 + n) else char_of (55 + n))"

fun unescape :: "enc_mode \<Rightarrow> string \<Rightarrow> string option" where
  "unescape mode [] = Some []"
| "unescape mode (c # cs) =
     (if c = CHR ''%''
      then (case cs of
              h1 # h2 # rest \<Rightarrow>
                if is_hex h1 \<and> is_hex h2
                   \<and> \<not> (mode = EncHost \<and> unhex h1 < 8 \<and> \<not> (h1 = CHR ''2'' \<and> h2 = CHR ''5''))
                then map_option ((#) (char_of (16 * unhex h1 + unhex h2))) (unescape mode rest)
                else None
            | _ \<Rightarrow> None)
      else if mode = EncHost \<and> (of_char c :: nat) < 128 \<and> shouldEscape mode c then None
      else map_option ((#) c) (unescape mode cs))"

definition escape :: "enc_mode \<Rightarrow> string \<Rightarrow> string" where
  "escape mode s = concat (map (\<lambda>c. if shouldEscape mode c
     then [CHR ''%'', hex_digit (of_char c div 16), hex_digit (of_char c mod 16)] else [c]) s)"

text \<open>\<open>validEncoded\<close> for a path or a fragment.\<close>

definition validEncoded :: "enc_mode \<Rightarrow> string \<Rightarrow> bool" where
  "validEncoded mode s = list_all (\<lambda>c.
     c \<in> set (''!$&'' @ [CHR 0x27] @ ''()*+,;=:@[]%'') \<or> \<not> shouldEscape mode c) s"

section \<open>Parsing\<close>

record url =
  u_scheme :: string
  u_opaque :: string
  u_user :: "(string \<times> string option) option" \<comment> \<open>name and password\<close>
  u_host :: string
  u_path :: string
  u_raw_path :: string
  u_force_query :: bool
  u_raw_query :: string
  u_fragment :: string
  u_raw_fragment :: string
  u_omit_host :: bool

definition url_zero :: url where
  "url_zero = \<lparr>u_scheme = [], u_opaque = [], u_user = None, u_host = [], u_path = [], u_raw_path = [],
     u_force_query = False, u_raw_query = [], u_fragment = [], u_raw_fragment = [], u_omit_host = False\<rparr>"

text \<open>Cut at the first occurrence of a character: before, and after if it occurs.\<close>

fun cut :: "char \<Rightarrow> string \<Rightarrow> string \<times> string option" where
  "cut x [] = ([], None)"
| "cut x (c # cs) = (if c = x then ([], Some cs) else (case cut x cs of (b, r) \<Rightarrow> (c # b, r)))"

definition is_letter :: "char \<Rightarrow> bool" where
  "is_letter c \<longleftrightarrow> is_alnum c \<and> \<not> is_digit c"

text \<open>\<open>getScheme\<close>: the scheme and the rest, or an error (a leading colon).\<close>

fun scheme_loop :: "string \<Rightarrow> string \<Rightarrow> string \<Rightarrow> (string \<times> string) option" where
  "scheme_loop raw seen [] = Some ([], raw)"
| "scheme_loop raw seen (c # cs) =
     (if is_letter c then scheme_loop raw (seen @ [c]) cs
      else if is_digit c \<or> c \<in> set ''+-.''
           then (if seen = [] then Some ([], raw) else scheme_loop raw (seen @ [c]) cs)
      else if c = CHR '':'' then (if seen = [] then None else Some (seen, cs))
      else Some ([], raw))"

definition getScheme :: "string \<Rightarrow> (string \<times> string) option" where
  "getScheme raw = scheme_loop raw [] raw"

definition validOptionalPort :: "string \<Rightarrow> bool" where
  "validOptionalPort port = (case port of [] \<Rightarrow> True | c # cs \<Rightarrow> c = CHR '':'' \<and> list_all is_digit cs)"

definition parseHost :: "string \<Rightarrow> string option" where
  "parseHost host =
     (if CHR ''['' \<in> set host then None
      else case cut (CHR '':'') host of
             (b, None) \<Rightarrow> unescape EncHost host
           | (b, Some port) \<Rightarrow>
               if list_all is_digit port then unescape EncHost host else None)"

definition validUserinfo :: "string \<Rightarrow> bool" where
  "validUserinfo s = list_all (\<lambda>c. is_alnum c \<or> c \<in> set (''-._:~!$&'' @ [CHR 0x27] @ ''()*+,;=%@'')) s"

text \<open>Split at the last \<open>@\<close>.\<close>

definition split_at :: "string \<Rightarrow> (string \<times> string) option" where
  "split_at s = (case cut (CHR ''@'') (rev s) of
     (b, None) \<Rightarrow> None | (b, Some r) \<Rightarrow> Some (rev r, rev b))"

definition parseAuthority :: "string \<Rightarrow> ((string \<times> string option) option \<times> string) option" where
  "parseAuthority authority = (case split_at authority of
     None \<Rightarrow> map_option (Pair None) (parseHost authority)
   | Some (userinfo, host) \<Rightarrow>
      (case parseHost host of
         None \<Rightarrow> None
       | Some h \<Rightarrow>
           if \<not> validUserinfo userinfo then None
           else (case cut (CHR '':'') userinfo of
                   (b, None) \<Rightarrow> (case unescape EncUser userinfo of
                      None \<Rightarrow> None | Some name \<Rightarrow> Some (Some (name, None), h))
                 | (b, Some pw) \<Rightarrow> (case (unescape EncUser b, unescape EncUser pw) of
                      (Some name, Some password) \<Rightarrow> Some (Some (name, Some password), h)
                    | _ \<Rightarrow> None))))"

definition setPath :: "string \<Rightarrow> url \<Rightarrow> url option" where
  "setPath p u = (case unescape EncPath p of
     None \<Rightarrow> None
   | Some path \<Rightarrow> Some (u\<lparr>u_path := path, u_raw_path := (if p = escape EncPath path then [] else p)\<rparr>))"

definition has_ctl :: "string \<Rightarrow> bool" where
  "has_ctl s = list_ex (\<lambda>c. (of_char c :: nat) < 32 \<or> c = CHR 0x7F) s"

definition parse_rest :: "string \<Rightarrow> url \<Rightarrow> url option" where
  "parse_rest rest u =
     (if \<not> HasPrefix rest ''/''
      then (if u_scheme u \<noteq> [] then Some (u\<lparr>u_opaque := rest\<rparr>)
            else if CHR '':'' \<in> set (fst (cut (CHR ''/'') rest)) then None
            else setPath rest u)
      else if (u_scheme u \<noteq> [] \<or> \<not> HasPrefix rest ''///'') \<and> HasPrefix rest ''//''
      then (let (authority, tail) = cut (CHR ''/'') (drop 2 rest);
                path = (case tail of None \<Rightarrow> [] | Some t \<Rightarrow> CHR ''/'' # t)
            in case parseAuthority authority of
                 None \<Rightarrow> None
               | Some (user, host) \<Rightarrow> setPath path (u\<lparr>u_user := user, u_host := host\<rparr>))
      else setPath rest (if u_scheme u \<noteq> [] \<and> HasPrefix rest ''/'' then u\<lparr>u_omit_host := True\<rparr> else u))"

definition parse_no_fragment :: "string \<Rightarrow> url option" where
  "parse_no_fragment raw =
     (if has_ctl raw then None
      else if raw = ''*'' then Some (url_zero\<lparr>u_path := ''*''\<rparr>)
      else case getScheme raw of
        None \<Rightarrow> None
      | Some (scheme, rest) \<Rightarrow>
          (let u = url_zero\<lparr>u_scheme := ToLower scheme\<rparr>
           in if HasSuffix rest ''?'' \<and> length (filter (\<lambda>c. c = CHR ''?'') rest) = 1
              then parse_rest (butlast rest) (u\<lparr>u_force_query := True\<rparr>)
              else (case cut (CHR ''?'') rest of
                      (b, None) \<Rightarrow> parse_rest b u
                    | (b, Some q) \<Rightarrow> parse_rest b (u\<lparr>u_raw_query := q\<rparr>))))"

definition Parse :: "string \<Rightarrow> url option" where
  "Parse raw = (case cut (CHR ''#'') raw of
     (b, frag) \<Rightarrow> (case parse_no_fragment b of
        None \<Rightarrow> None
      | Some u \<Rightarrow> (case frag of
          None \<Rightarrow> Some u
        | Some f \<Rightarrow> (case unescape EncFragment f of
            None \<Rightarrow> None
          | Some fr \<Rightarrow> Some (u\<lparr>u_fragment := fr,
              u_raw_fragment := (if f = escape EncFragment fr then [] else f)\<rparr>)))))"

section \<open>Printing\<close>

definition EscapedPath :: "url \<Rightarrow> string" where
  "EscapedPath u =
     (if u_raw_path u \<noteq> [] \<and> validEncoded EncPath (u_raw_path u) \<and> unescape EncPath (u_raw_path u) = Some (u_path u)
      then u_raw_path u
      else if u_path u = ''*'' then ''*'' else escape EncPath (u_path u))"

definition EscapedFragment :: "url \<Rightarrow> string" where
  "EscapedFragment u =
     (if u_raw_fragment u \<noteq> [] \<and> validEncoded EncFragment (u_raw_fragment u)
         \<and> unescape EncFragment (u_raw_fragment u) = Some (u_fragment u)
      then u_raw_fragment u else escape EncFragment (u_fragment u))"

definition userinfo_string :: "string \<times> string option \<Rightarrow> string" where
  "userinfo_string ui = (case ui of
     (name, None) \<Rightarrow> escape EncUser name
   | (name, Some pw) \<Rightarrow> escape EncUser name @ '':'' @ escape EncUser pw)"

definition url_String :: "url \<Rightarrow> string" where
  "url_String u =
     (let scheme = (if u_scheme u \<noteq> [] then u_scheme u @ '':'' else []);
          body = (if u_opaque u \<noteq> [] then u_opaque u
            else let authority =
                   (if (u_scheme u \<noteq> [] \<or> u_host u \<noteq> [] \<or> u_user u \<noteq> None)
                       \<and> \<not> (u_omit_host u \<and> u_host u = [] \<and> u_user u = None)
                    then (if u_host u \<noteq> [] \<or> u_path u \<noteq> [] \<or> u_user u \<noteq> None then ''//'' else [])
                         @ (case u_user u of None \<Rightarrow> [] | Some ui \<Rightarrow> userinfo_string ui @ ''@'')
                         @ escape EncHost (u_host u)
                    else []);
                     path = EscapedPath u;
                     slash = (if path \<noteq> [] \<and> hd path \<noteq> CHR ''/'' \<and> u_host u \<noteq> [] then ''/'' else []);
                     dot = (if scheme @ authority @ slash = [] \<and> CHR '':'' \<in> set (fst (cut (CHR ''/'') path))
                            then ''./'' else [])
                 in authority @ slash @ dot @ path)
      in scheme @ body @ (if u_force_query u \<or> u_raw_query u \<noteq> [] then ''?'' @ u_raw_query u else [])
         @ (if u_fragment u \<noteq> [] then ''#'' @ EscapedFragment u else []))"

section \<open>Validation of ingress URLs\<close>

text \<open>A label of \<open>kubernetesFQDNValidation\<close>: lower-case letters, digits and dashes, none at the ends.\<close>

definition dns_char :: "char \<Rightarrow> bool" where
  "dns_char c \<longleftrightarrow> (let n = of_char c :: nat in 48 \<le> n \<and> n \<le> 57 \<or> 97 \<le> n \<and> n \<le> 122)"

definition dns_label :: "string \<Rightarrow> bool" where
  "dns_label l \<longleftrightarrow> l \<noteq> [] \<and> dns_char (hd l) \<and> dns_char (last l) \<and> list_all (\<lambda>c. dns_char c \<or> c = CHR ''-'') l"

definition fqdn_valid :: "string \<Rightarrow> bool" where
  "fqdn_valid host = list_all dns_label (Split host (CHR ''.''))"

definition ValidateUrl :: "url \<Rightarrow> error" where
  "ValidateUrl u =
     (if length (u_host u) = 0
      then Some (errorf (''URL '' @ [CHR 0x27] @ url_String u @ [CHR 0x27] @ '' is missing a hostname''))
      else if u_scheme u \<noteq> ''https''
      then Some (errorf (''URL '' @ [CHR 0x27] @ url_String u @ [CHR 0x27] @ '' does not start with '' @ [CHR 0x27] @ ''https://'' @ [CHR 0x27]))
      else if \<not> fqdn_valid (u_host u)
      then Some (errorf (''URL '' @ [CHR 0x27] @ url_String u @ [CHR 0x27] @ '' does not match regular expression''))
      else None)"

lemma ValidateUrl_iff: "ValidateUrl u = None \<longleftrightarrow> u_host u \<noteq> [] \<and> u_scheme u = ''https'' \<and> fqdn_valid (u_host u)"
  by (simp add: ValidateUrl_def)

end
