(* ===== verification/Network_Policy.thy ===== *)
theory Network_Policy
  imports Creators Go_Url
begin

text \<open>
  Network policies: packages \<open>networkpolicy\<close>, \<open>fqdnpolicy\<close> and \<open>accesspolicy\<close> of
  src/pkg/resourcecreator, every function of them. The meaning of a NetworkPolicy (which pods and
  which addresses its rules admit) is defined as Kubernetes documents it, and the theorems say which
  traffic the generated policy admits, in terms of the access policy of the manifest.
\<close>

section \<open>Access policies\<close>

definition external_rule_of_host :: "string \<Rightarrow> external_rule" where
  "external_rule_of_host host = \<lparr>exr_host = host, exr_ipv4 = [], exr_ports = None\<rparr>"

definition ToAccessPolicyExternalRules :: "string list \<Rightarrow> external_rule list" where
  "ToAccessPolicyExternalRules hosts = map external_rule_of_host hosts"

fun merge_external_loop :: "external_rule list \<Rightarrow> string set \<Rightarrow> external_rule list \<Rightarrow> external_rule list" where
  "merge_external_loop [] seen rules = rules"
| "merge_external_loop (rule # rest) seen rules =
     (if length (exr_host rule) = 0 then merge_external_loop rest seen rules
      else if exr_host rule \<notin> seen
      then merge_external_loop rest (insert (exr_host rule) seen) (rules @ [rule])
      else merge_external_loop rest seen rules)"

definition MergeExternalRules :: "source \<Rightarrow> external_rule list \<Rightarrow> external_rule list result" where
  "MergeExternalRules app additionalRules =
     (case ws_access_policy (src_spec app) of
        None \<Rightarrow> Inl (go_panic ''nil access policy'')
      | Some policy \<Rightarrow> (case ap_outbound policy of
          None \<Rightarrow> Inl (go_panic ''nil outbound policy'')
        | Some outbound \<Rightarrow>
            (let rules = out_external outbound
             in if length additionalRules = 0 then Inr rules
                else Inr (merge_external_loop additionalRules (exr_host ` set rules) rules))))"

definition ruleWithDefaults :: "access_policy_rule \<Rightarrow> string \<Rightarrow> string \<Rightarrow> access_policy_rule" where
  "ruleWithDefaults rule namespaceName clusterName =
     \<lparr>apr_application = apr_application rule,
      apr_namespace = (if apr_namespace rule = [] then namespaceName else apr_namespace rule),
      apr_cluster = (if apr_cluster rule = [] then clusterName else apr_cluster rule)\<rparr>"

definition RulesWithDefaults ::
  "access_policy_rule list \<Rightarrow> string \<Rightarrow> string \<Rightarrow> access_policy_rule list" where
  "RulesWithDefaults rules namespace clusterName =
     map (\<lambda>rule. ruleWithDefaults rule namespace clusterName) rules"

definition InboundRulesWithDefaults ::
  "inbound_rule list \<Rightarrow> string \<Rightarrow> string \<Rightarrow> inbound_rule list" where
  "InboundRulesWithDefaults rules namespace clusterName =
     map (\<lambda>rule. rule\<lparr>inr_rule := ruleWithDefaults (inr_rule rule) namespace clusterName\<rparr>) rules"

definition WithDefaults :: "access_policy option \<Rightarrow> string \<Rightarrow> string \<Rightarrow> access_policy result" where
  "WithDefaults policy namespaceName clusterName =
     (case policy of
        None \<Rightarrow> Inl (go_panic ''nil access policy'')
      | Some p \<Rightarrow> (case (ap_inbound p, ap_outbound p) of
          (Some inbound, Some outbound) \<Rightarrow> Inr
            \<lparr>ap_inbound = Some (InboundRulesWithDefaults inbound namespaceName clusterName),
             ap_outbound = Some \<lparr>out_rules = RulesWithDefaults (out_rules outbound) namespaceName clusterName,
                                 out_external = []\<rparr>\<rparr>
        | _ \<Rightarrow> Inl (go_panic ''nil access policy direction'')))"

section \<open>NetworkPolicy\<close>

definition labelSelector :: "string \<Rightarrow> string \<Rightarrow> label_selector" where
  "labelSelector lab value = [(lab, value)]"

abbreviation metadata_name :: string where
  "metadata_name \<equiv> ''kubernetes.io/metadata.name''"

definition netpol_peer_zero :: netpol_peer where
  "netpol_peer_zero = \<lparr>np_namespace_selector = None, np_pod_selector = None, np_ip_block = None\<rparr>"

definition ip_peer :: "string \<Rightarrow> netpol_peer" where
  "ip_peer cidr = netpol_peer_zero\<lparr>np_ip_block := Some (IPBlock cidr)\<rparr>"

definition onlyIPv4IsSpecified :: "external_rule \<Rightarrow> bool" where
  "onlyIPv4IsSpecified externalRule \<longleftrightarrow> exr_ipv4 externalRule \<noteq> [] \<and> exr_host externalRule = []"

definition defaultEgressRules :: "options \<Rightarrow> netpol_rule list" where
  "defaultEgressRules cfg =
     [\<lparr>npr_peers = [netpol_peer_zero\<lparr>np_namespace_selector := Some [],
          np_pod_selector := Some (labelSelector ''k8s-app'' ''kube-dns'')\<rparr>], npr_ports = []\<rparr>]
     @ (if GetAivenRange cfg \<noteq> []
        then [\<lparr>npr_peers = [ip_peer (GetAivenRange cfg)], npr_ports = []\<rparr>] else [])"

definition outbound_rule_egress :: "liberator \<Rightarrow> options \<Rightarrow> access_policy_rule \<Rightarrow> netpol_rule list" where
  "outbound_rule_egress lib cfg outbound =
     (if apr_application outbound = [] \<or> apr_application outbound = ''*''
         \<or> \<not> lib_MatchesCluster lib outbound (GetClusterName cfg)
      then []
      else let peer = netpol_peer_zero\<lparr>np_pod_selector := Some (labelSelector ''app'' (apr_application outbound))\<rparr>
           in [\<lparr>npr_peers = [if apr_namespace outbound \<noteq> []
                  then peer\<lparr>np_namespace_selector := Some (labelSelector metadata_name (apr_namespace outbound))\<rparr>
                  else peer], npr_ports = []\<rparr>])"

definition external_egress :: "external_rule \<Rightarrow> netpol_rule list" where
  "external_egress external =
     (if onlyIPv4IsSpecified external
      then [\<lparr>npr_peers = [ip_peer (exr_ipv4 external @ ''/32'')],
             npr_ports = map (\<lambda>port. \<lparr>npp_protocol = None, npp_port = Some (IntVal (to_int32 port))\<rparr>)
               (case exr_ports external of None \<Rightarrow> [] | Some ports \<Rightarrow> ports)\<rparr>]
      else [])"

definition egressRulesFromAccessPolicy ::
  "liberator \<Rightarrow> access_policy option \<Rightarrow> options \<Rightarrow> netpol_rule list" where
  "egressRulesFromAccessPolicy lib policy cfg =
     (case policy of
        None \<Rightarrow> []
      | Some p \<Rightarrow> (case ap_outbound p of
          None \<Rightarrow> []
        | Some outbound \<Rightarrow> concat (map (outbound_rule_egress lib cfg) (out_rules outbound))
                         @ concat (map external_egress (out_external outbound))))"

definition egressRules :: "liberator \<Rightarrow> access_policy option \<Rightarrow> options \<Rightarrow> bool \<Rightarrow> netpol_rule list" where
  "egressRules lib policy cfg election =
     defaultEgressRules cfg @ egressRulesFromAccessPolicy lib policy cfg
     @ (if election then [\<lparr>npr_peers = [ip_peer (GetAPIServerIP cfg)], npr_ports = []\<rparr>] else [])"

definition defaultIngressRules :: "options \<Rightarrow> netpol_rule list" where
  "defaultIngressRules cfg =
     [\<lparr>npr_peers =
        [netpol_peer_zero\<lparr>np_namespace_selector := Some (labelSelector metadata_name (GetNaisNamespace cfg)),
           np_pod_selector := Some (labelSelector ''app.kubernetes.io/name'' ''prometheus'')\<rparr>,
         netpol_peer_zero\<lparr>np_namespace_selector := Some (labelSelector metadata_name (GetNaisNamespace cfg)),
           np_pod_selector := Some (labelSelector ''app.kubernetes.io/name'' ''alloy'')\<rparr>],
       npr_ports = []\<rparr>]"

definition ingress_class_rule :: "options \<Rightarrow> string \<Rightarrow> netpol_rule" where
  "ingress_class_rule cfg ingressClass =
     \<lparr>npr_peers = [netpol_peer_zero
        \<lparr>np_namespace_selector := Some (labelSelector metadata_name (GetNaisNamespace cfg)),
         np_pod_selector := Some (labelSelector ''nais.io/ingressClass'' ingressClass)\<rparr>],
      npr_ports = []\<rparr>"

definition ingress_url_rules :: "options \<Rightarrow> string \<Rightarrow> netpol_rule list" where
  "ingress_url_rules cfg ingress =
     (case Parse ingress of
        None \<Rightarrow> []
      | Some ur \<Rightarrow> (case GetIngressClasses cfg (u_host ur) of
          Inl err \<Rightarrow> []
        | Inr ingressClasses \<Rightarrow> map (ingress_class_rule cfg) ingressClasses))"

definition ingressRulesFromIngress :: "string list \<Rightarrow> options \<Rightarrow> netpol_rule list" where
  "ingressRulesFromIngress ingress cfg = concat (map (ingress_url_rules cfg) ingress)"

definition inbound_peer :: "access_policy_rule \<Rightarrow> netpol_peer" where
  "inbound_peer rule = netpol_peer_zero
     \<lparr>np_pod_selector := Some (if apr_application rule = ''*'' then []
                              else labelSelector ''app'' (apr_application rule)),
      np_namespace_selector :=
        (if apr_namespace rule = ''*'' then Some []
         else if apr_namespace rule \<noteq> [] then Some (labelSelector metadata_name (apr_namespace rule))
         else None)\<rparr>"

definition ingressRulesFromAccessPolicy ::
  "liberator \<Rightarrow> access_policy option \<Rightarrow> options \<Rightarrow> netpol_rule list" where
  "ingressRulesFromAccessPolicy lib policy cfg =
     (case policy of
        None \<Rightarrow> []
      | Some p \<Rightarrow> (case ap_inbound p of
          None \<Rightarrow> []
        | Some rules \<Rightarrow>
            if length rules = 0 then []
            else let peers = map inbound_peer
                       (filter (\<lambda>rule. lib_MatchesCluster lib rule (GetClusterName cfg)) (lib_GetRules lib rules))
                 in if length peers = 0 then [] else [\<lparr>npr_peers = peers, npr_ports = []\<rparr>]))"

definition ingressRules ::
  "liberator \<Rightarrow> string list \<Rightarrow> access_policy option \<Rightarrow> options \<Rightarrow> netpol_rule list" where
  "ingressRules lib ingress policy cfg =
     defaultIngressRules cfg @ ingressRulesFromIngress ingress cfg @ ingressRulesFromAccessPolicy lib policy cfg"

definition netpolSpec ::
  "liberator \<Rightarrow> string \<Rightarrow> options \<Rightarrow> access_policy option \<Rightarrow> string list \<Rightarrow> bool \<Rightarrow> netpol_spec" where
  "netpolSpec lib name cfg policy ingress election =
     \<lparr>nps_pod_selector = labelSelector ''app'' name,
      nps_policy_types = [''Ingress'', ''Egress''],
      nps_ingress = ingressRules lib ingress policy cfg,
      nps_egress = egressRules lib policy cfg election\<rparr>"

definition networkpolicy_Create :: "liberator \<Rightarrow> source \<Rightarrow> options \<Rightarrow> ast \<Rightarrow> ast" where
  "networkpolicy_Create lib s cfg a =
     (if \<not> IsNetworkPolicyEnabled cfg then a
      else AppendOperation OperationCreateOrUpdate
        \<lparr>obj_type_meta = \<lparr>tm_kind = ''NetworkPolicy'', tm_api_version = ''networking.k8s.io/v1''\<rparr>,
         obj_meta = CreateObjectMeta lib s,
         obj_payload = PNetworkPolicy (netpolSpec lib (src_name s) cfg (ws_access_policy (src_spec s))
           (ws_ingresses (src_spec s)) (ws_leader_election (src_spec s)))\<rparr> a)"

section \<open>FQDNNetworkPolicy\<close>

definition defaultNetworkPolicyPort :: netpol_port where
  "defaultNetworkPolicyPort = \<lparr>npp_protocol = Some ''TCP'', npp_port = Some (IntVal 443)\<rparr>"

definition networkPolicyPort :: "int \<Rightarrow> netpol_port" where
  "networkPolicyPort port =
     (if port \<noteq> 0 then defaultNetworkPolicyPort\<lparr>npp_port := Some (IntVal (to_int32 port))\<rparr>
      else defaultNetworkPolicyPort)"

definition networkPolicyPorts :: "int list \<Rightarrow> netpol_port list" where
  "networkPolicyPorts rules = map networkPolicyPort rules"

definition fqdn_host :: "string \<Rightarrow> string" where
  "fqdn_host h = ReplaceFirst (ReplaceFirst h ''https://'' []) ''http://'' []"

definition egressPolicy :: "outbound_policy \<Rightarrow> fqdn_rule list" where
  "egressPolicy outbound = map
     (\<lambda>e. \<lparr>fq_ports = (case exr_ports e of
             None \<Rightarrow> [defaultNetworkPolicyPort] | Some ports \<Rightarrow> networkPolicyPorts ports),
           fq_fqdns = [fqdn_host (exr_host e)]\<rparr>)
     (filter (\<lambda>e. exr_ipv4 e = []) (out_external outbound))"

definition fqdnPolicySpec :: "string \<Rightarrow> outbound_policy \<Rightarrow> fqdn_spec" where
  "fqdnPolicySpec name outbound =
     \<lparr>fqs_pod_selector = labelSelector ''app'' name, fqs_egress = egressPolicy outbound,
      fqs_policy_types = [''Egress'']\<rparr>"

definition fqdnpolicy_Create :: "liberator \<Rightarrow> source \<Rightarrow> options \<Rightarrow> ast \<Rightarrow> ast" where
  "fqdnpolicy_Create lib s cfg a =
     (if \<not> (IsNetworkPolicyEnabled cfg \<and> GetFQDNPolicy cfg) then a
      else case ws_access_policy (src_spec s) of
        None \<Rightarrow> a
      | Some policy \<Rightarrow> (case ap_outbound policy of
          None \<Rightarrow> a
        | Some outbound \<Rightarrow>
            if length (out_external outbound) = 0 then a
            else AppendOperation OperationCreateOrUpdate
              \<lparr>obj_type_meta = \<lparr>tm_kind = ''FQDNNetworkPolicy'', tm_api_version = ''networking.gke.io/v1alpha3''\<rparr>,
               obj_meta = (CreateObjectMeta lib s)\<lparr>om_name := src_name s @ ''-fqdn''\<rparr>,
               obj_payload = PFQDNNetworkPolicy (fqdnPolicySpec (src_name s) outbound)\<rparr> a))"

interpretation networkpolicy: resource_creator "\<lambda>lib s cfg a. Inr (networkpolicy_Create lib s cfg a)"
  by unfold_locales (auto simp: networkpolicy_Create_def intro!: extends_append owned_by_same)

interpretation fqdnpolicy: resource_creator "\<lambda>lib s cfg a. Inr (fqdnpolicy_Create lib s cfg a)"
  by unfold_locales
    (auto simp: fqdnpolicy_Create_def intro!: extends_append owned_by_same split: option.splits if_splits)

interpretation networkpolicy_w: workload_creator "\<lambda>lib s cfg a. Inr (networkpolicy_Create lib s cfg a)"
  by unfold_locales
    (auto simp: networkpolicy_Create_def intro!: creator_intros intro: belongs_intros)

interpretation fqdnpolicy_w: workload_creator "\<lambda>lib s cfg a. Inr (fqdnpolicy_Create lib s cfg a)"
  by unfold_locales
    (auto simp: fqdnpolicy_Create_def split: option.splits if_splits intro!: creator_intros intro: belongs_intros)

section \<open>What a NetworkPolicy admits\<close>

text \<open>
  A pod at the other end of a connection: its namespace and its labels. A namespace carries the label
  \<open>kubernetes.io/metadata.name\<close> with its own name. A peer without a namespace selector means the
  namespace of the policy; an empty selector matches everything; a rule without peers admits everyone.
\<close>

record endpoint =
  ep_namespace :: string
  ep_labels :: "string \<rightharpoonup> string"

definition selector_matches :: "label_selector \<Rightarrow> (string \<rightharpoonup> string) \<Rightarrow> bool" where
  "selector_matches sel labels = list_all (\<lambda>(k, v). labels k = Some v) sel"

definition peer_admits :: "string \<Rightarrow> netpol_peer \<Rightarrow> endpoint \<Rightarrow> bool" where
  "peer_admits own peer ep \<longleftrightarrow> np_ip_block peer = None
     \<and> (case np_namespace_selector peer of
          None \<Rightarrow> ep_namespace ep = own
        | Some sel \<Rightarrow> selector_matches sel [metadata_name \<mapsto> ep_namespace ep])
     \<and> (case np_pod_selector peer of None \<Rightarrow> True | Some sel \<Rightarrow> selector_matches sel (ep_labels ep))"

definition rule_admits :: "string \<Rightarrow> netpol_rule \<Rightarrow> endpoint \<Rightarrow> bool" where
  "rule_admits own rule ep \<longleftrightarrow> npr_peers rule = [] \<or> list_ex (\<lambda>peer. peer_admits own peer ep) (npr_peers rule)"

definition rules_admit :: "string \<Rightarrow> netpol_rule list \<Rightarrow> endpoint \<Rightarrow> bool" where
  "rules_admit own rules ep = list_ex (\<lambda>rule. rule_admits own rule ep) rules"

text \<open>The address blocks that rules admit, each with its ports; no ports means every port.\<close>

definition rule_cidrs :: "netpol_rule \<Rightarrow> (string \<times> netpol_port list) list" where
  "rule_cidrs rule = concat (map (\<lambda>peer. case np_ip_block peer of
     None \<Rightarrow> [] | Some (IPBlock cidr) \<Rightarrow> [(cidr, npr_ports rule)]) (npr_peers rule))"

definition rules_cidrs :: "netpol_rule list \<Rightarrow> (string \<times> netpol_port list) list" where
  "rules_cidrs rules = concat (map rule_cidrs rules)"

lemma rules_admit_append [simp]:
  "rules_admit own (xs @ ys) ep \<longleftrightarrow> rules_admit own xs ep \<or> rules_admit own ys ep"
  "rules_admit own [] ep = False"
  "rules_admit own (r # xs) ep \<longleftrightarrow> rule_admits own r ep \<or> rules_admit own xs ep"
  by (simp_all add: rules_admit_def)

lemma rules_admit_concat: "rules_admit own (concat (map f xs)) ep \<longleftrightarrow> (\<exists>x \<in> set xs. rules_admit own (f x) ep)"
  by (induction xs) auto

lemma rules_cidrs_append [simp]:
  "rules_cidrs (xs @ ys) = rules_cidrs xs @ rules_cidrs ys" "rules_cidrs [] = []"
  "rules_cidrs (r # xs) = rule_cidrs r @ rules_cidrs xs"
  by (simp_all add: rules_cidrs_def)

lemma rules_cidrs_concat: "rules_cidrs (concat (map f xs)) = concat (map (rules_cidrs \<circ> f) xs)"
  by (induction xs) auto

lemmas admit_simps = rule_admits_def peer_admits_def selector_matches_def labelSelector_def
  netpol_peer_zero_def ip_peer_def


section \<open>Who is admitted\<close>

text \<open>The meaning of an access policy rule: which pods it names.\<close>

definition inbound_names :: "string \<Rightarrow> access_policy_rule \<Rightarrow> endpoint \<Rightarrow> bool" where
  "inbound_names own rule ep \<longleftrightarrow>
     (apr_application rule = ''*'' \<or> ep_labels ep ''app'' = Some (apr_application rule))
     \<and> (apr_namespace rule = ''*'' \<or> ep_namespace ep = (if apr_namespace rule = [] then own else apr_namespace rule))"

definition outbound_names :: "string \<Rightarrow> access_policy_rule \<Rightarrow> endpoint \<Rightarrow> bool" where
  "outbound_names own rule ep \<longleftrightarrow> apr_application rule \<noteq> [] \<and> apr_application rule \<noteq> ''*''
     \<and> ep_labels ep ''app'' = Some (apr_application rule)
     \<and> ep_namespace ep = (if apr_namespace rule = [] then own else apr_namespace rule)"

definition inbound_rules_of :: "access_policy option \<Rightarrow> access_policy_rule list" where
  "inbound_rules_of policy = (case policy of None \<Rightarrow> []
     | Some p \<Rightarrow> (case ap_inbound p of None \<Rightarrow> [] | Some rules \<Rightarrow> map inr_rule rules))"

definition outbound_rules_of :: "access_policy option \<Rightarrow> access_policy_rule list" where
  "outbound_rules_of policy = (case policy of None \<Rightarrow> []
     | Some p \<Rightarrow> (case ap_outbound p of None \<Rightarrow> [] | Some out \<Rightarrow> out_rules out))"

definition external_rules_of :: "access_policy option \<Rightarrow> external_rule list" where
  "external_rules_of policy = (case policy of None \<Rightarrow> []
     | Some p \<Rightarrow> (case ap_outbound p of None \<Rightarrow> [] | Some out \<Rightarrow> out_external out))"

lemma inbound_peer_admits: "peer_admits own (inbound_peer rule) ep \<longleftrightarrow> inbound_names own rule ep"
  by (auto simp: inbound_peer_def inbound_names_def admit_simps)

lemma outbound_rule_admits: "rules_admit own (outbound_rule_egress lib cfg rule) ep \<longleftrightarrow>
  lib_MatchesCluster lib rule (GetClusterName cfg) \<and> outbound_names own rule ep"
  by (auto simp: outbound_rule_egress_def outbound_names_def admit_simps Let_def)

lemma external_admits_no_pod [simp]: "\<not> rules_admit own (external_egress e) ep"
  by (simp add: external_egress_def admit_simps)

lemma ingress_class_rule_admits: "rule_admits own (ingress_class_rule cfg cls) ep \<longleftrightarrow>
  ep_namespace ep = GetNaisNamespace cfg \<and> ep_labels ep ''nais.io/ingressClass'' = Some cls"
  by (auto simp: ingress_class_rule_def admit_simps)

lemma ingress_url_rules_admit: "rules_admit own (ingress_url_rules cfg ing) ep \<longleftrightarrow>
  (\<exists>u classes cls. Parse ing = Some u \<and> GetIngressClasses cfg (u_host u) = Inr classes \<and> cls \<in> set classes
     \<and> ep_namespace ep = GetNaisNamespace cfg \<and> ep_labels ep ''nais.io/ingressClass'' = Some cls)"
proof (cases "Parse ing")
  case (Some u)
  then show ?thesis
    by (cases "GetIngressClasses cfg (u_host u)")
      (auto simp: ingress_url_rules_def rules_admit_def list_ex_iff ingress_class_rule_admits)
qed (simp add: ingress_url_rules_def)

lemma access_policy_inbound_admits:
  assumes "inbound_rules_law lib"
  shows "rules_admit own (ingressRulesFromAccessPolicy lib policy cfg) ep \<longleftrightarrow>
    (\<exists>rule \<in> set (inbound_rules_of policy). lib_MatchesCluster lib rule (GetClusterName cfg)
       \<and> inbound_names own rule ep)"
proof -
  have rules: "lib_GetRules lib rs = map inr_rule rs" for rs using assms by (simp add: inbound_rules_law_def)
  show ?thesis
    by (auto simp: ingressRulesFromAccessPolicy_def inbound_rules_of_def rules Let_def rule_admits_def
        inbound_peer_admits list_ex_iff filter_empty_conv split: option.splits)
qed

lemma default_ingress_admits: "rules_admit own (defaultIngressRules cfg) ep \<longleftrightarrow>
  ep_namespace ep = GetNaisNamespace cfg
    \<and> ep_labels ep ''app.kubernetes.io/name'' \<in> {Some ''prometheus'', Some ''alloy''}"
  by (auto simp: defaultIngressRules_def admit_simps)

lemma default_egress_admits:
  "rules_admit own (defaultEgressRules cfg) ep \<longleftrightarrow> ep_labels ep ''k8s-app'' = Some ''kube-dns''"
  by (auto simp: defaultEgressRules_def admit_simps)

text \<open>C15. Ingress of the generated NetworkPolicy, exactly: a pod may connect if and only if it is the Prometheus or
  Alloy of the nais namespace, or the controller there of an ingress class that serves one of the
  workload's own URLs, or named by an inbound rule of the access policy that applies to this cluster. In
  particular an access policy whose rules are all for other clusters admits nobody.\<close>

theorem netpol_ingress_exact:
  assumes "inbound_rules_law lib"
  shows "rules_admit own (nps_ingress (netpolSpec lib name cfg policy ingresses election)) ep \<longleftrightarrow>
      (ep_namespace ep = GetNaisNamespace cfg
        \<and> ep_labels ep ''app.kubernetes.io/name'' \<in> {Some ''prometheus'', Some ''alloy''})
    \<or> (\<exists>ing u classes cls. ing \<in> set ingresses \<and> Parse ing = Some u
        \<and> GetIngressClasses cfg (u_host u) = Inr classes \<and> cls \<in> set classes
        \<and> ep_namespace ep = GetNaisNamespace cfg \<and> ep_labels ep ''nais.io/ingressClass'' = Some cls)
    \<or> (\<exists>rule \<in> set (inbound_rules_of policy). lib_MatchesCluster lib rule (GetClusterName cfg)
        \<and> inbound_names own rule ep)"
  unfolding netpolSpec_def ingressRules_def ingressRulesFromIngress_def
  by (simp add: default_ingress_admits rules_admit_concat ingress_url_rules_admit
      access_policy_inbound_admits[OF assms] del: GetNaisNamespace_def GetClusterName_def) blast

text \<open>C36. Egress to pods, exactly: the workload may reach a pod if and only if it is the cluster's DNS, or is
  named by an outbound rule that applies to this cluster and names one application. A wildcard
  application opens nothing.\<close>

theorem netpol_egress_pods_exact:
  "rules_admit own (nps_egress (netpolSpec lib name cfg policy ingresses election)) ep \<longleftrightarrow>
     ep_labels ep ''k8s-app'' = Some ''kube-dns''
   \<or> (\<exists>rule \<in> set (outbound_rules_of policy). lib_MatchesCluster lib rule (GetClusterName cfg)
        \<and> outbound_names own rule ep)"
proof -
  have "rules_admit own (egressRulesFromAccessPolicy lib policy cfg) ep \<longleftrightarrow>
    (\<exists>rule \<in> set (outbound_rules_of policy). lib_MatchesCluster lib rule (GetClusterName cfg)
        \<and> outbound_names own rule ep)"
    by (auto simp: egressRulesFromAccessPolicy_def outbound_rules_of_def rules_admit_concat
        outbound_rule_admits split: option.splits)
  moreover have "\<not> rules_admit own (if election then [\<lparr>npr_peers = [ip_peer (GetAPIServerIP cfg)], npr_ports = []\<rparr>] else []) ep"
    by (simp add: admit_simps)
  ultimately show ?thesis
    by (simp add: netpolSpec_def egressRules_def default_egress_admits)
qed

lemma outbound_cidrs: "rules_cidrs (outbound_rule_egress lib cfg rule) = []"
  by (simp add: outbound_rule_egress_def rule_cidrs_def netpol_peer_zero_def Let_def)

lemma external_cidrs: "rules_cidrs (concat (map external_egress es)) =
  map (\<lambda>e. (exr_ipv4 e @ ''/32'', map (\<lambda>port. \<lparr>npp_protocol = None, npp_port = Some (IntVal (to_int32 port))\<rparr>)
      (case exr_ports e of None \<Rightarrow> [] | Some ports \<Rightarrow> ports)))
    (filter onlyIPv4IsSpecified es)"
  by (induction es) (simp_all add: external_egress_def rule_cidrs_def ip_peer_def)

text \<open>C37. Egress to addresses, exactly: the configured Aiven range, the address of every external rule that has an
  IPv4 address and no host, on the ports it lists, and, with leader election, the API server; nothing
  else, and in this order.\<close>

theorem netpol_egress_cidrs_exact:
  "rules_cidrs (nps_egress (netpolSpec lib name cfg policy ingresses election)) =
     (if GetAivenRange cfg = [] then [] else [(GetAivenRange cfg, [])])
   @ map (\<lambda>e. (exr_ipv4 e @ ''/32'',
         map (\<lambda>port. \<lparr>npp_protocol = None, npp_port = Some (IntVal (to_int32 port))\<rparr>)
           (case exr_ports e of None \<Rightarrow> [] | Some ports \<Rightarrow> ports)))
       (filter (\<lambda>e. exr_ipv4 e \<noteq> [] \<and> exr_host e = []) (external_rules_of policy))
   @ (if election then [(GetAPIServerIP cfg, [])] else [])"
proof -
  have only: "onlyIPv4IsSpecified = (\<lambda>e. exr_ipv4 e \<noteq> [] \<and> exr_host e = [])"
    by (simp add: fun_eq_iff onlyIPv4IsSpecified_def)
  have "rules_cidrs (concat (map (outbound_rule_egress lib cfg) rs)) = []" for rs
    by (induction rs) (simp_all add: outbound_cidrs)
  then have "rules_cidrs (egressRulesFromAccessPolicy lib policy cfg) =
     map (\<lambda>e. (exr_ipv4 e @ ''/32'', map (\<lambda>port. \<lparr>npp_protocol = None, npp_port = Some (IntVal (to_int32 port))\<rparr>)
       (case exr_ports e of None \<Rightarrow> [] | Some ports \<Rightarrow> ports))) (filter onlyIPv4IsSpecified (external_rules_of policy))"
    by (simp add: egressRulesFromAccessPolicy_def external_rules_of_def external_cidrs split: option.splits)
  then show ?thesis
    by (simp add: netpolSpec_def egressRules_def defaultEgressRules_def rule_cidrs_def ip_peer_def
        netpol_peer_zero_def only)
qed

text \<open>The FQDN policy covers the external rules without an address.\<close>

lemma egressPolicy_hosts:
  "concat (map fq_fqdns (egressPolicy out)) =
     map (fqdn_host \<circ> exr_host) (filter (\<lambda>e. exr_ipv4 e = []) (out_external out))"
  unfolding egressPolicy_def by (induction "out_external out") (simp_all add: comp_def)

lemma merge_external_loop_spec:
  assumes "set (map exr_host rules) \<subseteq> seen"
  shows "\<exists>new. merge_external_loop extra seen rules = rules @ new
     \<and> distinct (map exr_host new) \<and> set new \<subseteq> set extra
     \<and> set (map exr_host new) = set (map exr_host extra) - insert [] seen"
  using assms
proof (induction extra seen rules rule: merge_external_loop.induct)
  case (2 rule rest seen rules)
  consider "exr_host rule = []" | "exr_host rule \<noteq> []" "exr_host rule \<in> seen"
    | "exr_host rule \<noteq> []" "exr_host rule \<notin> seen" by blast
  then show ?case
  proof cases
    case 1
    with "2.IH"(1) "2.prems" obtain new where
      "merge_external_loop rest seen rules = rules @ new \<and> distinct (map exr_host new) \<and> set new \<subseteq> set rest
       \<and> set (map exr_host new) = set (map exr_host rest) - insert [] seen" by auto
    with 1 show ?thesis by (intro exI[of _ new]) auto
  next
    case 2
    with "2.IH"(3) "2.prems" obtain new where
      "merge_external_loop rest seen rules = rules @ new \<and> distinct (map exr_host new) \<and> set new \<subseteq> set rest
       \<and> set (map exr_host new) = set (map exr_host rest) - insert [] seen" by auto
    with 2 show ?thesis by (intro exI[of _ new]) auto
  next
    case 3
    have "set (map exr_host (rules @ [rule])) \<subseteq> insert (exr_host rule) seen" using "2.prems" by auto
    with "2.IH"(2) 3 obtain new where
      "merge_external_loop rest (insert (exr_host rule) seen) (rules @ [rule]) = (rules @ [rule]) @ new
       \<and> distinct (map exr_host new) \<and> set new \<subseteq> set rest
       \<and> set (map exr_host new) = set (map exr_host rest) - insert [] (insert (exr_host rule) seen)" by auto
    with 3 show ?thesis by (intro exI[of _ "rule # new"]) auto
  qed
qed simp

text \<open>Merging hosts into the outbound policy keeps the rules of the manifest, in order, and adds one rule for
  each further host that is not empty and not already there; no host is added twice.\<close>

lemma MergeExternalRules_exact:
  assumes "ws_access_policy (src_spec app) = Some policy" and "ap_outbound policy = Some out"
  shows "\<exists>new. MergeExternalRules app extra = Inr (out_external out @ new)
     \<and> distinct (map exr_host new) \<and> set new \<subseteq> set extra
     \<and> exr_host ` set new = exr_host ` set extra - insert [] (exr_host ` set (out_external out))"
proof (cases "extra = []")
  case False
  with assms have "MergeExternalRules app extra =
    Inr (merge_external_loop extra (exr_host ` set (out_external out)) (out_external out))"
    by (simp add: MergeExternalRules_def Let_def)
  with merge_external_loop_spec[of "out_external out" "exr_host ` set (out_external out)" extra]
  show ?thesis by auto
qed (use assms in \<open>auto simp: MergeExternalRules_def Let_def\<close>)

text \<open>An external rule of the access policy is served by one policy at most: with no IPv4 address by the FQDN
  policy, with an address and no host by the NetworkPolicy. A rule with both a host and an address is
  in neither, so the egress it asks for stays closed.\<close>

lemma external_rule_with_both_is_dropped:
  assumes "exr_host e \<noteq> []" and "exr_ipv4 e \<noteq> []"
  shows "egressPolicy \<lparr>out_rules = rs, out_external = xs @ e # ys\<rparr> = egressPolicy \<lparr>out_rules = rs, out_external = xs @ ys\<rparr>
    \<and> egressRulesFromAccessPolicy lib (Some \<lparr>ap_inbound = inb,
          ap_outbound = Some \<lparr>out_rules = rs, out_external = xs @ e # ys\<rparr>\<rparr>) cfg
      = egressRulesFromAccessPolicy lib (Some \<lparr>ap_inbound = inb,
          ap_outbound = Some \<lparr>out_rules = rs, out_external = xs @ ys\<rparr>\<rparr>) cfg"
  using assms
  by (simp add: egressPolicy_def egressRulesFromAccessPolicy_def external_egress_def onlyIPv4IsSpecified_def)

end
