(* ===== verification/Ingress.thy ===== *)
theory Ingress
  imports Network_Policy "HOL-Library.AList"
begin

text \<open>
  Package \<open>ingress\<close> (src/pkg/resourcecreator/ingress: ingress.go, path.go, annotations.go, redirect.go):
  the Ingress objects of a workload, one per ingress class, the translation of nginx annotations and
  regular-expression paths for HAProxy, and redirects. A Go map from ingress class to Ingress is an
  association list; the order in which the code iterates over it is the parameter \<open>ord\<close>, which orders the
  keys for each of the three loops. The regular expressions of the package are written out as functions
  on strings.
\<close>

section \<open>Paths\<close>

abbreviation backslash :: char where "backslash \<equiv> CHR 0x5C"
abbreviation newline :: char where "newline \<equiv> CHR 0x0A"

definition regex_meta :: "char \<Rightarrow> bool" where
  "regex_meta c \<longleftrightarrow> c \<in> set ''()[]{}|^$*+?'' \<or> c = backslash"

definition isRegexPath :: "string \<Rightarrow> bool" where
  "isRegexPath path = list_ex regex_meta path"

definition stripRegexPath :: "string \<Rightarrow> string" where
  "stripRegexPath path =
     (let path1 = TrimRight (takeWhile (\<lambda>c. \<not> (regex_meta c \<or> c = CHR ''.'')) path) ''/''
      in if path1 = [] then ''/'' else path1)"

text \<open>\<open>exactPairSuffix.FindStringIndex\<close>: where the trailing group starts, with or without the backslash.\<close>

definition exact_pair_index :: "string \<Rightarrow> nat option" where
  "exact_pair_index path =
     (if HasSuffix path (''($|'' @ [backslash] @ ''/$)'') then Some (length path - 7)
      else if HasSuffix path ''($|/$)'' then Some (length path - 6) else None)"

definition exactPairLiteral :: "string \<Rightarrow> string option" where
  "exactPairLiteral path = (case exact_pair_index path of
     None \<Rightarrow> None
   | Some loc \<Rightarrow> (let literal = TrimRight (take loc path) ''/''
                 in if literal = [] \<or> isRegexPath literal then None else Some literal))"

text \<open>\<open>nginxCaptureGroupRegex\<close>: a dollar sign and digits.\<close>

fun has_capture_group :: "string \<Rightarrow> bool" where
  "has_capture_group (c # d # cs) = (c = CHR ''$'' \<and> is_digit d \<or> has_capture_group (d # cs))"
| "has_capture_group cs = False"

abbreviation nginx_prefix :: string where "nginx_prefix \<equiv> ''nginx.ingress.kubernetes.io/''"
abbreviation haproxy_prefix :: string where "haproxy_prefix \<equiv> ''haproxy.org/''"

definition hasCaptureGroupAnnotation :: "gomap \<Rightarrow> bool" where
  "hasCaptureGroupAnnotation annotations =
     has_capture_group (gm_index annotations ''nginx.ingress.kubernetes.io/rewrite-target'')"

definition ingressServiceBackend :: "liberator \<Rightarrow> string \<Rightarrow> ingress_backend" where
  "ingressServiceBackend lib appName = \<lparr>ib_service = appName, ib_port = to_int32 (lib_DefaultServicePort lib)\<rparr>"

definition ingressPath :: "string \<Rightarrow> path_type \<Rightarrow> ingress_backend \<Rightarrow> ingress_path" where
  "ingressPath path pathType backend = \<lparr>ip_path = path, ip_type = pathType, ip_backend = backend\<rparr>"

definition haproxyIngressPaths :: "string \<Rightarrow> gomap \<Rightarrow> ingress_backend \<Rightarrow> ingress_path list" where
  "haproxyIngressPaths path annotations backend =
     (if \<not> isRegexPath path \<or> hasCaptureGroupAnnotation annotations
      then [ingressPath path PathTypePrefix backend]
      else case exactPairLiteral path of
        Some literal \<Rightarrow> [ingressPath literal PathTypeExact backend, ingressPath (literal @ ''/'') PathTypeExact backend]
      | None \<Rightarrow> [ingressPath (stripRegexPath path) PathTypePrefix backend])"

section \<open>Annotations\<close>

abbreviation haproxyBackendConfigAnnotation :: string where
  "haproxyBackendConfigAnnotation \<equiv> ''haproxy.org/backend-config-snippet''"

abbreviation blank_line :: string where "blank_line \<equiv> [newline, newline]"

text \<open>Each key of the source is handled once and alone, so the order of the Go loop does not matter.\<close>

definition copyHAProxyAnnotations :: "(string \<rightharpoonup> string) \<Rightarrow> (string \<rightharpoonup> string) \<Rightarrow> (string \<rightharpoonup> string)" where
  "copyHAProxyAnnotations dst src = (\<lambda>k. case src k of
       None \<Rightarrow> dst k
     | Some v \<Rightarrow>
         if \<not> HasPrefix k haproxy_prefix then dst k
         else if k = haproxyBackendConfigAnnotation \<and> gm_index (Some dst) k \<noteq> []
         then Some (v @ blank_line @ gm_index (Some dst) k)
         else Some v)"

definition copyNginxAnnotations :: "(string \<rightharpoonup> string) \<Rightarrow> (string \<rightharpoonup> string) \<Rightarrow> (string \<rightharpoonup> string)" where
  "copyNginxAnnotations dst src = (\<lambda>k. case src k of
       None \<Rightarrow> dst k | Some v \<Rightarrow> if HasPrefix k nginx_prefix then Some v else dst k)"

definition haProxyAnnotations :: "(string \<times> string) list" where
  "haProxyAnnotations =
     [(''keepalive-timeout'', ''timeout-http-keep-alive''),
      (''proxy-connect-timeout'', ''timeout-connect''),
      (''proxy-read-timeout'', ''timeout-server''),
      (''proxy-send-timeout'', ''timeout-client''),
      (''upstream-vhost'', ''set-host'')]"

definition migrate_mapped ::
  "(string \<rightharpoonup> string) \<Rightarrow> (string \<times> string) \<Rightarrow> (string \<rightharpoonup> string) \<Rightarrow> (string \<rightharpoonup> string)" where
  "migrate_mapped nginx keys haProxy = (case keys of (nginxKey, haProxyKey) \<Rightarrow>
     (case nginx (nginx_prefix @ nginxKey) of
        None \<Rightarrow> haProxy
      | Some value \<Rightarrow> haProxy(haproxy_prefix @ haProxyKey \<mapsto>
          (if HasSuffix nginxKey ''-timeout'' \<and> HasPrefix haProxyKey ''timeout-'' then value @ ''s'' else value))))"

definition migrateLimitRpm :: "(string \<rightharpoonup> string) \<Rightarrow> (string \<rightharpoonup> string) \<Rightarrow> (string \<rightharpoonup> string)" where
  "migrateLimitRpm annotations nginx =
     (let limitRpm = gm_index (Some nginx) ''nginx.ingress.kubernetes.io/limit-rpm''
      in if limitRpm = [] then annotations
         else annotations(''haproxy.org/rate-limit-period'' \<mapsto> ''1m'',
                ''haproxy.org/rate-limit-requests'' \<mapsto> limitRpm,
                ''haproxy.org/rate-limit-status-code'' \<mapsto> ''429''))"

text \<open>\<open>nginxCaptureGroupRegex.ReplaceAllString\<close> with a backslash and the digits.\<close>

function nginxToHAProxyCaptureGroups :: "string \<Rightarrow> string" where
  "nginxToHAProxyCaptureGroups [] = []"
| "nginxToHAProxyCaptureGroups [c] = [c]"
| "nginxToHAProxyCaptureGroups (c # d # cs) =
     (if c = CHR ''$'' \<and> is_digit d
      then backslash # takeWhile is_digit (d # cs) @ nginxToHAProxyCaptureGroups (dropWhile is_digit (d # cs))
      else c # nginxToHAProxyCaptureGroups (d # cs))"
  by pat_completeness auto
termination
  by (relation "measure length") (simp_all add: le_imp_less_Suc length_dropWhile_le less_Suc_eq_le le_SucI)

definition word_char :: "char \<Rightarrow> bool" where
  "word_char c \<longleftrightarrow> is_alnum c \<or> c = CHR ''_''"

text \<open>\<open>nginxArgVariableRegex\<close>: \<open>$arg_\<close> and word characters.\<close>

definition arg_variable_here :: "string \<Rightarrow> bool" where
  "arg_variable_here s \<longleftrightarrow> HasPrefix s ''$arg_'' \<and> takeWhile word_char (drop 5 s) \<noteq> []"

fun has_arg_variable :: "string \<Rightarrow> bool" where
  "has_arg_variable [] = False"
| "has_arg_variable (c # cs) = (arg_variable_here (c # cs) \<or> has_arg_variable cs)"

function replace_arg_variables :: "string \<Rightarrow> string" where
  "replace_arg_variables [] = []"
| "replace_arg_variables (c # cs) =
     (if arg_variable_here (c # cs)
      then ''%[url_param('' @ takeWhile word_char (drop 4 cs) @ '')]''
           @ replace_arg_variables (dropWhile word_char (drop 4 cs))
      else c # replace_arg_variables cs)"
  by pat_completeness auto
termination
proof (relation "measure length", goal_cases)
  case (2 c cs)
  have "length (dropWhile word_char (drop 4 cs)) \<le> length (drop 4 cs)" by (rule length_dropWhile_le)
  then show ?case by simp
qed simp_all

definition add_snippet :: "string \<Rightarrow> (string \<rightharpoonup> string) \<Rightarrow> (string \<rightharpoonup> string)" where
  "add_snippet snippet annotations =
     (let existing = gm_index (Some annotations) haproxyBackendConfigAnnotation
      in if existing \<noteq> [] then annotations(haproxyBackendConfigAnnotation \<mapsto> existing @ blank_line @ snippet)
         else annotations(haproxyBackendConfigAnnotation \<mapsto> snippet))"

definition delimited :: "string \<Rightarrow> string \<Rightarrow> string" where
  "delimited annotation_name snippet = ''###'' @ [newline] @ ''# Added by naiserator due to the `'' @ annotation_name
     @ ''` annotation:'' @ [newline] @ snippet @ [newline] @ ''###''"

definition migrateRewriteTargetAsSnippet :: "(string \<rightharpoonup> string) \<Rightarrow> string \<Rightarrow> (string \<rightharpoonup> string)" where
  "migrateRewriteTargetAsSnippet annotations rewriteTarget =
     (let haproxyTarget = replace_arg_variables (nginxToHAProxyCaptureGroups rewriteTarget)
      in add_snippet (delimited ''nginx.ingress.kubernetes.io/rewrite-target''
           (''http-request redirect location '' @ haproxyTarget @ '' code 302'')) annotations)"

definition migrateRewriteTarget :: "(string \<rightharpoonup> string) \<Rightarrow> (string \<rightharpoonup> string) \<Rightarrow> (string \<rightharpoonup> string)" where
  "migrateRewriteTarget annotations nginx =
     (let rewriteTarget = gm_index (Some nginx) ''nginx.ingress.kubernetes.io/rewrite-target'';
          isAbsolute = HasPrefix rewriteTarget ''http://'' \<or> HasPrefix rewriteTarget ''https://''
      in if rewriteTarget = [] then annotations
         else if \<not> isAbsolute
         then annotations(''haproxy.org/path-rewrite'' \<mapsto> nginxToHAProxyCaptureGroups rewriteTarget)
         else case Parse rewriteTarget of
           None \<Rightarrow> migrateRewriteTargetAsSnippet annotations rewriteTarget
         | Some u \<Rightarrow>
             (let hostOnly = (u_path u = [] \<or> u_path u = ''/'');
                  hasCaptures = has_capture_group rewriteTarget;
                  hasArgs = has_arg_variable rewriteTarget
              in if hostOnly \<and> \<not> hasCaptures \<and> \<not> hasArgs
                 then annotations(''haproxy.org/request-redirect'' \<mapsto> u_host u,
                        ''haproxy.org/request-redirect-code'' \<mapsto> ''302'')
                 else migrateRewriteTargetAsSnippet annotations rewriteTarget))"

definition whitelist_ranges :: "string \<Rightarrow> string list" where
  "whitelist_ranges whitelistSourceRange =
     filter (\<lambda>r. r \<noteq> []) (map TrimSpace (Split whitelistSourceRange (CHR '','')))"

definition whitelist_snippet :: "string list \<Rightarrow> string" where
  "whitelist_snippet ranges = delimited ''nginx.ingress.kubernetes.io/whitelist-source-range''
     (''acl allowed_src req.hdr_ip(X-Forwarded-For) '' @ Join ranges '' '' @ [newline]
      @ ''http-request deny deny_status 403 if !allowed_src'')"

definition migrateWhitelistSourceRange :: "(string \<rightharpoonup> string) \<Rightarrow> (string \<rightharpoonup> string) \<Rightarrow> (string \<rightharpoonup> string)" where
  "migrateWhitelistSourceRange annotations nginx =
     (let whitelistSourceRange = gm_index (Some nginx) ''nginx.ingress.kubernetes.io/whitelist-source-range'';
          ranges = whitelist_ranges whitelistSourceRange
      in if whitelistSourceRange = [] then annotations
         else if length ranges = 0 then annotations
         else add_snippet (whitelist_snippet ranges) annotations)"

definition migrateNginxAnnotationsToHAProxyAnnotations ::
  "(string \<rightharpoonup> string) \<Rightarrow> (string \<rightharpoonup> string) \<Rightarrow> (string \<rightharpoonup> string)" where
  "migrateNginxAnnotationsToHAProxyAnnotations haProxy nginx =
     (let nginxAnnotations = copyNginxAnnotations Map.empty nginx;
          mapped = fold (migrate_mapped nginxAnnotations) haProxyAnnotations haProxy
      in migrateWhitelistSourceRange
           (migrateRewriteTarget (migrateLimitRpm mapped nginxAnnotations) nginxAnnotations) nginxAnnotations)"

section \<open>Ingresses\<close>

abbreviation regexSuffix :: string where "regexSuffix \<equiv> ''(/.*)?''"

record ingress =
  ing_meta :: object_meta
  ing_spec :: ingress_spec

definition ingress_object :: "ingress \<Rightarrow> k8s_object" where
  "ingress_object ing = \<lparr>obj_type_meta = \<lparr>tm_kind = ''Ingress'', tm_api_version = ''networking.k8s.io/v1''\<rparr>,
     obj_meta = ing_meta ing, obj_payload = PIngress (ing_spec ing)\<rparr>"

type_synonym ingress_map = "(string \<times> ingress) list"

definition createIngressRule ::
  "liberator \<Rightarrow> string \<Rightarrow> url \<Rightarrow> bool \<Rightarrow> gomap \<Rightarrow> ingress_rule" where
  "createIngressRule lib appName u isHAProxy annotations =
     (let backend = ingressServiceBackend lib appName
      in \<lparr>ir_host = u_host u,
          ir_paths = (if isHAProxy then haproxyIngressPaths (u_path u) annotations backend
                      else [ingressPath (u_path u) PathTypeImplementationSpecific backend])\<rparr>)"

definition parseIngress :: "string \<Rightarrow> url result" where
  "parseIngress ingress = (case Parse ingress of
     None \<Rightarrow> Inl (errorf (''failed to parse URL '' @ in_quotes ingress))
   | Some u \<Rightarrow>
       (let parsedURL = u\<lparr>u_path := (if length (u_path u) > 1 then TrimRight (u_path u) ''/'' else ''/'')\<rparr>
        in case ValidateUrl parsedURL of Some err \<Rightarrow> Inl err | None \<Rightarrow> Inr parsedURL))"

definition createIngressBase :: "liberator \<Rightarrow> source \<Rightarrow> string \<Rightarrow> ingress result" where
  "createIngressBase lib s ingressClass =
     rbind (lib_ShortName lib (src_name s @ ''-'' @ ingressClass) 63) (\<lambda>shortName.
       let objectMeta = (CreateObjectMeta lib s)\<lparr>om_name := shortName\<rparr>;
           objectMeta1 = (case ws_liveness (src_spec s) of
             None \<Rightarrow> objectMeta
           | Some liveness \<Rightarrow>
               if prb_path liveness \<noteq> []
               then with_annotation ''prometheus.io/path'' (prb_path liveness)
                      (with_annotation ''prometheus.io/scrape'' ''true'' objectMeta)
               else objectMeta)
       in Inr \<lparr>ing_meta = objectMeta1, ing_spec = \<lparr>is_class = Some ingressClass, is_rules = []\<rparr>\<rparr>)"

definition map_annotations :: "((string \<rightharpoonup> string) \<Rightarrow> (string \<rightharpoonup> string)) \<Rightarrow> ingress \<Rightarrow> ingress" where
  "map_annotations f ing = ing\<lparr>ing_meta := (ing_meta ing)\<lparr>om_annotations :=
     Some (f (gm_map (om_annotations (ing_meta ing))))\<rparr>\<rparr>"

definition createIngressBaseHAProxy :: "liberator \<Rightarrow> source \<Rightarrow> string \<Rightarrow> ingress result" where
  "createIngressBaseHAProxy lib s ingressClass =
     rbind (createIngressBase lib s ingressClass) (\<lambda>ing.
       let annotations = gm_map (om_annotations (src_meta s))
       in Inr (map_annotations (\<lambda>dst. copyHAProxyAnnotations
            (migrateNginxAnnotationsToHAProxyAnnotations dst annotations) annotations) ing))"

definition backendProtocol :: "string \<Rightarrow> string" where
  "backendProtocol portName = (if portName = ''grpc'' then ''GRPC'' else ''HTTP'')"

definition createIngressBaseNginx :: "liberator \<Rightarrow> source \<Rightarrow> string \<Rightarrow> ingress result" where
  "createIngressBaseNginx lib s ingressClass =
     rbind (createIngressBase lib s ingressClass) (\<lambda>ing.
       Inr (map_annotations (\<lambda>dst. (copyNginxAnnotations dst (gm_map (om_annotations (src_meta s))))
         (''nginx.ingress.kubernetes.io/use-regex'' \<mapsto> ''true'',
          ''nginx.ingress.kubernetes.io/backend-protocol'' \<mapsto> backendProtocol (ws_service_protocol (src_spec s)))) ing))"

definition createIngress :: "liberator \<Rightarrow> source \<Rightarrow> string \<Rightarrow> bool \<Rightarrow> ingress result" where
  "createIngress lib s ingressClass isHAProxy =
     (if isHAProxy then createIngressBaseHAProxy lib s ingressClass
      else createIngressBaseNginx lib s ingressClass)"

definition append_rule :: "ingress_rule \<Rightarrow> ingress \<Rightarrow> ingress" where
  "append_rule rule ing = ing\<lparr>ing_spec := (ing_spec ing)\<lparr>is_rules := is_rules (ing_spec ing) @ [rule]\<rparr>\<rparr>"

definition is_haproxy_class :: "string \<Rightarrow> bool" where
  "is_haproxy_class ingressClass = HasSuffix ingressClass ''haproxy''"

text \<open>The URL whose path the rule for a class has.\<close>

definition rule_url :: "string \<Rightarrow> url \<Rightarrow> url" where
  "rule_url ingressClass parsedURL =
     (if \<not> is_haproxy_class ingressClass \<and> length (u_path parsedURL) > 1
      then parsedURL\<lparr>u_path := u_path parsedURL @ regexSuffix\<rparr> else parsedURL)"

text \<open>One ingress class of one URL: the body of the inner loop of \<open>createIngresses\<close>.\<close>

definition add_ingress_class ::
  "liberator \<Rightarrow> source \<Rightarrow> options \<Rightarrow> url \<Rightarrow> string \<Rightarrow> ingress_map \<Rightarrow> ingress_map result" where
  "add_ingress_class lib s cfg parsedURL ingressClass ingresses =
     (let isHAProxy = is_haproxy_class ingressClass
      in if isHAProxy \<and> \<not> IsHAProxyEnabled cfg then Inr ingresses
         else rbind (case map_of ingresses ingressClass of
                       None \<Rightarrow> createIngress lib s ingressClass isHAProxy | Some ing \<Rightarrow> Inr ing) (\<lambda>ing.
           let rule = createIngressRule lib (src_name s) (rule_url ingressClass parsedURL) isHAProxy
                        (om_annotations (src_meta s))
           in Inr (AList.update ingressClass (append_rule rule ing) ingresses)))"

definition add_ingress_url ::
  "liberator \<Rightarrow> source \<Rightarrow> options \<Rightarrow> string \<Rightarrow> ingress_map \<Rightarrow> ingress_map result" where
  "add_ingress_url lib s cfg ingress ingresses =
     rbind (parseIngress ingress) (\<lambda>parsedURL.
       rbind (GetIngressClasses cfg (u_host parsedURL)) (\<lambda>ingressClasses.
         foldM_result (add_ingress_class lib s cfg parsedURL) ingressClasses ingresses))"

definition createIngresses :: "liberator \<Rightarrow> source \<Rightarrow> options \<Rightarrow> ingress_map result" where
  "createIngresses lib s cfg = foldM_result (add_ingress_url lib s cfg) (ws_ingresses (src_spec s)) []"

section \<open>Redirects\<close>

definition hasRedirects :: "source \<Rightarrow> bool" where
  "hasRedirects s \<longleftrightarrow> length (ws_redirects (src_spec s)) > 0"

definition createRedirectIngressRule :: "liberator \<Rightarrow> source \<Rightarrow> string \<Rightarrow> bool \<Rightarrow> ingress_rule result" where
  "createRedirectIngressRule lib s redirectUrl isHAProxy =
     (case Parse (TrimRight redirectUrl ''/'') of
        None \<Rightarrow> Inl (errorf ''parse'')
      | Some u \<Rightarrow> Inr \<lparr>ir_host = u_host u,
          ir_paths = [\<lparr>ip_path = (if isHAProxy then ''/'' else ''/(.*)?''),
            ip_type = (if isHAProxy then PathTypePrefix else PathTypeImplementationSpecific),
            ip_backend = \<lparr>ib_service = src_name s, ib_port = to_int32 (lib_DefaultServicePort lib)\<rparr>\<rparr>]\<rparr>)"

definition addRedirectConfiguration ::
  "liberator \<Rightarrow> source \<Rightarrow> string \<Rightarrow> ingress \<Rightarrow> url \<Rightarrow> bool \<Rightarrow> ingress result" where
  "addRedirectConfiguration lib s ingressClass ing redir isHAProxy =
     rbind (lib_ShortName lib (src_name s @ ''-'' @ ingressClass @ ''-redirect'') 63) (\<lambda>name.
       let named = ing\<lparr>ing_meta := (ing_meta ing)\<lparr>om_name := name\<rparr>\<rparr>
       in Inr (map_annotations (\<lambda>an. if isHAProxy
            then an(''haproxy.org/request-redirect'' \<mapsto> u_host redir,
                    ''haproxy.org/request-redirect-code'' \<mapsto> ''302'')
            else an(''nginx.ingress.kubernetes.io/rewrite-target'' \<mapsto> url_String redir @ ''$1'')) named))"

definition add_redirect_class ::
  "liberator \<Rightarrow> source \<Rightarrow> options \<Rightarrow> url \<Rightarrow> url \<Rightarrow> string \<Rightarrow> ingress_map \<Rightarrow> ingress_map result" where
  "add_redirect_class lib s cfg from_url to_url ingressClass redirectIngresses =
     (let isHAProxy = is_haproxy_class ingressClass
      in if isHAProxy \<and> \<not> IsHAProxyEnabled cfg then Inr redirectIngresses
         else rbind (createRedirectIngressRule lib s (url_String from_url) isHAProxy) (\<lambda>rule.
              rbind (createIngress lib s ingressClass isHAProxy) (\<lambda>ing.
              rbind (addRedirectConfiguration lib s ingressClass ing to_url isHAProxy) (\<lambda>ing1.
                Inr (AList.update ingressClass (append_rule rule ing1) redirectIngresses)))))"

definition add_redirect_rule ::
  "liberator \<Rightarrow> source \<Rightarrow> options \<Rightarrow> redirect \<Rightarrow> url \<Rightarrow> ingress_rule \<Rightarrow> ingress_map \<Rightarrow> ingress_map result" where
  "add_redirect_rule lib s cfg redir to_url ingressRule redirectIngresses =
     (if ir_host ingressRule \<noteq> u_host to_url then Inr redirectIngresses
      else rbind (parseIngress (rd_from redir)) (\<lambda>from_url.
           rbind (GetIngressClasses cfg (u_host from_url)) (\<lambda>ingressClasses.
             foldM_result (add_redirect_class lib s cfg from_url to_url) ingressClasses redirectIngresses)))"

definition add_redirect ::
  "liberator \<Rightarrow> source \<Rightarrow> options \<Rightarrow> ingress \<Rightarrow> redirect \<Rightarrow> ingress_map \<Rightarrow> ingress_map result" where
  "add_redirect lib s cfg ing redir redirectIngresses =
     rbind (parseIngress (rd_to redir)) (\<lambda>to_url.
       foldM_result (add_redirect_rule lib s cfg redir to_url) (is_rules (ing_spec ing)) redirectIngresses)"

definition createRedirectIngresses ::
  "liberator \<Rightarrow> source \<Rightarrow> options \<Rightarrow> ingress list \<Rightarrow> ingress_map \<Rightarrow> ingress_map result" where
  "createRedirectIngresses lib s cfg ingresses redirectIngresses =
     rbind (foldM_result (\<lambda>ing. foldM_result (add_redirect lib s cfg ing) (ws_redirects (src_spec s)))
              ingresses redirectIngresses) (\<lambda>result.
       if length result = 0 then Inl (errorf ''no matching ingress found for redirect'') else Inr result)"

text \<open>The orders of the three loops over maps: redirects, the list of ingresses, the list of redirects.\<close>

type_synonym map_order = "nat \<Rightarrow> string list \<Rightarrow> string list"

definition range_map :: "(string list \<Rightarrow> string list) \<Rightarrow> ingress_map \<Rightarrow> ingress list" where
  "range_map ord m = List.map_filter (map_of m) (ord (map fst m))"

definition createIngressList :: "liberator \<Rightarrow> source \<Rightarrow> options \<times> map_order \<Rightarrow> ingress list result" where
  "createIngressList lib s cfg_ord = (case cfg_ord of (cfg, ord) \<Rightarrow>
     rbind (createIngresses lib s cfg) (\<lambda>ingresses.
       rbind (if hasRedirects s then createRedirectIngresses lib s cfg (range_map (ord 0) ingresses) [] else Inr [])
         (\<lambda>redirectIngresses. Inr (range_map (ord 1) ingresses @ range_map (ord 2) redirectIngresses))))"

definition ingress_Create :: "liberator \<Rightarrow> source \<Rightarrow> options \<times> map_order \<Rightarrow> ast \<Rightarrow> ast result" where
  "ingress_Create lib s cfg a =
     (if length (ws_ingresses (src_spec s)) = 0 then Inr a
      else rbind (createIngressList lib s cfg) (\<lambda>ingresses.
        Inr (fold (\<lambda>ing. AppendOperation OperationCreateOrUpdate (ingress_object ing)) ingresses a)))"

text \<open>The check that \<open>Prepare\<close> makes of the redirects.\<close>

definition ingress_rules_of :: "k8s_object \<Rightarrow> ingress_rule list" where
  "ingress_rules_of ob = (case obj_payload ob of PIngress spec \<Rightarrow> is_rules spec | _ \<Rightarrow> [])"

definition findMatch :: "k8s_object list \<Rightarrow> string \<Rightarrow> k8s_object option" where
  "findMatch ingresses redirectFromHost =
     find (\<lambda>ing. list_ex (\<lambda>rule. ir_host rule = redirectFromHost) (ingress_rules_of ing)) ingresses"

abbreviation AllowedRedirectAnnotation :: string where
  "AllowedRedirectAnnotation \<equiv> ''nais.io/allow-redirect''"

definition allowedRedirectAnnotation :: "k8s_object \<Rightarrow> error client_prog" where
  "allowedRedirectAnnotation matchedIngress =
     (let appName = label (obj_meta matchedIngress) ''app'';
          ns = obj_namespace matchedIngress
      in if length appName = 0
         then Return (Some (errorf (''no app label found in the ingress in namespace '' @ ns)))
         else DoGet TApplication \<lparr>key_namespace = ns, key_name = appName\<rparr> (\<lambda>r. case r of
           Inl err \<Rightarrow> Return (Some (errorf_s (''failed to get app object in namespace '' @ ns @ '': '') err))
         | Inr app \<Rightarrow>
             if annotation (obj_meta app) AllowedRedirectAnnotation \<noteq> ''true''
             then Return (Some (errorf (''cross-namespace redirect not allowed from app '' @ in_quotes (obj_name app)
                    @ '' without annotation '' @ in_quotes ''nais.io/allow-redirect: true'' @ '' in namespace '' @ in_quotes ns)))
             else Return None))"

fun redirects_allowed :: "source \<Rightarrow> redirect list \<Rightarrow> error client_prog" where
  "redirects_allowed s [] = Return None"
| "redirects_allowed s (redir # rest) = (case Parse (rd_from redir) of
     None \<Rightarrow> Return (Some (errorf ''failed to parse redirect URL''))
   | Some redirectFrom \<Rightarrow>
       DoList TIngress (list_all_namespaces\<lparr>lo_namespace := src_namespace s\<rparr>) (\<lambda>r. case r of
         Inl err \<Rightarrow> Return (Some (errorf_s (''failed to list ingresses in namespace '' @ src_namespace s @ '': '') err))
       | Inr items \<Rightarrow> (case findMatch items (u_host redirectFrom) of
           Some matched \<Rightarrow> redirects_allowed s rest
         | None \<Rightarrow>
             DoList TIngress list_all_namespaces (\<lambda>r2. case r2 of
               Inl err \<Rightarrow> Return (Some (errorf_s ''failed to list ingresses: '' err))
             | Inr all_items \<Rightarrow> (case findMatch all_items (u_host redirectFrom) of
                 None \<Rightarrow> Return (Some (errorf (''no ingress found with host matching redirect from URL: ''
                           @ url_String redirectFrom)))
               | Some matched \<Rightarrow>
                   if obj_namespace matched \<noteq> src_namespace s
                   then bind_error (allowedRedirectAnnotation matched) (redirects_allowed s rest)
                   else redirects_allowed s rest)))))"

definition RedirectAllowed :: "source \<Rightarrow> error client_prog" where
  "RedirectAllowed s =
     (if \<not> hasRedirects s then Return None else redirects_allowed s (ws_redirects (src_spec s)))"


section \<open>Ownership\<close>

definition ing_owned :: "liberator \<Rightarrow> source \<Rightarrow> ingress \<Rightarrow> bool" where
  "ing_owned lib s ing \<longleftrightarrow> owned_by lib s (ingress_object ing)"

lemma ing_owned_iff: "ing_owned lib s ing \<longleftrightarrow> om_namespace (ing_meta ing) = src_namespace s
   \<and> label (ing_meta ing) ''app'' = src_name s \<and> label (ing_meta ing) ''team'' = src_namespace s
   \<and> om_owner_references (ing_meta ing) = Some [lib_GetOwnerReference lib s]"
  by (simp add: ing_owned_def owned_by_def ingress_object_def)

lemma map_annotations_simps [simp]:
  "ing_owned lib s (map_annotations f ing) = ing_owned lib s ing"
  "ing_spec (map_annotations f ing) = ing_spec ing"
  "ing_owned lib s (append_rule r ing) = ing_owned lib s ing"
  "ing_owned lib s (ing\<lparr>ing_meta := (ing_meta ing)\<lparr>om_name := name\<rparr>\<rparr>) = ing_owned lib s ing"
  "is_class (ing_spec (append_rule r ing)) = is_class (ing_spec ing)"
  "is_rules (ing_spec (append_rule r ing)) = is_rules (ing_spec ing) @ [r]"
  by (simp_all add: ing_owned_iff map_annotations_def append_rule_def label_def)

lemma createIngressBase_Inr:
  assumes "createIngressBase lib s cls = Inr ing"
  shows "ing_owned lib s ing \<and> ing_spec ing = \<lparr>is_class = Some cls, is_rules = []\<rparr>"
proof -
  have lab: "label (with_annotation k v m) l = label m l" for k v m l by (simp add: label_def)
  have ren: "label (m\<lparr>om_name := name\<rparr>) l = label m l" for m name l by (simp add: label_def)
  show ?thesis using assms
    by (auto simp: createIngressBase_def result_simps Let_def ing_owned_iff lab ren split: option.splits if_splits)
qed

lemma createIngress_Inr:
  assumes "createIngress lib s cls ha = Inr ing"
  shows "ing_owned lib s ing \<and> ing_spec ing = \<lparr>is_class = Some cls, is_rules = []\<rparr>"
  using assms
  by (auto simp: createIngress_def createIngressBaseHAProxy_def createIngressBaseNginx_def result_simps Let_def
      dest: createIngressBase_Inr split: if_splits)

lemma createIngress_owned: "createIngress lib s cls ha = Inr ing \<Longrightarrow> ing_owned lib s ing"
  by (simp add: createIngress_Inr)

text \<open>A property of all entries of a map, and the loops that keep it.\<close>

definition all_entries :: "(ingress \<Rightarrow> bool) \<Rightarrow> ingress_map \<Rightarrow> bool" where
  "all_entries P m \<longleftrightarrow> (\<forall>k ing. map_of m k = Some ing \<longrightarrow> P ing)"

lemma all_entriesD: "all_entries P m \<Longrightarrow> map_of m k = Some ing \<Longrightarrow> P ing"
  unfolding all_entries_def by blast

lemma all_entries_Nil [simp]: "all_entries P []"
  by (simp add: all_entries_def)

lemma all_entries_update: "all_entries P m \<Longrightarrow> P ing \<Longrightarrow> all_entries P (AList.update k ing m)"
  by (auto simp: all_entries_def update_conv')

lemma foldM_all_entries:
  assumes "all_entries P m" and "foldM_result f xs m = Inr m'"
    and "\<And>x m m'. all_entries P m \<Longrightarrow> f x m = Inr m' \<Longrightarrow> all_entries P m'"
  shows "all_entries P m'"
  using assms(2) by (rule foldM_result_invariant[where P = "all_entries P", rotated 2]) (use assms in auto)

lemma add_ingress_class_owned:
  assumes "all_entries (ing_owned lib s) m" and "add_ingress_class lib s cfg u cls m = Inr m'"
  shows "all_entries (ing_owned lib s) m'"
  using assms
  by (auto simp: add_ingress_class_def Let_def result_simps intro!: all_entries_update
      split: if_splits option.splits dest: createIngress_owned all_entriesD)

lemma createIngresses_owned:
  assumes "createIngresses lib s cfg = Inr m"
  shows "all_entries (ing_owned lib s) m"
proof (rule foldM_all_entries[OF _ assms[unfolded createIngresses_def]])
  fix url m1 m2
  assume inv: "all_entries (ing_owned lib s) m1" and "add_ingress_url lib s cfg url m1 = Inr m2"
  then obtain u cs where fold: "foldM_result (add_ingress_class lib s cfg u) cs m1 = Inr m2"
    by (auto simp: add_ingress_url_def result_simps)
  show "all_entries (ing_owned lib s) m2" by (rule foldM_all_entries[OF inv fold add_ingress_class_owned])
qed simp

definition redirect_entry :: "liberator \<Rightarrow> source \<Rightarrow> ingress \<Rightarrow> bool" where
  "redirect_entry lib s ing \<longleftrightarrow> ing_owned lib s ing \<and> length (is_rules (ing_spec ing)) = 1"

lemma add_redirect_class_entry:
  assumes "all_entries (redirect_entry lib s) m" and "add_redirect_class lib s cfg f t cls m = Inr m'"
  shows "all_entries (redirect_entry lib s) m'"
proof (cases "is_haproxy_class cls \<and> \<not> IsHAProxyEnabled cfg")
  case False
  with assms(2) obtain rule ing name g where ing: "createIngress lib s cls (is_haproxy_class cls) = Inr ing"
    and m': "m' = AList.update cls (append_rule rule (map_annotations g (ing\<lparr>ing_meta := (ing_meta ing)\<lparr>om_name := name\<rparr>\<rparr>))) m"
    unfolding add_redirect_class_def addRedirectConfiguration_def Let_def result_simps if_not_P[OF False] by blast
  show ?thesis unfolding m' using assms(1)
    by (rule all_entries_update) (use createIngress_Inr[OF ing] in \<open>simp add: redirect_entry_def\<close>)
qed (use assms in \<open>simp add: add_redirect_class_def\<close>)

text \<open>
  A redirect Ingress has exactly one rule: a second redirect from a host of the same ingress class
  replaces the first, because the code stores a new Ingress under the class each time.
\<close>

lemma redirect_ingress_one_rule:
  assumes "createRedirectIngresses lib s cfg ings [] = Inr m"
  shows "all_entries (redirect_entry lib s) m"
proof -
  let ?P = "all_entries (redirect_entry lib s)"
  have rule: "?P m2" if "?P m1" "add_redirect_rule lib s cfg r t ir m1 = Inr m2" for r t ir m1 m2
  proof (cases "ir_host ir = u_host t")
    case True
    with that(2) obtain f cs where fold: "foldM_result (add_redirect_class lib s cfg f t) cs m1 = Inr m2"
      by (auto simp: add_redirect_rule_def result_simps)
    show ?thesis by (rule foldM_all_entries[OF that(1) fold add_redirect_class_entry])
  qed (use that in \<open>simp add: add_redirect_rule_def\<close>)
  have one: "?P m2" if "?P m1" "add_redirect lib s cfg ing r m1 = Inr m2" for ing r m1 m2
  proof -
    from that(2) obtain t where fold: "foldM_result (add_redirect_rule lib s cfg r t) (is_rules (ing_spec ing)) m1 = Inr m2"
      by (auto simp: add_redirect_def result_simps)
    show ?thesis by (rule foldM_all_entries[OF that(1) fold rule])
  qed
  have ing: "?P m2" if "?P m1" "foldM_result (add_redirect lib s cfg ing) rs m1 = Inr m2" for ing rs m1 m2
    by (rule foldM_all_entries[OF that one])
  from assms have fold: "foldM_result (\<lambda>ing. foldM_result (add_redirect lib s cfg ing) (ws_redirects (src_spec s))) ings [] = Inr m"
    by (auto simp: createRedirectIngresses_def result_simps split: if_splits)
  show ?thesis by (rule foldM_all_entries[OF _ fold ing]) simp_all
qed

lemma range_map_in: "ing \<in> set (range_map f m) \<Longrightarrow> \<exists>k. map_of m k = Some ing"
  by (auto simp: range_map_def List.map_filter_def)

lemma redirect_ingress_owned:
  "createRedirectIngresses lib s cfg ings [] = Inr m \<Longrightarrow> map_of m k = Some ing \<Longrightarrow> ing_owned lib s ing"
  using redirect_ingress_one_rule all_entriesD unfolding redirect_entry_def by blast

lemma createIngressList_owned:
  assumes "createIngressList lib s (cfg, ord) = Inr ings" and "ing \<in> set ings"
  shows "ing_owned lib s ing"
  using assms
  by (auto simp: createIngressList_def result_simps split: if_splits dest!: range_map_in
      intro: all_entriesD[OF createIngresses_owned] redirect_ingress_owned)

lemma fold_AppendOperation:
  "ast_operations (fold (\<lambda>x. AppendOperation t (f x)) xs a) =
     ast_operations a @ map (\<lambda>x. \<lparr>op_resource = f x, op_operation = t\<rparr>) xs"
  by (induction xs arbitrary: a) simp_all

interpretation ingress: resource_creator ingress_Create
proof
  fix lib s cfg a a'
  assume "ingress_Create lib s cfg a = Inr a'"
  then show "extends_with (owned_by lib s) a a'"
    by (cases cfg) (auto simp: ingress_Create_def extends_with_def fold_AppendOperation result_simps
        ing_owned_def[symmetric] split: if_splits intro: createIngressList_owned)
qed


lemma fold_AppendOperation_pod: "pod_extends a (fold (\<lambda>x. AppendOperation t (f x)) xs a)"
  by (induction xs arbitrary: a) (auto intro: pod_extends_trans)

interpretation ingress_w: workload_creator ingress_Create
proof
  fix lib s cfg a a'
  assume a': "ingress_Create lib s cfg a = Inr a'"
  then have "pod_extends a a'"
    by (cases cfg) (auto simp: ingress_Create_def result_simps fold_AppendOperation_pod split: if_splits)
  with ingress.create_extends[OF a'] show "creator_step lib s a a'" by (rule creator_step_owned)
qed

section \<open>Which rules an Ingress has\<close>

definition rules_at :: "string \<Rightarrow> ingress_map \<Rightarrow> ingress_rule list" where
  "rules_at cls m = (case map_of m cls of None \<Rightarrow> [] | Some ing \<Rightarrow> is_rules (ing_spec ing))"

text \<open>An ingress class is served unless it is one of HAProxy and HAProxy is disabled.\<close>

definition served :: "options \<Rightarrow> string \<Rightarrow> bool" where
  "served cfg cls \<longleftrightarrow> \<not> (is_haproxy_class cls \<and> \<not> IsHAProxyEnabled cfg)"

definition class_rule :: "liberator \<Rightarrow> source \<Rightarrow> url \<Rightarrow> string \<Rightarrow> ingress_rule" where
  "class_rule lib s u cls =
     createIngressRule lib (src_name s) (rule_url cls u) (is_haproxy_class cls) (om_annotations (src_meta s))"

text \<open>The rules that one URL of the manifest gives the Ingress of a class.\<close>

definition url_rules :: "liberator \<Rightarrow> source \<Rightarrow> options \<Rightarrow> string \<Rightarrow> string \<Rightarrow> ingress_rule list" where
  "url_rules lib s cfg cls url = (case parseIngress url of
     Inl err \<Rightarrow> []
   | Inr u \<Rightarrow> (case GetIngressClasses cfg (u_host u) of
       Inl err \<Rightarrow> []
     | Inr classes \<Rightarrow> map (class_rule lib s u) (filter (\<lambda>c. c = cls \<and> served cfg c) classes)))"

lemma add_ingress_class_rules:
  assumes "add_ingress_class lib s cfg u c m = Inr m'"
  shows "rules_at cls m' = rules_at cls m @ (if c = cls \<and> served cfg c then [class_rule lib s u c] else [])"
proof (cases "served cfg c")
  case True
  then have "\<not> (is_haproxy_class c \<and> \<not> IsHAProxyEnabled cfg)" by (simp add: served_def)
  with assms obtain ing where ing: "(case map_of m c of
       None \<Rightarrow> createIngress lib s c (is_haproxy_class c) | Some ing \<Rightarrow> Inr ing) = Inr ing"
    and m': "m' = AList.update c (append_rule (class_rule lib s u c) ing) m"
    unfolding add_ingress_class_def Let_def class_rule_def by (auto simp: result_simps)
  have "rules_at c m = is_rules (ing_spec ing)"
    using ing createIngress_Inr[of lib s c "is_haproxy_class c" ing] by (auto simp: rules_at_def split: option.splits)
  with True show ?thesis by (auto simp: m' rules_at_def update_conv')
qed (use assms in \<open>auto simp: add_ingress_class_def served_def\<close>)

lemma add_ingress_url_rules:
  assumes "add_ingress_url lib s cfg url m = Inr m'"
  shows "rules_at cls m' = rules_at cls m @ url_rules lib s cfg cls url"
proof -
  from assms obtain u classes where u: "parseIngress url = Inr u" "GetIngressClasses cfg (u_host u) = Inr classes"
    and fold: "foldM_result (add_ingress_class lib s cfg u) classes m = Inr m'"
    by (auto simp: add_ingress_url_def result_simps)
  have "rules_at cls m' = rules_at cls m
      @ concat (map (\<lambda>c. if c = cls \<and> served cfg c then [class_rule lib s u c] else []) classes)"
    by (rule foldM_result_collect[OF fold]) (rule add_ingress_class_rules)
  also have "concat (map (\<lambda>c. if c = cls \<and> served cfg c then [class_rule lib s u c] else []) classes) =
      map (class_rule lib s u) (filter (\<lambda>c. c = cls \<and> served cfg c) classes)"
    by (induction classes) auto
  finally show ?thesis by (simp add: url_rules_def u)
qed

lemma createIngresses_rules:
  "createIngresses lib s cfg = Inr m \<Longrightarrow>
     rules_at cls m = concat (map (url_rules lib s cfg cls) (ws_ingresses (src_spec s)))"
  using foldM_result_collect[of "add_ingress_url lib s cfg" "ws_ingresses (src_spec s)" "[]" m "rules_at cls"
      "url_rules lib s cfg cls"] add_ingress_url_rules
  by (simp add: createIngresses_def rules_at_def[of cls "[]"])

lemma createIngresses_nonempty:
  assumes "createIngresses lib s cfg = Inr m"
  shows "all_entries (\<lambda>ing. is_rules (ing_spec ing) \<noteq> []) m"
proof (rule foldM_all_entries[OF _ assms[unfolded createIngresses_def]])
  fix url m1 m2
  assume inv: "all_entries (\<lambda>ing. is_rules (ing_spec ing) \<noteq> []) m1" and "add_ingress_url lib s cfg url m1 = Inr m2"
  then obtain u cs where fold: "foldM_result (add_ingress_class lib s cfg u) cs m1 = Inr m2"
    by (auto simp: add_ingress_url_def result_simps)
  show "all_entries (\<lambda>ing. is_rules (ing_spec ing) \<noteq> []) m2"
    by (rule foldM_all_entries[OF inv fold])
      (auto simp: add_ingress_class_def Let_def result_simps intro!: all_entries_update split: if_splits)
qed simp

lemma parseIngress_Inr:
  assumes "parseIngress url = Inr u"
  shows "u_scheme u = ''https'' \<and> u_host u \<noteq> [] \<and> fqdn_valid (u_host u) \<and> (\<exists>u0. Parse url = Some u0 \<and> u_host u0 = u_host u)"
  using assms by (auto simp: parseIngress_def Let_def ValidateUrl_iff split: option.splits)

lemma url_rules_host:
  assumes "rule \<in> set (url_rules lib s cfg cls url)"
  obtains u classes where "parseIngress url = Inr u" "GetIngressClasses cfg (u_host u) = Inr classes"
    "cls \<in> set classes" "served cfg cls" "rule = class_rule lib s u cls"
proof (cases "parseIngress url")
  case (Inr u)
  with assms that show ?thesis by (cases "GetIngressClasses cfg (u_host u)") (auto simp: url_rules_def)
qed (use assms in \<open>simp add: url_rules_def\<close>)

text \<open>Every entry of the map comes from a URL of the manifest that the class serves.\<close>

lemma createIngresses_entry:
  assumes "createIngresses lib s cfg = Inr m" and "map_of m cls = Some ing"
  obtains url u classes where "url \<in> set (ws_ingresses (src_spec s))" "parseIngress url = Inr u"
    "GetIngressClasses cfg (u_host u) = Inr classes" "cls \<in> set classes" "served cfg cls"
proof -
  from createIngresses_nonempty[OF assms(1)] assms(2) have "is_rules (ing_spec ing) \<noteq> []" by (rule all_entriesD)
  then obtain rule where "rule \<in> set (rules_at cls m)"
    using assms(2) by (metis list.set_intros(1) neq_Nil_conv option.simps(5) rules_at_def)
  then obtain url where "url \<in> set (ws_ingresses (src_spec s))" "rule \<in> set (url_rules lib s cfg cls url)"
    by (auto simp: createIngresses_rules[OF assms(1)])
  with that show thesis by (metis url_rules_host)
qed

text \<open>C16. The Ingress of a class has exactly the rules of the URLs that the class serves, in the order of the
  manifest, and every class with such a URL has an Ingress; a rule is for the host of its URL, which is a
  valid domain name given with https. HAProxy classes are left out when HAProxy is disabled.\<close>

theorem createIngresses_exact:
  assumes "createIngresses lib s cfg = Inr m"
  shows "rules_at cls m = concat (map (url_rules lib s cfg cls) (ws_ingresses (src_spec s)))
    \<and> (\<forall>rule \<in> set (rules_at cls m). served cfg cls \<and> fqdn_valid (ir_host rule)
        \<and> (\<exists>url \<in> set (ws_ingresses (src_spec s)). \<exists>u. parseIngress url = Inr u
             \<and> u_scheme u = ''https'' \<and> ir_host rule = u_host u))"
proof (intro conjI ballI)
  show rules: "rules_at cls m = concat (map (url_rules lib s cfg cls) (ws_ingresses (src_spec s)))"
    by (rule createIngresses_rules[OF assms])
  fix rule assume "rule \<in> set (rules_at cls m)"
  then obtain url where url: "url \<in> set (ws_ingresses (src_spec s))" and "rule \<in> set (url_rules lib s cfg cls url)"
    by (auto simp: rules)
  then obtain u where u: "parseIngress url = Inr u" "served cfg cls" "rule = class_rule lib s u cls"
    by (metis url_rules_host)
  have host: "ir_host rule = u_host u"
    by (simp add: u class_rule_def createIngressRule_def rule_url_def Let_def)
  from u(2) show "served cfg cls" .
  from parseIngress_Inr[OF u(1)] host show "fqdn_valid (ir_host rule)" by simp
  from parseIngress_Inr[OF u(1)] host url u(1)
  show "\<exists>url \<in> set (ws_ingresses (src_spec s)). \<exists>u. parseIngress url = Inr u
             \<and> u_scheme u = ''https'' \<and> ir_host rule = u_host u" by blast
qed

text \<open>C17. The Ingress and the NetworkPolicy agree: for every ingress class that gets an Ingress, the generated
  NetworkPolicy lets the controller pods of that class in the nais namespace connect to the workload.\<close>

theorem ingress_class_is_admitted:
  assumes "createIngresses lib s cfg = Inr m" and "map_of m cls = Some ing" and "inbound_rules_law lib"
    and "ep_namespace ep = GetNaisNamespace cfg" and "ep_labels ep ''nais.io/ingressClass'' = Some cls"
  shows "rules_admit (src_namespace s) (nps_ingress (netpolSpec lib (src_name s) cfg
     (ws_access_policy (src_spec s)) (ws_ingresses (src_spec s)) (ws_leader_election (src_spec s)))) ep"
proof -
  from assms(1,2) obtain url u classes where url: "url \<in> set (ws_ingresses (src_spec s))" "parseIngress url = Inr u"
    "GetIngressClasses cfg (u_host u) = Inr classes" "cls \<in> set classes" by (rule createIngresses_entry)
  from parseIngress_Inr[OF url(2)] obtain u0 where "Parse url = Some u0" "u_host u0 = u_host u" by blast
  with url assms(4,5) have "rules_admit (src_namespace s) (ingress_url_rules cfg url) ep"
    unfolding ingress_url_rules_admit by metis
  with url(1) have "rules_admit (src_namespace s) (ingressRulesFromIngress (ws_ingresses (src_spec s)) cfg) ep"
    unfolding ingressRulesFromIngress_def rules_admit_concat by blast
  then show ?thesis by (simp add: netpolSpec_def ingressRules_def)
qed

section \<open>Paths and annotations for HAProxy\<close>

lemma TrimRight_subset: "set (TrimRight s cs) \<subseteq> set s"
proof -
  obtain r where "s = TrimRight s cs @ r" using TrimRight_prefix by blast
  then have "set s = set (TrimRight s cs @ r)" by (rule arg_cong)
  then show ?thesis by auto
qed

lemma slash_not_meta: "\<not> regex_meta (CHR ''/'')"
  by (simp add: regex_meta_def)

lemma stripRegexPath_literal: "\<not> isRegexPath (stripRegexPath path)"
proof -
  let ?lit = "takeWhile (\<lambda>c. \<not> (regex_meta c \<or> c = CHR ''.'')) path"
  have "\<forall>c \<in> set ?lit. \<not> regex_meta c" by (auto dest: set_takeWhileD)
  then have "\<forall>c \<in> set (TrimRight ?lit ''/''). \<not> regex_meta c" using TrimRight_subset by blast
  then show ?thesis using slash_not_meta by (auto simp: stripRegexPath_def Let_def isRegexPath_def list_ex_iff)
qed

lemma TrimRight_take: "\<exists>r. p @ q = TrimRight p cs @ r"
  using TrimRight_prefix[of p cs] by (metis append_assoc)

lemma stripRegexPath_prefix: "stripRegexPath path = ''/'' \<or> (\<exists>r. path = stripRegexPath path @ r)"
  using TrimRight_take[of "takeWhile (\<lambda>c. \<not> (regex_meta c \<or> c = CHR ''.'')) path"
      "dropWhile (\<lambda>c. \<not> (regex_meta c \<or> c = CHR ''.'')) path" "''/''"]
  unfolding takeWhile_dropWhile_id by (simp add: stripRegexPath_def Let_def)

lemma exactPairLiteral_Some:
  assumes "exactPairLiteral path = Some l"
  shows "l \<noteq> [] \<and> \<not> isRegexPath l \<and> (\<exists>r. path = l @ r)"
proof -
  from assms obtain loc where l: "l = TrimRight (take loc path) ''/''" "l \<noteq> []" "\<not> isRegexPath l"
    by (auto simp: exactPairLiteral_def Let_def split: option.splits if_splits)
  from TrimRight_take[of "take loc path" "drop loc path" "''/''"] have "\<exists>r. path = l @ r" by (simp add: l(1))
  with l show ?thesis by blast
qed

text \<open>HAProxy does not understand regular expressions: unless the workload rewrites with capture groups, every
  path in its Ingress is literal, has type Prefix or Exact, and is the root or begins the path of the
  manifest (a trailing slash aside); a path without metacharacters is kept as it is.\<close>

lemma haproxy_paths_literal:
  assumes "\<not> hasCaptureGroupAnnotation annotations" and "p \<in> set (haproxyIngressPaths path annotations backend)"
  shows "\<not> isRegexPath (ip_path p) \<and> ip_type p \<in> {PathTypePrefix, PathTypeExact}
    \<and> (ip_path p = ''/'' \<or> (\<exists>l r. ip_path p \<in> {l, l @ ''/''} \<and> path = l @ r))
    \<and> (\<not> isRegexPath path \<longrightarrow> ip_path p = path)"
proof (cases "isRegexPath path")
  case False
  with assms show ?thesis by (auto simp: haproxyIngressPaths_def ingressPath_def)
next
  case True
  show ?thesis
  proof (cases "exactPairLiteral path")
    case None
    with True assms stripRegexPath_literal[of path] stripRegexPath_prefix[of path] show ?thesis
      by (auto simp: haproxyIngressPaths_def ingressPath_def)
  next
    case (Some l)
    with True assms have "p \<in> {ingressPath l PathTypeExact backend, ingressPath (l @ ''/'') PathTypeExact backend}"
      by (simp add: haproxyIngressPaths_def)
    moreover from exactPairLiteral_Some[OF Some] have "\<exists>r. path = l @ r" "\<not> isRegexPath l" "\<not> isRegexPath (l @ ''/'')"
      using slash_not_meta by (auto simp: isRegexPath_def)
    moreover from calculation have "ip_path p \<in> {l, l @ ''/''}" "ip_type p = PathTypeExact"
      by (auto simp: ingressPath_def)
    moreover from calculation have "\<not> isRegexPath (ip_path p)" by auto
    ultimately show ?thesis using True by (intro conjI disjI2) auto
  qed
qed

lemma add_snippet_suffix: "\<exists>r. gm_index (Some (add_snippet sn an)) haproxyBackendConfigAnnotation = r @ sn"
  by (auto simp: add_snippet_def Let_def gm_index_Some)

lemma copyNginx_index: "HasPrefix k nginx_prefix \<Longrightarrow> gm_index (Some (copyNginxAnnotations Map.empty src)) k = gm_index (Some src) k"
  by (simp add: copyNginxAnnotations_def gm_index_Some split: option.splits)

lemma copyHAProxy_keeps_snippet:
  assumes "gm_index (Some dst) haproxyBackendConfigAnnotation = r @ sn" and "sn \<noteq> []"
  shows "\<exists>r'. gm_index (Some (copyHAProxyAnnotations dst src)) haproxyBackendConfigAnnotation = r' @ sn"
proof -
  have "HasPrefix haproxyBackendConfigAnnotation haproxy_prefix" by (simp add: HasPrefix_def)
  with assms show ?thesis
    by (cases "src haproxyBackendConfigAnnotation") (auto simp: copyHAProxyAnnotations_def gm_index_Some)
qed


section \<open>Redirects across namespaces\<close>

lemma allowedRedirectAnnotation_run:
  assumes "run_client c (allowedRedirectAnnotation ob) w = (None, w')"
  shows "w' = w \<and> (\<exists>app. kc_Get c TApplication \<lparr>key_namespace = obj_namespace ob, key_name = label (obj_meta ob) ''app''\<rparr> w
      = Inr app \<and> annotation (obj_meta app) AllowedRedirectAnnotation = ''true'')"
  using assms by (auto simp: allowedRedirectAnnotation_def Let_def split: if_splits sum.splits)

lemma allowedRedirectAnnotation_state: "snd (run_client c (allowedRedirectAnnotation ob) w) = w"
  by (auto simp: allowedRedirectAnnotation_def Let_def split: sum.splits)

lemma findMatch_Some:
  "findMatch items host = Some ob \<Longrightarrow> ob \<in> set items \<and> (\<exists>rule \<in> set (ingress_rules_of ob). ir_host rule = host)"
  by (auto simp: findMatch_def find_Some_iff list_ex_iff)

text \<open>The consent of the owner of an Ingress: it is in the namespace of the source, or the application it belongs to
  carries the annotation.\<close>

definition redirect_consent :: "'w kube_client \<Rightarrow> 'w \<Rightarrow> source \<Rightarrow> k8s_object \<Rightarrow> bool" where
  "redirect_consent c w s ob \<longleftrightarrow> obj_namespace ob = src_namespace s
     \<or> (\<exists>app. kc_Get c TApplication \<lparr>key_namespace = obj_namespace ob, key_name = label (obj_meta ob) ''app''\<rparr> w = Inr app
          \<and> annotation (obj_meta app) AllowedRedirectAnnotation = ''true'')"

definition redirect_ok :: "'w kube_client \<Rightarrow> 'w lookup \<Rightarrow> 'w \<Rightarrow> source \<Rightarrow> redirect \<Rightarrow> bool" where
  "redirect_ok c lk w s r \<longleftrightarrow> (\<exists>u ob. Parse (rd_from r) = Some u \<and> lk w (obj_id ob) = Some ob
     \<and> obj_type ob = TIngress \<and> (\<exists>rule \<in> set (ingress_rules_of ob). ir_host rule = u_host u)
     \<and> redirect_consent c w s ob)"

lemma redirects_allowed_ok:
  assumes "api_list c lk" and "src_namespace s \<noteq> []" and "fst (run_client c (redirects_allowed s rs) w) = None"
  shows "\<forall>r \<in> set rs. redirect_ok c lk w s r"
  using assms(3)
proof (induction rs)
  case (Cons r rs)
  let ?own = "list_all_namespaces\<lparr>lo_namespace := src_namespace s\<rparr>"
  from Cons.prems obtain u where u: "Parse (rd_from r) = Some u" by (cases "Parse (rd_from r)") auto
  from Cons.prems u obtain items where items: "kc_List c TIngress ?own w = Inr items"
    by (cases "kc_List c TIngress ?own w") auto
  have own: "set items = {ob. lk w (obj_id ob) = Some ob \<and> list_matches TIngress ?own ob}"
    using assms(1) items by (rule api_list_set) (simp add: list_all_namespaces_def)
  show ?case
  proof (cases "findMatch items (u_host u)")
    case (Some ob)
    with findMatch_Some own have ob: "lk w (obj_id ob) = Some ob" "list_matches TIngress ?own ob"
      "\<exists>rule \<in> set (ingress_rules_of ob). ir_host rule = u_host u" by blast+
    then have "redirect_ok c lk w s r" using assms(2) u
      by (auto simp: redirect_ok_def redirect_consent_def list_matches_def list_all_namespaces_def)
    with Cons u items Some show ?thesis by simp
  next
    case None
    with Cons.prems u items obtain all where all: "kc_List c TIngress list_all_namespaces w = Inr all"
      by (cases "kc_List c TIngress list_all_namespaces w") auto
    have everywhere: "set all = {ob. lk w (obj_id ob) = Some ob \<and> list_matches TIngress list_all_namespaces ob}"
      using assms(1) all by (rule api_list_set) (simp add: list_all_namespaces_def)
    from Cons.prems u items None all obtain ob where found: "findMatch all (u_host u) = Some ob"
      by (cases "findMatch all (u_host u)") auto
    with findMatch_Some everywhere have ob: "lk w (obj_id ob) = Some ob" "obj_type ob = TIngress"
      "\<exists>rule \<in> set (ingress_rules_of ob). ir_host rule = u_host u"
      by (auto simp: list_matches_def)
    have "redirect_consent c w s ob \<and> fst (run_client c (redirects_allowed s rs) w) = None"
    proof (cases "obj_namespace ob = src_namespace s")
      case False
      with Cons.prems u items None all found
      have run: "fst (run_client c (bind_error (allowedRedirectAnnotation ob) (redirects_allowed s rs)) w) = None" by simp
      then have "fst (run_client c (allowedRedirectAnnotation ob) w) = None"
        by (auto simp: bind_error_def run_client_bind split: option.splits)
      with allowedRedirectAnnotation_state[of c ob w]
      have "run_client c (allowedRedirectAnnotation ob) w = (None, w)" by (simp add: prod_eq_iff)
      from allowedRedirectAnnotation_run[OF this] run this show ?thesis
        by (auto simp: redirect_consent_def bind_error_def run_client_bind)
    qed (use Cons.prems u items None all found in \<open>simp add: redirect_consent_def\<close>)
    with Cons.IH ob u show ?thesis by (auto simp: redirect_ok_def)
  qed
qed simp

lemma RedirectAllowed_consent:
  assumes "api_list c lk" and "src_namespace s \<noteq> []" and "fst (run_client c (RedirectAllowed s) w) = None"
    and "r \<in> set (ws_redirects (src_spec s))"
  shows "redirect_ok c lk w s r"
proof -
  from assms(4) have "hasRedirects s" by (auto simp: hasRedirects_def)
  with assms(3) have "fst (run_client c (redirects_allowed s (ws_redirects (src_spec s))) w) = None"
    by (simp add: RedirectAllowed_def)
  from redirects_allowed_ok[OF assms(1,2) this] assms(4) show ?thesis by blast
qed

text \<open>C34. Nobody can take over traffic of another team without its consent: when the check of the redirects passes,
  then for every redirect the cluster has an Ingress with a rule for the host redirected from, and that
  Ingress is in the namespace of the workload or the application it belongs to has the annotation
  \<open>nais.io/allow-redirect: true\<close>.\<close>

theorem RedirectAllowed_needs_consent:
  assumes "api_list c lk" and "src_namespace s \<noteq> []" and "fst (run_client c (RedirectAllowed s) w) = None"
    and "r \<in> set (ws_redirects (src_spec s))"
  shows "\<exists>u ob. Parse (rd_from r) = Some u \<and> lk w (obj_id ob) = Some ob \<and> obj_type ob = TIngress
    \<and> (\<exists>rule \<in> set (ingress_rules_of ob). ir_host rule = u_host u)
    \<and> (obj_namespace ob = src_namespace s
       \<or> (\<exists>app. kc_Get c TApplication \<lparr>key_namespace = obj_namespace ob, key_name = label (obj_meta ob) ''app''\<rparr> w = Inr app
            \<and> annotation (obj_meta app) ''nais.io/allow-redirect'' = ''true''))"
  using RedirectAllowed_consent[OF assms] unfolding redirect_ok_def redirect_consent_def .

lemma RedirectAllowed_reads_only: "reads_only (RedirectAllowed s)"
proof -
  have "reads_only (redirects_allowed s rs)" for rs
    by (induction rs)
      (auto simp: bind_error_def allowedRedirectAnnotation_def Let_def intro!: reads_only_bind
        split: option.splits sum.splits)
  then show ?thesis by (simp add: RedirectAllowed_def)
qed

end
