(* ===== verification/Generators.thy ===== *)
theory Generators
  imports Ingress
begin

text \<open>
  \<open>Prepare\<close> of the two generators (src/pkg/generators: application.go, naisjob.go, sqlinstance.go,
  postgres.go): what they read of the cluster and the \<open>Options\<close> they make. Both are programs over a
  client. The locale \<open>prepare_contract\<close> is what the synchronizer relies on when it runs them on the
  read-only client. The mapping of watch events to reconcile requests (src/pkg/controllers) and the
  list of types that the synchronizer cleans up (src/pkg/scheme/listers.go) are here too.
\<close>

section \<open>What Prepare reads\<close>

definition hasPrivateIpInSharedVpc :: "k8s_object \<Rightarrow> options \<Rightarrow> bool" where
  "hasPrivateIpInSharedVpc sqlinstance opt = (case obj_payload sqlinstance of
     PSQLInstance spec \<Rightarrow> (case sis_private_network (si_settings spec) of
         None \<Rightarrow> False | Some external \<Rightarrow> Contains external (GetGoogleProjectID opt))
   | _ \<Rightarrow> False)"

definition prepareSqlInstance :: "source \<Rightarrow> options \<Rightarrow> options result client_prog" where
  "prepareSqlInstance s opt =
     (if \<not> IsGCPEnabled opt then Return (Inr opt)
      else case ws_gcp (src_spec s) of
        None \<Rightarrow> Return (Inr opt)
      | Some gcpSpec \<Rightarrow>
          (case gcp_sql_instances gcpSpec of
             [inst] \<Rightarrow>
               if \<not> fe_SQLInstanceInSharedVpc (cfg_Features (opt_Config opt)) then Return (Inr opt)
               else let instanceName = (if length (sim_name inst) > 0 then sim_name inst else src_name s)
                    in DoGet TSQLInstance \<lparr>key_namespace = src_namespace s, key_name = instanceName\<rparr> (\<lambda>r. case r of
                         Inl err \<Rightarrow>
                           if \<not> IsNotFound err then Return (Inl (errorf_s ''query existing sqlinstance: '' err))
                           else Return (Inr (opt\<lparr>opt_SqlInstance := (opt_SqlInstance opt)\<lparr>sqs_exists := False\<rparr>\<rparr>))
                       | Inr sqlinstance \<Rightarrow> Return (Inr (opt\<lparr>opt_SqlInstance := \<lparr>sqs_exists = True,
                           sqs_private_ip_in_shared_vpc = hasPrivateIpInSharedVpc sqlinstance opt\<rparr>\<rparr>)))
           | _ \<Rightarrow> Return (Inr opt)))"

definition AllEngines :: "string list" where
  "AllEngines = [''cnpg'', ''zalando'']"

definition postgres_engine :: "k8s_object \<Rightarrow> string" where
  "postgres_engine pg = (case obj_payload pg of PPostgres (Some engine) \<Rightarrow> engine | _ \<Rightarrow> [])"

definition preparePostgres :: "source \<Rightarrow> options \<Rightarrow> options result client_prog" where
  "preparePostgres s opt = (case ws_postgres_cluster (src_spec s) of
     None \<Rightarrow> Return (Inr opt)
   | Some clusterName \<Rightarrow>
       DoGet TPostgres \<lparr>key_namespace = src_namespace s, key_name = clusterName\<rparr> (\<lambda>r. case r of
         Inl err \<Rightarrow> Return (Inl (errorf_w ''failed to get postgres cluster: '' err))
       | Inr pg \<Rightarrow>
           (let engine = postgres_engine pg
            in if engine = []
               then Return (Inl (errorf (''waiting for pgrator to set engine in status on ''
                      @ obj_namespace pg @ ''/'' @ obj_name pg @ ''; will retry'')))
               else if engine \<notin> set AllEngines
               then Return (Inl (errorf (''unknown postgres engine: '' @ engine)))
               else Return (Inr (opt\<lparr>opt_PostgresClusterEngine := engine\<rparr>)))))"

abbreviation project_id_annotation :: string where
  "project_id_annotation \<equiv> ''cnrm.cloud.google.com/project-id''"

text \<open>A query whose NotFound is no error: the Go variable then keeps its zero value.\<close>

definition get_optional :: "go_type \<Rightarrow> object_key \<Rightarrow> string \<Rightarrow> k8s_object option result client_prog" where
  "get_optional t key what = DoGet t key (\<lambda>r. case r of
     Inr ob \<Rightarrow> Return (Inr (Some ob))
   | Inl err \<Rightarrow> if \<not> IsNotFound err then Return (Inl (errorf_s (''query existing '' @ what @ '': '') err))
                else Return (Inr None))"

text \<open>The other kind of workload must not have the same name; any error of the query counts as absent.\<close>

definition refuse_same_name :: "go_type \<Rightarrow> object_key \<Rightarrow> string \<Rightarrow> unit result client_prog" where
  "refuse_same_name t key msg = DoGet t key (\<lambda>r. case r of
     Inr ob \<Rightarrow> Return (Inl (errorf msg)) | Inl err \<Rightarrow> Return (Inr ()))"

definition deployment_of_object :: "k8s_object option \<Rightarrow> deployment_spec option" where
  "deployment_of_object ob = (case ob of
     Some x \<Rightarrow> (case obj_payload x of PDeployment spec st \<Rightarrow> Some spec | _ \<Rightarrow> None) | None \<Rightarrow> None)"

definition project_id_of :: "k8s_object option \<Rightarrow> string" where
  "project_id_of namespace = (case namespace of
     None \<Rightarrow> [] | Some ns \<Rightarrow> annotation (obj_meta ns) project_id_annotation)"

definition error_result :: "error client_prog \<Rightarrow> unit result client_prog" where
  "error_result p = cp_bind p (\<lambda>err. Return (case err of Some e \<Rightarrow> Inl e | None \<Rightarrow> Inr ()))"

definition Application_Prepare :: "config \<Rightarrow> source \<Rightarrow> options result client_prog" where
  "Application_Prepare cfg s =
     (if src_kind s \<noteq> Application
      then Return (Inl (errorf ''BUG: this generator accepts only nais_io_v1alpha1.Application objects''))
      else let key = \<lparr>key_namespace = src_namespace s, key_name = src_name s\<rparr>
           in bind_result (get_optional TDeployment key ''deployment'') (\<lambda>deploy.
              bind_result (refuse_same_name TNaisjob key (''cannot create an Application with name '' @ in_quotes (src_name s)
                  @ '' because a Naisjob with that name exists'')) (\<lambda>_.
              let opt1 = (new_options cfg)\<lparr>opt_NumReplicas := numReplicas (deployment_of_object deploy)
                  (rep_min (ws_replicas (src_spec s))) (rep_max (ws_replicas (src_spec s)))\<rparr>
              in bind_result (get_optional TNamespace \<lparr>key_namespace = [], key_name = src_namespace s\<rparr> ''namespace'') (\<lambda>namespace.
                 bind_result (error_result (RedirectAllowed s)) (\<lambda>_.
                 bind_result (prepareSqlInstance s (opt1\<lparr>opt_GoogleTeamProjectID := project_id_of namespace\<rparr>)) (\<lambda>opt2.
                 bind_result (preparePostgres s opt2) (\<lambda>opt3.
                   Return (Inr (opt3\<lparr>opt_Team := src_namespace s\<rparr>)))))))))"

definition Naisjob_Prepare :: "config \<Rightarrow> source \<Rightarrow> options result client_prog" where
  "Naisjob_Prepare cfg s =
     (if src_kind s \<noteq> Naisjob
      then Return (Inl (errorf ''BUG: this generator accepts only nais_io_v1.Naisjob objects''))
      else let key = \<lparr>key_namespace = src_namespace s, key_name = src_name s\<rparr>;
               opt1 = (new_options cfg)\<lparr>opt_NumReplicas := 1\<rparr>
           in bind_result (get_optional TNamespace \<lparr>key_namespace = [], key_name = src_namespace s\<rparr> ''namespace'') (\<lambda>namespace.
              bind_result (refuse_same_name TApplication key (''cannot create a Naisjob with name '' @ in_quotes (src_name s)
                  @ '' because an Application with that name exists'')) (\<lambda>_.
              bind_result (prepareSqlInstance s (opt1\<lparr>opt_GoogleTeamProjectID := project_id_of namespace\<rparr>)) (\<lambda>opt2.
              bind_result (preparePostgres s opt2) (\<lambda>opt3.
                Return (Inr (opt3\<lparr>opt_Team := src_namespace s\<rparr>)))))))"

section \<open>Watch events\<close>

definition mapImageToApplicationOrNaisjob :: "k8s_object \<Rightarrow> object_key list" where
  "mapImageToApplicationOrNaisjob ob = [\<lparr>key_namespace = obj_namespace ob, key_name = obj_name ob\<rparr>]"

definition uses_postgres :: "string \<Rightarrow> k8s_object \<Rightarrow> bool" where
  "uses_postgres clusterName ob = (case source_of_object ob of
     None \<Rightarrow> False | Some s \<Rightarrow> ws_postgres_cluster (src_spec s) = Some clusterName)"

definition map_postgres :: "go_type \<Rightarrow> k8s_object \<Rightarrow> object_key list client_prog" where
  "map_postgres t ob = DoList t (list_all_namespaces\<lparr>lo_namespace := obj_namespace ob\<rparr>) (\<lambda>r. case r of
     Inl err \<Rightarrow> Return []
   | Inr items \<Rightarrow> Return (map obj_key (filter (uses_postgres (obj_name ob)) items)))"

definition mapPostgresToApplications :: "k8s_object \<Rightarrow> object_key list client_prog" where
  "mapPostgresToApplications ob = map_postgres TApplication ob"

definition mapPostgresToNaisjobs :: "k8s_object \<Rightarrow> object_key list client_prog" where
  "mapPostgresToNaisjobs ob = map_postgres TNaisjob ob"

section \<open>The types that the synchronizer cleans up\<close>

definition GenericListers :: "go_type list" where
  "GenericListers = [TDeployment, TCronJob, TJob, THorizontalPodAutoscaler, TSecret, TServiceAccount, TService,
     TPodDisruptionBudget, TNetworkPolicy, TIngress, TRoleBinding, TOther ''Role'',
     TAzureAdApplication, TOther ''IDPortenClient'', TJwker, TMaskinportenClient,
     TAivenApplication, TStream]"

definition GCPListers :: "go_type list" where
  "GCPListers = [TIAMPolicy, TIAMPolicyMember, TIAMServiceAccount, TSQLDatabase, TSQLInstance, TSQLUser,
     TSQLSSLCert, TStorageBucketAccessControl, TStorageBucket, TFQDNNetworkPolicy, TBigQueryDataset]"

definition AivenListers :: "go_type list" where
  "AivenListers = [TOther ''Valkey'', TOther ''OpenSearch'']"

section \<open>What the synchronizer relies on\<close>

locale prepare_contract =
  fixes prepare :: "config \<Rightarrow> source \<Rightarrow> options result client_prog"
  assumes prepare_reads_only: "reads_only (prepare cfg s)"
    and prepare_options: "fst (run_client c (prepare cfg s) w) = Inr opt \<Longrightarrow>
      opt_Config opt = cfg \<and> opt_Team opt = src_namespace s"
begin

lemma prepare_keeps_cluster: "snd (run_client c (prepare cfg s) w) = w"
  by (rule reads_only_state) (rule prepare_reads_only)

lemma prepare_on_readonly: "run_client (readonly_NewClient c) (prepare cfg s) w = run_client c (prepare cfg s) w"
  by (rule reads_only_same_reads[OF prepare_reads_only]) simp_all

end

lemma run_bind_result:
  assumes "reads_only p"
  shows "run_client c (bind_result p k) w = (case fst (run_client c p w) of
     Inl e \<Rightarrow> (Inl e, w) | Inr x \<Rightarrow> run_client c (k x) w)"
  by (simp add: bind_result_def run_client_bind reads_only_state[OF assms] split: sum.splits)

lemma reads_only_bind_result:
  "reads_only p \<Longrightarrow> (\<And>x. reads_only (k x)) \<Longrightarrow> reads_only (bind_result p k)"
  by (auto simp: bind_result_def intro!: reads_only_bind split: sum.splits)

lemma parts_read_only [simp]:
  "reads_only (get_optional t key what)" "reads_only (refuse_same_name t key msg)"
  "reads_only (error_result (RedirectAllowed s))" "reads_only (prepareSqlInstance s opt)"
  "reads_only (preparePostgres s opt)"
  by (auto simp: get_optional_def refuse_same_name_def error_result_def prepareSqlInstance_def preparePostgres_def
      Let_def intro!: reads_only_bind RedirectAllowed_reads_only split: sum.splits option.splits list.splits)

lemma Application_Prepare_reads_only: "reads_only (Application_Prepare cfg s)"
  by (auto simp: Application_Prepare_def Let_def intro!: reads_only_bind_result)

lemma Naisjob_Prepare_reads_only: "reads_only (Naisjob_Prepare cfg s)"
  by (auto simp: Naisjob_Prepare_def Let_def intro!: reads_only_bind_result)

text \<open>Neither query touches the other options.\<close>

definition same_basics :: "options \<Rightarrow> options \<Rightarrow> bool" where
  "same_basics o1 o2 \<longleftrightarrow> opt_Config o2 = opt_Config o1 \<and> opt_NumReplicas o2 = opt_NumReplicas o1
     \<and> opt_GoogleTeamProjectID o2 = opt_GoogleTeamProjectID o1"

lemma prepareSqlInstance_config:
  "fst (run_client c (prepareSqlInstance s opt) w) = Inr opt' \<Longrightarrow> same_basics opt opt'"
  by (auto simp: prepareSqlInstance_def Let_def same_basics_def split: if_splits option.splits list.splits sum.splits)

lemma preparePostgres_config:
  assumes "fst (run_client c (preparePostgres s opt) w) = Inr opt'"
  shows "same_basics opt opt'
    \<and> (ws_postgres_cluster (src_spec s) \<noteq> None \<longrightarrow> opt_PostgresClusterEngine opt' \<in> set AllEngines)"
  using assms
  by (auto simp: preparePostgres_def Let_def same_basics_def split: if_splits option.splits sum.splits)

text \<open>What a successful \<open>Prepare\<close> has read and made.\<close>

lemma run_get_optional:
  "fst (run_client c (get_optional t key what) w) = (case kc_Get c t key w of
     Inr ob \<Rightarrow> Inr (Some ob)
   | Inl err \<Rightarrow> if IsNotFound err then Inr None else Inl (errorf_s (''query existing '' @ what @ '': '') err))"
  by (simp add: get_optional_def split: sum.splits)

lemma run_refuse_same_name:
  "fst (run_client c (refuse_same_name t key msg) w) = (case kc_Get c t key w of
     Inr ob \<Rightarrow> Inl (errorf msg) | Inl err \<Rightarrow> Inr ())"
  by (simp add: refuse_same_name_def split: sum.splits)

lemma get_optional_lk:
  "api_get c lk \<Longrightarrow> fst (run_client c (get_optional t key what) w) = Inr (lk w (t, key))"
  by (cases "lk w (t, key)") (auto simp: run_get_optional dest: api_get_None api_get_Some split: sum.splits)

lemma refuse_same_name_lk:
  assumes "api_get c lk"
  shows "fst (run_client c (refuse_same_name t key msg) w) = (if lk w (t, key) = None then Inr () else Inl (errorf msg))"
  using assms api_get_None[OF assms, of w t key] api_get_Some[OF assms, of w t key]
  by (cases "lk w (t, key)") (auto simp: run_refuse_same_name split: sum.splits)

lemma run_error_result: "fst (run_client c (error_result p) w) = Inr u \<longleftrightarrow> fst (run_client c p w) = None"
  by (simp add: error_result_def run_client_bind split: option.splits)

lemma Application_Prepare_Inr:
  assumes "fst (run_client c (Application_Prepare cfg s) w) = Inr opt"
  obtains deploy namespace where "src_kind s = Application"
    "fst (run_client c (get_optional TDeployment \<lparr>key_namespace = src_namespace s, key_name = src_name s\<rparr> ''deployment'') w) = Inr deploy"
    "\<not> is_ok (kc_Get c TNaisjob \<lparr>key_namespace = src_namespace s, key_name = src_name s\<rparr> w)"
    "fst (run_client c (get_optional TNamespace \<lparr>key_namespace = [], key_name = src_namespace s\<rparr> ''namespace'') w) = Inr namespace"
    "fst (run_client c (RedirectAllowed s) w) = None"
    "opt_Config opt = cfg" "opt_Team opt = src_namespace s"
    "opt_NumReplicas opt = numReplicas (deployment_of_object deploy)
        (rep_min (ws_replicas (src_spec s))) (rep_max (ws_replicas (src_spec s)))"
    "opt_GoogleTeamProjectID opt = project_id_of namespace"
    "ws_postgres_cluster (src_spec s) \<noteq> None \<longrightarrow> opt_PostgresClusterEngine opt \<in> set AllEngines"
proof -
  let ?key = "\<lparr>key_namespace = src_namespace s, key_name = src_name s\<rparr>"
  let ?opt1 = "\<lambda>deploy. (new_options cfg)\<lparr>opt_NumReplicas := numReplicas (deployment_of_object deploy)
        (rep_min (ws_replicas (src_spec s))) (rep_max (ws_replicas (src_spec s)))\<rparr>"
  from assms obtain deploy namespace opt2 opt3 where
      1: "src_kind s = Application" "fst (run_client c (get_optional TDeployment ?key ''deployment'') w) = Inr deploy"
    and job: "\<exists>u. fst (run_client c (refuse_same_name TNaisjob ?key (''cannot create an Application with name ''
        @ in_quotes (src_name s) @ '' because a Naisjob with that name exists'')) w) = Inr u"
    and ns: "fst (run_client c (get_optional TNamespace \<lparr>key_namespace = [], key_name = src_namespace s\<rparr> ''namespace'') w) = Inr namespace"
    and red: "\<exists>u. fst (run_client c (error_result (RedirectAllowed s)) w) = Inr u"
    and sql: "fst (run_client c (prepareSqlInstance s ((?opt1 deploy)\<lparr>opt_GoogleTeamProjectID := project_id_of namespace\<rparr>)) w) = Inr opt2"
    and pg: "fst (run_client c (preparePostgres s opt2) w) = Inr opt3"
    and opt: "opt = opt3\<lparr>opt_Team := src_namespace s\<rparr>"
    by (auto simp: Application_Prepare_def Let_def run_bind_result split: if_splits sum.splits)
  have "\<not> is_ok (kc_Get c TNaisjob ?key w)" using job by (auto simp: run_refuse_same_name split: sum.splits)
  moreover have "fst (run_client c (RedirectAllowed s) w) = None" using red by (simp add: run_error_result)
  moreover have "opt_Config opt = cfg" "opt_Team opt = src_namespace s"
    "opt_NumReplicas opt = opt_NumReplicas (?opt1 deploy)" "opt_GoogleTeamProjectID opt = project_id_of namespace"
    using prepareSqlInstance_config[OF sql] preparePostgres_config[OF pg]
    by (simp_all add: opt same_basics_def new_options_def)
  moreover have "ws_postgres_cluster (src_spec s) \<noteq> None \<longrightarrow> opt_PostgresClusterEngine opt \<in> set AllEngines"
    using preparePostgres_config[OF pg] opt by simp
  ultimately show thesis using that[OF 1 _ ns] by simp
qed

lemma Naisjob_Prepare_Inr:
  assumes "fst (run_client c (Naisjob_Prepare cfg s) w) = Inr opt"
  shows "src_kind s = Naisjob \<and> opt_Config opt = cfg \<and> opt_Team opt = src_namespace s \<and> opt_NumReplicas opt = 1
    \<and> \<not> is_ok (kc_Get c TApplication \<lparr>key_namespace = src_namespace s, key_name = src_name s\<rparr> w)"
proof -
  let ?key = "\<lparr>key_namespace = src_namespace s, key_name = src_name s\<rparr>"
  from assms obtain namespace opt2 opt3 where 1: "src_kind s = Naisjob"
    and job: "\<exists>u. fst (run_client c (refuse_same_name TApplication ?key (''cannot create a Naisjob with name ''
        @ in_quotes (src_name s) @ '' because an Application with that name exists'')) w) = Inr u"
    and sql: "fst (run_client c (prepareSqlInstance s ((new_options cfg)\<lparr>opt_NumReplicas := 1,
        opt_GoogleTeamProjectID := project_id_of namespace\<rparr>)) w) = Inr opt2"
    and pg: "fst (run_client c (preparePostgres s opt2) w) = Inr opt3"
    and opt: "opt = opt3\<lparr>opt_Team := src_namespace s\<rparr>"
    by (auto simp: Naisjob_Prepare_def Let_def run_bind_result split: if_splits sum.splits)
  have "\<not> is_ok (kc_Get c TApplication ?key w)" using job by (auto simp: run_refuse_same_name split: sum.splits)
  moreover have "opt_Config opt = cfg" "opt_NumReplicas opt = 1"
    using prepareSqlInstance_config[OF sql] preparePostgres_config[OF pg]
    by (simp_all add: opt same_basics_def new_options_def)
  ultimately show ?thesis using 1 opt by simp
qed

interpretation application: prepare_contract Application_Prepare
proof
  fix c :: "'a kube_client" and cfg s w opt
  assume "fst (run_client c (Application_Prepare cfg s) w) = Inr opt"
  then show "opt_Config opt = cfg \<and> opt_Team opt = src_namespace s"
    by (rule Application_Prepare_Inr) blast
qed (rule Application_Prepare_reads_only)

interpretation naisjob: prepare_contract Naisjob_Prepare
  by unfold_locales (simp_all add: Naisjob_Prepare_reads_only Naisjob_Prepare_Inr)

section \<open>Properties\<close>

text \<open>\<open>Prepare\<close> of both generators leaves the cluster as it is, whatever client it runs on, and gives
  the same result on the read-only client as on the client that client wraps.\<close>

lemma Prepare_only_reads:
  "snd (run_client c (Application_Prepare cfg s) w) = w \<and> snd (run_client c (Naisjob_Prepare cfg s) w) = w
   \<and> run_client (readonly_NewClient c) (Application_Prepare cfg s) w = run_client c (Application_Prepare cfg s) w
   \<and> run_client (readonly_NewClient c) (Naisjob_Prepare cfg s) w = run_client c (Naisjob_Prepare cfg s) w"
  by (intro conjI application.prepare_keeps_cluster naisjob.prepare_keeps_cluster
      application.prepare_on_readonly naisjob.prepare_on_readonly)


text \<open>C33. The options of an Application: the configuration and the namespace are handed over, the number of
  replicas is computed from the Deployment that is in the cluster now, the Google project is that of the
  namespace's annotation, a Postgres engine is one that is known, and every redirect has been
  allowed.\<close>

theorem Application_Prepare_options:
  assumes "api_get c lk" and "api_list c lk" and "src_namespace s \<noteq> []"
    and "run_client c (Application_Prepare cfg s) w = (Inr opt, w')"
  shows "w' = w \<and> opt_Config opt = cfg \<and> opt_Team opt = src_namespace s
    \<and> opt_NumReplicas opt = numReplicas
        (deployment_of_object (lk w (TDeployment, \<lparr>key_namespace = src_namespace s, key_name = src_name s\<rparr>)))
        (rep_min (ws_replicas (src_spec s))) (rep_max (ws_replicas (src_spec s)))
    \<and> opt_GoogleTeamProjectID opt = project_id_of (lk w (TNamespace, \<lparr>key_namespace = [], key_name = src_namespace s\<rparr>))
    \<and> (ws_postgres_cluster (src_spec s) \<noteq> None \<longrightarrow> opt_PostgresClusterEngine opt \<in> {''cnpg'', ''zalando''})
    \<and> (\<forall>r \<in> set (ws_redirects (src_spec s)). redirect_ok c lk w s r)"
proof -
  have run: "fst (run_client c (Application_Prepare cfg s) w) = Inr opt" using assms(4) by simp
  have w': "w' = w" using application.prepare_keeps_cluster[of c cfg s w] assms(4) by simp
  from run obtain deploy namespace where
    dep: "fst (run_client c (get_optional TDeployment \<lparr>key_namespace = src_namespace s, key_name = src_name s\<rparr> ''deployment'') w) = Inr deploy"
    and ns: "fst (run_client c (get_optional TNamespace \<lparr>key_namespace = [], key_name = src_namespace s\<rparr> ''namespace'') w) = Inr namespace"
    and red: "fst (run_client c (RedirectAllowed s) w) = None"
    and opt: "opt_NumReplicas opt = numReplicas (deployment_of_object deploy)
        (rep_min (ws_replicas (src_spec s))) (rep_max (ws_replicas (src_spec s)))"
      "opt_GoogleTeamProjectID opt = project_id_of namespace"
    and pg: "ws_postgres_cluster (src_spec s) \<noteq> None \<longrightarrow> opt_PostgresClusterEngine opt \<in> set AllEngines"
    by (rule Application_Prepare_Inr)
  note opt
  moreover have "deploy = lk w (TDeployment, \<lparr>key_namespace = src_namespace s, key_name = src_name s\<rparr>)"
    "namespace = lk w (TNamespace, \<lparr>key_namespace = [], key_name = src_namespace s\<rparr>)"
    using dep ns by (simp_all add: get_optional_lk[OF assms(1)])
  moreover have "\<forall>r \<in> set (ws_redirects (src_spec s)). redirect_ok c lk w s r"
    using RedirectAllowed_consent[OF assms(2,3) red] by blast
  moreover note application.prepare_options[OF run]
  ultimately show ?thesis using w' pg by (simp add: AllEngines_def)
qed

text \<open>The requests for a Postgres cluster are exactly the applications of its namespace that use it.\<close>

lemma mapPostgresToApplications_exact:
  assumes "api_list c lk" and "obj_namespace ob \<noteq> []"
    and "kc_List c TApplication (list_all_namespaces\<lparr>lo_namespace := obj_namespace ob\<rparr>) w = Inr items"
  shows "set (fst (run_client c (mapPostgresToApplications ob) w)) =
    {obj_key app | app. lk w (obj_id app) = Some app \<and> obj_type app = TApplication
       \<and> obj_namespace app = obj_namespace ob \<and> uses_postgres (obj_name ob) app}"
proof -
  have "set items = {app. lk w (obj_id app) = Some app
      \<and> list_matches TApplication (list_all_namespaces\<lparr>lo_namespace := obj_namespace ob\<rparr>) app}"
    using assms(1,3) by (rule api_list_set) (simp add: list_all_namespaces_def)
  then show ?thesis using assms(2,3)
    by (auto simp: mapPostgresToApplications_def map_postgres_def list_matches_def list_all_namespaces_def)
qed

text \<open>Pod monitors are not among the types that are cleaned up.\<close>

lemma podmonitor_not_listed: "TPodMonitor \<notin> set (GenericListers @ GCPListers @ AivenListers)"
  by (simp add: GenericListers_def GCPListers_def AivenListers_def)

end
