(* ===== verification/Creator_Witnesses.thy ===== *)
theory Creator_Witnesses
  imports Samples Monitoring Generators
begin

text \<open>
  Concrete cases for the properties of the options, the creators, the rollout monitor's routines and the
  generators.
\<close>

section \<open>A configuration\<close>

definition sample_features :: features where
  "sample_features = \<lparr>fe_AccessPolicyNotAllowedCIDRs = [], fe_Azurerator = False, fe_CNRM = False,
     fe_GARToleration = False, fe_GCP = False, fe_HAProxy = True, fe_IDPorten = False, fe_Jwker = False,
     fe_Kafkarator = False, fe_Maskinporten = False, fe_NAVCABundle = False, fe_NetworkPolicy = True,
     fe_PostgresOperator = False, fe_PrometheusOperator = True, fe_SQLInstanceInSharedVpc = False,
     fe_Texas = False, fe_Vault = False, fe_Webhook = False, fe_Wonderwall = False\<rparr>"

definition sample_config :: config where
  "sample_config = \<lparr>cfg_AivenGeneration = 0, cfg_AivenProject = [], cfg_AivenRange = [], cfg_APIServerIP = ''10.0.0.1/32'',
     cfg_ClusterName = ''dev'', cfg_DocURL = [], cfg_DryRun = False, cfg_FQDNPolicyEnabled = True,
     cfg_Features = sample_features, cfg_FrontendTelemetryURL = [],
     cfg_DomainIngressClassMapping =
       [\<lparr>gm_domain_suffix = ''.no'', gm_ingress_class = ''nginx''\<rparr>,
        \<lparr>gm_domain_suffix = ''.x.no'', gm_ingress_class = ''x-haproxy''\<rparr>],
     cfg_GoogleCloudSQLProxyContainerImage = [], cfg_GoogleProjectID = [], cfg_HostAliases = [],
     cfg_ImagePullSecrets = [], cfg_LeaderElectionImage = [], cfg_MaxConcurrentReconciles = 1,
     cfg_NaisNamespace = ''nais'',
     cfg_Observability = \<lparr>ob_logging_destinations = [], ob_otel_enabled = False,
       ob_otel_collector = \<lparr>oc_labels = [], oc_namespace = [], oc_port = 0, oc_protocol = [], oc_service = [],
         oc_tls = False\<rparr>, ob_otel_auto_enabled = False, ob_otel_app_config = [], ob_otel_destinations = []\<rparr>,
     cfg_Proxy = \<lparr>px_address = [], px_exclude = []\<rparr>, cfg_TexasImage = [],
     cfg_Vault = \<lparr>vc_address = [], vc_init_container_image = [], vc_auth_path = [], vc_kv_path = []\<rparr>,
     cfg_WonderwallImage = []\<rparr>"

definition sample_options :: options where
  "sample_options = (new_options sample_config)\<lparr>opt_NumReplicas := 2, opt_Team := ''team''\<rparr>"

section \<open>Options\<close>

theorem GetIngressClasses_longest_witness:
  "\<exists>sfx \<in> gm_domain_suffix ` set (cfg_DomainIngressClassMapping sample_config).
     HasSuffix ''a.x.no'' sfx \<and> (\<forall>v \<in> set (cfg_DomainIngressClassMapping sample_config).
        HasSuffix ''a.x.no'' (gm_domain_suffix v) \<longrightarrow> length (gm_domain_suffix v) \<le> length sfx)
     \<and> [''x-haproxy''] = map gm_ingress_class (filter (\<lambda>v. gm_domain_suffix v = sfx)
        (cfg_DomainIngressClassMapping sample_config))"
proof -
  have "GetIngressClasses sample_options ''a.x.no'' = Inr [''x-haproxy'']" by code_simp
  with GetIngressClasses_longest[of sample_options "''a.x.no''"] show ?thesis
    by (simp add: sample_options_def new_options_def)
qed

section \<open>Network policies and ingresses\<close>

lemma sample_inbound_rules_law: "inbound_rules_law sample_lib"
  by (simp add: inbound_rules_law_def sample_lib_def)

definition friend_rule :: access_policy_rule where
  "friend_rule = \<lparr>apr_application = ''friend'', apr_namespace = [], apr_cluster = []\<rparr>"

definition sample_policy :: access_policy where
  "sample_policy = \<lparr>ap_inbound = Some [\<lparr>inr_rule = friend_rule, inr_permissions = []\<rparr>],
     ap_outbound = Some \<lparr>out_rules = [], out_external = [external_rule_of_host ''a.no'']\<rparr>\<rparr>"

definition friend_pod :: endpoint where
  "friend_pod = \<lparr>ep_namespace = ''team'', ep_labels = [''app'' \<mapsto> ''friend'']\<rparr>"

theorem netpol_ingress_exact_witness:
  "rules_admit ''team'' (nps_ingress (netpolSpec sample_lib ''app'' sample_options (Some sample_policy) [] False)) friend_pod"
  unfolding netpol_ingress_exact[OF sample_inbound_rules_law]
  by (simp add: inbound_rules_of_def sample_policy_def sample_lib_def inbound_names_def friend_rule_def friend_pod_def)

definition web_app :: source where
  "web_app = sample_app\<lparr>src_spec := sample_spec\<lparr>ws_ingresses := [''https://a.no/'']\<rparr>\<rparr>"

lemma web_app_classes:
  "case add_ingress_url sample_lib web_app sample_options ''https://a.no/'' [] of
     Inl e \<Rightarrow> False | Inr m \<Rightarrow> map fst m = [''nginx'']"
  by code_simp

lemma web_app_ingresses:
  obtains m ing where "createIngresses sample_lib web_app sample_options = Inr m" "map_of m ''nginx'' = Some ing"
proof -
  obtain m where m: "add_ingress_url sample_lib web_app sample_options ''https://a.no/'' [] = Inr m"
    and keys: "map fst m = [''nginx'']"
    using web_app_classes by (cases "add_ingress_url sample_lib web_app sample_options ''https://a.no/'' []") auto
  from keys obtain ing where "m = [(''nginx'', ing)]" by (cases m) auto
  with m that show thesis by (simp add: createIngresses_def web_app_def)
qed

theorem createIngresses_exact_witness:
  "\<exists>m rule. createIngresses sample_lib web_app sample_options = Inr m
     \<and> rules_at ''nginx'' m = concat (map (url_rules sample_lib web_app sample_options ''nginx'') [''https://a.no/''])
     \<and> rule \<in> set (rules_at ''nginx'' m) \<and> fqdn_valid (ir_host rule)"
proof -
  obtain m ing where m: "createIngresses sample_lib web_app sample_options = Inr m" "map_of m ''nginx'' = Some ing"
    by (rule web_app_ingresses)
  have "is_rules (ing_spec ing) \<noteq> []" using createIngresses_nonempty[OF m(1)] m(2) by (rule all_entriesD)
  then have "hd (is_rules (ing_spec ing)) \<in> set (rules_at ''nginx'' m)" using m(2) by (simp add: rules_at_def)
  with createIngresses_exact[OF m(1), of "''nginx''"] m(1) show ?thesis
    by (auto simp: web_app_def)
qed

definition nginx_pod :: endpoint where
  "nginx_pod = \<lparr>ep_namespace = ''nais'', ep_labels = [''nais.io/ingressClass'' \<mapsto> ''nginx'']\<rparr>"

theorem ingress_class_is_admitted_witness:
  "rules_admit (src_namespace web_app) (nps_ingress (netpolSpec sample_lib (src_name web_app) sample_options
     (ws_access_policy (src_spec web_app)) (ws_ingresses (src_spec web_app)) (ws_leader_election (src_spec web_app))))
     nginx_pod"
proof -
  obtain m ing where m: "createIngresses sample_lib web_app sample_options = Inr m" "map_of m ''nginx'' = Some ing"
    by (rule web_app_ingresses)
  show ?thesis
    by (rule ingress_class_is_admitted[OF m sample_inbound_rules_law])
      (simp_all add: nginx_pod_def sample_options_def new_options_def sample_config_def)
qed

definition listed_app :: source where
  "listed_app = sample_app\<lparr>src_meta := (src_meta sample_app)\<lparr>om_annotations :=
     Some [''nginx.ingress.kubernetes.io/whitelist-source-range'' \<mapsto> ''10.0.0.0/8'']\<rparr>\<rparr>"


section \<open>Generators\<close>

definition own_ingress :: k8s_object where
  "own_ingress = \<lparr>obj_type_meta = type_meta_zero,
     obj_meta = object_meta_zero\<lparr>om_name := ''ing'', om_namespace := ''team''\<rparr>,
     obj_payload = PIngress \<lparr>is_class = None, is_rules = [\<lparr>ir_host = ''a.no'', ir_paths = []\<rparr>]\<rparr>\<rparr>"

definition redirect_app :: source where
  "redirect_app = sample_app\<lparr>src_spec := sample_spec\<lparr>ws_redirects := [\<lparr>rd_from = ''https://a.no'', rd_to = ''https://b.no''\<rparr>]\<rparr>\<rparr>"

definition redirect_server :: mem_server where
  "redirect_server = \<lparr>mem_objects = [own_ingress], mem_counter = 0\<rparr>"

lemma redirect_app_allowed: "fst (run_client mem_client (RedirectAllowed redirect_app) redirect_server) = None"
  by code_simp

theorem RedirectAllowed_needs_consent_witness:
  "\<exists>u ob. Parse ''https://a.no'' = Some u \<and> mem_lookup redirect_server (obj_id ob) = Some ob
     \<and> (\<exists>rule \<in> set (ingress_rules_of ob). ir_host rule = u_host u)"
proof -
  have "src_namespace redirect_app \<noteq> []" by (simp add: redirect_app_def sample_app_def object_meta_zero_def)
  moreover have "\<lparr>rd_from = ''https://a.no'', rd_to = ''https://b.no''\<rparr> \<in> set (ws_redirects (src_spec redirect_app))"
    by (simp add: redirect_app_def)
  ultimately show ?thesis
    using RedirectAllowed_needs_consent[OF mem_api_list _ redirect_app_allowed] by fastforce
qed

definition clash_server :: mem_server where
  "clash_server = \<lparr>mem_objects = [object_of_source (sample_app\<lparr>src_kind := Naisjob\<rparr>)], mem_counter = 0\<rparr>"


theorem Application_Prepare_options_witness:
  "\<exists>opt. run_client mem_client (Application_Prepare sample_config redirect_app) redirect_server = (Inr opt, redirect_server)
     \<and> opt_NumReplicas opt = numReplicas None 2 4 \<and> opt_Config opt = sample_config"
proof -
  have "is_ok (fst (run_client mem_client (Application_Prepare sample_config redirect_app) redirect_server))" by code_simp
  then obtain opt w' where run: "run_client mem_client (Application_Prepare sample_config redirect_app) redirect_server = (Inr opt, w')"
    by (cases "run_client mem_client (Application_Prepare sample_config redirect_app) redirect_server") (auto simp: is_ok_iff)
  have ns: "src_namespace redirect_app \<noteq> []" by (simp add: redirect_app_def sample_app_def object_meta_zero_def)
  have "mem_lookup redirect_server (TDeployment, \<lparr>key_namespace = src_namespace redirect_app, key_name = src_name redirect_app\<rparr>) = None"
    by (simp add: mem_lookup_def redirect_server_def obj_id_def own_ingress_def obj_type_def)
  with Application_Prepare_options[OF mem_api_get mem_api_list ns run] run show ?thesis
    by (auto simp: deployment_of_object_def redirect_app_def sample_spec_def)
qed


section \<open>The monitor's routines\<close>

definition done_deployment :: k8s_object where
  "done_deployment = \<lparr>obj_type_meta = type_meta_zero,
     obj_meta = object_meta_zero\<lparr>om_name := ''app'', om_namespace := ''team''\<rparr>,
     obj_payload = PDeployment
       \<lparr>dep_replicas = Some 2, dep_match_labels = Map.empty,
        dep_strategy = \<lparr>ds_type = [], ds_rolling_update = None\<rparr>, dep_progress_deadline = None,
        dep_revision_history = None, dep_template = \<lparr>pt_meta = object_meta_zero, pt_spec = pod_spec_zero\<rparr>\<rparr>
       \<lparr>dst_updated_replicas = 2, dst_replicas = 2, dst_available_replicas = 2, dst_observed_generation = 0\<rparr>\<rparr>"

definition rollout_server :: mem_server where
  "rollout_server = \<lparr>mem_objects = [done_deployment, object_of_source sample_app], mem_counter = 0\<rparr>"

definition app_key :: object_key where
  "app_key = \<lparr>key_namespace = ''team'', key_name = ''app''\<rparr>"

lemma monitor_sample:
  "fst (monitorApplication sample_synchronizer sample_app app_key completionState_zero rollout_server) = Inr False"
  by code_simp


end
