(* ===== verification/Go_Path.thy ===== *)
theory Go_Path
  imports Go_Url
begin

text \<open>
  What the resource creators use of Go's packages \<open>path\<close> and \<open>path/filepath\<close> (on Unix the two agree),
  \<open>encoding/base64\<close>, the methods \<open>Hostname\<close> and \<open>Port\<close> of a URL and the verbs \<open>%x\<close> and \<open>%02d\<close>
  of \<open>fmt\<close>.
\<close>

section \<open>Paths\<close>

text \<open>
  \<open>path.Clean\<close> reads the elements between slashes and keeps the output as a stack, its top first: empty
  elements and \<open>.\<close> are dropped, \<open>..\<close> removes the element before it, or stays when the path is not rooted and
  there is none to remove.
\<close>

abbreviation dotdot :: string where "dotdot \<equiv> ''..''"

fun clean_step :: "bool \<Rightarrow> string list \<Rightarrow> string \<Rightarrow> string list" where
  "clean_step rooted out e =
     (if e = [] \<or> e = ''.'' then out
      else if e = dotdot
        then (case out of
                [] \<Rightarrow> if rooted then [] else [dotdot]
              | prev # rest \<Rightarrow> if prev = dotdot then dotdot # out else rest)
      else e # out)"

definition clean_elems :: "bool \<Rightarrow> string \<Rightarrow> string list" where
  "clean_elems rooted p = rev (foldl (clean_step rooted) [] (Split p CHR ''/''))"

definition path_Clean :: "string \<Rightarrow> string" where
  "path_Clean p =
     (if p = [] then ''.''
      else let rooted = (hd p = CHR ''/''); els = clean_elems rooted p
           in if rooted then ''/'' @ Join els ''/''
              else if els = [] then ''.'' else Join els ''/'')"

definition path_Join :: "string list \<Rightarrow> string" where
  "path_Join es = (let es' = dropWhile (\<lambda>e. e = []) es
                   in if es' = [] then [] else path_Clean (Join es' ''/''))"

text \<open>What the elements of a cleaned path look like.\<close>

definition clean_elem :: "string \<Rightarrow> bool" where
  "clean_elem e \<longleftrightarrow> e \<noteq> [] \<and> e \<noteq> ''.'' \<and> CHR ''/'' \<notin> set e"

definition clean_stack :: "bool \<Rightarrow> string list \<Rightarrow> bool" where
  "clean_stack rooted out \<longleftrightarrow> list_all clean_elem out
     \<and> (\<exists>n ds. out = ds @ replicate n dotdot \<and> dotdot \<notin> set ds \<and> (rooted \<longrightarrow> n = 0))"

lemma clean_stackE:
  assumes "clean_stack rooted out"
  obtains n ds where "list_all clean_elem out" "out = ds @ replicate n dotdot" "dotdot \<notin> set ds"
    "rooted \<longrightarrow> n = 0"
  using assms unfolding clean_stack_def by blast

lemma clean_stack_dotdots: "\<not> rooted \<Longrightarrow> clean_stack rooted (replicate k dotdot)"
  unfolding clean_stack_def
  by (intro conjI exI[of _ k] exI[of _ "[]"]) (simp_all add: list_all_iff clean_elem_def)

lemma Split_no_sep: "e \<in> set (Split s c) \<Longrightarrow> c \<notin> set e"
  by (auto simp: Split_def dest: split_aux_no_sep)

lemma clean_stack_step:
  assumes "clean_stack rooted out" and "CHR ''/'' \<notin> set e"
  shows "clean_stack rooted (clean_step rooted out e)"
proof (cases "e = [] \<or> e = ''.''")
  case True
  with assms(1) show ?thesis by auto
next
  case False
  from assms(1) obtain n ds where el: "list_all clean_elem out" and out: "out = ds @ replicate n dotdot"
    and ds: "dotdot \<notin> set ds" and n: "rooted \<longrightarrow> n = 0" by (rule clean_stackE)
  show ?thesis
  proof (cases "e = dotdot")
    case True
    show ?thesis
    proof (cases ds)
      case Nil
      have "clean_step rooted out e = (if rooted then [] else replicate (Suc n) dotdot)"
        using True Nil out n by (cases n) auto
      moreover have "clean_stack rooted []" by (auto simp: clean_stack_def)
      ultimately show ?thesis using clean_stack_dotdots[of rooted "Suc n"]
        by (cases rooted) (auto simp del: clean_step.simps replicate_Suc)
    next
      case (Cons d ds')
      with True out ds have "clean_step rooted out e = ds' @ replicate n dotdot" by auto
      with Cons out ds n el show ?thesis by (auto simp: clean_stack_def)
    qed
  next
    case False
    with \<open>\<not> (e = [] \<or> e = ''.'')\<close> assms(2) have e: "clean_elem e" by (simp add: clean_elem_def)
    have "clean_step rooted out e = (e # ds) @ replicate n dotdot"
      using False \<open>\<not> (e = [] \<or> e = ''.'')\<close> out by simp
    with e el out ds n False show ?thesis
      by (auto simp: clean_stack_def intro!: exI[of _ n] exI[of _ "e # ds"])
  qed
qed

lemma clean_stack_fold:
  "clean_stack rooted out \<Longrightarrow> \<forall>e \<in> set es. CHR ''/'' \<notin> set e \<Longrightarrow>
     clean_stack rooted (foldl (clean_step rooted) out es)"
  by (induction es arbitrary: out) (auto simp del: clean_step.simps intro: clean_stack_step)

lemma clean_stack_Nil [simp]: "clean_stack rooted []"
  by (auto simp: clean_stack_def)

lemma clean_elems_stack: "clean_stack rooted (rev (clean_elems rooted p))"
  by (auto simp: clean_elems_def intro!: clean_stack_fold dest: Split_no_sep)

lemma clean_stack_tl: "clean_stack rooted (e # out) \<Longrightarrow> clean_stack rooted out"
proof -
  assume "clean_stack rooted (e # out)"
  then obtain n ds where el: "list_all clean_elem (e # out)" and eq: "e # out = ds @ replicate n dotdot"
    and ds: "dotdot \<notin> set ds" and n: "rooted \<longrightarrow> n = 0" by (rule clean_stackE)
  show ?thesis
  proof (cases ds)
    case Nil
    with eq have "n \<noteq> 0" by (cases n) auto
    with Nil eq have "out = replicate (n - 1) dotdot" by (cases n) auto
    moreover from \<open>n \<noteq> 0\<close> n have "\<not> rooted" by simp
    ultimately show ?thesis by (simp add: clean_stack_dotdots)
  next
    case (Cons d ds')
    with eq ds n el show ?thesis by (auto simp: clean_stack_def)
  qed
qed

text \<open>Elements that are already clean are kept as they are.\<close>

lemma clean_step_push:
  assumes "clean_stack rooted (e # out)"
  shows "clean_step rooted out e = e # out"
proof -
  from assms have e: "e \<noteq> []" "e \<noteq> ''.''" by (auto simp: clean_stack_def clean_elem_def)
  show ?thesis
  proof (cases "e = dotdot")
    case True
    from assms obtain n ds where eq: "e # out = ds @ replicate n dotdot" and ds: "dotdot \<notin> set ds"
      and n: "rooted \<longrightarrow> n = 0" by (rule clean_stackE)
    have "ds = []" using eq ds True by (cases ds) auto
    with eq have "out = replicate (n - 1) dotdot" "n \<noteq> 0" by (cases n; auto)+
    with n True show ?thesis by (cases "n - 1") auto
  qed (use e in simp)
qed

lemma clean_fold_id: "clean_stack rooted (rev es @ out) \<Longrightarrow> foldl (clean_step rooted) out es = rev es @ out"
proof (induction es arbitrary: out)
  case (Cons e es)
  have "clean_stack rooted (e # out)"
  proof -
    have "clean_stack rooted (xs @ ys) \<Longrightarrow> clean_stack rooted ys" for xs ys
      by (induction xs) (auto dest: clean_stack_tl)
    from this[of "rev es" "e # out"] Cons.prems show ?thesis by simp
  qed
  then have "clean_step rooted out e = e # out" by (rule clean_step_push)
  with Cons show ?case by (simp del: clean_step.simps)
qed simp

lemma Join_slash_hd:
  "es \<noteq> [] \<Longrightarrow> clean_elem (hd es) \<Longrightarrow> Join es ''/'' \<noteq> [] \<and> hd (Join es ''/'') = hd (hd es) \<and> hd (hd es) \<noteq> CHR ''/''"
  by (cases es rule: remdups_adj.cases) (auto simp: clean_elem_def neq_Nil_conv)

lemma clean_elems_props:
  "list_all clean_elem (clean_elems rooted p)"
  using clean_elems_stack[of rooted p] by (auto simp: clean_stack_def list_all_iff)

text \<open>A cleaned path is rooted exactly when the path was.\<close>

lemma path_Clean_rooted:
  assumes "p \<noteq> []" shows "path_Clean p \<noteq> [] \<and> (hd (path_Clean p) = CHR ''/'' \<longleftrightarrow> hd p = CHR ''/'')"
proof (cases "hd p = CHR ''/'' \<or> clean_elems False p = []")
  case True
  with assms show ?thesis by (auto simp: path_Clean_def Let_def)
next
  case False
  then have "clean_elem (hd (clean_elems False p))" using clean_elems_props[of False p]
    by (cases "clean_elems False p") auto
  with False assms Join_slash_hd[of "clean_elems False p"] show ?thesis
    by (auto simp: path_Clean_def Let_def)
qed

lemma clean_elems_Join:
  assumes "clean_stack rooted (rev es)" and "es \<noteq> []"
  shows "clean_elems rooted (Join es ''/'') = es"
proof -
  have "\<forall>e \<in> set es. CHR ''/'' \<notin> set e" using assms(1)
    by (auto simp: clean_stack_def clean_elem_def list_all_iff)
  with assms(2) have "Split (Join es ''/'') CHR ''/'' = es" by (intro Split_Join) auto
  with clean_fold_id[of rooted es "[]"] assms(1) show ?thesis by (simp add: clean_elems_def)
qed

lemma clean_elems_Cons_slash: "clean_elems rooted (CHR ''/'' # p) = clean_elems rooted p"
  by (simp add: clean_elems_def Split_def)

lemma clean_elems_Nil [simp]: "clean_elems rooted [] = []"
  by (simp add: clean_elems_def Split_def)

text \<open>Cleaning twice is cleaning once.\<close>

lemma path_Clean_idem: "path_Clean (path_Clean p) = path_Clean p"
proof (cases "p = []")
  case True
  then show ?thesis by (simp add: path_Clean_def clean_elems_def Split_def)
next
  case False
  let ?r = "hd p = CHR ''/''" and ?els = "clean_elems (hd p = CHR ''/'') p"
  have again: "clean_elems ?r (Join ?els ''/'') = ?els"
    using clean_elems_Join[OF clean_elems_stack[of ?r p]] by (cases "?els = []") auto
  show ?thesis
  proof (cases ?r)
    case True
    with False again show ?thesis by (simp add: path_Clean_def Let_def clean_elems_Cons_slash)
  next
    case notr: False
    show ?thesis
    proof (cases "?els = []")
      case True
      with False notr show ?thesis by (simp add: path_Clean_def Let_def clean_elems_def Split_def)
    next
      case nonempty: False
      then have "clean_elem (hd ?els)" using clean_elems_props[of ?r p] by (cases ?els) auto
      from Join_slash_hd[OF nonempty this]
      have "Join ?els ''/'' \<noteq> []" "hd (Join ?els ''/'') \<noteq> CHR ''/''" by auto
      with False notr nonempty again show ?thesis by (simp add: path_Clean_def Let_def)
    qed
  qed
qed

text \<open>A path joined after a first element that is not rooted is not rooted.\<close>

lemma path_Join_relative:
  assumes "e \<noteq> []" and "hd e \<noteq> CHR ''/''"
  shows "path_Join (e # es) \<noteq> [] \<and> hd (path_Join (e # es)) \<noteq> CHR ''/''"
proof -
  have "Join (e # es) ''/'' \<noteq> [] \<and> hd (Join (e # es) ''/'') = hd e"
    using assms(1) by (cases es) auto
  with path_Clean_rooted[of "Join (e # es) ''/''"] assms show ?thesis
    by (simp add: path_Join_def Let_def)
qed

section \<open>Hosts and ports\<close>

text \<open>\<open>splitHostPort\<close> of \<open>net/url\<close>: the part after the last colon is the port when it is a valid one.\<close>

definition splitHostPort :: "string \<Rightarrow> string \<times> string" where
  "splitHostPort hostPort =
     (let after = rev (takeWhile (\<lambda>c. c \<noteq> CHR '':'') (rev hostPort));
          host = take (length hostPort - length after - 1) hostPort;
          hp = (if CHR '':'' \<in> set hostPort \<and> validOptionalPort (CHR '':'' # after)
                then (host, after) else (hostPort, []))
      in (if HasPrefix (fst hp) ''['' \<and> HasSuffix (fst hp) '']''
          then (take (length (fst hp) - 2) (drop 1 (fst hp)), snd hp) else hp))"

definition url_Hostname :: "url \<Rightarrow> string" where
  "url_Hostname u = fst (splitHostPort (u_host u))"

definition url_Port :: "url \<Rightarrow> string" where
  "url_Port u = snd (splitHostPort (u_host u))"

definition AppendPathToIngress :: "string \<Rightarrow> string \<Rightarrow> string result" where
  "AppendPathToIngress ingress joinPath = (case Parse ingress of
       None \<Rightarrow> Inl (go_panic ''invalid memory address or nil pointer dereference'')
     | Some u \<Rightarrow> Inr (url_String (u\<lparr>u_path := path_Join [u_path u, joinPath]\<rparr>)))"

section \<open>Encodings\<close>

definition base64_alphabet :: string where
  "base64_alphabet = ''ABCDEFGHIJKLMNOPQRSTUVWXYZabcdefghijklmnopqrstuvwxyz0123456789+/''"

definition base64_url_alphabet :: string where
  "base64_url_alphabet = ''ABCDEFGHIJKLMNOPQRSTUVWXYZabcdefghijklmnopqrstuvwxyz0123456789-_''"

text \<open>Groups of six bits, the last one filled with zero bits.\<close>

fun base64_groups :: "bool list \<Rightarrow> nat list" where
  "base64_groups [] = []"
| "base64_groups (b # bs) =
     bits_val (take 6 ((b # bs) @ replicate 5 False)) # base64_groups (drop 5 bs)"

definition base64_raw :: "string \<Rightarrow> nat list \<Rightarrow> string" where
  "base64_raw alphabet bytes = map (\<lambda>g. alphabet ! g) (base64_groups (concat (map byte_bits bytes)))"

text \<open>\<open>base64.StdEncoding\<close>, padded to a multiple of four characters, and the URL encoding without padding.\<close>

definition base64_Std :: "nat list \<Rightarrow> string" where
  "base64_Std bytes = (let s = base64_raw base64_alphabet bytes
                       in s @ replicate ((4 - length s mod 4) mod 4) CHR ''='')"

definition base64_URL_NoPadding :: "nat list \<Rightarrow> string" where
  "base64_URL_NoPadding = base64_raw base64_url_alphabet"

fun hex_nat :: "nat \<Rightarrow> string" where
  "hex_nat n = (if n < 16 then [''0123456789abcdef'' ! n] else hex_nat (n div 16) @ [''0123456789abcdef'' ! (n mod 16)])"

declare hex_nat.simps [simp del]

definition pad2 :: "int \<Rightarrow> string" where
  "pad2 i = (let s = Itoa i in if length s < 2 then CHR ''0'' # s else s)"

text \<open>Go's \<open>int\<close> has 64 bits; what does not fit wraps around.\<close>

definition to_int64 :: "int \<Rightarrow> int" where
  "to_int64 x = (x + 2 ^ 63) mod 2 ^ 64 - 2 ^ 63"

lemma to_int64_id: "- (2 ^ 63) \<le> x \<Longrightarrow> x < 2 ^ 63 \<Longrightarrow> to_int64 x = x"
  by (simp add: to_int64_def)

end
