(* ===== verification/Sidecars.thy ===== *)
theory Sidecars
  imports Creators Go_Path
begin

text \<open>
  Creators that add containers, environment variables and volumes to the pod rather than objects of their
  own: leader election, the certificate authority bundle, the web proxy, Vault and the frontend configuration
  (src/pkg/resourcecreator: leaderelection, certificateauthority, proxyopts, vault, frontend; src/pkg/proxyopts).
  The lengths 63 and 253 are those of a DNS label and of a DNS subdomain in the Kubernetes API machinery.
\<close>

definition type_meta_of :: "string \<Rightarrow> string \<Rightarrow> type_meta" where
  [simp]: "type_meta_of kind api = \<lparr>tm_kind = kind, tm_api_version = api\<rparr>"

text \<open>A probe with the handler only; the other fields have their zero values.\<close>

definition http_probe :: "string \<Rightarrow> int \<Rightarrow> probe_spec" where
  "http_probe path port = \<lparr>pr_handler = HTTPGet path (IntVal port), pr_initial_delay = 0, pr_period = 0,
     pr_failure_threshold = 0, pr_timeout = 0\<rparr>"

definition tcp_port :: "string \<Rightarrow> int \<Rightarrow> container_port" where
  "tcp_port name port = \<lparr>cp_name = name, cp_port = port, cp_protocol = ''TCP''\<rparr>"

text \<open>Resources of a sidecar: requests for CPU and memory, a limit for memory.\<close>

definition sidecar_resources :: "liberator \<Rightarrow> string \<Rightarrow> string \<Rightarrow> string \<Rightarrow> resource_requirements result" where
  "sidecar_resources lib cpu memory limit =
     rbind (MustParse lib cpu) (\<lambda>c. rbind (MustParse lib memory) (\<lambda>m. rbind (MustParse lib limit) (\<lambda>l.
       Inr \<lparr>rr_requests = [''cpu'' \<mapsto> c, ''memory'' \<mapsto> m], rr_limits = [''memory'' \<mapsto> l]\<rparr>)))"

definition add_init_container :: "container \<Rightarrow> ast \<Rightarrow> ast" where
  "add_init_container c a = a\<lparr>ast_init_containers := ast_init_containers a @ [c]\<rparr>"

section \<open>Leader election\<close>

abbreviation elector_Port :: int where "elector_Port \<equiv> 4040"
abbreviation elector_ProbePort :: int where "elector_ProbePort \<equiv> 4041"

definition elector_roleBinding :: "object_meta \<Rightarrow> object_meta \<Rightarrow> k8s_object" where
  "elector_roleBinding appObjectMeta roleObjectMeta =
     \<lparr>obj_type_meta = type_meta_of ''RoleBinding'' ''rbac.authorization.k8s.io/v1'',
      obj_meta = roleObjectMeta,
      obj_payload = PRoleBinding \<lparr>rb_role_api_group = ''rbac.authorization.k8s.io'',
        rb_role_kind = ''ClusterRole'', rb_role_name = ''elector'',
        rb_subject_kind = ''ServiceAccount'', rb_subject_name = om_name appObjectMeta,
        rb_subject_namespace = om_namespace appObjectMeta\<rparr>\<rparr>"

definition electorEnv :: "env_var list" where
  "electorEnv = [value_env ''ELECTOR_PATH'' ''localhost:4040'',
     value_env ''ELECTOR_GET_URL'' (''http://localhost:'' @ Itoa elector_Port @ ''/''),
     value_env ''ELECTOR_SSE_URL'' (''http://localhost:'' @ Itoa elector_Port @ ''/sse'')]"

definition elector_container :: "liberator \<Rightarrow> string \<Rightarrow> string \<Rightarrow> string \<Rightarrow> container result" where
  "elector_container lib name namespace img =
     rbind (sidecar_resources lib ''10m'' ''64Mi'' ''128Mi'') (\<lambda>resources.
       Inr (container_zero\<lparr>c_name := ''elector'', c_image := img, c_pull_policy := ''IfNotPresent'',
         c_resources := resources, c_restart_policy := Some ''Always'',
         c_ports := [tcp_port [] elector_Port],
         c_args := [''--election='' @ name, ''--election-namespace='' @ namespace,
           ''--http=localhost:'' @ Itoa elector_Port, ''--probe-address=0.0.0.0:'' @ Itoa elector_ProbePort],
         c_env := [value_env ''ELECTOR_LOG_FORMAT'' ''json''],
         c_security_context := Some DefaultContainerSecurityContext,
         c_startup := Some (http_probe ''/healthz'' elector_ProbePort)\<rparr>))"

definition leaderelection_Create :: "liberator \<Rightarrow> source \<Rightarrow> options \<Rightarrow> ast \<Rightarrow> ast result" where
  "leaderelection_Create lib s cfg a =
     (if \<not> ws_leader_election (src_spec s) then Inr a
      else let image = GetLeaderElectionImage cfg; port = ws_port (src_spec s)
      in if image = [] then Inl (errorf ''leader election image not configured'')
      else if port = elector_Port \<or> port = elector_ProbePort
      then Inl (errorf (''cannot use port '' @ in_quotes (Itoa port) @ ''; conflicts with leader election sidecar''))
      else let appObjectMeta = CreateObjectMeta lib s; roleBindingObjectMeta = CreateObjectMeta lib s
      in case lib_ShortName lib (''elector-'' @ om_name roleBindingObjectMeta) 63 of
           Inl err \<Rightarrow> Inl (errorf_w ''failed to build short name for role binding: '' err)
         | Inr name \<Rightarrow>
             let a1 = AppendOperation OperationCreateOrRecreate
                        (elector_roleBinding appObjectMeta (roleBindingObjectMeta\<lparr>om_name := name\<rparr>)) a
             in rbind (elector_container lib (src_name s) (src_namespace s) image) (\<lambda>c.
                  Inr (PrependEnv electorEnv (add_init_container c a1))))"

section \<open>Certificate authority bundle\<close>

definition CA_BUNDLE_PEM_CONFIGMAP_NAME :: string where
  "CA_BUNDLE_PEM_CONFIGMAP_NAME = ''ca-bundle-pem''"

definition CA_BUNDLE_JKS_CONFIGMAP_NAME :: string where
  "CA_BUNDLE_JKS_CONFIGMAP_NAME = ''ca-bundle-jks''"

definition NAV_TRUSTSTORE_PATH :: string where
  "NAV_TRUSTSTORE_PATH = ''/etc/ssl/certs/java/cacerts''"

definition certFiles :: "string list" where
  "certFiles = [''/etc/ssl/certs/ca-certificates.crt'', ''/etc/pki/tls/certs/ca-bundle.crt'',
     ''/etc/ssl/ca-bundle.pem'', ''/etc/pki/tls/cacert.pem'',
     ''/etc/pki/ca-trust/extracted/pem/tls-ca-bundle.pem'']"

definition ca_envs :: "env_var list" where
  "ca_envs = [value_env ''NAV_TRUSTSTORE_PATH'' NAV_TRUSTSTORE_PATH,
     value_env ''NAV_TRUSTSTORE_PASSWORD'' ''changeme'',
     value_env ''NODE_EXTRA_CA_CERTS'' ''/etc/pki/tls/certs/ca-bundle.crt'']"

definition certificateAuthorityVolumeMounts :: "volume_mount list" where
  "certificateAuthorityVolumeMounts =
     \<lparr>vm_name = CA_BUNDLE_JKS_CONFIGMAP_NAME, vm_mount_path = NAV_TRUSTSTORE_PATH,
      vm_sub_path = ''ca-bundle.jks'', vm_read_only = True\<rparr> #
     map (\<lambda>path. \<lparr>vm_name = CA_BUNDLE_PEM_CONFIGMAP_NAME, vm_mount_path = path,
       vm_sub_path = ''ca-bundle.pem'', vm_read_only = True\<rparr>) certFiles"

definition certificateAuthorityVolume :: "string \<Rightarrow> volume" where
  "certificateAuthorityVolume configMapName =
     \<lparr>vol_name = configMapName, vol_source = ConfigMapVolume configMapName\<rparr>"

definition certificateauthority_Create :: "source \<Rightarrow> options \<Rightarrow> ast \<Rightarrow> ast" where
  "certificateauthority_Create s cfg a =
     (if \<not> IsNAVCABundleEnabled cfg \<or> ws_skip_ca_bundle (src_spec s) then a
      else let a1 = PrependEnv ca_envs a
           in a1\<lparr>ast_volume_mounts := ast_volume_mounts a1 @ certificateAuthorityVolumeMounts,
                 ast_volumes := ast_volumes a1 @ [certificateAuthorityVolume CA_BUNDLE_JKS_CONFIGMAP_NAME,
                   certificateAuthorityVolume CA_BUNDLE_PEM_CONFIGMAP_NAME]\<rparr>)"

section \<open>Web proxy\<close>

record javaOption =
  jo_key :: string
  jo_value :: string

definition newJavaOption :: "string \<Rightarrow> string \<Rightarrow> javaOption" where
  "newJavaOption key value = \<lparr>jo_key = key, jo_value = value\<rparr>"

definition javaOption_Format :: "javaOption \<Rightarrow> string" where
  "javaOption_Format opt = ''-D'' @ jo_key opt @ ''='' @ jo_value opt"

definition javaOptions_Format :: "javaOption list \<Rightarrow> string" where
  "javaOptions_Format opts = Join (map javaOption_Format opts) '' ''"

definition httpOpts :: "javaOption list \<Rightarrow> string \<Rightarrow> javaOption list result" where
  "httpOpts flags proxyURL =
     (if length proxyURL = 0 then Inr flags
      else case Parse proxyURL of
        None \<Rightarrow> Inl (errorf ''parse'')
      | Some u \<Rightarrow>
          if length (url_Hostname u) = 0 \<or> length (url_Port u) = 0
          then Inl (errorf ''if specifying a proxy URL, both hostname and port is required'')
          else Inr (flags @ [newJavaOption ''http.proxyHost'' (url_Hostname u),
                 newJavaOption ''https.proxyHost'' (url_Hostname u),
                 newJavaOption ''http.proxyPort'' (url_Port u),
                 newJavaOption ''https.proxyPort'' (url_Port u)]))"

definition mangleWildcard :: "string list \<Rightarrow> string list" where
  "mangleWildcard hosts =
     map (\<lambda>host. if length host > 0 \<and> host ! 0 = CHR ''.'' then ''*'' @ host else host) hosts"

definition noProxyOpts :: "javaOption list \<Rightarrow> string \<Rightarrow> javaOption list" where
  "noProxyOpts flags noProxy =
     (if length noProxy = 0 then flags
      else let hosts = mangleWildcard (Split noProxy CHR '','')
           in flags @ [newJavaOption ''http.nonProxyHosts'' (Join hosts ''|'')])"

definition JavaProxyOptions :: "string \<Rightarrow> string \<Rightarrow> string result" where
  "JavaProxyOptions proxyURL noProxy = (case httpOpts [] proxyURL of
       Inl err \<Rightarrow> Inl (errorf_s ''error in parsing proxy URL: '' err)
     | Inr flags \<Rightarrow> Inr (javaOptions_Format (noProxyOpts flags noProxy)))"

definition appendDualCaseEnvVar :: "env_var list \<Rightarrow> string \<Rightarrow> string \<Rightarrow> env_var list" where
  "appendDualCaseEnvVar envVars key value =
     envVars @ map (\<lambda>mkey. value_env mkey value) [ToUpper key, ToLower key]"

definition proxy_EnvironmentVariables :: "options \<Rightarrow> env_var list result" where
  "proxy_EnvironmentVariables cfg =
     (let opts = GetWebProxyOptions cfg; proxyURL = px_address opts; noProxy = Join (px_exclude opts) '','';
          envVars1 = (if length proxyURL > 0
            then appendDualCaseEnvVar (appendDualCaseEnvVar [] ''HTTP_PROXY'' proxyURL) ''HTTPS_PROXY'' proxyURL
            else []);
          envVars2 = (if length noProxy > 0 then appendDualCaseEnvVar envVars1 ''NO_PROXY'' noProxy else envVars1)
      in case JavaProxyOptions proxyURL noProxy of
           Inl err \<Rightarrow> Inl (errorf_w ''convert webproxy settings to Java format: '' err)
         | Inr javaOpts \<Rightarrow> Inr (if length javaOpts > 0
             then envVars2 @ [value_env ''JAVA_PROXY_OPTIONS'' javaOpts] else envVars2))"

definition proxyopts_Create :: "source \<Rightarrow> options \<Rightarrow> ast \<Rightarrow> ast result" where
  "proxyopts_Create s cfg a =
     (if \<not> ws_web_proxy (src_spec s) \<or> IsGCPEnabled cfg then Inr a
      else case proxy_EnvironmentVariables cfg of
             Inl err \<Rightarrow> Inl (errorf_w ''generate proxy environment variables: '' err)
           | Inr envs \<Rightarrow> Inr (PrependEnv envs a))"

section \<open>Vault\<close>

definition defaultVaultTokenFileName :: "liberator \<Rightarrow> string" where
  "defaultVaultTokenFileName lib = path_Join [lib_DefaultVaultMountPath lib, ''vault_token'']"

text \<open>The loop of \<open>validateSecretPaths\<close>: the map from the mount paths seen to their KV paths.\<close>

fun validate_paths_loop :: "secret_path list \<Rightarrow> (string \<rightharpoonup> string) \<Rightarrow> error" where
  "validate_paths_loop [] m = None"
| "validate_paths_loop (p # ps) m = (case m (sp_mount_path p) of
       Some old \<Rightarrow> Some (errorf (''illegal to mount multiple Vault secrets: '' @ sp_kv_path p @ '' and '' @ old
         @ '' to the same path: '' @ sp_mount_path p))
     | None \<Rightarrow> validate_paths_loop ps (m(sp_mount_path p \<mapsto> sp_kv_path p)))"

definition validateSecretPaths :: "secret_path list \<Rightarrow> error" where
  "validateSecretPaths paths = validate_paths_loop paths Map.empty"

definition defaultPathExists :: "liberator \<Rightarrow> secret_path list \<Rightarrow> string \<Rightarrow> bool" where
  "defaultPathExists lib paths kvPath = list_ex (\<lambda>path.
     path_Clean (lib_DefaultVaultMountPath lib) = path_Clean (sp_mount_path path)
     \<or> path_Clean kvPath = path_Clean (sp_kv_path path)) paths"

definition createDefaultMount :: "liberator \<Rightarrow> volume_mount" where
  "createDefaultMount lib = \<lparr>vm_name = ''vault-volume'', vm_mount_path = lib_DefaultVaultMountPath lib,
     vm_sub_path = path_Join [''vault'', lib_DefaultVaultMountPath lib], vm_read_only = False\<rparr>"

definition createInitContainerMounts :: "liberator \<Rightarrow> secret_path list \<Rightarrow> volume_mount list" where
  "createInitContainerMounts lib paths =
     (let volumeMounts = map (\<lambda>path. \<lparr>vm_name = ''vault-volume'', vm_mount_path = sp_mount_path path,
            vm_sub_path = path_Join [''vault'', sp_mount_path path], vm_read_only = False\<rparr>) paths;
          defaultMountExist = list_ex (\<lambda>path.
            path_Clean (lib_DefaultVaultMountPath lib) = path_Clean (sp_mount_path path)) paths
      in if \<not> defaultMountExist then volumeMounts @ [createDefaultMount lib] else volumeMounts)"

definition defaultSecretPath :: "liberator \<Rightarrow> source \<Rightarrow> string \<Rightarrow> secret_path" where
  "defaultSecretPath lib s kvPath = \<lparr>sp_mount_path = lib_DefaultVaultMountPath lib,
     sp_kv_path = kvPath @ ''/'' @ src_name s @ ''/'' @ src_namespace s, sp_format = []\<rparr>"

definition vault_path_arg :: "secret_path \<Rightarrow> string" where
  "vault_path_arg path =
     (let format = (if length (sp_format path) > 0 then sp_format path else ''flatten'');
          paramname = (if format = ''flatten'' then ''dir'' else ''file'')
      in ''-cn=secret:'' @ sp_kv_path path @ '':'' @ paramname @ ''='' @ sp_mount_path path
         @ '',fmt='' @ format @ '',retries=1'')"

definition createInitContainer :: "liberator \<Rightarrow> source \<Rightarrow> vault_config \<Rightarrow> secret_path list \<Rightarrow> container" where
  "createInitContainer lib s opts paths = container_zero\<lparr>c_name := ''vks-init'',
     c_volume_mounts := createInitContainerMounts lib paths,
     c_args := [''-v=10'', ''-logtostderr'', ''-one-shot'', ''-vault='' @ vc_address opts,
         ''-save-token='' @ defaultVaultTokenFileName lib] @ map vault_path_arg paths,
     c_image := vc_init_container_image opts,
     c_env := [value_env ''VAULT_AUTH_METHOD'' ''kubernetes'', value_env ''VAULT_SIDEKICK_ROLE'' (src_name s),
       value_env ''VAULT_K8S_LOGIN_PATH'' (vc_auth_path opts)],
     c_security_context := Some DefaultContainerSecurityContext\<rparr>"

text \<open>The first path without a mount path, by its index.\<close>

fun missing_mount_path :: "nat \<Rightarrow> secret_path list \<Rightarrow> nat option" where
  "missing_mount_path i [] = None"
| "missing_mount_path i (p # ps) = (if length (sp_mount_path p) = 0 then Some i else missing_mount_path (i + 1) ps)"

definition vault_Create :: "liberator \<Rightarrow> source \<Rightarrow> options \<Rightarrow> ast \<Rightarrow> ast result" where
  "vault_Create lib s cfg a =
     (let vaultCfg = GetVaultOptions cfg
      in if \<not> IsVaultEnabled cfg then Inr a
      else case ws_vault (src_spec s) of
        None \<Rightarrow> Inl (go_panic ''invalid memory address or nil pointer dereference'')
      | Some naisVault \<Rightarrow>
        if \<not> vlt_enabled naisVault then Inr a
        else case missing_mount_path 0 (vlt_paths naisVault) of
          Some i \<Rightarrow> Inl (errorf (''vault config #'' @ Itoa (int i) @ '': mount path not specified''))
        | None \<Rightarrow>
          let paths = (if \<not> defaultPathExists lib (vlt_paths naisVault) (vc_kv_path vaultCfg)
                       then vlt_paths naisVault @ [defaultSecretPath lib s (vc_kv_path vaultCfg)]
                       else vlt_paths naisVault)
          in case validateSecretPaths paths of
               Some err \<Rightarrow> Inl err
             | None \<Rightarrow>
                 let a1 = add_init_container (createInitContainer lib s vaultCfg paths) a
                 in Inr (a1\<lparr>ast_volumes := ast_volumes a1 @
                        [\<lparr>vol_name = ''vault-volume'', vol_source = EmptyDirVolume ''Memory''\<rparr>],
                      ast_volume_mounts := ast_volume_mounts a1 @ createInitContainerMounts lib paths\<rparr>))"

section \<open>Frontend configuration\<close>

definition naisJs :: "liberator \<Rightarrow> source \<Rightarrow> string \<Rightarrow> string" where
  "naisJs lib s telemetryURL =
     (let imageName = Split (lib_GetEffectiveImage lib s) CHR '':'';
          tag = (if length imageName = 2 then imageName ! 1 else []);
          nl = [CHR 0x0A]; tab = [CHR 0x09]
      in nl @ ''export default {'' @ nl
         @ tab @ ''telemetryCollectorURL: '' @ in_quotes telemetryURL @ '','' @ nl
         @ tab @ ''app: {'' @ nl
         @ tab @ tab @ ''name: '' @ in_quotes (src_name s) @ '','' @ nl
         @ tab @ tab @ ''version: '' @ in_quotes tag @ nl
         @ tab @ ''}'' @ nl @ ''};'' @ nl)"

definition naisJsConfigMap :: "liberator \<Rightarrow> source \<Rightarrow> string \<Rightarrow> string \<Rightarrow> k8s_object" where
  "naisJsConfigMap lib s name contents = \<lparr>obj_type_meta = type_meta_of ''ConfigMap'' ''v1'',
     obj_meta = (CreateObjectMeta lib s)\<lparr>om_name := name\<rparr>,
     obj_payload = PConfigMap [''nais.js'' \<mapsto> contents]\<rparr>"

definition frontend_volumeMount :: "string \<Rightarrow> volume_mount" where
  "frontend_volumeMount mountPath = \<lparr>vm_name = ''frontend-config'', vm_mount_path = mountPath,
     vm_sub_path = ''nais.js'', vm_read_only = True\<rparr>"

definition frontend_volume :: "string \<Rightarrow> volume" where
  "frontend_volume configMapName =
     \<lparr>vol_name = ''frontend-config'', vol_source = ConfigMapVolume configMapName\<rparr>"

definition frontend_envVars :: "string \<Rightarrow> env_var list" where
  "frontend_envVars telemetryURL = [value_env ''NAIS_FRONTEND_TELEMETRY_COLLECTOR_URL'' telemetryURL]"

definition frontend_Create :: "liberator \<Rightarrow> source \<Rightarrow> options \<Rightarrow> ast \<Rightarrow> ast result" where
  "frontend_Create lib s cfg a = (case ws_frontend (src_spec s) of
       Some (Some mountPath) \<Rightarrow>
         rbind (lib_ShortName lib (src_name s @ ''-frontend-config-js'') 63) (\<lambda>configMapName.
           let naisJsContents = naisJs lib s (GetFrontendOptions cfg);
               a1 = PrependEnv (frontend_envVars (GetFrontendOptions cfg))
                      (AppendOperation OperationCreateOrUpdate
                        (naisJsConfigMap lib s configMapName naisJsContents) a)
           in Inr (add_volume (frontend_volume configMapName) (frontend_volumeMount mountPath) a1))
     | _ \<Rightarrow> Inr a)"

section \<open>The contract of the creators\<close>

lemma pod_extends_add_init_container:
  "hardened c \<Longrightarrow> c_volume_mounts c = [] \<Longrightarrow> pod_extends a (add_init_container c a)"
  by (rule pod_extendsI[where cs = "[c]" and vs = "[]" and ms = "[]"]) (simp_all add: add_init_container_def)

lemma add_init_container_simps [simp]:
  "ast_operations (add_init_container c a) = ast_operations a"
  "ast_init_containers (add_init_container c a) = ast_init_containers a @ [c]"
  "ast_containers (add_init_container c a) = ast_containers a"
  "ast_volumes (add_init_container c a) = ast_volumes a"
  "ast_volume_mounts (add_init_container c a) = ast_volume_mounts a"
  "ast_env (add_init_container c a) = ast_env a"
  by (simp_all add: add_init_container_def)

lemma container_zero_mounts [simp]: "c_volume_mounts container_zero = []"
  by (simp add: container_zero_def)

lemma creator_step_init_container [creator_intros]:
  "creator_step lib s a b \<Longrightarrow> hardened c \<Longrightarrow> c_volume_mounts c = [] \<Longrightarrow>
     creator_step lib s a (add_init_container c b)"
  by (rule creator_step_trans) (auto intro: creator_step_same pod_extends_add_init_container)

lemma elector_container_ok:
  "elector_container lib name ns img = Inr c \<Longrightarrow> hardened c \<and> c_volume_mounts c = []"
  by (auto simp: elector_container_def result_simps)

interpretation leaderelection: workload_creator leaderelection_Create
  by unfold_locales
    (auto simp: leaderelection_Create_def Let_def result_simps elector_roleBinding_def
      split: if_splits sum.splits dest!: elector_container_ok intro!: creator_intros intro: belongs_intros)

interpretation certificateauthority: workload_creator "\<lambda>lib s cfg a. Inr (certificateauthority_Create s cfg a)"
proof
  fix lib s cfg a a'
  assume "Inr (certificateauthority_Create s cfg a) = (Inr a' :: ast result)"
  then have a': "a' = certificateauthority_Create s cfg a" by simp
  show "creator_step lib s a a'"
  proof (rule creator_step_same)
    show "pod_extends a a'"
    proof (cases "\<not> IsNAVCABundleEnabled cfg \<or> ws_skip_ca_bundle (src_spec s)")
      case False
      then show ?thesis unfolding a'
        by (intro pod_extendsI[where cs = "[]"])
          (auto simp: certificateauthority_Create_def Let_def certificateAuthorityVolumeMounts_def
            certificateAuthorityVolume_def mounts_within_def)
    qed (simp add: a' certificateauthority_Create_def)
  qed (simp add: a' certificateauthority_Create_def Let_def)
qed

interpretation proxyopts: workload_creator "\<lambda>lib. proxyopts_Create"
  by unfold_locales (auto simp: proxyopts_Create_def split: if_splits sum.splits intro!: creator_intros)

lemma vault_mounts_volume:
  "mounts_within (createInitContainerMounts lib paths) [\<lparr>vol_name = ''vault-volume'', vol_source = src\<rparr>]"
  by (auto simp: createInitContainerMounts_def createDefaultMount_def mounts_within_def Let_def)

text \<open>What Vault does when it succeeds on an enabled source.\<close>

lemma vault_CreateE:
  assumes "vault_Create lib s cfg a = Inr a'"
  obtains "a' = a" "\<not> (IsVaultEnabled cfg \<and> (\<exists>v. ws_vault (src_spec s) = Some v \<and> vlt_enabled v))"
  | v paths where "IsVaultEnabled cfg" "ws_vault (src_spec s) = Some v" "vlt_enabled v"
    "paths = (if defaultPathExists lib (vlt_paths v) (vc_kv_path (GetVaultOptions cfg)) then vlt_paths v
       else vlt_paths v @ [defaultSecretPath lib s (vc_kv_path (GetVaultOptions cfg))])"
    "validateSecretPaths paths = None" "missing_mount_path 0 (vlt_paths v) = None"
    "ast_operations a' = ast_operations a" "ast_containers a' = ast_containers a"
    "ast_init_containers a' = ast_init_containers a @ [createInitContainer lib s (GetVaultOptions cfg) paths]"
    "ast_volumes a' = ast_volumes a @ [\<lparr>vol_name = ''vault-volume'', vol_source = EmptyDirVolume ''Memory''\<rparr>]"
    "ast_volume_mounts a' = ast_volume_mounts a @ createInitContainerMounts lib paths"
  using assms by (auto simp: vault_Create_def Let_def split: if_splits option.splits)

interpretation vault: workload_creator vault_Create
proof
  fix lib s cfg a a'
  assume "vault_Create lib s cfg a = Inr a'"
  then show "creator_step lib s a a'"
  proof (cases rule: vault_CreateE)
    case (2 v paths)
    have "hardened (createInitContainer lib s (GetVaultOptions cfg) paths)"
      by (simp add: createInitContainer_def)
    moreover have "c_volume_mounts (createInitContainer lib s (GetVaultOptions cfg) paths) =
        createInitContainerMounts lib paths" by (simp add: createInitContainer_def)
    ultimately have "pod_extends a a'"
      using vault_mounts_volume[of lib paths]
      by (intro pod_extendsI[OF 2(8-11)]) simp_all
    with 2(7) show ?thesis by (rule creator_step_same)
  qed simp
qed

interpretation frontend: workload_creator frontend_Create
  by unfold_locales
    (auto simp: frontend_Create_def Let_def result_simps frontend_volume_def frontend_volumeMount_def
      naisJsConfigMap_def split: option.splits intro!: creator_intros intro: belongs_intros)

section \<open>Properties\<close>

lemma validate_paths_loop_None:
  "validate_paths_loop ps m = None \<longleftrightarrow> distinct (map sp_mount_path ps) \<and> sp_mount_path ` set ps \<inter> dom m = {}"
  by (induction ps arbitrary: m) (auto split: option.splits)

lemma validateSecretPaths_None: "validateSecretPaths ps = None \<longleftrightarrow> distinct (map sp_mount_path ps)"
  by (simp add: validateSecretPaths_def validate_paths_loop_None)

lemma missing_mount_path_None:
  "missing_mount_path i ps = None \<longleftrightarrow> (\<forall>p \<in> set ps. sp_mount_path p \<noteq> [])"
  by (induction ps arbitrary: i) auto

lemma missing_mount_path_Some: "missing_mount_path i ps = Some j \<Longrightarrow> \<exists>p \<in> set ps. sp_mount_path p = []"
  using missing_mount_path_None[of i ps] by force

lemma validateSecretPaths_Some: "validateSecretPaths ps = Some e \<Longrightarrow> \<not> distinct (map sp_mount_path ps)"
  using validateSecretPaths_None[of ps] by simp

lemma createInitContainerMounts_props:
  assumes "distinct (map sp_mount_path paths)"
  shows "distinct (map vm_mount_path (createInitContainerMounts lib paths))"
    and "\<exists>m \<in> set (createInitContainerMounts lib paths).
           path_Clean (vm_mount_path m) = path_Clean (lib_DefaultVaultMountPath lib)"
    and "m \<in> set (createInitContainerMounts lib paths) \<Longrightarrow>
           vm_sub_path m \<noteq> [] \<and> hd (vm_sub_path m) \<noteq> CHR ''/''"
proof -
  let ?ms = "map (\<lambda>path. \<lparr>vm_name = ''vault-volume'', vm_mount_path = sp_mount_path path,
            vm_sub_path = path_Join [''vault'', sp_mount_path path], vm_read_only = False\<rparr>) paths"
  have ms: "map vm_mount_path ?ms = map sp_mount_path paths" by simp
  consider (present) "\<exists>p \<in> set paths. path_Clean (lib_DefaultVaultMountPath lib) = path_Clean (sp_mount_path p)"
      "createInitContainerMounts lib paths = ?ms"
    | (absent) "\<forall>p \<in> set paths. path_Clean (lib_DefaultVaultMountPath lib) \<noteq> path_Clean (sp_mount_path p)"
      "createInitContainerMounts lib paths = ?ms @ [createDefaultMount lib]"
    by (auto simp: createInitContainerMounts_def Let_def list_ex_iff)
  note cases = this
  from cases show "distinct (map vm_mount_path (createInitContainerMounts lib paths))"
    by cases (use ms assms in \<open>auto simp: createDefaultMount_def comp_def\<close>)
  from cases show "\<exists>m \<in> set (createInitContainerMounts lib paths).
      path_Clean (vm_mount_path m) = path_Clean (lib_DefaultVaultMountPath lib)"
    by cases (auto simp: createDefaultMount_def)
  assume "m \<in> set (createInitContainerMounts lib paths)"
  with cases obtain p where "vm_sub_path m = path_Join [''vault'', p]"
    by cases (auto simp: createDefaultMount_def)
  then show "vm_sub_path m \<noteq> [] \<and> hd (vm_sub_path m) \<noteq> CHR ''/''"
    using path_Join_relative[of "''vault''" "[p]"] by simp
qed

text \<open>C30. When Vault succeeds on a source that uses it, no two secrets are mounted at the same path, the default
  mount path (where the token is saved) is mounted in some spelling, no sub-path is absolute, all mounts are of
  the one in-memory volume, and the init container and the main container get the same mounts. When two secrets
  of the manifest have the same mount path, it fails.\<close>

theorem vault_Create_mounts:
  assumes "ws_vault (src_spec s) = Some v" and "vlt_enabled v" and "IsVaultEnabled cfg"
  shows "(case vault_Create lib s cfg a of
       Inr a' \<Rightarrow> distinct (map sp_mount_path (vlt_paths v)) \<and> (\<exists>ms c.
         ast_volume_mounts a' = ast_volume_mounts a @ ms \<and> ast_init_containers a' = ast_init_containers a @ [c]
         \<and> c_volume_mounts c = ms \<and> distinct (map vm_mount_path ms)
         \<and> (\<forall>m \<in> set ms. vm_name m = ''vault-volume'' \<and> vm_sub_path m \<noteq> [] \<and> hd (vm_sub_path m) \<noteq> CHR ''/'')
         \<and> (\<exists>m \<in> set ms. path_Clean (vm_mount_path m) = path_Clean (lib_DefaultVaultMountPath lib)))
     | Inl e \<Rightarrow> (\<exists>p \<in> set (vlt_paths v). sp_mount_path p = []) \<or>
         \<not> distinct (map sp_mount_path (if defaultPathExists lib (vlt_paths v) (vc_kv_path (GetVaultOptions cfg))
            then vlt_paths v else vlt_paths v @ [defaultSecretPath lib s (vc_kv_path (GetVaultOptions cfg))])))"
proof (cases "vault_Create lib s cfg a")
  case (Inl e)
  with assms show ?thesis
    by (auto simp: vault_Create_def Let_def simp del: map_append split: if_splits option.splits
        dest!: missing_mount_path_Some validateSecretPaths_Some)
next
  case (Inr a')
  from Inr show ?thesis
  proof (cases rule: vault_CreateE)
    case 1
    with assms show ?thesis by blast
  next
    case (2 v' paths)
    from 2(5) have dist: "distinct (map sp_mount_path paths)" by (simp add: validateSecretPaths_None)
    with 2(2,4) assms(1) have "distinct (map sp_mount_path (vlt_paths v))" by (auto split: if_splits)
    moreover have "\<forall>m \<in> set (createInitContainerMounts lib paths). vm_name m = ''vault-volume''"
      using vault_mounts_volume[of lib paths] by (auto simp: mounts_within_def)
    ultimately show ?thesis using Inr 2(9,11) createInitContainerMounts_props[OF dist]
      by (auto simp: createInitContainer_def)
  qed
qed

end
