(* ===== verification/Observability.thy ===== *)
theory Observability
  imports Creators "HOL-Library.AList"
begin

text \<open>
  Package \<open>observability\<close> (src/pkg/resourcecreator/observability/observability.go): OpenTelemetry variables and
  resource attributes, the network policy towards the collector, annotations for auto-instrumentation, and
  the labels that choose where logs go. The configuration of OpenTelemetry (\<open>config.Otel\<close>) and of logging
  are the fields of \<^typ>\<open>observability_config\<close>.
\<close>

section \<open>Variables and attributes\<close>

abbreviation otelServiceName :: string where "otelServiceName \<equiv> ''OTEL_SERVICE_NAME''"
abbreviation otelResourceAttributes :: string where "otelResourceAttributes \<equiv> ''OTEL_RESOURCE_ATTRIBUTES''"
abbreviation otelExporterEndpoint :: string where "otelExporterEndpoint \<equiv> ''OTEL_EXPORTER_OTLP_ENDPOINT''"
abbreviation otelExporterProtocol :: string where "otelExporterProtocol \<equiv> ''OTEL_EXPORTER_OTLP_PROTOCOL''"
abbreviation otelExporterInsecure :: string where "otelExporterInsecure \<equiv> ''OTEL_EXPORTER_OTLP_INSECURE''"

definition otelEndpointFromConfig :: "otel_collector \<Rightarrow> string" where
  "otelEndpointFromConfig collector =
     (let schema = (if oc_tls collector then ''https'' else ''http'')
      in schema @ ''://'' @ oc_service collector @ ''.'' @ oc_namespace collector @ '':'' @ Itoa (oc_port collector))"

definition reservedAttributes :: "string list" where
  "reservedAttributes = [''service.name'', ''service.namespace'', ''nais.backend'']"

text \<open>The inner loop: the attributes of one variable, each appended after a comma.\<close>

definition add_attribute :: "string \<Rightarrow> string \<Rightarrow> string" where
  "add_attribute attributes kv =
     (let parts = Split kv CHR ''=''
      in if length parts = 2 \<and> parts ! 0 \<notin> set reservedAttributes then attributes @ '','' @ kv else attributes)"

definition add_env_attributes :: "string \<Rightarrow> env_var \<Rightarrow> string" where
  "add_env_attributes attributes e =
     (if ev_name e = otelResourceAttributes then foldl add_attribute attributes (Split (ev_value e) CHR '','')
      else attributes)"

definition otelAttributes :: "string \<Rightarrow> string \<Rightarrow> env_var list \<Rightarrow> string list \<Rightarrow> string" where
  "otelAttributes name namespace env destinations =
     (let attributes = ''service.name='' @ name @ '',service.namespace='' @ namespace;
          attributes1 = (if length destinations > 0
            then attributes @ '',nais.backend='' @ Join (sort destinations) '';'' else attributes)
      in foldl add_env_attributes attributes1 env)"

definition otelFilterEnvVars :: "env_var list \<Rightarrow> env_var list" where
  "otelFilterEnvVars env = filter (\<lambda>e. ev_name e \<noteq> otelServiceName \<and> ev_name e \<noteq> otelResourceAttributes
     \<and> ev_name e \<noteq> otelExporterEndpoint \<and> ev_name e \<noteq> otelExporterProtocol
     \<and> ev_name e \<noteq> otelExporterInsecure) env"

definition FormatBool :: "bool \<Rightarrow> string" where
  "FormatBool b = (if b then ''true'' else ''false'')"

definition OtelEnvVars ::
  "string \<Rightarrow> string \<Rightarrow> env_var list \<Rightarrow> string list \<Rightarrow> observability_config \<Rightarrow> env_var list" where
  "OtelEnvVars name namespace env destinations otel = otelFilterEnvVars env @
     [value_env otelServiceName name,
      value_env otelResourceAttributes (otelAttributes name namespace env destinations),
      value_env otelExporterEndpoint (otelEndpointFromConfig (ob_otel_collector otel)),
      value_env otelExporterProtocol (oc_protocol (ob_otel_collector otel)),
      value_env otelExporterInsecure (FormatBool (\<not> oc_tls (ob_otel_collector otel)))]"

section \<open>Auto-instrumentation\<close>

definition otelAutoInstrumentationDestinations ::
  "auto_instrumentation \<Rightarrow> observability_config \<Rightarrow> string list result" where
  "otelAutoInstrumentationDestinations auto_instr otel = mapM_result (\<lambda>destination.
     if destination \<notin> set (ob_otel_destinations otel)
     then Inl (errorf (''auto-instrumentation destination '' @ quoted destination @ '' does not exist in cluster''))
     else Inr destination) (aui_destinations auto_instr)"

definition otelAutoInstrumentAnnotations ::
  "source \<Rightarrow> auto_instrumentation \<Rightarrow> observability_config \<Rightarrow> (string \<rightharpoonup> string)" where
  "otelAutoInstrumentAnnotations s auto_instr otel =
     [''instrumentation.opentelemetry.io/inject-'' @ aui_runtime auto_instr \<mapsto> ob_otel_app_config otel,
      ''instrumentation.opentelemetry.io/container-names'' \<mapsto> src_name s]"

section \<open>Network policy\<close>

definition add_label :: "string \<Rightarrow> label_selector \<Rightarrow> label_selector" where
  "add_label lbl labelMap =
     (let kv = Split lbl CHR ''='' in if length kv \<noteq> 2 then labelMap else AList.update (kv ! 0) (kv ! 1) labelMap)"

definition netpolLabelsFromCollectorConfig :: "otel_collector \<Rightarrow> label_selector" where
  "netpolLabelsFromCollectorConfig collector = fold add_label (oc_labels collector) []"

definition otelNetpol :: "liberator \<Rightarrow> source \<Rightarrow> observability_config \<Rightarrow> k8s_object result" where
  "otelNetpol lib s otel =
     rbind (lib_ShortName lib (src_name s @ ''-'' @ ''tracing'') 63) (\<lambda>name.
       let collector = ob_otel_collector otel
       in Inr \<lparr>obj_type_meta = \<lparr>tm_kind = ''NetworkPolicy'', tm_api_version = ''networking.k8s.io/v1''\<rparr>,
          obj_meta = (CreateObjectMeta lib s)\<lparr>om_name := name\<rparr>,
          obj_payload = PNetworkPolicy \<lparr>nps_pod_selector = [(''app'', src_name s)],
            nps_policy_types = [''Egress''], nps_ingress = [],
            nps_egress = [\<lparr>npr_peers = [\<lparr>np_namespace_selector = Some [(''kubernetes.io/metadata.name'', oc_namespace collector)],
                np_pod_selector = Some (netpolLabelsFromCollectorConfig collector), np_ip_block = None\<rparr>],
              npr_ports = [\<lparr>npp_protocol = Some ''TCP'', npp_port = Some (IntVal (to_int32 (oc_port collector)))\<rparr>]\<rparr>]\<rparr>\<rparr>)"

section \<open>Logging\<close>

abbreviation logLabelDefault :: string where "logLabelDefault \<equiv> ''logs.nais.io/flow-default''"
abbreviation logLabelPrefix :: string where "logLabelPrefix \<equiv> ''logs.nais.io/flow-''"

definition add_log_destination ::
  "observability_config \<Rightarrow> string \<Rightarrow> (string \<rightharpoonup> string) \<Rightarrow> (string \<rightharpoonup> string) result" where
  "add_log_destination cfg destination labels =
     (if destination \<notin> set (ob_logging_destinations cfg)
      then Inl (errorf (''logging destination '' @ quoted destination @ '' does not exist in cluster''))
      else Inr (labels(logLabelPrefix @ destination \<mapsto> ''true'')))"

definition logLabels :: "nais_logging \<Rightarrow> observability_config \<Rightarrow> (string \<rightharpoonup> string) result" where
  "logLabels logging cfg =
     (if \<not> lgg_enabled logging then Inr [logLabelDefault \<mapsto> ''false'']
      else if length (lgg_destinations logging) > 0
      then foldM_result (add_log_destination cfg) (lgg_destinations logging) [logLabelDefault \<mapsto> ''false'']
      else Inr Map.empty)"

section \<open>Create\<close>

definition auto_instrumentation_enabled :: "observability \<Rightarrow> bool" where
  "auto_instrumentation_enabled obs =
     (case obs_auto_instrumentation obs of None \<Rightarrow> False | Some ai \<Rightarrow> aui_enabled ai)"

text \<open>The part of \<open>Create\<close> for tracing and auto-instrumentation.\<close>

definition create_otel :: "liberator \<Rightarrow> source \<Rightarrow> observability_config \<Rightarrow> observability \<Rightarrow> ast \<Rightarrow> ast result" where
  "create_otel lib s cfg obs a =
     (if obs_tracing obs = Some True \<or> auto_instrumentation_enabled obs
      then if \<not> ob_otel_enabled cfg
        then Inl (errorf ''opentelemetry is not supported for this cluster'')
      else if \<not> ob_otel_auto_enabled cfg \<and> auto_instrumentation_enabled obs
        then Inl (errorf ''auto-instrumentation is not supported for this cluster'')
      else rbind (otelNetpol lib s cfg) (\<lambda>netpol.
        rbind (case obs_auto_instrumentation obs of
            Some ai \<Rightarrow> if aui_enabled ai
              then rbind (otelAutoInstrumentationDestinations ai cfg) (\<lambda>destinations.
                     Inr (destinations, a\<lparr>ast_annotations :=
                       ast_annotations a ++ otelAutoInstrumentAnnotations s ai cfg\<rparr>))
              else Inr ([], a)
          | None \<Rightarrow> Inr ([], a)) (\<lambda>(destinations, a1).
          Inr (AppendOperation OperationCreateOrUpdate netpol
            (a1\<lparr>ast_env := OtelEnvVars (src_name s) (src_namespace s) (ast_env a1) destinations cfg\<rparr>))))
      else Inr a)"

definition observability_Create :: "liberator \<Rightarrow> source \<Rightarrow> options \<Rightarrow> ast \<Rightarrow> ast result" where
  "observability_Create lib s opt a =
     (let cfg = GetObservability opt
      in case ws_observability (src_spec s) of
        None \<Rightarrow> Inr a
      | Some obs \<Rightarrow>
        if auto_instrumentation_enabled obs \<and> obs_tracing obs = Some True
        then Inl (errorf ''auto-instrumentation and tracing cannot be enabled at the same time'')
        else rbind (create_otel lib s cfg obs a) (\<lambda>a1.
          case obs_logging obs of
            None \<Rightarrow> Inr a1
          | Some logging \<Rightarrow> rbind (logLabels logging cfg) (\<lambda>labels.
              Inr (a1\<lparr>ast_labels := ast_labels a1 ++ labels\<rparr>))))"

section \<open>The contract of the creator\<close>

lemma otelNetpol_belongs: "otelNetpol lib s cfg = Inr ob \<Longrightarrow> belongs_to lib s ob"
  by (auto simp: otelNetpol_def result_simps Let_def intro: belongs_to_renamed)

lemma create_otel_step: "create_otel lib s cfg obs a = Inr a' \<Longrightarrow> creator_step lib s a a'"
  by (auto simp: create_otel_def result_simps split: if_splits option.splits
      intro!: creator_intros dest!: otelNetpol_belongs)

interpretation observability: workload_creator observability_Create
  by unfold_locales
    (auto simp: observability_Create_def Let_def result_simps split: option.splits if_splits
      intro!: creator_intros dest: create_otel_step)

section \<open>Properties\<close>

text \<open>The attributes that the variables of the workload contribute.\<close>

definition user_attributes :: "env_var list \<Rightarrow> string list" where
  "user_attributes env = filter (\<lambda>kv. length (Split kv CHR ''='') = 2 \<and> Split kv CHR ''='' ! 0 \<notin> set reservedAttributes)
     (concat (map (\<lambda>e. Split (ev_value e) CHR '','') (filter (\<lambda>e. ev_name e = otelResourceAttributes) env)))"

lemma Join_append: "xs \<noteq> [] \<Longrightarrow> Join (xs @ [y]) sep = Join xs sep @ sep @ y"
proof (induction xs)
  case (Cons x xs)
  then show ?case by (cases xs) auto
qed simp

lemma fold_add_attribute:
  "base \<noteq> [] \<Longrightarrow> foldl add_attribute (Join base '','') kvs = Join (base @ filter (\<lambda>kv.
     length (Split kv CHR ''='') = 2 \<and> Split kv CHR ''='' ! 0 \<notin> set reservedAttributes) kvs) '',''"
proof (induction kvs arbitrary: base)
  case (Cons kv kvs)
  have "add_attribute (Join base '','') kv = Join (base @ filter (\<lambda>kv.
     length (Split kv CHR ''='') = 2 \<and> Split kv CHR ''='' ! 0 \<notin> set reservedAttributes) [kv]) '',''"
    using Cons.prems by (simp add: add_attribute_def Let_def Join_append)
  with Cons.IH[of "base @ filter (\<lambda>kv. length (Split kv CHR ''='') = 2 \<and> Split kv CHR ''='' ! 0 \<notin> set reservedAttributes) [kv]"]
    Cons.prems show ?case by simp
qed simp

lemma fold_add_env_attributes:
  "base \<noteq> [] \<Longrightarrow> foldl add_env_attributes (Join base '','') env = Join (base @ user_attributes env) '',''"
proof (induction env arbitrary: base)
  case (Cons e env)
  show ?case
  proof (cases "ev_name e = otelResourceAttributes")
    case True
    then have "add_env_attributes (Join base '','') e = Join (base @ user_attributes [e]) '',''"
      using Cons.prems by (simp add: add_env_attributes_def fold_add_attribute user_attributes_def)
    moreover have "user_attributes (e # env) = user_attributes [e] @ user_attributes env"
      by (simp add: user_attributes_def)
    ultimately show ?thesis using Cons.IH[of "base @ user_attributes [e]"] Cons.prems by simp
  next
    case False
    then have "user_attributes (e # env) = user_attributes env" "add_env_attributes (Join base '','') e = Join base '',''"
      by (simp_all add: user_attributes_def add_env_attributes_def)
    with Cons show ?thesis by simp
  qed
qed (simp add: user_attributes_def)

definition base_attributes :: "string \<Rightarrow> string \<Rightarrow> string list \<Rightarrow> string list" where
  "base_attributes name namespace destinations = [''service.name='' @ name, ''service.namespace='' @ namespace]
     @ (if destinations = [] then [] else [''nais.backend='' @ Join (sort destinations) '';''])"

lemma otelAttributes_Join:
  "otelAttributes name namespace env destinations =
     Join (base_attributes name namespace destinations @ user_attributes env) '',''"
proof -
  have "otelAttributes name namespace env destinations =
      foldl add_env_attributes (Join (base_attributes name namespace destinations) '','') env"
    by (simp add: otelAttributes_def base_attributes_def Let_def)
  moreover have "base_attributes name namespace destinations \<noteq> []" by (simp add: base_attributes_def)
  ultimately show ?thesis by (simp add: fold_add_env_attributes)
qed

lemma Join_no_char: "c \<notin> set sep \<Longrightarrow> \<forall>x \<in> set xs. c \<notin> set x \<Longrightarrow> c \<notin> set (Join xs sep)"
  by (induction xs sep rule: Join.induct) auto

lemma otelAttributes_Split:
  assumes "CHR '','' \<notin> set name" "CHR '','' \<notin> set namespace" "\<forall>d \<in> set destinations. CHR '','' \<notin> set d"
  shows "Split (otelAttributes name namespace env destinations) CHR '','' =
    base_attributes name namespace destinations @ user_attributes env"
proof -
  have "\<forall>x \<in> set (user_attributes env). CHR '','' \<notin> set x"
    by (auto simp: user_attributes_def Split_def dest: split_aux_no_sep)
  moreover have "CHR '','' \<notin> set (Join (sort destinations) '';'')"
    using assms(3) by (intro Join_no_char) auto
  ultimately have "\<forall>x \<in> set (base_attributes name namespace destinations @ user_attributes env). CHR '','' \<notin> set x"
    using assms(1,2) by (auto simp: base_attributes_def)
  then show ?thesis unfolding otelAttributes_Join
    by (intro Split_Join) (auto simp: base_attributes_def)
qed

lemma attribute_key: "CHR ''='' \<notin> set k \<Longrightarrow> Split (k @ CHR ''='' # v) CHR ''='' ! 0 = k"
  by (simp add: Split_def split_aux_append)

lemma user_attributes_keys: "kv \<in> set (user_attributes env) \<Longrightarrow> Split kv CHR ''='' ! 0 \<notin> set reservedAttributes"
  by (auto simp: user_attributes_def)


end
