(* ===== verification/Identity.thy ===== *)
theory Identity
  imports Sidecars Observability Network_Policy
begin

text \<open>
  Login and tokens (src/pkg/resourcecreator: wonderwall, azure, idporten, login, jwker, maskinporten, texas): the
  clients that a workload registers with identity providers, the secrets mounted for them, and the sidecars
  Wonderwall (login proxy) and Texas (token exchange).

  \<open>mergo.Merge\<close>, the name and key generators and the methods of the API types are the fields of
  \<^typ>\<open>liberator\<close>. The object of Azure AD is changed after it has been handed to the \<open>Ast\<close>: the operation
  holds a pointer to it, so the change is written to the operation (\<open>set_operation\<close>).
\<close>

definition set_operation :: "nat \<Rightarrow> k8s_object \<Rightarrow> ast \<Rightarrow> ast" where
  "set_operation i ob a = a\<lparr>ast_operations := (ast_operations a)[i := (ast_operations a ! i)\<lparr>op_resource := ob\<rparr>]\<rparr>"

definition set_label :: "string \<Rightarrow> string \<Rightarrow> ast \<Rightarrow> ast" where
  "set_label k v a = a\<lparr>ast_labels := (ast_labels a)(k \<mapsto> v)\<rparr>"

section \<open>Wonderwall\<close>

abbreviation wonderwall_MetricsPort :: int where "wonderwall_MetricsPort \<equiv> 7565"
abbreviation wonderwall_ProbePort :: int where "wonderwall_ProbePort \<equiv> 7566"
abbreviation FrontChannelLogoutPath :: string where "FrontChannelLogoutPath \<equiv> ''/oauth2/logout/frontchannel''"

record wonderwall_configuration =
  wwc_acr_values :: string
  wwc_auto_login :: bool
  wwc_ignore_paths :: "string list"
  wwc_needs_encryption_secret :: bool
  wwc_provider :: string
  wwc_resources :: "nais_resources option"
  wwc_secret_names :: "string list"
  wwc_ui_locales :: string

definition wonderwall_validate :: "source \<Rightarrow> options \<Rightarrow> wonderwall_configuration \<Rightarrow> error" where
  "wonderwall_validate s naisCfg wonderwallCfg =
     (if \<not> IsWonderwallEnabled naisCfg then Some (errorf ''wonderwall is not enabled for this cluster'')
      else if GetWonderwallOptions naisCfg = [] then Some (errorf ''wonderwall image not configured'')
      else if length (wwc_provider wonderwallCfg) = 0 then Some (errorf ''configuration has empty provider'')
      else if length (wwc_secret_names wonderwallCfg) = 0 then Some (errorf ''configuration has no secret names'')
      else if length (ws_ingresses (src_spec s)) = 0 then Some (errorf ''source has no ingresses'')
      else if list_ex (\<lambda>name. length name = 0) (wwc_secret_names wonderwallCfg)
      then Some (errorf ''configuration contains empty secret names'')
      else let idPortenEnabled = idporten_sidecar_enabled s; azureEnabled = azure_sidecar_enabled s;
               loginEnabled = (ws_login (src_spec s) \<noteq> None); port = ws_port (src_spec s)
      in if idPortenEnabled \<and> azureEnabled \<or> idPortenEnabled \<and> loginEnabled \<or> azureEnabled \<and> loginEnabled
      then Some (errorf ''only one of Azure AD, ID-porten or login sidecars can be enabled'')
      else if port = wonderwall_Port \<or> port = wonderwall_MetricsPort \<or> port = wonderwall_ProbePort
      then Some (errorf (''cannot use port '' @ in_quotes (Itoa port) @ ''; conflicts with sidecar''))
      else None)"

definition wonderwall_resourceRequirements :: "liberator \<Rightarrow> wonderwall_configuration \<Rightarrow> nais_resources result" where
  "wonderwall_resourceRequirements lib cfg =
     (let defaultReqs = \<lparr>nr_limits = Some \<lparr>rs_cpu = ''2'', rs_memory = ''256Mi''\<rparr>,
            nr_requests = Some \<lparr>rs_cpu = ''20m'', rs_memory = ''32Mi''\<rparr>\<rparr>
      in case wwc_resources cfg of
           None \<Rightarrow> Inr defaultReqs
         | Some reqs \<Rightarrow> (case am_MergeResources (lib_api lib) reqs defaultReqs of
               Inl err \<Rightarrow> Inl (errorf_w ''merging default resource requirements: '' err)
             | Inr merged \<Rightarrow> Inr merged))"

definition appendStringEnvVar :: "env_var list \<Rightarrow> string \<Rightarrow> string \<Rightarrow> env_var list" where
  "appendStringEnvVar envVars key value = (if length value > 0 then envVars @ [value_env key value] else envVars)"

definition appendBoolEnvVar :: "env_var list \<Rightarrow> string \<Rightarrow> bool \<Rightarrow> env_var list" where
  "appendBoolEnvVar envVars key value = (if value then envVars @ [value_env key (FormatBool value)] else envVars)"

definition wonderwall_leadingSlash :: "string \<Rightarrow> string" where
  "wonderwall_leadingSlash s = (if HasPrefix s ''/'' then s else ''/'' @ s)"

text \<open>The closure \<open>addPath\<close>; \<open>seen\<close> holds exactly the paths of the list.\<close>

definition addPath :: "string \<Rightarrow> string list \<Rightarrow> string list" where
  "addPath p paths =
     (if length p = 0 then paths
      else let p' = wonderwall_leadingSlash p in if p' \<in> set paths then paths else paths @ [p'])"

definition autoLoginIgnorePaths :: "source \<Rightarrow> wonderwall_configuration \<Rightarrow> string" where
  "autoLoginIgnorePaths s cfg =
     (let spec = src_spec s;
          p1 = (if ws_prometheus_enabled spec then addPath (ws_prometheus_path spec) [] else []);
          p2 = (case ws_liveness spec of None \<Rightarrow> p1 | Some q \<Rightarrow> addPath (prb_path q) p1);
          p3 = (case ws_readiness spec of None \<Rightarrow> p2 | Some q \<Rightarrow> addPath (prb_path q) p2)
      in Join (fold addPath (wwc_ignore_paths cfg) p3) '','')"

definition ingressString :: "string list \<Rightarrow> string" where
  "ingressString ingresses = Join ingresses '',''"

definition wonderwall_envVars :: "source \<Rightarrow> options \<Rightarrow> wonderwall_configuration \<Rightarrow> env_var list" where
  "wonderwall_envVars s naisCfg cfg =
     (let result = [value_env ''WONDERWALL_OPENID_PROVIDER'' (wwc_provider cfg),
            value_env ''WONDERWALL_INGRESS'' (ingressString (ws_ingresses (src_spec s))),
            \<lparr>ev_name = ''WONDERWALL_UPSTREAM_IP'', ev_value = [], ev_value_from = Some (FieldRef ''status.podIP'')\<rparr>,
            value_env ''WONDERWALL_UPSTREAM_PORT'' (Itoa (ws_port (src_spec s))),
            value_env ''WONDERWALL_BIND_ADDRESS'' (''0.0.0.0:'' @ Itoa wonderwall_Port),
            value_env ''WONDERWALL_METRICS_BIND_ADDRESS'' (''0.0.0.0:'' @ Itoa wonderwall_MetricsPort),
            value_env ''WONDERWALL_PROBE_BIND_ADDRESS'' (''0.0.0.0:'' @ Itoa wonderwall_ProbePort)];
          result1 = appendBoolEnvVar result ''WONDERWALL_AUTO_LOGIN'' (wwc_auto_login cfg);
          result2 = appendStringEnvVar result1 ''WONDERWALL_OPENID_ACR_VALUES'' (wwc_acr_values cfg);
          result3 = appendStringEnvVar result2 ''WONDERWALL_OPENID_UI_LOCALES'' (wwc_ui_locales cfg);
          result4 = (if wwc_auto_login cfg
            then appendStringEnvVar result3 ''WONDERWALL_AUTO_LOGIN_IGNORE_PATHS'' (autoLoginIgnorePaths s cfg)
            else result3);
          otelEnvs = [value_env ''OTEL_RESOURCE_ATTRIBUTES'' (''wonderwall.upstream.name='' @ src_name s)]
      in result4 @ OtelEnvVars ''wonderwall'' (src_namespace s) otelEnvs [] (GetObservability naisCfg))"

definition sidecarContainer ::
  "liberator \<Rightarrow> source \<Rightarrow> options \<Rightarrow> wonderwall_configuration \<Rightarrow> container result" where
  "sidecarContainer lib s naisCfg wonderwallCfg =
     rbind (wonderwall_resourceRequirements lib wonderwallCfg) (\<lambda>resourceReqs.
       rbind (ResourceLimits lib resourceReqs) (\<lambda>resources.
         Inr (container_zero\<lparr>c_name := ''wonderwall'', c_image := GetWonderwallOptions naisCfg,
           c_pull_policy := ''IfNotPresent'',
           c_env := wonderwall_envVars s naisCfg wonderwallCfg,
           c_env_from := map EnvFromSecret (wwc_secret_names wonderwallCfg),
           c_ports := [tcp_port ''wonderwall'' wonderwall_Port, tcp_port ''ww-metrics'' wonderwall_MetricsPort,
             tcp_port ''ww-probe'' wonderwall_ProbePort],
           c_resources := resources, c_restart_policy := Some ''Always'',
           c_startup := Some (http_probe ''/healthz'' wonderwall_ProbePort),
           c_security_context := Some DefaultContainerSecurityContext\<rparr>)))"

definition makeEncryptionKeySecret ::
  "liberator \<Rightarrow> source \<Rightarrow> nat \<Rightarrow> wonderwall_configuration \<Rightarrow> k8s_object result" where
  "makeEncryptionKeySecret lib s draw cfg =
     (let prefixedName = wwc_provider cfg @ ''-wonderwall-'' @ src_name s
      in rbind (lib_ShortName lib prefixedName 63) (\<lambda>secretName.
        case ng_Keygen (lib_names lib) draw 32 of
          Inl err \<Rightarrow> Inl (errorf_w ''generating secret key: '' err)
        | Inr key \<Rightarrow> Inr (OpaqueSecret (CreateObjectMeta lib s) secretName
            [''WONDERWALL_ENCRYPTION_KEY'' \<mapsto> base64_Std key])))"

definition wonderwall_Create ::
  "liberator \<Rightarrow> source \<Rightarrow> options \<Rightarrow> wonderwall_configuration \<Rightarrow> ast \<Rightarrow> ast result" where
  "wonderwall_Create lib s naisCfg wonderwallCfg a =
     (case wonderwall_validate s naisCfg wonderwallCfg of
        Some err \<Rightarrow> Inl err
      | None \<Rightarrow> (case sidecarContainer lib s naisCfg wonderwallCfg of
          Inl err \<Rightarrow> Inl (errorf_w ''creating wonderwall container spec: '' err)
        | Inr container \<Rightarrow>
          rbind (if wwc_needs_encryption_secret wonderwallCfg
                 then rbind (makeEncryptionKeySecret lib s (length (ast_operations a)) wonderwallCfg) (\<lambda>sec.
                   Inr (container\<lparr>c_env_from := c_env_from container @ [EnvFromSecret (om_name (obj_meta sec))]\<rparr>,
                     AppendOperation OperationCreateIfNotExists sec a))
                 else Inr (container, a)) (\<lambda>(c, a1).
            Inr (set_label ''wonderwall'' ''enabled'' (set_label ''otel'' ''enabled'' (set_label ''aiven'' ''enabled''
              (add_init_container c a1)))))))"

section \<open>Azure AD\<close>

definition azure_secretName :: "liberator \<Rightarrow> string \<Rightarrow> string result" where
  "azure_secretName lib name =
     (let prefixedName = ''azure'' @ ''-'' @ name; (year, week) = ng_ISOWeek (lib_names lib);
          suffix = Itoa year @ ''-'' @ Itoa week
      in ng_SuffixedShortName (lib_names lib) prefixedName suffix 63)"

definition callbackURLs :: "string list \<Rightarrow> string list result" where
  "callbackURLs ingresses = mapM_result (\<lambda>ingress. AppendPathToIngress ingress ''/oauth2/callback'') ingresses"

definition copyAzureAnnotations :: "(string \<rightharpoonup> string) \<Rightarrow> (string \<rightharpoonup> string) \<Rightarrow> (string \<rightharpoonup> string)" where
  "copyAzureAnnotations src dst =
     (\<lambda>k. if HasPrefix k ''azure.nais.io/'' \<and> src k \<noteq> None then src k else dst k)"

text \<open>The object that carries a specification of an Azure AD application.\<close>

definition azure_object :: "object_meta \<Rightarrow> azure_ad_spec \<Rightarrow> k8s_object" where
  "azure_object objectMeta spec = \<lparr>obj_type_meta = type_meta_of ''AzureAdApplication'' ''nais.io/v1'',
     obj_meta = objectMeta, obj_payload = PAzureAdApplication spec\<rparr>"

abbreviation nil_deref :: "'a result" where
  "nil_deref \<equiv> Inl (go_panic ''invalid memory address or nil pointer dereference'')"

definition azure_application :: "liberator \<Rightarrow> source \<Rightarrow> options \<Rightarrow> (object_meta \<times> azure_ad_spec) result" where
  "azure_application lib s config =
     (case (case ws_azure (src_spec s) of None \<Rightarrow> None | Some az \<Rightarrow> az_application az) of
        None \<Rightarrow> nil_deref
      | Some azureapp \<Rightarrow>
        rbind (if length (aza_reply_urls azureapp) = 0 then callbackURLs (ws_ingresses (src_spec s))
               else Inr (aza_reply_urls azureapp)) (\<lambda>replyURLs.
        rbind (azure_secretName lib (src_name s)) (\<lambda>secretName.
          let meta = CreateObjectMeta lib s;
              objectMeta = meta\<lparr>om_annotations := Some (copyAzureAnnotations
                (gm_map (om_annotations (src_meta s))) (gm_map (om_annotations meta)))\<rparr>
          in case (case ws_access_policy (src_spec s) of None \<Rightarrow> None | Some policy \<Rightarrow> ap_inbound policy) of
               None \<Rightarrow> nil_deref
             | Some rules \<Rightarrow> Inr (objectMeta,
                 \<lparr>aad_reply_urls = replyURLs,
                  aad_pre_authorized = InboundRulesWithDefaults rules (om_namespace objectMeta) (GetClusterName config),
                  aad_tenant = aza_tenant azureapp, aad_secret_name = secretName, aad_claims = aza_claims azureapp,
                  aad_single_page = aza_single_page azureapp, aad_allow_all_users = aza_allow_all_users azureapp,
                  aad_logout_url = []\<rparr>))))"

text \<open>The sidecar changes the object of operation \<open>i\<close>.\<close>

definition azure_sidecar ::
  "liberator \<Rightarrow> source \<Rightarrow> options \<Rightarrow> wonderwall_sidecar \<Rightarrow> nat \<Rightarrow> object_meta \<Rightarrow> azure_ad_spec \<Rightarrow> ast
     \<Rightarrow> (azure_ad_spec \<times> ast) result" where
  "azure_sidecar lib s config sc i objectMeta spec a =
     (if \<not> IsWonderwallEnabled config then Inl (errorf ''azure ad sidecar is not enabled for this cluster'')
      else let ingresses = ws_ingresses (src_spec s)
      in if length ingresses = 0 then Inl (errorf ''must have at least 1 ingress to use Azure AD sidecar'')
      else rbind (callbackURLs ingresses) (\<lambda>callbacks.
        rbind (AppendPathToIngress (ingresses ! 0) FrontChannelLogoutPath) (\<lambda>logout.
          let spec1 = spec\<lparr>aad_reply_urls := aad_reply_urls spec @ callbacks, aad_logout_url := logout,
                aad_single_page := Some False\<rparr>
          in rbind (wonderwall_Create lib s config
               \<lparr>wwc_acr_values = [], wwc_auto_login = wws_auto_login sc, wwc_ignore_paths = wws_ignore_paths sc,
                wwc_needs_encryption_secret = True, wwc_provider = ''azure'', wwc_resources = wws_resources sc,
                wwc_secret_names = [aad_secret_name spec1, ''wonderwall-azure-config''], wwc_ui_locales = []\<rparr>
               (set_operation i (azure_object objectMeta spec1) a)) (\<lambda>a1. Inr (spec1, a1)))))"

definition azure_Create :: "liberator \<Rightarrow> source \<Rightarrow> options \<Rightarrow> ast \<Rightarrow> (azure_ad_spec option \<times> ast) result" where
  "azure_Create lib s config a = (case ws_azure (src_spec s) of
       None \<Rightarrow> Inr (None, a)
     | Some az \<Rightarrow>
       let azureEnabled = (case az_application az of None \<Rightarrow> False | Some app \<Rightarrow> aza_enabled app);
           sidecarEnabled = (case az_sidecar az of None \<Rightarrow> False | Some sc \<Rightarrow> wws_enabled sc)
       in if \<not> azureEnabled \<and> \<not> sidecarEnabled then Inr (None, a)
       else if \<not> IsAzureratorEnabled config then Inl (errorf ''azure ad is not available in this cluster'')
       else rbind (azure_application lib s config) (\<lambda>(objectMeta, spec).
         let i = length (ast_operations a);
             a1 = WithAdditionalEnvFromSecret (aad_secret_name spec)
                    (WithAdditionalSecret (aad_secret_name spec) (mp_Azurerator (lib_paths lib))
                      (AppendOperation OperationCreateOrUpdate (azure_object objectMeta spec)
                        (set_label ''azure'' ''enabled'' a)))
         in case az_sidecar az of
              Some sc \<Rightarrow> if wws_enabled sc
                then rbind (azure_sidecar lib s config sc i objectMeta spec a1) (\<lambda>(spec1, a2). Inr (Some spec1, a2))
                else Inr (Some spec, a1)
            | None \<Rightarrow> Inr (Some spec, a1)))"

section \<open>ID-porten and the login proxy\<close>

definition idporten_Create ::
  "liberator \<Rightarrow> source \<Rightarrow> options \<Rightarrow> ast \<Rightarrow> (idporten_client_spec option \<times> ast) result" where
  "idporten_Create lib s cfg a = (case ws_idporten (src_spec s) of
       None \<Rightarrow> Inr (None, a)
     | Some idp \<Rightarrow>
       if \<not> idp_enabled idp then Inr (None, a)
       else if \<not> IsIDPortenEnabled cfg then Inl (errorf ''idporten is not available in this cluster'')
       else case idp_sidecar idp of
         None \<Rightarrow> Inl (errorf ''idporten sidecar must be enabled when idporten is enabled'')
       | Some sc \<Rightarrow>
         if \<not> wws_enabled sc then Inl (errorf ''idporten sidecar must be enabled when idporten is enabled'')
         else if \<not> IsWonderwallEnabled cfg then Inl (errorf ''idporten sidecar is not enabled for this cluster'')
         else if length (ws_ingresses (src_spec s)) = 0 then Inl (errorf ''idporten requires at least 1 ingress'')
         else let sso = ''idporten-sso'';
                  a1 = WithAdditionalEnvFromSecret sso
                         (WithAdditionalSecret sso (mp_DigdiratorIDPorten (lib_paths lib)) (set_label ''idporten'' ''enabled'' a))
         in rbind (wonderwall_Create lib s cfg
              \<lparr>wwc_acr_values = ids_level sc, wwc_auto_login = wws_auto_login sc,
               wwc_ignore_paths = wws_ignore_paths sc, wwc_needs_encryption_secret = False,
               wwc_provider = ''idporten'', wwc_resources = wws_resources sc,
               wwc_secret_names = [sso, ''wonderwall-idporten-config''], wwc_ui_locales = ids_locale sc\<rparr> a1) (\<lambda>a2.
              Inr (Some \<lparr>ipc_secret_name = sso\<rparr>, a2)))"

definition login_applicationSecretName :: "source \<Rightarrow> string result" where
  "login_applicationSecretName s =
     (let name = ''login-config-'' @ src_name s
      in if length name > 253 then Inl (errorf (''application name too long: '' @ src_name s)) else Inr name)"

definition login_Create :: "liberator \<Rightarrow> source \<Rightarrow> options \<Rightarrow> ast \<Rightarrow> ast result" where
  "login_Create lib s cfg a = (case ws_login (src_spec s) of
       None \<Rightarrow> Inr a
     | Some lgn \<Rightarrow>
       if \<not> IsWonderwallEnabled cfg then Inl (errorf ''login proxy is not available in this cluster'')
       else if length (ws_ingresses (src_spec s)) = 0 then Inl (errorf ''login proxy requires at least 1 ingress'')
       else rbind (login_applicationSecretName s) (\<lambda>applicationSecretName.
         wonderwall_Create lib s cfg
           \<lparr>wwc_acr_values = [],
            wwc_auto_login = (case lgn_enforce lgn of None \<Rightarrow> False | Some e \<Rightarrow> len_enabled e),
            wwc_ignore_paths = (case lgn_enforce lgn of None \<Rightarrow> [] | Some e \<Rightarrow> len_exclude_paths e),
            wwc_needs_encryption_secret = True, wwc_provider = lgn_provider lgn, wwc_resources = None,
            wwc_secret_names = [''login-global-config'', applicationSecretName], wwc_ui_locales = []\<rparr> a))"

section \<open>TokenX and Maskinporten\<close>

definition jwker_secretName :: "liberator \<Rightarrow> string \<Rightarrow> string" where
  "jwker_secretName lib name = ng_PrefixedRandShortName (lib_names lib) ''tokenx'' name 63"

definition jwker_Create :: "liberator \<Rightarrow> source \<Rightarrow> options \<Rightarrow> ast \<Rightarrow> (jwker_spec option \<times> ast) result" where
  "jwker_Create lib s cfg a =
     (if \<not> IsJwkerEnabled cfg \<or> ws_access_policy (src_spec s) = None \<or> ws_tokenx (src_spec s) \<noteq> Some True
      then Inr (None, a)
      else rbind (WithDefaults (ws_access_policy (src_spec s)) (src_namespace s) (GetClusterName cfg)) (\<lambda>policy.
        let spec = \<lparr>jwk_access_policy = policy, jwk_secret_name = jwker_secretName lib (src_name s)\<rparr>;
            jwker = \<lparr>obj_type_meta = type_meta_of ''Jwker'' ''nais.io/v1'', obj_meta = CreateObjectMeta lib s,
              obj_payload = PJwker spec\<rparr>
        in Inr (Some spec, WithAdditionalEnvFromSecret (jwk_secret_name spec)
             (WithAdditionalSecret (jwk_secret_name spec) (mp_Jwker (lib_paths lib))
               (AppendOperation OperationCreateOrUpdate jwker (set_label ''tokenx'' ''enabled'' a))))))"

definition maskinporten_secretName :: "liberator \<Rightarrow> string \<Rightarrow> string result" where
  "maskinporten_secretName lib name = lib_ShortName lib (''maskinporten-'' @ name) 63"

definition maskinporten_client ::
  "liberator \<Rightarrow> object_meta \<Rightarrow> maskinporten \<Rightarrow> (k8s_object \<times> maskinporten_client_spec) result" where
  "maskinporten_client lib objectMeta naisMaskinporten = (case maskinporten_secretName lib (om_name objectMeta) of
       Inl err \<Rightarrow> Inl (errorf_w ''generate secret name: '' err)
     | Inr name \<Rightarrow>
       (let spec = \<lparr>mpc_consumed_scopes = mpn_consumed_scopes naisMaskinporten,
              mpc_exposed_scopes = mpn_exposed_scopes naisMaskinporten, mpc_secret_name = name\<rparr>
        in Inr (\<lparr>obj_type_meta = type_meta_of ''MaskinportenClient'' ''nais.io/v1'', obj_meta = objectMeta,
                 obj_payload = PMaskinportenClient spec\<rparr>, spec)))"

definition maskinporten_Create ::
  "liberator \<Rightarrow> source \<Rightarrow> options \<Rightarrow> ast \<Rightarrow> (maskinporten_client_spec option \<times> ast) result" where
  "maskinporten_Create lib s cfg a = (case ws_maskinporten (src_spec s) of
       None \<Rightarrow> Inr (None, a)
     | Some m \<Rightarrow>
       if \<not> mpn_enabled m then Inr (None, a)
       else if \<not> IsMaskinportenEnabled cfg then Inl (errorf ''maskinporten is not available in this cluster'')
       else rbind (maskinporten_client lib (CreateObjectMeta lib s) m) (\<lambda>(client, spec).
         Inr (Some spec, WithAdditionalEnvFromSecret (mpc_secret_name spec)
           (WithAdditionalSecret (mpc_secret_name spec) (mp_DigdiratorMaskinporten (lib_paths lib))
             (AppendOperation OperationCreateOrUpdate client (set_label ''maskinporten'' ''enabled'' a))))))"

section \<open>Texas\<close>

abbreviation texas_Port :: int where "texas_Port \<equiv> 7164"
abbreviation texas_ProbePort :: int where "texas_ProbePort \<equiv> 7165"

record clients =
  cl_azure :: "azure_ad_spec option"
  cl_idporten :: "idporten_client_spec option"
  cl_maskinporten :: "maskinporten_client_spec option"
  cl_tokenx :: "jwker_spec option"

definition clients_IsEmpty :: "clients \<Rightarrow> bool" where
  "clients_IsEmpty c \<longleftrightarrow> cl_azure c = None \<and> cl_idporten c = None \<and> cl_maskinporten c = None \<and> cl_tokenx c = None"

definition clients_EnvVars :: "clients \<Rightarrow> env_var list" where
  "clients_EnvVars c =
     [value_env ''BIND_ADDRESS'' (''127.0.0.1:'' @ Itoa texas_Port),
      value_env ''PROBE_BIND_ADDRESS'' (''0.0.0.0:'' @ Itoa texas_ProbePort),
      \<lparr>ev_name = ''NAIS_POD_NAME'', ev_value = [], ev_value_from = Some (FieldRef ''metadata.name'')\<rparr>]
   @ (if cl_azure c \<noteq> None then [value_env ''AZURE_ENABLED'' ''true''] else [])
   @ (if cl_idporten c \<noteq> None then [value_env ''IDPORTEN_ENABLED'' ''true''] else [])
   @ (if cl_maskinporten c \<noteq> None then [value_env ''MASKINPORTEN_ENABLED'' ''true''] else [])
   @ (if cl_tokenx c \<noteq> None then [value_env ''TOKEN_X_ENABLED'' ''true''] else [])"

definition clients_EnvFromSources :: "clients \<Rightarrow> env_from_source list" where
  "clients_EnvFromSources c =
     (case cl_azure c of None \<Rightarrow> [] | Some x \<Rightarrow> [EnvFromSecret (aad_secret_name x)])
   @ (case cl_idporten c of None \<Rightarrow> [] | Some x \<Rightarrow> [EnvFromSecret (ipc_secret_name x)])
   @ (case cl_maskinporten c of None \<Rightarrow> [] | Some x \<Rightarrow> [EnvFromSecret (mpc_secret_name x)])
   @ (case cl_tokenx c of None \<Rightarrow> [] | Some x \<Rightarrow> [EnvFromSecret (jwk_secret_name x)])"

definition texas_applicationEnvVars :: "env_var list" where
  "texas_applicationEnvVars =
     [value_env ''NAIS_TOKEN_ENDPOINT'' (''http://127.0.0.1:'' @ Itoa texas_Port @ ''/api/v1/token''),
      value_env ''NAIS_TOKEN_EXCHANGE_ENDPOINT'' (''http://127.0.0.1:'' @ Itoa texas_Port @ ''/api/v1/token/exchange''),
      value_env ''NAIS_TOKEN_INTROSPECTION_ENDPOINT'' (''http://127.0.0.1:'' @ Itoa texas_Port @ ''/api/v1/introspect'')]"

definition texas_otelEnvVars :: "source \<Rightarrow> options \<Rightarrow> env_var list" where
  "texas_otelEnvVars s cfg = OtelEnvVars ''texas'' (src_namespace s)
     [value_env ''OTEL_RESOURCE_ATTRIBUTES'' (''downstream.app.name='' @ src_name s @ '',downstream.app.namespace=''
        @ src_namespace s @ '',downstream.cluster.name='' @ GetClusterName cfg @ '',nais.pod.name=$(NAIS_POD_NAME)'')]
     [] (GetObservability cfg)"

definition texas_Create :: "liberator \<Rightarrow> source \<Rightarrow> options \<Rightarrow> clients \<Rightarrow> ast \<Rightarrow> ast result" where
  "texas_Create lib s cfg clts a =
     (if \<not> IsTexasEnabled cfg \<or> clients_IsEmpty clts then Inr a
      else if TexasImage cfg = [] then Inl (errorf ''texas image not configured'')
      else let port = ws_port (src_spec s)
      in if port = texas_Port \<or> port = texas_ProbePort
      then Inl (errorf (''cannot use port '' @ in_quotes (Itoa port) @ ''; conflicts with sidecar''))
      else rbind (sidecar_resources lib ''10m'' ''32Mi'' ''256Mi'') (\<lambda>resources.
        let envs = clients_EnvVars clts @ texas_otelEnvVars s cfg;
            c = container_zero\<lparr>c_name := ''texas'', c_env := envs, c_env_from := clients_EnvFromSources clts,
              c_image := TexasImage cfg, c_pull_policy := ''IfNotPresent'',
              c_ports := [tcp_port ''texas'' texas_Port, tcp_port ''probe'' texas_ProbePort],
              c_resources := resources, c_restart_policy := Some ''Always'',
              c_security_context := Some DefaultContainerSecurityContext,
              c_startup := Some (http_probe ''/healthz'' texas_ProbePort)\<rparr>
        in Inr (set_label ''otel'' ''enabled'' (set_label ''texas'' ''enabled''
             (add_init_container c (AppendEnv texas_applicationEnvVars a))))))"

section \<open>The contract of the creators\<close>

lemma creator_step_set_label [creator_intros]:
  "creator_step lib s a b \<Longrightarrow> creator_step lib s a (set_label k v b)"
  by (auto simp: set_label_def intro: creator_intros)

lemma set_label_operations [simp]: "ast_operations (set_label k v a) = ast_operations a"
  by (simp add: set_label_def)

lemma set_label_init_containers [simp]: "ast_init_containers (set_label k v a) = ast_init_containers a"
  by (simp add: set_label_def)

lemma With_operations [simp]:
  "ast_operations (WithAdditionalSecret n p a) = ast_operations a"
  "ast_operations (WithAdditionalEnvFromSecret n a) = ast_operations a"
  "ast_init_containers (WithAdditionalSecret n p a) = ast_init_containers a"
  "ast_init_containers (WithAdditionalEnvFromSecret n a) = ast_init_containers a"
  by (simp_all add: WithAdditionalSecret_def WithAdditionalEnvFromSecret_def add_volume_def)

text \<open>A change of an object that the step itself added.\<close>

lemma creator_step_set_operation [creator_intros]:
  assumes "creator_step lib s a b" and "length (ast_operations a) \<le> i" and "belongs_to lib s ob"
  shows "creator_step lib s a (set_operation i ob b)"
proof -
  from assms(1) obtain ops where ops: "ast_operations b = ast_operations a @ ops"
    "\<forall>rop \<in> set ops. belongs_to lib s (op_resource rop)" and pod: "pod_extends a b"
    by (auto simp: creator_step_def extends_with_def)
  let ?n = "length (ast_operations a)"
  let ?ops = "ops[i - ?n := (ops ! (i - ?n))\<lparr>op_resource := ob\<rparr>]"
  have "ast_operations (set_operation i ob b) = ast_operations a @ ?ops"
    using assms(2) ops(1) by (simp add: set_operation_def list_update_append nth_append)
  moreover have "\<forall>rop \<in> set ?ops. belongs_to lib s (op_resource rop)"
    using ops(2) assms(3) set_update_subset_insert[of ops "i - ?n"] by fastforce
  moreover have "pod_extends a (set_operation i ob b)"
    using pod pod_extends_same[of "set_operation i ob b" b] pod_extends_trans by (auto simp: set_operation_def)
  ultimately show ?thesis by (auto simp: creator_step_def extends_with_def)
qed

lemma set_operation_simps [simp]:
  "length (ast_operations (set_operation i ob a)) = length (ast_operations a)"
  "ast_init_containers (set_operation i ob a) = ast_init_containers a"
  by (simp_all add: set_operation_def)

lemma belongs_to_OpaqueSecret [simp]: "belongs_to lib s (OpaqueSecret (CreateObjectMeta lib s) n d)"
  by (rule belongs_to_renamed) (simp add: OpaqueSecret_def)

lemma sidecarContainer_ok:
  "sidecarContainer lib s cfg w = Inr c \<Longrightarrow> hardened c \<and> c_volume_mounts c = [] \<and> c_name c = ''wonderwall''"
  by (auto simp: sidecarContainer_def result_simps)

lemma makeEncryptionKeySecret_ok: "makeEncryptionKeySecret lib s d w = Inr sec \<Longrightarrow> belongs_to lib s sec"
  by (cases "ng_Keygen (lib_names lib) d 32") (auto simp: makeEncryptionKeySecret_def Let_def result_simps)

lemma hardened_env_from [simp]: "hardened (c\<lparr>c_env_from := fs\<rparr>) = hardened c"
  by (simp add: hardened_def)

interpretation wonderwall: workload_creator "\<lambda>lib s (cfg, w). wonderwall_Create lib s cfg w"
  by unfold_locales
    (auto simp: wonderwall_Create_def result_simps split: option.splits sum.splits if_splits
      dest!: sidecarContainer_ok makeEncryptionKeySecret_ok intro!: creator_intros)

lemma wonderwall_then:
  "wonderwall_Create lib s cfg w b = Inr a' \<Longrightarrow> creator_step lib s a b \<Longrightarrow> creator_step lib s a a'"
  using wonderwall.create_then[of lib s a b "(cfg, w)" a'] by simp

lemma belongs_to_azure_object:
  "azure_application lib s cfg = Inr (m, spec) \<Longrightarrow> belongs_to lib s (azure_object m spec')"
  using CreateObjectMeta_simps[of lib s]
  by (auto simp: azure_application_def azure_object_def result_simps Let_def belongs_to_def label_def
      split: option.splits if_splits)

lemma azure_sidecar_step:
  assumes "creator_step lib s a b" "length (ast_operations a) \<le> i" "\<And>spec. belongs_to lib s (azure_object m spec)"
    and "azure_sidecar lib s cfg sc i m spec b = Inr (spec', a')"
  shows "creator_step lib s a a'"
proof -
  from assms(4) obtain w spec1 where
    "wonderwall_Create lib s cfg w (set_operation i (azure_object m spec1) b) = Inr a'"
    by (auto simp: azure_sidecar_def result_simps Let_def split: if_splits)
  then show ?thesis by (rule wonderwall_then) (rule creator_step_set_operation[OF assms(1,2,3)])
qed

text \<open>The \<open>Ast\<close> that a creator leaves, without the client that it returns.\<close>

definition ast_of :: "('c \<times> ast) result \<Rightarrow> ast result" where
  "ast_of r = rbind r (\<lambda>(c, a). Inr a)"

lemma ast_of_Inr [simp]: "ast_of r = Inr a \<longleftrightarrow> (\<exists>c. r = Inr (c, a))"
  by (auto simp: ast_of_def result_simps)

interpretation azure: workload_creator "\<lambda>lib s cfg a. ast_of (azure_Create lib s cfg a)"
proof
  fix lib s cfg a a'
  assume "ast_of (azure_Create lib s cfg a) = Inr a'"
  then show "creator_step lib s a a'"
    by (auto simp: azure_Create_def Let_def result_simps split: option.splits if_splits
        intro!: creator_intros belongs_to_azure_object
        elim!: azure_sidecar_step[rotated 3])
qed

interpretation idporten: workload_creator "\<lambda>lib s cfg a. ast_of (idporten_Create lib s cfg a)"
  by unfold_locales
    (auto simp: idporten_Create_def Let_def result_simps split: option.splits if_splits
      intro!: creator_intros elim!: wonderwall_then)

interpretation login: workload_creator login_Create
  by unfold_locales
    (auto simp: login_Create_def result_simps split: option.splits if_splits elim!: wonderwall_then)

interpretation jwker: workload_creator "\<lambda>lib s cfg a. ast_of (jwker_Create lib s cfg a)"
  by unfold_locales
    (auto simp: jwker_Create_def Let_def result_simps split: if_splits
      intro!: creator_intros intro: belongs_intros)

interpretation maskinporten: workload_creator "\<lambda>lib s cfg a. ast_of (maskinporten_Create lib s cfg a)"
  by unfold_locales
    (auto simp: maskinporten_Create_def maskinporten_client_def Let_def result_simps
      split: option.splits if_splits sum.splits intro!: creator_intros intro: belongs_intros)

interpretation texas: workload_creator "\<lambda>lib s (cfg, clts). texas_Create lib s cfg clts"
  by unfold_locales
    (auto simp: texas_Create_def Let_def result_simps split: if_splits intro!: creator_intros)

end
