(* ===== verification/Aiven.thy ===== *)
theory Aiven
  imports Identity
begin

text \<open>
  Aiven services (src/pkg/resourcecreator/aiven: aiven.go, kafka.go, opensearch.go, valkey.go) and Postgres clusters
  (src/pkg/resourcecreator/postgres: postgres.go, cnpg, zalando). The \<open>AivenApplication\<close> that the three services
  fill in is passed from one to the next as its specification; its metadata does not change.
\<close>

section \<open>Aiven\<close>

definition generateAivenSecretName :: "liberator \<Rightarrow> string \<Rightarrow> string \<Rightarrow> string \<Rightarrow> string result" where
  "generateAivenSecretName lib appName aivenService generation =
     (let prefixedName = ''aiven-'' @ aivenService @ ''-'' @ appName;
          (year, week) = ng_ISOWeek (lib_names lib);
          suffix = Itoa year @ ''-'' @ Itoa week @ ''-'' @ generation
      in ng_SuffixedShortName (lib_names lib) prefixedName suffix 63)"

definition makeSecretEnvVar :: "string \<Rightarrow> string \<Rightarrow> env_var" where
  "makeSecretEnvVar key secretName =
     \<lparr>ev_name = key, ev_value = [], ev_value_from = Some (SecretKeyRef secretName key None)\<rparr>"

definition makeOptionalSecretEnvVar :: "string \<Rightarrow> string \<Rightarrow> env_var" where
  "makeOptionalSecretEnvVar key secretName =
     \<lparr>ev_name = key, ev_value = [], ev_value_from = Some (SecretKeyRef secretName key (Some True))\<rparr>"

text \<open>\<open>namePattern\<close> matches what is not a lower-case letter or a digit; names are ASCII.\<close>

definition envVarSuffix :: "string \<Rightarrow> string" where
  "envVarSuffix instanceName = ToUpper (map (\<lambda>c.
     if CHR ''a'' \<le> c \<and> c \<le> CHR ''z'' \<or> CHR ''0'' \<le> c \<and> c \<le> CHR ''9'' then c else CHR ''_'') instanceName)"

abbreviation secret_generation_label :: string where
  "secret_generation_label \<equiv> ''aiven.nais.io/secret-generation''"

subsection \<open>Kafka\<close>

definition kafka_path_env :: "liberator \<Rightarrow> string \<Rightarrow> string \<Rightarrow> env_var" where
  "kafka_path_env lib key filename = value_env key (path_Join [mp_Kafkarator (lib_paths lib), filename])"

definition addKafkaEnvVariables :: "liberator \<Rightarrow> string \<Rightarrow> ast \<Rightarrow> ast" where
  "addKafkaEnvVariables lib secretName a = PrependEnv
     [makeSecretEnvVar ''KAFKA_CERTIFICATE'' secretName,
      makeSecretEnvVar ''KAFKA_PRIVATE_KEY'' secretName,
      makeSecretEnvVar ''KAFKA_BROKERS'' secretName,
      makeSecretEnvVar ''KAFKA_SCHEMA_REGISTRY'' secretName,
      makeSecretEnvVar ''KAFKA_SCHEMA_REGISTRY_USER'' secretName,
      makeSecretEnvVar ''KAFKA_SCHEMA_REGISTRY_PASSWORD'' secretName,
      makeSecretEnvVar ''KAFKA_CA'' secretName,
      makeOptionalSecretEnvVar ''AIVEN_CA'' secretName,
      makeSecretEnvVar ''KAFKA_CREDSTORE_PASSWORD'' secretName,
      kafka_path_env lib ''KAFKA_CERTIFICATE_PATH'' ''kafka.crt'',
      kafka_path_env lib ''KAFKA_PRIVATE_KEY_PATH'' ''kafka.key'',
      kafka_path_env lib ''KAFKA_CA_PATH'' ''ca.crt'',
      kafka_path_env lib ''KAFKA_KEYSTORE_PATH'' ''client.keystore.p12'',
      kafka_path_env lib ''KAFKA_TRUSTSTORE_PATH'' ''client.truststore.jks''] a"

definition createKafkaKeyToPaths :: "liberator \<Rightarrow> string \<Rightarrow> ast \<Rightarrow> ast" where
  "createKafkaKeyToPaths lib nameOfSecretContainingKeys =
     (let paths = [(''KAFKA_CERTIFICATE'', ''kafka.crt''), (''KAFKA_PRIVATE_KEY'', ''kafka.key''),
            (''KAFKA_CA'', ''ca.crt''), (''client.keystore.p12'', ''client.keystore.p12''),
            (''client.truststore.jks'', ''client.truststore.jks'')]
      in add_volume (FromFilesSecretVolume ''aiven-credentials'' nameOfSecretContainingKeys paths)
           (FromFilesVolumeMount ''aiven-credentials'' (mp_Kafkarator (lib_paths lib)) [] True))"

definition CreateStream :: "liberator \<Rightarrow> source \<Rightarrow> kafka \<Rightarrow> k8s_object" where
  "CreateStream lib s k = \<lparr>obj_type_meta = type_meta_of ''Stream'' ''kafka.nais.io/v1'',
     obj_meta = CreateObjectMeta lib s, obj_payload = PStream (kfk_pool k)\<rparr>"

definition aiven_Kafka ::
  "liberator \<Rightarrow> source \<Rightarrow> options \<Rightarrow> object_meta \<Rightarrow> aiven_application_spec \<Rightarrow> ast
     \<Rightarrow> (bool \<times> aiven_application_spec \<times> ast) result" where
  "aiven_Kafka lib s config meta spec a =
     rbind (generateAivenSecretName lib (om_name meta) ''kafka'' (label meta secret_generation_label)) (\<lambda>individualSecretName.
       case ws_kafka (src_spec s) of
         None \<Rightarrow> Inr (False, spec, a)
       | Some naisKafka \<Rightarrow>
         if \<not> IsKafkaratorEnabled config then Inr (False, spec, a)
         else let a1 = set_label ''kafka'' ''enabled'' (addKafkaEnvVariables lib individualSecretName a);
                  spec1 = spec\<lparr>aas_kafka := Some \<lparr>avs_instance = kfk_pool naisKafka, avs_access = [],
                    avs_secret_name = individualSecretName\<rparr>\<rparr>;
                  stream = CreateStream lib s naisKafka;
                  a2 = (if kfk_streams naisKafka
                        then PrependEnv [value_env ''KAFKA_STREAMS_APPLICATION_ID''
                               (am_TopicPrefix (lib_api lib) (obj_meta stream))]
                               (AppendOperation OperationCreateOrUpdate stream a1)
                        else a1)
              in Inr (True, spec1, createKafkaKeyToPaths lib individualSecretName a2))"

subsection \<open>OpenSearch\<close>

definition addOpenSearchEnvVariables :: "string \<Rightarrow> ast \<Rightarrow> ast" where
  "addOpenSearchEnvVariables secretName a = PrependEnv
     [makeSecretEnvVar ''OPEN_SEARCH_USERNAME'' secretName,
      makeSecretEnvVar ''OPEN_SEARCH_PASSWORD'' secretName,
      makeSecretEnvVar ''OPEN_SEARCH_URI'' secretName,
      makeOptionalSecretEnvVar ''OPEN_SEARCH_HOST'' secretName,
      makeOptionalSecretEnvVar ''OPEN_SEARCH_PORT'' secretName] a"

definition aiven_OpenSearch ::
  "liberator \<Rightarrow> source \<Rightarrow> object_meta \<Rightarrow> aiven_application_spec \<Rightarrow> ast
     \<Rightarrow> (bool \<times> aiven_application_spec \<times> ast) result" where
  "aiven_OpenSearch lib s meta spec a = (case ws_opensearch (src_spec s) of
       None \<Rightarrow> Inr (False, spec, a)
     | Some openSearch \<Rightarrow>
       if avn_instance openSearch = [] then Inl (errorf ''OpenSearch enabled, but no instance specified'')
       else rbind (generateAivenSecretName lib (om_name meta) ''opensearch'' (label meta secret_generation_label)) (\<lambda>secretName.
         let a1 = addOpenSearchEnvVariables secretName (PrependEnv [makeOptionalSecretEnvVar ''AIVEN_CA'' secretName] a)
         in Inr (True, spec\<lparr>aas_opensearch := Some \<lparr>avs_instance =
                am_OpenSearchFullyQualifiedName (lib_api lib) (avn_instance openSearch) (om_namespace meta),
              avs_access = avn_access openSearch, avs_secret_name = secretName\<rparr>\<rparr>,
              set_label ''aiven'' ''enabled'' a1)))"

subsection \<open>Valkey\<close>

definition addValkeyEnvVariables :: "string \<Rightarrow> string \<Rightarrow> ast \<Rightarrow> ast" where
  "addValkeyEnvVariables secretName instanceName a = (let suffix = envVarSuffix instanceName in PrependEnv
     [makeSecretEnvVar (''VALKEY_USERNAME_'' @ suffix) secretName,
      makeSecretEnvVar (''VALKEY_PASSWORD_'' @ suffix) secretName,
      makeSecretEnvVar (''VALKEY_URI_'' @ suffix) secretName,
      makeOptionalSecretEnvVar (''VALKEY_HOST_'' @ suffix) secretName,
      makeOptionalSecretEnvVar (''VALKEY_PORT_'' @ suffix) secretName,
      makeOptionalSecretEnvVar (''VALKEY_REPLICA_URI_'' @ suffix) secretName,
      makeOptionalSecretEnvVar (''VALKEY_REPLICA_HOST_'' @ suffix) secretName,
      makeOptionalSecretEnvVar (''VALKEY_REPLICA_PORT_'' @ suffix) secretName] a)"

definition addRedisEnvVariables :: "string \<Rightarrow> string \<Rightarrow> ast \<Rightarrow> ast" where
  "addRedisEnvVariables secretName instanceName a = (let suffix = envVarSuffix instanceName in PrependEnv
     [makeSecretEnvVar (''REDIS_USERNAME_'' @ suffix) secretName,
      makeSecretEnvVar (''REDIS_PASSWORD_'' @ suffix) secretName,
      makeSecretEnvVar (''REDIS_URI_'' @ suffix) secretName,
      makeOptionalSecretEnvVar (''REDIS_HOST_'' @ suffix) secretName,
      makeOptionalSecretEnvVar (''REDIS_PORT_'' @ suffix) secretName] a)"

text \<open>The body of the loop over the instances.\<close>

definition add_valkey ::
  "liberator \<Rightarrow> object_meta \<Rightarrow> aiven_instance \<Rightarrow> aiven_application_spec \<times> ast \<Rightarrow> (aiven_application_spec \<times> ast) result" where
  "add_valkey lib meta valkey = (\<lambda>(spec, a).
     if avn_instance valkey = [] then Inl (errorf ''Valkey requires instance name'')
     else rbind (generateAivenSecretName lib (om_name meta) (''valkey-'' @ avn_instance valkey)
                   (label meta secret_generation_label)) (\<lambda>secretName.
       Inr (spec\<lparr>aas_valkey := aas_valkey spec @ [\<lparr>avs_instance = avn_instance valkey,
              avs_access = avn_access valkey, avs_secret_name = secretName\<rparr>]\<rparr>,
         PrependEnv [makeOptionalSecretEnvVar ''AIVEN_CA'' secretName]
           (addRedisEnvVariables secretName (avn_instance valkey)
             (addValkeyEnvVariables secretName (avn_instance valkey) a)))))"

definition aiven_Valkey ::
  "liberator \<Rightarrow> source \<Rightarrow> options \<Rightarrow> object_meta \<Rightarrow> aiven_application_spec \<Rightarrow> ast
     \<Rightarrow> (bool \<times> aiven_application_spec \<times> ast) result" where
  "aiven_Valkey lib s config meta spec a =
     (if length (ws_valkey (src_spec s)) = 0 then Inr (False, spec, a)
      else if length (GetAivenProject config) = 0
      then Inl (errorf ''aiven project not defined for this cluster; needed for Valkey'')
      else rbind (foldM_result (add_valkey lib meta) (ws_valkey (src_spec s)) (spec, a)) (\<lambda>(spec1, a1).
        Inr (True, spec1, set_label ''aiven'' ''enabled'' a1)))"

definition aiven_Create :: "liberator \<Rightarrow> source \<Rightarrow> options \<Rightarrow> ast \<Rightarrow> ast result" where
  "aiven_Create lib s config a =
     (let objectMeta = CreateObjectMeta lib s;
          meta = objectMeta\<lparr>om_labels := gm_set secret_generation_label (Itoa (GetAivenGeneration config)) (om_labels objectMeta)\<rparr>
      in rbind (aiven_Kafka lib s config meta \<lparr>aas_kafka = None, aas_opensearch = None, aas_valkey = []\<rparr> a) (\<lambda>(kafkaEnabled, spec1, a1).
         rbind (aiven_OpenSearch lib s meta spec1 a1) (\<lambda>(openSearchEnabled, spec2, a2).
         rbind (aiven_Valkey lib s config meta spec2 a2) (\<lambda>(valkeyEnabled, spec3, a3).
           Inr (if kafkaEnabled \<or> openSearchEnabled \<or> valkeyEnabled
                then AppendOperation OperationCreateOrUpdate
                  \<lparr>obj_type_meta = am_AivenApplication (lib_api lib), obj_meta = meta,
                   obj_payload = PAivenApplication spec3\<rparr> a3
                else a3)))))"

section \<open>Postgres\<close>

definition app_netpol :: "object_meta \<Rightarrow> label_selector \<Rightarrow> string \<Rightarrow> netpol_rule list \<Rightarrow> netpol_rule list \<Rightarrow> k8s_object" where
  "app_netpol meta pods policyType ingress egress =
     \<lparr>obj_type_meta = type_meta_of ''NetworkPolicy'' ''networking.k8s.io/v1'', obj_meta = meta,
      obj_payload = PNetworkPolicy \<lparr>nps_pod_selector = pods, nps_policy_types = [policyType],
        nps_ingress = ingress, nps_egress = egress\<rparr>\<rparr>"

definition peer_rule :: "string \<Rightarrow> label_selector \<Rightarrow> netpol_rule" where
  "peer_rule namespace pods = \<lparr>npr_peers = [\<lparr>np_namespace_selector = Some [(metadata_name, namespace)],
     np_pod_selector = Some pods, np_ip_block = None\<rparr>], npr_ports = []\<rparr>"

definition postgres_env :: "string \<Rightarrow> string \<Rightarrow> string \<Rightarrow> env_var list" where
  "postgres_env secretName pgClusterName pgNamespace =
     (let host = pgClusterName @ ''-pooler.'' @ pgNamespace
      in [value_env ''PGHOST'' host, value_env ''PGPORT'' ''5432'', value_env ''PGDATABASE'' ''app'',
          \<lparr>ev_name = ''PGUSER'', ev_value = [], ev_value_from = Some (SecretKeyRef secretName ''username'' None)\<rparr>,
          \<lparr>ev_name = ''PGPASSWORD'', ev_value = [], ev_value_from = Some (SecretKeyRef secretName ''password'' None)\<rparr>,
          value_env ''PGURL'' (''postgresql://$(PGUSER):$(PGPASSWORD)@'' @ host @ '':5432/app''),
          value_env ''PGJDBCURL'' (''jdbc:postgresql://'' @ host @ '':5432/app?user=$(PGUSER)&password=$(PGPASSWORD)'')])"

subsection \<open>CloudNativePG\<close>

definition cnpg_pooler_labels :: "string \<Rightarrow> label_selector" where
  "cnpg_pooler_labels pgClusterName = [(''cnpg.io/podRole'', ''pooler''), (''cnpg.io/cluster'', pgClusterName)]"

definition hashed_name :: "liberator \<Rightarrow> string \<Rightarrow> string \<Rightarrow> string result" where
  "hashed_name lib base sfx = (case ng_SuffixedShortName (lib_names lib) base sfx 253 of
       Inl err \<Rightarrow> Inl (go_panic (''Error when hashing, this should be impossible: '' @ err_msg err))
     | Inr name \<Rightarrow> Inr name)"

definition cnpg_createPoolerNetworkPolicy :: "liberator \<Rightarrow> source \<Rightarrow> string \<Rightarrow> string \<Rightarrow> ast \<Rightarrow> ast result" where
  "cnpg_createPoolerNetworkPolicy lib s pgClusterName pgNamespace a =
     rbind (hashed_name lib (src_name s @ ''-'' @ pgClusterName) ''ingress'') (\<lambda>name.
       Inr (AppendOperation OperationCreateOrUpdate
         (app_netpol ((CreateObjectMeta lib s)\<lparr>om_name := name, om_namespace := pgNamespace\<rparr>)
           (cnpg_pooler_labels pgClusterName) ''Ingress''
           [peer_rule (src_namespace s) [(''app'', src_name s)]] []) a))"

definition cnpg_createSourceNetworkPolicy :: "liberator \<Rightarrow> source \<Rightarrow> string \<Rightarrow> string \<Rightarrow> ast \<Rightarrow> ast result" where
  "cnpg_createSourceNetworkPolicy lib s pgClusterName pgNamespace a =
     rbind (hashed_name lib (src_name s @ ''-'' @ pgClusterName) ''egress'') (\<lambda>name.
       Inr (AppendOperation OperationCreateOrUpdate
         (app_netpol ((CreateObjectMeta lib s)\<lparr>om_name := name\<rparr>) [(''app'', src_name s)] ''Egress'' []
           [peer_rule pgNamespace (cnpg_pooler_labels pgClusterName)]) a))"

definition cnpg_createNetworkPolicies :: "liberator \<Rightarrow> source \<Rightarrow> string \<Rightarrow> string \<Rightarrow> ast \<Rightarrow> ast result" where
  "cnpg_createNetworkPolicies lib s pgClusterName pgNamespace a =
     rbind (cnpg_createPoolerNetworkPolicy lib s pgClusterName pgNamespace a)
       (cnpg_createSourceNetworkPolicy lib s pgClusterName pgNamespace)"

definition cnpg_Create :: "liberator \<Rightarrow> source \<Rightarrow> string \<Rightarrow> ast \<Rightarrow> ast result" where
  "cnpg_Create lib s pgClusterName a =
     (let pgNamespace = src_namespace s
      in rbind (cnpg_createNetworkPolicies lib s pgClusterName pgNamespace a) (\<lambda>a1.
        Inr (AppendEnv (postgres_env (pgClusterName @ ''-app'') pgClusterName pgNamespace) a1)))"

subsection \<open>Zalando\<close>

definition zalando_pooler_labels :: "string \<Rightarrow> label_selector" where
  "zalando_pooler_labels pgClusterName = [(''application'', ''db-connection-pooler''), (''cluster-name'', pgClusterName)]"

definition zalando_createPoolerNetworkPolicy :: "liberator \<Rightarrow> source \<Rightarrow> string \<Rightarrow> string \<Rightarrow> ast \<Rightarrow> ast" where
  "zalando_createPoolerNetworkPolicy lib s pgClusterName pgNamespace = AppendOperation OperationCreateOrUpdate
     (app_netpol ((CreateObjectMeta lib s)\<lparr>om_owner_references := None, om_name := pgClusterName @ ''-pooler'',
         om_namespace := pgNamespace\<rparr>)
       (zalando_pooler_labels pgClusterName) ''Ingress'' [peer_rule (src_namespace s) [(''app'', src_name s)]] [])"

definition zalando_createSourceNetworkPolicy :: "liberator \<Rightarrow> source \<Rightarrow> string \<Rightarrow> string \<Rightarrow> ast \<Rightarrow> ast" where
  "zalando_createSourceNetworkPolicy lib s pgClusterName pgNamespace = AppendOperation OperationCreateOrUpdate
     (app_netpol ((CreateObjectMeta lib s)\<lparr>om_name := ''pg-'' @ src_name s\<rparr>) [(''app'', src_name s)] ''Egress'' []
       [peer_rule pgNamespace (zalando_pooler_labels pgClusterName)])"

definition zalando_createNetworkPolicies :: "liberator \<Rightarrow> source \<Rightarrow> string \<Rightarrow> string \<Rightarrow> ast \<Rightarrow> ast" where
  "zalando_createNetworkPolicies lib s pgClusterName pgNamespace a =
     zalando_createSourceNetworkPolicy lib s pgClusterName pgNamespace
       (zalando_createPoolerNetworkPolicy lib s pgClusterName pgNamespace a)"

definition zalando_Create :: "liberator \<Rightarrow> source \<Rightarrow> string \<Rightarrow> ast \<Rightarrow> ast" where
  "zalando_Create lib s pgClusterName a =
     (let pgNamespace = ''pg-'' @ src_namespace s;
          secretName = ''app-owner-user.'' @ pgClusterName @ ''.credentials.postgresql.acid.zalan.do''
      in AppendEnv (postgres_env secretName pgClusterName pgNamespace)
           (zalando_createNetworkPolicies lib s pgClusterName pgNamespace a))"

definition postgres_Create :: "liberator \<Rightarrow> source \<Rightarrow> options \<Rightarrow> ast \<Rightarrow> ast result" where
  "postgres_Create lib s cfg a = (case ws_postgres_cluster (src_spec s) of
       None \<Rightarrow> Inr a
     | Some clusterName \<Rightarrow>
       (let engine = GetPostgresClusterEngine cfg
        in if engine = ''cnpg'' then cnpg_Create lib s clusterName a
           else if engine = ''zalando'' then Inr (zalando_Create lib s clusterName a)
           else Inl (errorf (''unknown postgres engine: '' @ engine))))"

section \<open>The contract of the creators\<close>

lemma AivenKafka_step:
  "creator_step lib s a b \<Longrightarrow> aiven_Kafka lib s cfg m spec b = Inr (e, spec', b') \<Longrightarrow> creator_step lib s a b'"
  by (cases "ws_kafka (src_spec s)")
    (auto simp: aiven_Kafka_def Let_def result_simps addKafkaEnvVariables_def createKafkaKeyToPaths_def
      CreateStream_def split: if_splits intro!: creator_intros intro: belongs_intros)

lemma AivenOpenSearch_step:
  "creator_step lib s a b \<Longrightarrow> aiven_OpenSearch lib s m spec b = Inr (e, spec', b') \<Longrightarrow> creator_step lib s a b'"
  by (auto simp: aiven_OpenSearch_def Let_def result_simps addOpenSearchEnvVariables_def
      split: option.splits if_splits intro!: creator_intros)

lemma add_valkey_step:
  "creator_step lib s a b \<Longrightarrow> add_valkey lib m v (spec, b) = Inr (spec', b') \<Longrightarrow> creator_step lib s a b'"
  by (auto simp: add_valkey_def Let_def result_simps addValkeyEnvVariables_def addRedisEnvVariables_def
      split: if_splits intro!: creator_intros)

lemma AivenValkey_step:
  assumes "creator_step lib s a b" and "aiven_Valkey lib s cfg m spec b = Inr (e, spec', b')"
  shows "creator_step lib s a b'"
proof -
  have step: "creator_step lib s a (snd r) \<Longrightarrow> add_valkey lib m v r = Inr r' \<Longrightarrow> creator_step lib s a (snd r')" for r r' v
    using add_valkey_step[of lib s a "snd r" m v "fst r" "fst r'" "snd r'"] by simp
  have "foldM_result (add_valkey lib m) vs (spec, b) = Inr r \<Longrightarrow> creator_step lib s a (snd r)" for vs r
    using foldM_result_invariant[where P = "\<lambda>r. creator_step lib s a (snd r)" and f = "add_valkey lib m" and xs = vs]
      step assms(1) by (metis snd_conv)
  with assms show ?thesis
    by (fastforce simp: aiven_Valkey_def result_simps split: if_splits intro!: creator_intros)
qed

lemma belongs_to_aiven_meta:
  "obj_meta ob = (CreateObjectMeta lib s)\<lparr>om_labels := gm_set secret_generation_label g (om_labels (CreateObjectMeta lib s))\<rparr>
   \<Longrightarrow> belongs_to lib s ob"
  using CreateObjectMeta_simps[of lib s] by (simp add: belongs_to_def label_def)

interpretation aiven: workload_creator aiven_Create
proof
  fix lib s cfg a a'
  assume "aiven_Create lib s cfg a = Inr a'"
  then show "creator_step lib s a a'"
    by (auto simp: aiven_Create_def Let_def result_simps split: if_splits
        intro!: creator_intros intro: belongs_to_aiven_meta
        dest!: AivenKafka_step[OF creator_step_refl] elim!: AivenValkey_step[rotated] AivenOpenSearch_step[rotated])
qed

lemma cnpg_steps:
  "creator_step lib s a b \<Longrightarrow> cnpg_createPoolerNetworkPolicy lib s c (src_namespace s) b = Inr b' \<Longrightarrow> creator_step lib s a b'"
  "creator_step lib s a b \<Longrightarrow> cnpg_createSourceNetworkPolicy lib s c n b = Inr b' \<Longrightarrow> creator_step lib s a b'"
  using CreateObjectMeta_simps[of lib s]
  by (auto simp: cnpg_createPoolerNetworkPolicy_def cnpg_createSourceNetworkPolicy_def result_simps app_netpol_def
      belongs_to_def label_def intro!: creator_intros)

lemma zalando_step: "creator_step lib s a (zalando_Create lib s c a)"
  using CreateObjectMeta_simps[of lib s]
  by (auto simp: zalando_Create_def zalando_createNetworkPolicies_def zalando_createPoolerNetworkPolicy_def
      zalando_createSourceNetworkPolicy_def app_netpol_def belongs_to_def label_def Let_def intro!: creator_intros)

interpretation postgres: workload_creator postgres_Create
proof
  fix lib s cfg a a'
  assume "postgres_Create lib s cfg a = Inr a'"
  then show "creator_step lib s a a'"
    by (auto simp: postgres_Create_def cnpg_Create_def cnpg_createNetworkPolicies_def Let_def result_simps
        split: option.splits if_splits intro!: creator_intros zalando_step
        dest!: cnpg_steps(1)[OF creator_step_refl] elim!: cnpg_steps(2)[rotated])
qed

section \<open>Properties\<close>

text \<open>The secrets that an AivenApplication declares.\<close>

definition aiven_secrets :: "aiven_application_spec \<Rightarrow> string set" where
  "aiven_secrets spec = avs_secret_name ` (set_option (aas_kafka spec) \<union> set_option (aas_opensearch spec) \<union> set (aas_valkey spec))"

text \<open>Variables that refer to a key of a secret refer to a declared one, under the name of the variable.\<close>

definition refers_within :: "string set \<Rightarrow> env_var list \<Rightarrow> bool" where
  "refers_within names envs \<longleftrightarrow> (\<forall>e \<in> set envs. case ev_value_from e of
     Some (SecretKeyRef n k opt) \<Rightarrow> k = ev_name e \<and> n \<in> names | _ \<Rightarrow> True)"

lemma refers_within_simps [simp]:
  "refers_within names []" "refers_within names (xs @ ys) \<longleftrightarrow> refers_within names xs \<and> refers_within names ys"
  "refers_within names (e # f # es) \<longleftrightarrow> refers_within names [e] \<and> refers_within names (f # es)"
  "refers_within names [makeSecretEnvVar k n] \<longleftrightarrow> n \<in> names"
  "refers_within names [makeOptionalSecretEnvVar k n] \<longleftrightarrow> n \<in> names"
  "refers_within names [value_env k v]"
  by (auto simp: refers_within_def makeSecretEnvVar_def makeOptionalSecretEnvVar_def)

lemma refers_within_mono: "refers_within names envs \<Longrightarrow> names \<subseteq> names' \<Longrightarrow> refers_within names' envs"
  by (fastforce simp: refers_within_def split: option.splits env_source.splits)

text \<open>What a stage adds in front of the variables, and what it adds to the specification.\<close>

definition aiven_stage :: "ast \<Rightarrow> aiven_application_spec \<Rightarrow> ast \<Rightarrow> aiven_application_spec \<Rightarrow> bool" where
  "aiven_stage a spec a' spec' \<longleftrightarrow> (\<exists>envs. ast_env a' = envs @ ast_env a \<and> refers_within (aiven_secrets spec') envs)
     \<and> aiven_secrets spec \<subseteq> aiven_secrets spec'"

lemma aiven_stage_refl: "aiven_stage a spec a spec"
  by (auto simp: aiven_stage_def)

lemma aiven_stage_trans:
  assumes "aiven_stage a sp b sp'" and "aiven_stage b sp' c sp''"
  shows "aiven_stage a sp c sp''"
proof -
  from assms obtain es fs where "ast_env b = es @ ast_env a" "refers_within (aiven_secrets sp') es"
    "ast_env c = fs @ ast_env b" "refers_within (aiven_secrets sp'') fs" "aiven_secrets sp' \<subseteq> aiven_secrets sp''"
    by (auto simp: aiven_stage_def)
  with assms show ?thesis using refers_within_mono[of "aiven_secrets sp'" es "aiven_secrets sp''"]
    by (auto simp: aiven_stage_def intro!: exI[of _ "fs @ es"])
qed

lemma set_label_env [simp]: "ast_env (set_label k v a) = ast_env a"
  by (simp add: set_label_def)

lemma add_volume_env [simp]: "ast_env (add_volume v m a) = ast_env a"
  by (simp add: add_volume_def)

lemma kafka_stage:
  assumes "aiven_Kafka lib s cfg m spec a = Inr (e, spec', a')" and "aas_kafka spec = None"
  shows "aiven_stage a spec a' spec' \<and> aas_opensearch spec' = aas_opensearch spec \<and> aas_valkey spec' = aas_valkey spec
    \<and> (e \<longleftrightarrow> IsKafkaratorEnabled cfg \<and> ws_kafka (src_spec s) \<noteq> None)"
  using assms
  by (cases "ws_kafka (src_spec s)")
    (auto simp: aiven_Kafka_def Let_def result_simps addKafkaEnvVariables_def createKafkaKeyToPaths_def
      aiven_stage_def aiven_secrets_def kafka_path_env_def split: if_splits)

lemma opensearch_stage:
  assumes "aiven_OpenSearch lib s m spec a = Inr (e, spec', a')" and "aas_opensearch spec = None"
  shows "aiven_stage a spec a' spec' \<and> (e \<longleftrightarrow> ws_opensearch (src_spec s) \<noteq> None)"
  using assms
  by (auto simp: aiven_OpenSearch_def Let_def result_simps addOpenSearchEnvVariables_def
      aiven_stage_def aiven_secrets_def split: option.splits if_splits)

lemma add_valkey_stage: "add_valkey lib m v (spec, a) = Inr (spec', a') \<Longrightarrow> aiven_stage a spec a' spec'"
  by (auto simp: add_valkey_def Let_def result_simps addValkeyEnvVariables_def addRedisEnvVariables_def
      aiven_stage_def aiven_secrets_def split: if_splits)

lemma valkey_stage:
  assumes "aiven_Valkey lib s cfg m spec a = Inr (e, spec', a')"
  shows "aiven_stage a spec a' spec' \<and> (e \<longleftrightarrow> ws_valkey (src_spec s) \<noteq> [])"
proof -
  have step: "aiven_stage a spec (snd r) (fst r) \<Longrightarrow> add_valkey lib m v r = Inr r' \<Longrightarrow> aiven_stage a spec (snd r') (fst r')"
    for r r' v
    using add_valkey_stage[of lib m v "fst r" "snd r" "fst r'" "snd r'"] aiven_stage_trans by simp
  have "foldM_result (add_valkey lib m) vs (spec, a) = Inr r \<Longrightarrow> aiven_stage a spec (snd r) (fst r)" for vs r
    using foldM_result_invariant[where P = "\<lambda>r. aiven_stage a spec (snd r) (fst r)" and f = "add_valkey lib m" and xs = vs]
      step aiven_stage_refl by (metis fst_conv snd_conv)
  with assms show ?thesis
    by (fastforce simp: aiven_Valkey_def result_simps aiven_stage_def split: if_splits)
qed

definition uses_aiven :: "source \<Rightarrow> options \<Rightarrow> bool" where
  "uses_aiven s cfg \<longleftrightarrow> IsKafkaratorEnabled cfg \<and> ws_kafka (src_spec s) \<noteq> None
     \<or> ws_opensearch (src_spec s) \<noteq> None \<or> ws_valkey (src_spec s) \<noteq> []"

text \<open>C27. Aiven: the variables that are put in front of the environment refer only to secrets which the
  AivenApplication, the last operation, declares, each to the key of its own name; an AivenApplication is made exactly
  when the workload uses one of the services, and otherwise the environment is unchanged.\<close>

theorem aiven_Create_secrets:
  assumes "aiven_Create lib s cfg a = Inr a'"
  shows "if uses_aiven s cfg
    then (\<exists>envs spec rop ops. ast_env a' = envs @ ast_env a \<and> ast_operations a' = ops @ [rop]
       \<and> obj_payload (op_resource rop) = PAivenApplication spec \<and> op_operation rop = OperationCreateOrUpdate
       \<and> (\<forall>e \<in> set envs. \<forall>n k opt. ev_value_from e = Some (SecretKeyRef n k opt) \<longrightarrow> k = ev_name e \<and> n \<in> aiven_secrets spec))
    else ast_env a' = ast_env a \<and> ast_operations a' = ast_operations a"
proof -
  let ?spec = "\<lparr>aas_kafka = None, aas_opensearch = None, aas_valkey = []\<rparr>"
  from assms obtain m e1 sp1 a1 e2 sp2 a2 e3 sp3 a3 where
    1: "aiven_Kafka lib s cfg m ?spec a = Inr (e1, sp1, a1)" and
    2: "aiven_OpenSearch lib s m sp1 a1 = Inr (e2, sp2, a2)" and
    3: "aiven_Valkey lib s cfg m sp2 a2 = Inr (e3, sp3, a3)" and
    a': "a' = (if e1 \<or> e2 \<or> e3 then AppendOperation OperationCreateOrUpdate
         \<lparr>obj_type_meta = am_AivenApplication (lib_api lib), obj_meta = m, obj_payload = PAivenApplication sp3\<rparr> a3 else a3)"
    by (fastforce simp: aiven_Create_def Let_def result_simps)
  from kafka_stage[OF 1] have k: "aiven_stage a ?spec a1 sp1" "aas_opensearch sp1 = None"
    "e1 \<longleftrightarrow> IsKafkaratorEnabled cfg \<and> ws_kafka (src_spec s) \<noteq> None" by auto
  from opensearch_stage[OF 2 k(2)] have o: "aiven_stage a1 sp1 a2 sp2" "e2 \<longleftrightarrow> ws_opensearch (src_spec s) \<noteq> None" by auto
  from valkey_stage[OF 3] have v: "aiven_stage a2 sp2 a3 sp3" "e3 \<longleftrightarrow> ws_valkey (src_spec s) \<noteq> []" by auto
  have used: "e1 \<or> e2 \<or> e3 \<longleftrightarrow> uses_aiven s cfg" using k(3) o(2) v(2) by (auto simp: uses_aiven_def)
  show ?thesis
  proof (cases "uses_aiven s cfg")
    case True
    from aiven_stage_trans[OF aiven_stage_trans[OF k(1) o(1)] v(1)] obtain envs where
      "ast_env a3 = envs @ ast_env a" "refers_within (aiven_secrets sp3) envs" by (auto simp: aiven_stage_def)
    with True used a' show ?thesis by (fastforce simp: refers_within_def)
  next
    case False
    with used have "\<not> e1" "\<not> e2" "\<not> e3" by auto
    with 1 2 3 have "a1 = a" "a2 = a1" "a3 = a2"
      by (auto simp: aiven_Kafka_def aiven_OpenSearch_def aiven_Valkey_def Let_def result_simps
          split: option.splits if_splits)
    with False a' \<open>\<not> e1\<close> \<open>\<not> e2\<close> \<open>\<not> e3\<close> show ?thesis by simp
  qed
qed

lemma peer_rule_admits [simp]:
  "rule_admits own (peer_rule ns sel) ep \<longleftrightarrow> ep_namespace ep = ns \<and> selector_matches sel (ep_labels ep)"
  by (auto simp: peer_rule_def rule_admits_def peer_admits_def selector_matches_def)


text \<open>
  The policy of the Zalando pooler is named after the cluster alone. When two workloads of a namespace use the same
  cluster, the second one's policy replaces the first one's, although neither is owned by the other, and the
  pods of the first workload are shut out.
\<close>

definition zalando_pooler_policy :: "liberator \<Rightarrow> source \<Rightarrow> string \<Rightarrow> k8s_object" where
  "zalando_pooler_policy lib s cluster = op_resource (last (ast_operations
     (zalando_createPoolerNetworkPolicy lib s cluster (''pg-'' @ src_namespace s) NewAst)))"

lemma zalando_pooler_policy_overwritten:
  assumes "src_namespace s1 = src_namespace s2" and "src_name s1 \<noteq> src_name s2"
  shows "obj_key (zalando_pooler_policy lib s1 cluster) = obj_key (zalando_pooler_policy lib s2 cluster)
    \<and> (\<exists>ob spec. merge_existing (zalando_pooler_policy lib s2 cluster) (zalando_pooler_policy lib s1 cluster) True = Inr ob
      \<and> obj_payload ob = PNetworkPolicy spec
      \<and> \<not> rules_admit (obj_namespace ob) (nps_ingress spec)
           \<lparr>ep_namespace = src_namespace s1, ep_labels = [''app'' \<mapsto> src_name s1]\<rparr>)"
  using assms
  by (auto simp: zalando_pooler_policy_def zalando_createPoolerNetworkPolicy_def app_netpol_def obj_key_def meta_key_def
      merge_existing_def CopyImmutable_def AssertValidOwnerReference_def CopyMeta_def map_meta_def KeepOwnerReference_def
      owner_refs_def selector_matches_def Let_def NewAst_def)

end
