(* ===== verification/Google.thy ===== *)
theory Google
  imports Aiven
begin

text \<open>
  Google resources through the Config Connector (src/pkg/resourcecreator/google: const.go, helpers.go, iam,
  storagebucket, bigquery, and sql without the validation of flags): service accounts and IAM policies, buckets, BigQuery
  datasets, Cloud SQL instances, databases and users. The package \<open>gcp\<close>, which puts them together, is at the end.

  \<open>resource.CreateObjectMeta\<close> makes new maps, so the annotations of two objects are shared only where one
  \<open>ObjectMeta\<close> is used for both: for a SQL user and its secret (\<open>createSqlUserDBResources\<close>).
\<close>

section \<open>Constants\<close>

abbreviation IAMAPIVersion :: string where "IAMAPIVersion \<equiv> ''iam.cnrm.cloud.google.com/v1beta1''"
abbreviation IAMServiceAccountNamespace :: string where "IAMServiceAccountNamespace \<equiv> ''serviceaccounts''"
abbreviation StorageAPIVersion :: string where "StorageAPIVersion \<equiv> ''storage.cnrm.cloud.google.com/v1beta1''"
abbreviation BigQueryAPIVersion :: string where "BigQueryAPIVersion \<equiv> ''google.nais.io/v1''"
abbreviation SQLAPIVersion :: string where "SQLAPIVersion \<equiv> ''sql.cnrm.cloud.google.com/v1beta1''"
abbreviation Region :: string where "Region \<equiv> ''europe-north1''"
abbreviation DeletionPolicyAnnotation :: string where "DeletionPolicyAnnotation \<equiv> ''cnrm.cloud.google.com/deletion-policy''"
abbreviation DeletionPolicyAbandon :: string where "DeletionPolicyAbandon \<equiv> ''abandon''"
abbreviation CascadingDeleteAnnotation :: string where
  "CascadingDeleteAnnotation \<equiv> ''cnrm.cloud.google.com/delete-contents-on-destroy''"
abbreviation ProjectIdAnnotation :: string where "ProjectIdAnnotation \<equiv> ''cnrm.cloud.google.com/project-id''"
abbreviation CloudSQLProxyTermTimeout :: string where "CloudSQLProxyTermTimeout \<equiv> ''30s''"

definition CloudSqlProxyContainer :: "liberator \<Rightarrow> int \<Rightarrow> string \<Rightarrow> string \<Rightarrow> string \<Rightarrow> container result" where
  "CloudSqlProxyContainer lib port img projectId instanceName =
     (let connectionName = projectId @ '':'' @ Region @ '':'' @ instanceName
      in rbind (ResourceLimits lib \<lparr>nr_limits = Some \<lparr>rs_cpu = [], rs_memory = ''256Mi''\<rparr>,
             nr_requests = Some \<lparr>rs_cpu = ''50m'', rs_memory = ''32Mi''\<rparr>\<rparr>) (\<lambda>resources.
        Inr (container_zero\<lparr>c_name := ''cloudsql-proxy'', c_image := img, c_pull_policy := ''IfNotPresent'',
          c_restart_policy := Some ''Always'', c_ports := [tcp_port [] port],
          c_command := [''/cloud-sql-proxy'', ''--max-sigterm-delay'', CloudSQLProxyTermTimeout,
            ''--port'', Itoa port, ''--quitquitquit'', connectionName],
          c_resources := resources,
          c_security_context := Some (DefaultContainerSecurityContext\<lparr>sc_run_as_user := 2, sc_run_as_group := 2\<rparr>)\<rparr>)))"

section \<open>IAM\<close>

text \<open>Metadata of the objects that live in the namespace of the service accounts, without an owner.\<close>

definition serviceaccounts_meta :: "liberator \<Rightarrow> source \<Rightarrow> object_meta" where
  "serviceaccounts_meta lib s = (CreateObjectMeta lib s)\<lparr>om_name := CreateAppNamespaceHash s,
     om_namespace := IAMServiceAccountNamespace, om_owner_references := None\<rparr>"

definition iam_CreateServiceAccount :: "liberator \<Rightarrow> source \<Rightarrow> string \<Rightarrow> k8s_object" where
  "iam_CreateServiceAccount lib s projectId =
     (let objectMeta = SetAnnotation (serviceaccounts_meta lib s) ''nais.io/team'' IAMServiceAccountNamespace
      in \<lparr>obj_type_meta = type_meta_of ''IAMServiceAccount'' IAMAPIVersion,
          obj_meta = SetAnnotation (SetAnnotation objectMeta ''nais.io/team'' (src_namespace s))
            ProjectIdAnnotation projectId,
          obj_payload = PIAMServiceAccount (src_name s)\<rparr>)"

definition iam_CreatePolicy :: "liberator \<Rightarrow> source \<Rightarrow> k8s_object \<Rightarrow> string \<Rightarrow> k8s_object" where
  "iam_CreatePolicy lib s sa projectId =
     (let member = ''serviceAccount:'' @ projectId @ ''.svc.id.goog['' @ src_namespace s @ ''/'' @ src_name s @ '']''
      in \<lparr>obj_type_meta = type_meta_of ''IAMPolicy'' IAMAPIVersion,
          obj_meta = SetAnnotation (serviceaccounts_meta lib s) ProjectIdAnnotation projectId,
          obj_payload = PIAMPolicy \<lparr>ips_ref = \<lparr>irr_api_version = IAMAPIVersion, irr_kind = ''IAMServiceAccount'',
              irr_name = Some (obj_name sa), irr_external = None\<rparr>,
            ips_bindings = [(''roles/iam.workloadIdentityUser'', [member])]\<rparr>\<rparr>)"

definition service_account_member :: "string \<Rightarrow> string \<Rightarrow> string" where
  "service_account_member name projectId = ''serviceAccount:'' @ GcpServiceAccountName name projectId"

definition policy_member_object :: "object_meta \<Rightarrow> string \<Rightarrow> iam_policy_member_spec \<Rightarrow> k8s_object" where
  "policy_member_object objectMeta teamProjectId spec =
     \<lparr>obj_type_meta = type_meta_of ''IAMPolicyMember'' IAMAPIVersion,
      obj_meta = SetAnnotation objectMeta ProjectIdAnnotation teamProjectId, obj_payload = PIAMPolicyMember spec\<rparr>"

definition formatExternalName :: "string \<Rightarrow> string \<Rightarrow> string" where
  "formatExternalName googleTeamProjectId resourceName =
     (let projectPrefix = ''projects/'' @ googleTeamProjectId
      in if length resourceName = 0 then projectPrefix
         else if HasPrefix resourceName projectPrefix then resourceName
         else path_Join [projectPrefix, resourceName])"

definition iam_createName :: "liberator \<Rightarrow> string \<Rightarrow> iam_permission \<Rightarrow> string result" where
  "iam_createName lib appName policy = (case am_HashPermission (lib_api lib) policy of
       Inl err \<Rightarrow> Inl (errorf_w ''while calculating hash from policy: '' err)
     | Inr h \<Rightarrow> lib_ShortName lib (appName @ ''-'' @ ToLower (iap_kind policy) @ ''-'' @ hex_nat h) 63)"

definition iam_policyMember :: "liberator \<Rightarrow> source \<Rightarrow> iam_permission \<Rightarrow> string \<Rightarrow> string \<Rightarrow> k8s_object result" where
  "iam_policyMember lib s policy googleProjectId googleTeamProjectId =
     rbind (iam_createName lib (src_name s) policy) (\<lambda>name.
       let externalName = formatExternalName googleTeamProjectId (iap_name policy)
       in Inr (policy_member_object ((CreateObjectMeta lib s)\<lparr>om_name := name\<rparr>) googleTeamProjectId
            \<lparr>ipm_member = service_account_member (CreateAppNamespaceHash s) googleProjectId, ipm_role = iap_role policy,
             ipm_ref = \<lparr>irr_api_version = iap_api_version policy, irr_kind = iap_kind policy, irr_name = None,
               irr_external = Some externalName\<rparr>\<rparr>))"

definition iam_CreatePolicyMember :: "liberator \<Rightarrow> source \<Rightarrow> options \<Rightarrow> ast \<Rightarrow> ast result" where
  "iam_CreatePolicyMember lib s cfg a = (case ws_gcp (src_spec s) of
       None \<Rightarrow> Inr a
     | Some gcp \<Rightarrow> foldM_result (\<lambda>p a.
         case iam_policyMember lib s p (GetGoogleProjectID cfg) (GetGoogleTeamProjectID cfg) of
           Inl err \<Rightarrow> Inl (errorf_w ''unable to create iampolicymember: '' err)
         | Inr member \<Rightarrow> Inr (AppendOperation OperationCreateIfNotExists member a)) (gcp_permissions gcp) a)"

section \<open>Buckets\<close>

text \<open>\<open>DeletionPolicyAbandon\<close>, unless the manifest asks for cascading deletes.\<close>

definition abandon_unless :: "bool \<Rightarrow> object_meta \<Rightarrow> object_meta" where
  "abandon_unless cascadingDelete m =
     (if \<not> cascadingDelete then SetAnnotation m DeletionPolicyAnnotation DeletionPolicyAbandon else m)"

definition CreateBucket :: "liberator \<Rightarrow> object_meta \<Rightarrow> bucket_manifest \<Rightarrow> string \<Rightarrow> k8s_object" where
  "CreateBucket lib objectMeta bucket projectId =
     \<lparr>obj_type_meta = type_meta_of ''StorageBucket'' StorageAPIVersion,
      obj_meta = abandon_unless (bkm_cascading_delete bucket)
        (SetAnnotation (objectMeta\<lparr>om_name := bkm_name bucket\<rparr>) ProjectIdAnnotation projectId),
      obj_payload = PStorageBucket \<lparr>sb_location = Region, sb_uniform_access = True,
        sb_soft_delete_retention = Some 0,
        sb_retention_period = map_option (\<lambda>days. to_int64 (days * 86400)) (bkm_retention_days bucket),
        sb_lifecycle_rules = (case bkm_lifecycle bucket of None \<Rightarrow> []
          | Some condition \<Rightarrow> [\<lparr>lcr_action = ''Delete'', lcr_condition = condition\<rparr>]),
        sb_public_access_prevention = (if bkm_public_access_prevention bucket
          then am_PreventionEnforced (lib_api lib) else am_PreventionInherited (lib_api lib)),
        sb_resource_id = []\<rparr>\<rparr>"

definition bucket_iAMPolicyMember ::
  "liberator \<Rightarrow> source \<Rightarrow> k8s_object \<Rightarrow> options \<Rightarrow> string \<Rightarrow> string \<Rightarrow> k8s_object result" where
  "bucket_iAMPolicyMember lib s bucket cfg role policyNameSuffix =
     rbind (lib_ShortName lib (obj_name bucket @ ''-'' @ policyNameSuffix) 63) (\<lambda>policyMemberName.
       Inr (policy_member_object ((CreateObjectMeta lib s)\<lparr>om_name := policyMemberName\<rparr>) (GetGoogleTeamProjectID cfg)
         \<lparr>ipm_member = service_account_member (CreateAppNamespaceHash s) (GetGoogleProjectID cfg), ipm_role = role,
          ipm_ref = \<lparr>irr_api_version = tm_api_version (obj_type_meta bucket), irr_kind = tm_kind (obj_type_meta bucket),
            irr_name = Some (obj_name bucket), irr_external = None\<rparr>\<rparr>))"

definition add_bucket :: "liberator \<Rightarrow> source \<Rightarrow> options \<Rightarrow> bucket_manifest \<Rightarrow> ast \<Rightarrow> ast result" where
  "add_bucket lib s cfg b a =
     (let bucket = CreateBucket lib (CreateObjectMeta lib s) b (GetGoogleTeamProjectID cfg);
          a1 = AppendOperation OperationCreateOrUpdate bucket a;
          member = (\<lambda>role suffix a. rbind (bucket_iAMPolicyMember lib s bucket cfg role suffix) (\<lambda>m.
            Inr (AppendOperation OperationCreateIfNotExists m a)))
      in rbind (member ''roles/storage.objectUser'' ''object-user'' a1) (\<lambda>a2.
         rbind (member ''roles/storage.objectViewer'' ''object-viewer'' a2) (\<lambda>a3.
           member ''roles/storage.bucketViewer'' ''bucket-viewer'' a3)))"

definition storagebucket_Create :: "liberator \<Rightarrow> source \<Rightarrow> options \<Rightarrow> ast \<Rightarrow> ast result" where
  "storagebucket_Create lib s cfg a = (case ws_gcp (src_spec s) of
       None \<Rightarrow> Inr a
     | Some gcp \<Rightarrow> foldM_result (add_bucket lib s cfg) (gcp_buckets gcp) a)"

section \<open>BigQuery\<close>

definition bigquery_iAMPolicyMember ::
  "liberator \<Rightarrow> source \<Rightarrow> k8s_object \<Rightarrow> string \<Rightarrow> string \<Rightarrow> string \<Rightarrow> k8s_object result" where
  "bigquery_iAMPolicyMember lib s dataset googleProjectId teamProjectID serviceAccountName =
     rbind (lib_ShortName lib (obj_name dataset @ ''-job-user'') 63) (\<lambda>shortName.
       Inr (policy_member_object ((CreateObjectMeta lib s)\<lparr>om_name := shortName\<rparr>) teamProjectID
         \<lparr>ipm_member = service_account_member serviceAccountName googleProjectId, ipm_role = ''roles/bigquery.jobUser'',
          ipm_ref = \<lparr>irr_api_version = [], irr_kind = ''Project'', irr_name = Some [], irr_external = None\<rparr>\<rparr>))"

definition createDataset :: "liberator \<Rightarrow> source \<Rightarrow> bigquery_manifest \<Rightarrow> string \<Rightarrow> string \<Rightarrow> k8s_object result" where
  "createDataset lib s bigQuerySpec projectID serviceAccountName =
     (let datasetName = ToLower (bqm_name bigQuerySpec);
          baseName = ReplaceAllChar (src_name s @ ''-'' @ datasetName) CHR ''_'' CHR ''-''
      in rbind (lib_ShortName lib baseName 63) (\<lambda>shortName.
        let cascadingDeleteAnnotationValue = (if bqm_cascading_delete bigQuerySpec then ''true'' else ''false'')
        in Inr \<lparr>obj_type_meta = type_meta_of ''BigQueryDataset'' BigQueryAPIVersion,
             obj_meta = SetAnnotation ((CreateObjectMeta lib s)\<lparr>om_name := shortName\<rparr>)
               CascadingDeleteAnnotation cascadingDeleteAnnotationValue,
             obj_payload = PBigQueryDataset \<lparr>bq_name = datasetName, bq_location = Region,
               bq_description = bqm_description bigQuerySpec, bq_cascading_delete = bqm_cascading_delete bigQuerySpec,
               bq_access = [(am_PermissionGoogleType (lib_api lib) (bqm_permission bigQuerySpec),
                 GcpServiceAccountName serviceAccountName projectID)]\<rparr>\<rparr>))"

definition add_dataset :: "liberator \<Rightarrow> source \<Rightarrow> options \<Rightarrow> string \<Rightarrow> bigquery_manifest \<Rightarrow> ast \<Rightarrow> ast result" where
  "add_dataset lib s cfg serviceAccountName bigQuerySpec a =
     rbind (createDataset lib s bigQuerySpec (GetGoogleProjectID cfg) serviceAccountName) (\<lambda>bigQueryInstance.
     rbind (bigquery_iAMPolicyMember lib s bigQueryInstance (GetGoogleProjectID cfg) (GetGoogleTeamProjectID cfg)
              serviceAccountName) (\<lambda>iamPolicyMember.
       Inr (AppendOperation OperationCreateIfNotExists iamPolicyMember
         (AppendOperation OperationCreateIfNotExists bigQueryInstance a))))"

definition bigquery_CreateDataset :: "liberator \<Rightarrow> source \<Rightarrow> options \<Rightarrow> string \<Rightarrow> ast \<Rightarrow> ast result" where
  "bigquery_CreateDataset lib s cfg serviceAccountName a = (case ws_gcp (src_spec s) of
       None \<Rightarrow> Inr a
     | Some gcp \<Rightarrow> foldM_result (add_dataset lib s cfg serviceAccountName) (gcp_bigquery gcp) a)"

section \<open>Cloud SQL users\<close>

definition googleSQLDatabaseCase :: "string \<Rightarrow> string" where
  "googleSQLDatabaseCase x = ReplaceAllChar (ToUpper x) CHR ''-'' CHR ''_''"

definition trimLeadingUnderscore :: "string \<Rightarrow> string" where
  "trimLeadingUnderscore x = TrimPrefix x ''_''"

definition replaceToLowerWithNoPrefix :: "string \<Rightarrow> string" where
  "replaceToLowerWithNoPrefix x = ToLower (ReplaceAllChar (trimLeadingUnderscore x) CHR ''_'' CHR ''-'')"

fun remove_duplicates_loop :: "string list \<Rightarrow> string set \<Rightarrow> string list" where
  "remove_duplicates_loop [] keys = []"
| "remove_duplicates_loop (user # users) keys =
     (if ToLower user \<notin> keys then user # remove_duplicates_loop users (insert user keys)
      else remove_duplicates_loop users keys)"

definition removeDuplicates :: "string list \<Rightarrow> string list" where
  "removeDuplicates dbUsers = remove_duplicates_loop dbUsers {}"

definition MergeAndFilterDatabaseSQLUsers :: "string list option \<Rightarrow> string \<Rightarrow> string list" where
  "MergeAndFilterDatabaseSQLUsers dbUsers instanceName = (case dbUsers of
       None \<Rightarrow> [instanceName]
     | Some users \<Rightarrow> removeDuplicates (users @ [instanceName]))"

definition sql_setAnnotations :: "object_meta \<Rightarrow> bool \<Rightarrow> string \<Rightarrow> object_meta" where
  "sql_setAnnotations objectMeta cascadingDelete projectId =
     abandon_unless cascadingDelete (SetAnnotation objectMeta ProjectIdAnnotation projectId)"

record google_sql_user =
  gsu_username :: string
  gsu_app_name :: string
  gsu_db :: sql_database_manifest
  gsu_instance_name :: string
  gsu_instance_spec :: sql_instance_spec

definition usingPrivateIP :: "sql_instance_spec \<Rightarrow> bool" where
  "usingPrivateIP spec \<longleftrightarrow> sis_private_network (si_settings spec) \<noteq> None"

definition user_isDefault :: "google_sql_user \<Rightarrow> bool" where
  "user_isDefault u \<longleftrightarrow> gsu_instance_name u = gsu_username u"

definition user_prefixIsSet :: "google_sql_user \<Rightarrow> bool" where
  "user_prefixIsSet u \<longleftrightarrow> length (sdm_env_var_prefix (gsu_db u)) > 0"

definition sqlUserEnvPrefix :: "google_sql_user \<Rightarrow> string" where
  "sqlUserEnvPrefix u =
     (if user_prefixIsSet u then TrimSuffix (sdm_env_var_prefix (gsu_db u)) ''_''
      else ''NAIS_DATABASE_'' @ googleSQLDatabaseCase (trimLeadingUnderscore (gsu_username u)) @ ''_''
        @ googleSQLDatabaseCase (sdm_name (gsu_db u)))"

definition googleSqlUserPrefix :: "google_sql_user \<Rightarrow> string" where
  "googleSqlUserPrefix u =
     (if user_prefixIsSet u \<and> \<not> user_isDefault u
      then sqlUserEnvPrefix u @ ''_'' @ googleSQLDatabaseCase (trimLeadingUnderscore (gsu_username u))
      else sqlUserEnvPrefix u)"

definition googleSQLSecretName :: "liberator \<Rightarrow> google_sql_user \<Rightarrow> string result" where
  "googleSQLSecretName lib u =
     (if gsu_instance_name u = gsu_username u then Inr (''google-sql-'' @ gsu_app_name u)
      else case lib_ShortName lib (''google-sql-'' @ gsu_app_name u @ ''-'' @ sdm_name (gsu_db u) @ ''-''
             @ replaceToLowerWithNoPrefix (gsu_username u)) 63 of
             Inl err \<Rightarrow> Inl (go_panic (err_msg err))
           | Inr shortName \<Rightarrow> Inr shortName)"

definition CreateUserEnvVars :: "google_sql_user \<Rightarrow> string \<Rightarrow> (string \<rightharpoonup> string)" where
  "CreateUserEnvVars u password =
     (let prefix = googleSqlUserPrefix u; host = ''127.0.0.1''; port = ''5432''; db = sdm_name (gsu_db u); user = gsu_username u
      in [prefix @ ''_HOST'' \<mapsto> host, prefix @ ''_PORT'' \<mapsto> port, prefix @ ''_DATABASE'' \<mapsto> db,
          prefix @ ''_USERNAME'' \<mapsto> user, prefix @ ''_PASSWORD'' \<mapsto> password,
          prefix @ ''_URL'' \<mapsto> ''postgres://'' @ user @ '':'' @ password @ ''@'' @ host @ '':'' @ port @ ''/'' @ db,
          prefix @ ''_JDBC_URL'' \<mapsto> ''jdbc:postgresql://'' @ host @ '':'' @ port @ ''/'' @ db @ ''?user='' @ user
            @ ''&password='' @ password])"

text \<open>\<open>Create\<close>: the \<open>SQLUser\<close>, and what the annotations of the caller's \<open>ObjectMeta\<close> have become.\<close>

definition user_Create ::
  "liberator \<Rightarrow> google_sql_user \<Rightarrow> object_meta \<Rightarrow> bool \<Rightarrow> string \<Rightarrow> string \<Rightarrow> (k8s_object \<times> object_meta) result" where
  "user_Create lib u objectMeta cascadingDelete appName projectId =
     (let name = (if user_isDefault u then gsu_instance_name u
                  else appName @ ''-'' @ sdm_name (gsu_db u) @ ''-'' @ replaceToLowerWithNoPrefix (gsu_username u));
          userMeta = sql_setAnnotations (objectMeta\<lparr>om_name := name\<rparr>) cascadingDelete projectId
      in rbind (googleSQLSecretName lib u) (\<lambda>secretName.
        Inr (\<lparr>obj_type_meta = type_meta_of ''SQLUser'' SQLAPIVersion, obj_meta = userMeta,
             obj_payload = PSQLUser \<lparr>su_instance = gsu_instance_name u,
               su_password_key = googleSqlUserPrefix u @ ''_PASSWORD'', su_password_secret = secretName,
               su_resource_id = gsu_username u\<rparr>\<rparr>,
           objectMeta\<lparr>om_annotations := om_annotations userMeta\<rparr>)))"

definition GeneratePassword :: "liberator \<Rightarrow> nat \<Rightarrow> string result" where
  "GeneratePassword lib draw = (case ng_Keygen (lib_names lib) draw 32 of
       Inl err \<Rightarrow> Inl (errorf_s ''unable to generate secret for sql user: '' err)
     | Inr key \<Rightarrow> Inr (base64_URL_NoPadding key))"

definition createSqlUserDBResources ::
  "liberator \<Rightarrow> google_sql_user \<Rightarrow> object_meta \<Rightarrow> bool \<Rightarrow> string \<Rightarrow> options \<Rightarrow> ast \<Rightarrow> ast result" where
  "createSqlUserDBResources lib u objectMeta cascadingDelete appName cfg a =
     rbind (googleSQLSecretName lib u) (\<lambda>secretName.
     rbind (user_Create lib u objectMeta cascadingDelete appName (GetGoogleTeamProjectID cfg)) (\<lambda>(googleSqlUser, objectMeta1).
     rbind (if ShouldCreateSqlInstanceInSharedVpc cfg \<and> usingPrivateIP (gsu_instance_spec u)
       then Inr (map_meta (\<lambda>m. SetAnnotation (SetAnnotation m ''sqeletor.nais.io/env-var-prefix'' (googleSqlUserPrefix u))
                  ''sqeletor.nais.io/database-name'' (sdm_name (gsu_db u))) googleSqlUser, a)
       else (case GeneratePassword lib (length (ast_operations a)) of
          Inl err \<Rightarrow> Inl (go_panic (err_msg err))
        | Inr password \<Rightarrow> Inr (googleSqlUser,
            AppendOperation AnnotateIfExistsOp (OpaqueSecret objectMeta1 secretName Map.empty)
              (AppendOperation OperationCreateIfNotExists
                (OpaqueSecret objectMeta1 secretName (CreateUserEnvVars u password)) a)))) (\<lambda>(sqlUser, a1).
       Inr (AppendOperation OperationCreateIfNotExists sqlUser (AppendOperation AnnotateIfExistsOp sqlUser a1)))))"

definition add_sql_user ::
  "liberator \<Rightarrow> source \<Rightarrow> options \<Rightarrow> sql_database_manifest \<Rightarrow> sql_instance_manifest \<Rightarrow> string \<Rightarrow> sql_instance_spec
     \<Rightarrow> string \<Rightarrow> ast \<Rightarrow> ast result" where
  "add_sql_user lib s cfg db inst instanceName spec user a =
     (let u = \<lparr>gsu_username = user, gsu_app_name = src_name s, gsu_db = db, gsu_instance_name = instanceName,
            gsu_instance_spec = spec\<rparr>
      in rbind (createSqlUserDBResources lib u (CreateObjectMeta lib s) (sim_cascading_delete inst) (src_name s) cfg a) (\<lambda>a1.
         rbind (googleSQLSecretName lib u) (\<lambda>secretName.
           Inr (a1\<lparr>ast_env_from := ast_env_from a1 @ [EnvFromSecret secretName]\<rparr>))))"

definition CreateGoogleSQLUsers ::
  "liberator \<Rightarrow> source \<Rightarrow> options \<Rightarrow> sql_database_manifest \<Rightarrow> sql_instance_manifest \<Rightarrow> string \<Rightarrow> sql_instance_spec
     \<Rightarrow> ast \<Rightarrow> ast result" where
  "CreateGoogleSQLUsers lib s cfg db inst instanceName spec a =
     foldM_result (add_sql_user lib s cfg db inst instanceName spec)
       (MergeAndFilterDatabaseSQLUsers (sdm_users db) instanceName) a"

section \<open>Cloud SQL instances\<close>

definition CreateGoogleSQLDatabase ::
  "liberator \<Rightarrow> object_meta \<Rightarrow> string \<Rightarrow> string \<Rightarrow> string \<Rightarrow> bool \<Rightarrow> k8s_object result" where
  "CreateGoogleSQLDatabase lib objectMeta instanceName dbName projectId cascadingDelete =
     (case lib_ShortName lib (om_name objectMeta @ ''-'' @ dbName) 63 of
        Inl err \<Rightarrow> Inl (go_panic (err_msg err))
      | Inr name \<Rightarrow> Inr \<lparr>obj_type_meta = type_meta_of ''SQLDatabase'' SQLAPIVersion,
          obj_meta = abandon_unless cascadingDelete
            (SetAnnotation (objectMeta\<lparr>om_name := name\<rparr>) ProjectIdAnnotation projectId),
          obj_payload = PSQLDatabase \<lparr>sdb_instance = instanceName, sdb_resource_id = dbName\<rparr>\<rparr>)"

definition availabilityType :: "bool \<Rightarrow> string" where
  "availabilityType highAvailability = (if highAvailability then ''REGIONAL'' else ''ZONAL'')"

definition backup_retention :: "sql_instance_manifest \<Rightarrow> (int \<times> int) option" where
  "backup_retention inst =
     (let backupSettings = map_option (\<lambda>n. (n, 0)) (sim_retained_backups inst)
      in case sim_transaction_log_days inst of
           None \<Rightarrow> backupSettings
         | Some days \<Rightarrow> Some (case backupSettings of None \<Rightarrow> (0, days) | Some (n, _) \<Rightarrow> (n, days)))"

text \<open>The validity of a flag is only logged; the flag is used in any case.\<close>

definition CreateGoogleSqlInstance ::
  "liberator \<Rightarrow> object_meta \<Rightarrow> sql_instance_manifest \<Rightarrow> options \<Rightarrow> (object_meta \<times> sql_instance_spec) result" where
  "CreateGoogleSqlInstance lib objectMeta inst cfg =
     (let meta = SetAnnotation (objectMeta\<lparr>om_name := sim_name inst\<rparr>) ProjectIdAnnotation (GetGoogleTeamProjectID cfg)
      in if length (sim_tier inst) = 0 then Inl (errorf
        ''DB instance tier missing. Previous default value was `db-f1-micro` (recommended only for development); closest recommended value for production use is `db-custom-1-3840`'')
      else case sim_auto_backup_hour inst of
        None \<Rightarrow> nil_deref
      | Some hour \<Rightarrow>
        let flags = (''cloudsql.iam_authentication'', ''on'') # sim_flags inst;
            privateNetworkRef = (if ShouldCreateSqlInstanceInSharedVpc cfg
                \<and> (SqlInstanceHasPrivateIpInSharedVpc cfg \<or> \<not> SqlInstanceExists cfg)
              then Some (''projects/'' @ GetGoogleProjectID cfg @ ''/global/networks/nais-vpc'') else None);
            insightsEnabled = am_InsightsIsEnabled (lib_api lib) (sim_insights inst)
        in Inr (abandon_unless (sim_cascading_delete inst) meta,
          \<lparr>si_database_version = sim_type inst, si_region = Region,
           si_settings = \<lparr>sis_availability_type = availabilityType (sim_high_availability inst),
             sis_backup_enabled = True, sis_backup_start_time = pad2 hour @ '':00'',
             sis_point_in_time = sim_point_in_time inst, sis_backup_retention = backup_retention inst,
             sis_edition = am_EditionEnterprise (lib_api lib), sis_require_ssl = True,
             sis_private_network = privateNetworkRef,
             sis_disk_autoresize = sim_disk_autoresize inst, sis_disk_autoresize_limit = sim_disk_autoresize_limit inst,
             sis_disk_size = sim_disk_size inst, sis_disk_type = am_DiskGoogleType (lib_api lib) (sim_disk_type inst),
             sis_tier = sim_tier inst, sis_flags = flags,
             sis_insights = (case sim_insights inst of
                 None \<Rightarrow> (insightsEnabled, 0, False, False)
               | Some i \<Rightarrow> (insightsEnabled, ins_query_string_length i, ins_record_application_tags i, ins_record_client_address i)),
             sis_maintenance = (case sim_maintenance inst of
                 None \<Rightarrow> None
               | Some m \<Rightarrow> (case mnt_hour m of None \<Rightarrow> None
                   | Some h \<Rightarrow> if mnt_day m \<noteq> 0 then Some (mnt_day m, h) else None))\<rparr>,
           si_resource_id = []\<rparr>))"

definition sql_instance_object :: "object_meta \<Rightarrow> sql_instance_spec \<Rightarrow> k8s_object" where
  "sql_instance_object meta spec =
     \<lparr>obj_type_meta = type_meta_of ''SQLInstance'' SQLAPIVersion, obj_meta = meta, obj_payload = PSQLInstance spec\<rparr>"

definition default_sql_instance :: "liberator \<Rightarrow> string \<Rightarrow> sql_instance_manifest" where
  "default_sql_instance lib appName = \<lparr>sim_name = [], sim_type = [], sim_tier = [],
     sim_disk_type = am_DiskTypeSSD (lib_api lib), sim_disk_size = 10, sim_disk_autoresize = False,
     sim_disk_autoresize_limit = 0, sim_high_availability = False, sim_auto_backup_hour = None,
     sim_cascading_delete = False, sim_collation = ''en_US.UTF8'',
     sim_databases = [\<lparr>sdm_name = appName, sdm_env_var_prefix = [], sdm_users = None\<rparr>], sim_flags = [],
     sim_insights = None, sim_maintenance = None, sim_point_in_time = False, sim_retained_backups = None,
     sim_transaction_log_days = None\<rparr>"

definition NaisCloudSqlInstanceWithDefaults ::
  "liberator \<Rightarrow> sql_instance_manifest option \<Rightarrow> string \<Rightarrow> sql_instance_manifest result" where
  "NaisCloudSqlInstanceWithDefaults lib inst appName = (case inst of
       None \<Rightarrow> Inl (errorf ''sql instance not defined'')
     | Some i \<Rightarrow> (case am_MergeSqlInstance (lib_api lib) i (default_sql_instance lib appName) of
           Inl err \<Rightarrow> Inl (errorf_s ''unable to merge default sqlinstance values: '' err)
         | Inr merged \<Rightarrow>
             let i1 = (if sim_auto_backup_hour merged = None then merged\<lparr>sim_auto_backup_hour := Some 2\<rparr> else merged)
             in Inr (if sim_name i1 = [] then i1\<lparr>sim_name := appName\<rparr> else i1)))"

definition CreateIAMPolicyMemberForInstance :: "liberator \<Rightarrow> source \<Rightarrow> string \<Rightarrow> options \<Rightarrow> k8s_object" where
  "CreateIAMPolicyMemberForInstance lib s resourceName cfg =
     policy_member_object ((CreateObjectMeta lib s)\<lparr>om_name := resourceName\<rparr>) (GetGoogleTeamProjectID cfg)
       \<lparr>ipm_member = service_account_member (CreateAppNamespaceHash s) (GetGoogleProjectID cfg),
        ipm_role = ''roles/cloudsql.client'',
        ipm_ref = \<lparr>irr_api_version = [], irr_kind = ''Project'', irr_name = Some [], irr_external = None\<rparr>\<rparr>"

definition short_or_panic :: "liberator \<Rightarrow> string \<Rightarrow> string result" where
  "short_or_panic lib base = (case lib_ShortName lib base 63 of
       Inl err \<Rightarrow> Inl (go_panic (err_msg err)) | Inr n \<Rightarrow> Inr n)"

definition CreateSqlSSLCertResource ::
  "liberator \<Rightarrow> string \<Rightarrow> source \<Rightarrow> string \<Rightarrow> string \<Rightarrow> ast \<Rightarrow> ast result" where
  "CreateSqlSSLCertResource lib instanceName s googleTeamProjectId clusterName a =
     rbind (short_or_panic lib (src_name s @ ''-'' @ instanceName)) (\<lambda>shortName.
     rbind (short_or_panic lib (''sqeletor-'' @ instanceName)) (\<lambda>secretName.
       let commonName = ng_RandShortName (lib_names lib) (src_name s @ ''.'' @ clusterName) 63;
           cert = \<lparr>obj_type_meta = type_meta_of ''SQLSSLCert'' SQLAPIVersion,
             obj_meta = SetAnnotation (SetAnnotation ((CreateObjectMeta lib s)\<lparr>om_name := shortName\<rparr>)
               ProjectIdAnnotation googleTeamProjectId) ''sqeletor.nais.io/secret-name'' secretName,
             obj_payload = PSQLSSLCert \<lparr>ssl_common_name = commonName, ssl_instance = instanceName,
               ssl_instance_namespace = src_namespace s, ssl_resource_id = []\<rparr>\<rparr>
       in Inr (AppendOperation OperationCreateIfNotExists cert
            (add_volume (FromFilesSecretVolumeWithMode ''sqeletor-sql-ssl-cert'' secretName [] (Some 416))
              (FromFilesVolumeMount ''sqeletor-sql-ssl-cert'' (mp_Sqeletor (lib_paths lib)) [] True) a))))"

definition sql_CreateInstance :: "liberator \<Rightarrow> source \<Rightarrow> options \<Rightarrow> ast \<Rightarrow> ast result" where
  "sql_CreateInstance lib s cfg a = (case ws_gcp (src_spec s) of
       None \<Rightarrow> Inr a
     | Some manifestGCP \<Rightarrow>
       if length (gcp_sql_instances manifestGCP) = 0 then Inr a
       else if length (gcp_sql_instances manifestGCP) > 1
       then Inl (errorf ''only one sql instance is supported even though the spec indicates otherwise'')
       else rbind (NaisCloudSqlInstanceWithDefaults lib (am_Instance (lib_api lib) manifestGCP) (src_name s)) (\<lambda>inst.
         if length (sim_databases inst) > 1
         then Inl (errorf ''only one sql database is supported even though the spec indicates otherwise'')
         else rbind (CreateGoogleSqlInstance lib (CreateObjectMeta lib s) inst cfg) (\<lambda>(meta, spec).
           let teamProject = GetGoogleTeamProjectID cfg; instanceName = om_name meta;
               a1 = AppendOperation OperationCreateIfNotExists (CreateIAMPolicyMemberForInstance lib s instanceName cfg)
                      (AppendOperation OperationCreateOrUpdate (sql_instance_object meta spec) a)
           in case am_Database (lib_api lib) inst of
                None \<Rightarrow> nil_deref
              | Some db \<Rightarrow>
                rbind (CreateGoogleSQLDatabase lib (CreateObjectMeta lib s) instanceName (sdm_name db) teamProject
                         (sim_cascading_delete inst)) (\<lambda>sqlDatabase.
                rbind (CreateGoogleSQLUsers lib s cfg db inst instanceName spec
                         (AppendOperation OperationCreateOrUpdate sqlDatabase a1)) (\<lambda>a2.
                  if ShouldCreateSqlInstanceInSharedVpc cfg \<and> usingPrivateIP spec
                  then CreateSqlSSLCertResource lib instanceName s teamProject (GetClusterName cfg) a2
                  else rbind (CloudSqlProxyContainer lib 5432 (GetGoogleCloudSQLProxyContainerImage cfg) teamProject instanceName) (\<lambda>c.
                    Inr (add_init_container c a2)))))))"

section \<open>Package gcp\<close>

definition gcp_Create :: "liberator \<Rightarrow> source \<Rightarrow> options \<Rightarrow> ast \<Rightarrow> ast result" where
  "gcp_Create lib s cfg a =
     (let gcp = ws_gcp (src_spec s)
      in if \<not> IsCNRMEnabled cfg \<and> gcp = None then Inr a
      else if \<not> IsCNRMEnabled cfg \<and> gcp \<noteq> None
      then Inl (errorf ''GCP resources requested, but CNRM is not enabled (not running on GCP?)'')
      else let projectID = GetGoogleProjectID cfg;
               googleServiceAccount = iam_CreateServiceAccount lib s projectID;
               a1 = AppendOperation OperationCreateIfNotExists
                      (iam_CreatePolicy lib s googleServiceAccount projectID)
                      (AppendOperation OperationCreateIfNotExists googleServiceAccount a)
      in if \<not> IsCNRMEnabled cfg \<or> gcp = None then Inr a1
      else rbind (storagebucket_Create lib s cfg a1) (\<lambda>a2.
        rbind (bigquery_CreateDataset lib s cfg (obj_name googleServiceAccount) a2) (\<lambda>a3.
        rbind (sql_CreateInstance lib s cfg a3) (\<lambda>a4.
          iam_CreatePolicyMember lib s cfg a4))))"

section \<open>The contract of the creators\<close>

lemma SetAnnotation_meta [simp]:
  "om_labels (SetAnnotation m k v) = om_labels m" "om_namespace (SetAnnotation m k v) = om_namespace m"
  "om_owner_references (SetAnnotation m k v) = om_owner_references m" "om_name (SetAnnotation m k v) = om_name m"
  "annotation (SetAnnotation m k v) k' = (if k' = k then v else annotation m k')"
  by (simp_all add: SetAnnotation_def annotation_def)

lemma abandon_unless_meta [simp]:
  "om_labels (abandon_unless b m) = om_labels m" "om_namespace (abandon_unless b m) = om_namespace m"
  "om_owner_references (abandon_unless b m) = om_owner_references m" "om_name (abandon_unless b m) = om_name m"
  by (simp_all add: abandon_unless_def)

lemma belongs_toI:
  assumes "om_labels (obj_meta ob) = om_labels (CreateObjectMeta lib s)"
    and "om_namespace (obj_meta ob) = src_namespace s"
    and "om_owner_references (obj_meta ob) = Some [lib_GetOwnerReference lib s]"
  shows "belongs_to lib s ob"
  using assms CreateObjectMeta_simps(3,4)[of lib s] by (simp add: belongs_to_def label_def)

lemma iam_belong:
  "belongs_to lib s (iam_CreateServiceAccount lib s p)" "belongs_to lib s (iam_CreatePolicy lib s sa p)"
  using CreateObjectMeta_simps(3,4)[of lib s]
  by (auto simp: iam_CreateServiceAccount_def iam_CreatePolicy_def serviceaccounts_meta_def belongs_to_def label_def Let_def)

lemma policy_member_belongs [simp]:
  "belongs_to lib s (policy_member_object ((CreateObjectMeta lib s)\<lparr>om_name := n\<rparr>) p spec)"
  by (rule belongs_toI) (simp_all add: policy_member_object_def)

interpretation policymember: workload_creator iam_CreatePolicyMember
proof
  fix lib s cfg a a'
  assume "iam_CreatePolicyMember lib s cfg a = Inr a'"
  then show "creator_step lib s a a'"
    by (auto simp: iam_CreatePolicyMember_def split: option.splits elim!: creator_step_foldM[rotated])
      (auto simp: iam_policyMember_def Let_def result_simps split: sum.splits intro!: creator_intros)
qed

lemma CreateBucket_belongs: "belongs_to lib s (CreateBucket lib (CreateObjectMeta lib s) b p)"
  by (rule belongs_toI) (simp_all add: CreateBucket_def)

interpretation storagebucket: workload_creator storagebucket_Create
proof
  fix lib s cfg a a'
  assume "storagebucket_Create lib s cfg a = Inr a'"
  then show "creator_step lib s a a'"
    by (auto simp: storagebucket_Create_def split: option.splits elim!: creator_step_foldM[rotated])
      (auto simp: add_bucket_def bucket_iAMPolicyMember_def Let_def result_simps intro!: creator_intros CreateBucket_belongs)
qed

lemma createDataset_belongs: "createDataset lib s b p n = Inr ob \<Longrightarrow> belongs_to lib s ob"
  by (rule belongs_toI) (auto simp: createDataset_def Let_def result_simps)

interpretation bigquery: workload_creator "\<lambda>lib s (cfg, n). bigquery_CreateDataset lib s cfg n"
proof
  fix lib s and c :: "options \<times> string" and a a'
  assume "(case c of (cfg, n) \<Rightarrow> bigquery_CreateDataset lib s cfg n) a = Inr a'"
  then show "creator_step lib s a a'"
    by (cases c) (auto simp: bigquery_CreateDataset_def add_dataset_def bigquery_iAMPolicyMember_def result_simps
        split: option.splits elim!: creator_step_foldM[rotated] intro!: creator_intros dest!: createDataset_belongs)
qed

text \<open>The metadata of a SQL user and of its secret differ from that of the source in name and annotations only.\<close>

definition only_renamed :: "liberator \<Rightarrow> source \<Rightarrow> object_meta \<Rightarrow> bool" where
  "only_renamed lib s m \<longleftrightarrow> om_labels m = om_labels (CreateObjectMeta lib s) \<and> om_namespace m = src_namespace s
     \<and> om_owner_references m = Some [lib_GetOwnerReference lib s]"

lemma only_renamed_belongs: "only_renamed lib s (obj_meta ob) \<Longrightarrow> belongs_to lib s ob"
  by (auto simp: only_renamed_def intro: belongs_toI)

lemma user_Create_meta:
  assumes "user_Create lib u (CreateObjectMeta lib s) c n p = Inr (ob, m)"
  shows "only_renamed lib s (obj_meta ob) \<and> only_renamed lib s m"
  using assms by (auto simp: user_Create_def only_renamed_def sql_setAnnotations_def Let_def result_simps)

lemma only_renamed_SetAnnotation [simp]: "only_renamed lib s (SetAnnotation m k v) = only_renamed lib s m"
  by (simp add: only_renamed_def)

lemma only_renamed_name [simp]: "only_renamed lib s (m\<lparr>om_name := n\<rparr>) = only_renamed lib s m"
  by (simp add: only_renamed_def)

lemma add_sql_user_step: "add_sql_user lib s cfg db inst n spec user a = Inr a' \<Longrightarrow> creator_step lib s a a'"
  by (auto simp: add_sql_user_def createSqlUserDBResources_def OpaqueSecret_def Let_def result_simps
      split: if_splits sum.splits dest!: user_Create_meta intro!: creator_intros only_renamed_belongs)

lemma CreateGoogleSQLUsers_step:
  "creator_step lib s a b \<Longrightarrow> CreateGoogleSQLUsers lib s cfg db inst n spec b = Inr b' \<Longrightarrow> creator_step lib s a b'"
  unfolding CreateGoogleSQLUsers_def
  by (erule creator_step_trans, erule creator_step_foldM[rotated]) (rule add_sql_user_step)

lemma CreateSqlSSLCertResource_step:
  "creator_step lib s a b \<Longrightarrow> CreateSqlSSLCertResource lib i s p c b = Inr b' \<Longrightarrow> creator_step lib s a b'"
  by (auto simp: CreateSqlSSLCertResource_def Let_def result_simps FromFilesSecretVolumeWithMode_def
      FromFilesVolumeMount_def intro!: creator_intros belongs_toI)

lemma CreateGoogleSqlInstance_meta:
  "CreateGoogleSqlInstance lib (CreateObjectMeta lib s) inst cfg = Inr (m, spec) \<Longrightarrow> only_renamed lib s m"
  by (auto simp: CreateGoogleSqlInstance_def only_renamed_def Let_def split: if_splits option.splits)

lemma CreateGoogleSQLDatabase_belongs:
  "CreateGoogleSQLDatabase lib (CreateObjectMeta lib s) i d p c = Inr ob \<Longrightarrow> belongs_to lib s ob"
  by (rule belongs_toI) (auto simp: CreateGoogleSQLDatabase_def split: sum.splits)

lemma CloudSqlProxyContainer_ok:
  "CloudSqlProxyContainer lib port img p i = Inr c \<Longrightarrow> hardened c \<and> c_volume_mounts c = [] \<and> c_name c = ''cloudsql-proxy''"
  by (auto simp: CloudSqlProxyContainer_def Let_def result_simps hardened_def DefaultContainerSecurityContext_def)

text \<open>The stages of \<open>CreateInstance\<close> on a manifest with an instance.\<close>

lemma sql_CreateInstanceE:
  assumes "sql_CreateInstance lib s cfg a = Inr a'" and "ws_gcp (src_spec s) = Some g" and "gcp_sql_instances g \<noteq> []"
  obtains inst meta spec db sqlDatabase a2 where
    "length (gcp_sql_instances g) = 1"
    "NaisCloudSqlInstanceWithDefaults lib (am_Instance (lib_api lib) g) (src_name s) = Inr inst"
    "CreateGoogleSqlInstance lib (CreateObjectMeta lib s) inst cfg = Inr (meta, spec)"
    "am_Database (lib_api lib) inst = Some db"
    "CreateGoogleSQLDatabase lib (CreateObjectMeta lib s) (om_name meta) (sdm_name db) (GetGoogleTeamProjectID cfg)
       (sim_cascading_delete inst) = Inr sqlDatabase"
    "CreateGoogleSQLUsers lib s cfg db inst (om_name meta) spec
       (AppendOperation OperationCreateOrUpdate sqlDatabase
         (AppendOperation OperationCreateIfNotExists (CreateIAMPolicyMemberForInstance lib s (om_name meta) cfg)
           (AppendOperation OperationCreateOrUpdate (sql_instance_object meta spec) a))) = Inr a2"
    "if ShouldCreateSqlInstanceInSharedVpc cfg \<and> usingPrivateIP spec
     then CreateSqlSSLCertResource lib (om_name meta) s (GetGoogleTeamProjectID cfg) (GetClusterName cfg) a2 = Inr a'
     else (\<exists>c. CloudSqlProxyContainer lib 5432 (GetGoogleCloudSQLProxyContainerImage cfg) (GetGoogleTeamProjectID cfg)
         (om_name meta) = Inr c \<and> a' = add_init_container c a2)"
proof -
  from assms have one: "length (gcp_sql_instances g) = 1"
    by (cases "gcp_sql_instances g") (auto simp: sql_CreateInstance_def split: if_splits)
  with assms obtain inst meta spec where i:
    "NaisCloudSqlInstanceWithDefaults lib (am_Instance (lib_api lib) g) (src_name s) = Inr inst"
    "length (sim_databases inst) \<le> 1"
    "CreateGoogleSqlInstance lib (CreateObjectMeta lib s) inst cfg = Inr (meta, spec)"
    by (auto simp: sql_CreateInstance_def result_simps Let_def split: if_splits)
  with assms one obtain db where db: "am_Database (lib_api lib) inst = Some db"
    by (cases "am_Database (lib_api lib) inst") (auto simp: sql_CreateInstance_def Let_def)
  let ?rest = "\<lambda>sqlDatabase. AppendOperation OperationCreateOrUpdate sqlDatabase
     (AppendOperation OperationCreateIfNotExists (CreateIAMPolicyMemberForInstance lib s (om_name meta) cfg)
       (AppendOperation OperationCreateOrUpdate (sql_instance_object meta spec) a))"
  from assms one i db have run: "rbind (CreateGoogleSQLDatabase lib (CreateObjectMeta lib s) (om_name meta) (sdm_name db)
      (GetGoogleTeamProjectID cfg) (sim_cascading_delete inst)) (\<lambda>sqlDatabase.
    rbind (CreateGoogleSQLUsers lib s cfg db inst (om_name meta) spec (?rest sqlDatabase)) (\<lambda>a2.
      if ShouldCreateSqlInstanceInSharedVpc cfg \<and> usingPrivateIP spec
      then CreateSqlSSLCertResource lib (om_name meta) s (GetGoogleTeamProjectID cfg) (GetClusterName cfg) a2
      else rbind (CloudSqlProxyContainer lib 5432 (GetGoogleCloudSQLProxyContainerImage cfg) (GetGoogleTeamProjectID cfg)
         (om_name meta)) (\<lambda>c. Inr (add_init_container c a2)))) = Inr a'"
    by (simp add: sql_CreateInstance_def Let_def cong: if_cong)
  then obtain sqlDatabase a2 where users:
    "CreateGoogleSQLDatabase lib (CreateObjectMeta lib s) (om_name meta) (sdm_name db) (GetGoogleTeamProjectID cfg)
       (sim_cascading_delete inst) = Inr sqlDatabase"
    "CreateGoogleSQLUsers lib s cfg db inst (om_name meta) spec (?rest sqlDatabase) = Inr a2"
    by (auto simp: result_simps)
  show ?thesis
    by (rule that[OF one i(1,3) db users]) (use run users in \<open>auto simp: result_simps split: if_splits\<close>)
qed

interpretation cloudsql: workload_creator sql_CreateInstance
proof
  fix lib s cfg a a'
  assume ok: "sql_CreateInstance lib s cfg a = Inr a'"
  show "creator_step lib s a a'"
  proof (cases "\<exists>g. ws_gcp (src_spec s) = Some g \<and> gcp_sql_instances g \<noteq> []")
    case True
    then obtain g where "ws_gcp (src_spec s) = Some g" "gcp_sql_instances g \<noteq> []" by blast
    with ok show ?thesis
    proof (cases rule: sql_CreateInstanceE)
      case (1 inst meta spec db sqlDatabase a2)
      have "creator_step lib s a a2"
        using 1(5) CreateGoogleSqlInstance_meta[OF 1(3)]
        by (intro CreateGoogleSQLUsers_step[OF _ 1(6)] creator_intros)
          (auto intro: only_renamed_belongs CreateGoogleSQLDatabase_belongs
            simp: CreateIAMPolicyMemberForInstance_def sql_instance_object_def)
      with 1(7) show ?thesis
        by (auto split: if_splits dest!: CloudSqlProxyContainer_ok intro: CreateSqlSSLCertResource_step
            intro!: creator_step_init_container)
    qed
  next
    case False
    with ok have "a' = a" by (auto simp: sql_CreateInstance_def split: option.splits)
    then show ?thesis by simp
  qed
qed

interpretation gcp: workload_creator gcp_Create
proof
  fix lib s cfg a a'
  assume "gcp_Create lib s cfg a = Inr a'"
  then show "creator_step lib s a a'"
    by (auto simp: gcp_Create_def Let_def result_simps split: if_splits intro!: creator_intros iam_belong
        elim!: policymember.create_then[rotated] cloudsql.create_then[rotated] storagebucket.create_then[rotated]
          bigquery.create_then[of _ _ _ _ "(_, _)", simplified, rotated])
qed

section \<open>Properties\<close>

subsection \<open>Data is kept when the manifest goes away\<close>

lemma abandon_annotation [simp]:
  "annotation (abandon_unless b m) DeletionPolicyAnnotation = (if b then annotation m DeletionPolicyAnnotation else DeletionPolicyAbandon)"
  "annotation (abandon_unless b m) ProjectIdAnnotation = annotation m ProjectIdAnnotation"
  by (simp_all add: abandon_unless_def)

lemma annotation_renamed [simp]: "annotation (m\<lparr>om_name := n\<rparr>) k = annotation m k"
  by (simp add: annotation_def)

lemma annotation_CreateObjectMeta [simp]:
  "annotation (CreateObjectMeta lib s) k = (if k = lib_CorrelationIDAnnotation lib then lib_CorrelationID lib s else [])"
  by (simp add: annotation_def CreateObjectMeta_def gm_index_def)

text \<open>The object is in the project of the team and is abandoned rather than deleted, unless deletes cascade.\<close>

definition kept_object :: "options \<Rightarrow> bool \<Rightarrow> k8s_object \<Rightarrow> bool" where
  "kept_object cfg cascadingDelete ob \<longleftrightarrow>
     annotation (obj_meta ob) ProjectIdAnnotation = GetGoogleTeamProjectID cfg
   \<and> annotation (obj_meta ob) DeletionPolicyAnnotation = (if cascadingDelete then [] else DeletionPolicyAbandon)"

definition sql_kept :: "options \<Rightarrow> bool \<Rightarrow> k8s_object \<Rightarrow> bool" where
  "sql_kept cfg cascadingDelete ob \<longleftrightarrow>
     (obj_type ob \<in> {TSQLInstance, TSQLDatabase, TSQLUser} \<longrightarrow> kept_object cfg cascadingDelete ob)"

lemma extends_foldM:
  assumes "\<And>x a a'. f x a = Inr a' \<Longrightarrow> extends_with good a a'" and "foldM_result f xs a = Inr a'"
  shows "extends_with good a a'"
  by (rule foldM_result_invariant[where P = "extends_with good a" and f = f and xs = xs])
    (use assms extends_with_trans in blast)+

lemma extends_then_operation: "extends_with good a b \<Longrightarrow> good ob \<Longrightarrow> extends_with good a (AppendOperation t ob b)"
  by (rule extends_with_trans) auto

lemma user_Create_kept:
  assumes "user_Create lib u (CreateObjectMeta lib s) c n (GetGoogleTeamProjectID cfg) = Inr (ob, m)"
    and "lib_CorrelationIDAnnotation lib \<noteq> DeletionPolicyAnnotation"
  shows "kept_object cfg c ob"
  using assms by (auto simp: user_Create_def kept_object_def sql_setAnnotations_def Let_def result_simps)

lemma extends_env_from: "extends_with good a b \<Longrightarrow> extends_with good a (b\<lparr>ast_env_from := fs\<rparr>)"
  by (simp add: extends_with_def)

lemma sql_kept_simps [simp]:
  "sql_kept cfg c (OpaqueSecret m n d)" "kept_object cfg c ob \<Longrightarrow> sql_kept cfg c ob"
  by (simp_all add: sql_kept_def OpaqueSecret_def obj_type_def)

lemma kept_annotated:
  "kept_object cfg c ob \<Longrightarrow> kept_object cfg c (map_meta (\<lambda>m. SetAnnotation
     (SetAnnotation m ''sqeletor.nais.io/env-var-prefix'' v) ''sqeletor.nais.io/database-name'' w) ob)"
  by (simp add: kept_object_def)

lemma add_sql_user_kept:
  assumes "add_sql_user lib s cfg db inst n spec user a = Inr a'"
    and "lib_CorrelationIDAnnotation lib \<noteq> DeletionPolicyAnnotation"
  shows "extends_with (sql_kept cfg (sim_cascading_delete inst)) a a'"
proof -
  note kept = user_Create_kept[OF _ assms(2)]
  let ?u = "\<lparr>gsu_username = user, gsu_app_name = src_name s, gsu_db = db, gsu_instance_name = n, gsu_instance_spec = spec\<rparr>"
  from assms(1) obtain b fs where
    b: "createSqlUserDBResources lib ?u (CreateObjectMeta lib s) (sim_cascading_delete inst) (src_name s) cfg a = Inr b"
    and a': "a' = b\<lparr>ast_env_from := fs\<rparr>"
    by (auto simp: add_sql_user_def Let_def result_simps)
  have "extends_with (sql_kept cfg (sim_cascading_delete inst)) a b"
  proof (cases "ShouldCreateSqlInstanceInSharedVpc cfg \<and> usingPrivateIP spec")
    case True
    with b show ?thesis
      by (auto simp: createSqlUserDBResources_def result_simps simp del: GetGoogleTeamProjectID_def
          dest!: kept intro!: extends_then_operation sql_kept_simps kept_annotated)
  next
    case False
    with b show ?thesis
      by (cases "GeneratePassword lib (length (ast_operations a))")
        (auto simp: createSqlUserDBResources_def result_simps simp del: GetGoogleTeamProjectID_def
          dest!: kept intro!: extends_then_operation sql_kept_simps)
  qed
  then show ?thesis unfolding a' by (rule extends_env_from)
qed

lemma CreateGoogleSqlInstance_fields:
  assumes "CreateGoogleSqlInstance lib om inst cfg = Inr (m, spec)"
  shows "m = abandon_unless (sim_cascading_delete inst)
      (SetAnnotation (om\<lparr>om_name := sim_name inst\<rparr>) ProjectIdAnnotation (GetGoogleTeamProjectID cfg))"
    and "sis_private_network (si_settings spec) \<noteq> None \<longleftrightarrow> ShouldCreateSqlInstanceInSharedVpc cfg
      \<and> (SqlInstanceHasPrivateIpInSharedVpc cfg \<or> \<not> SqlInstanceExists cfg)"
proof -
  from assms obtain hour where h: "sim_tier inst \<noteq> []" "sim_auto_backup_hour inst = Some hour"
    by (cases "sim_tier inst = []"; cases "sim_auto_backup_hour inst") (simp_all add: CreateGoogleSqlInstance_def Let_def)
  with assms show "m = abandon_unless (sim_cascading_delete inst)
      (SetAnnotation (om\<lparr>om_name := sim_name inst\<rparr>) ProjectIdAnnotation (GetGoogleTeamProjectID cfg))"
    by (simp add: CreateGoogleSqlInstance_def Let_def)
  from assms h show "sis_private_network (si_settings spec) \<noteq> None \<longleftrightarrow> ShouldCreateSqlInstanceInSharedVpc cfg
      \<and> (SqlInstanceHasPrivateIpInSharedVpc cfg \<or> \<not> SqlInstanceExists cfg)"
    by (clarsimp simp: CreateGoogleSqlInstance_def Let_def)
qed

lemma CreateGoogleSqlInstance_kept:
  assumes "CreateGoogleSqlInstance lib (CreateObjectMeta lib s) inst cfg = Inr (m, spec)"
    and "lib_CorrelationIDAnnotation lib \<noteq> DeletionPolicyAnnotation"
  shows "kept_object cfg (sim_cascading_delete inst) (sql_instance_object m spec)"
  using CreateGoogleSqlInstance_fields(1)[OF assms(1)] assms(2)
  by (cases "sim_cascading_delete inst") (simp_all add: kept_object_def sql_instance_object_def)

lemma CreateGoogleSQLDatabase_kept:
  assumes "CreateGoogleSQLDatabase lib (CreateObjectMeta lib s) i d (GetGoogleTeamProjectID cfg) c = Inr ob"
    and "lib_CorrelationIDAnnotation lib \<noteq> DeletionPolicyAnnotation"
  shows "kept_object cfg c ob"
  using assms by (auto simp: CreateGoogleSQLDatabase_def kept_object_def split: sum.splits)

lemma CreateSqlSSLCertResourceE:
  assumes "CreateSqlSSLCertResource lib i s p c a = Inr a'"
  obtains rop where "ast_operations a' = ast_operations a @ [rop]" "obj_type (op_resource rop) = TSQLSSLCert"
    "ast_init_containers a' = ast_init_containers a"
  using assms by (auto simp: CreateSqlSSLCertResource_def Let_def result_simps obj_type_def add_volume_def)

text \<open>C24. Deletion policy of Cloud SQL: unless the manifest asks for cascading deletes, the SQL instance, its database and
  every SQL user carry the annotation that makes the Config Connector abandon them, so removing the workload does
  not delete data; with cascading deletes none carries it. All of them are in the project of the team.\<close>

theorem sql_CreateInstance_keeps_data:
  assumes "sql_CreateInstance lib s cfg a = Inr a'"
    and "ws_gcp (src_spec s) = Some g"
    and "NaisCloudSqlInstanceWithDefaults lib (am_Instance (lib_api lib) g) (src_name s) = Inr inst"
    and "lib_CorrelationIDAnnotation lib \<noteq> DeletionPolicyAnnotation"
    and "rop \<in> set (drop (length (ast_operations a)) (ast_operations a'))"
    and "obj_type (op_resource rop) \<in> {TSQLInstance, TSQLDatabase, TSQLUser}"
  shows "annotation (obj_meta (op_resource rop)) ProjectIdAnnotation = GetGoogleTeamProjectID cfg
    \<and> annotation (obj_meta (op_resource rop)) DeletionPolicyAnnotation =
        (if sim_cascading_delete inst then [] else DeletionPolicyAbandon)"
proof -
  let ?good = "sql_kept cfg (sim_cascading_delete inst)"
  have "extends_with ?good a a'"
  proof (cases "gcp_sql_instances g = []")
    case True
    with assms(1,2) show ?thesis by (simp add: sql_CreateInstance_def)
  next
    case False
    with assms(1,2) show ?thesis
    proof (cases rule: sql_CreateInstanceE)
      case (1 inst' meta spec db sqlDatabase a2)
      with assms(3) have [simp]: "inst' = inst" by simp
      have "?good (CreateIAMPolicyMemberForInstance lib s (om_name meta) cfg)"
        by (simp add: sql_kept_def CreateIAMPolicyMemberForInstance_def policy_member_object_def obj_type_def)
      moreover have "?good (sql_instance_object meta spec)" "?good sqlDatabase"
        using CreateGoogleSqlInstance_kept[OF 1(3) assms(4)] CreateGoogleSQLDatabase_kept[OF 1(5) assms(4)]
        by (auto simp: sql_kept_def)
      ultimately have "extends_with ?good a (AppendOperation OperationCreateOrUpdate sqlDatabase
         (AppendOperation OperationCreateIfNotExists (CreateIAMPolicyMemberForInstance lib s (om_name meta) cfg)
           (AppendOperation OperationCreateOrUpdate (sql_instance_object meta spec) a)))"
        by (intro extends_then_operation extends_with_refl)
      also have "extends_with ?good \<dots> a2"
        using extends_foldM[OF add_sql_user_kept[OF _ assms(4)] 1(6)[unfolded CreateGoogleSQLUsers_def]] by simp
      finally have "extends_with ?good a a2" .
      then show ?thesis using 1(7)
        by (auto split: if_splits elim!: CreateSqlSSLCertResourceE simp: extends_with_def sql_kept_def)
    qed
  qed
  with assms(5,6) show ?thesis by (auto simp: extends_with_def sql_kept_def kept_object_def)
qed

subsection \<open>How the workload reaches its instance\<close>

lemma foldM_sql_users_init:
  "CreateGoogleSQLUsers lib s cfg db inst n spec a = Inr a' \<Longrightarrow> ast_init_containers a' = ast_init_containers a"
  unfolding CreateGoogleSQLUsers_def
  by (rule foldM_result_invariant[where P = "\<lambda>b. ast_init_containers b = ast_init_containers a"])
    (auto simp: add_sql_user_def createSqlUserDBResources_def Let_def result_simps split: if_splits sum.splits)

text \<open>C25. The connection to Cloud SQL: exactly one of two ways is set up. An instance that exists without a private address
  in the shared network is left there and reached through one Cloud SQL proxy sidecar; in a cluster with the shared
  network, a new instance or one that already has a private address gets a private network and a client certificate
  instead of the proxy.\<close>

theorem sql_CreateInstance_connection:
  assumes "sql_CreateInstance lib s cfg a = Inr a'"
    and "ws_gcp (src_spec s) = Some g" and "gcp_sql_instances g \<noteq> []"
  shows "\<exists>spec. PSQLInstance spec \<in> (obj_payload \<circ> op_resource) ` set (ast_operations a')
    \<and> (if ShouldCreateSqlInstanceInSharedVpc cfg \<and> (SqlInstanceHasPrivateIpInSharedVpc cfg \<or> \<not> SqlInstanceExists cfg)
       then sis_private_network (si_settings spec) \<noteq> None \<and> ast_init_containers a' = ast_init_containers a
          \<and> obj_type (op_resource (last (ast_operations a'))) = TSQLSSLCert
       else sis_private_network (si_settings spec) = None
          \<and> (\<exists>c. ast_init_containers a' = ast_init_containers a @ [c] \<and> c_name c = ''cloudsql-proxy'' \<and> hardened c))"
  using assms
proof (cases rule: sql_CreateInstanceE)
  case (1 inst meta spec db sqlDatabase a2)
  let ?private = "ShouldCreateSqlInstanceInSharedVpc cfg \<and> (SqlInstanceHasPrivateIpInSharedVpc cfg \<or> \<not> SqlInstanceExists cfg)"
  have priv: "sis_private_network (si_settings spec) \<noteq> None \<longleftrightarrow> ?private"
    by (rule CreateGoogleSqlInstance_fields(2)[OF 1(3)])
  have init: "ast_init_containers a2 = ast_init_containers a" using foldM_sql_users_init[OF 1(6)] by simp
  have "PSQLInstance spec \<in> (obj_payload \<circ> op_resource) ` set (ast_operations a2)"
  proof -
    have "extends_with (\<lambda>_. True) (AppendOperation OperationCreateOrUpdate sqlDatabase
         (AppendOperation OperationCreateIfNotExists (CreateIAMPolicyMemberForInstance lib s (om_name meta) cfg)
           (AppendOperation OperationCreateOrUpdate (sql_instance_object meta spec) a))) a2"
      using CreateGoogleSQLUsers_step[OF creator_step_refl 1(6)]
      by (auto simp: creator_step_def elim: extends_with_mono)
    then show ?thesis by (auto simp: extends_with_def sql_instance_object_def)
  qed
  then show ?thesis using 1(7) priv init
    by (auto simp: usingPrivateIP_def split: if_splits dest!: CloudSqlProxyContainer_ok elim!: CreateSqlSSLCertResourceE
        intro!: exI[of _ spec])
qed

subsection \<open>Users\<close>

lemma remove_duplicates_loop_subset: "set (remove_duplicates_loop us keys) \<subseteq> set us"
  by (induction us arbitrary: keys) auto

lemma remove_duplicates_loop_lower:
  "\<forall>u \<in> set us. ToLower u = u \<Longrightarrow> distinct (remove_duplicates_loop us keys)
     \<and> set (remove_duplicates_loop us keys) = set us - keys"
  by (induction us arbitrary: keys) auto

lemma remove_duplicates_loop_last:
  "ToLower u = u \<Longrightarrow> u \<notin> keys \<Longrightarrow> u \<in> set (remove_duplicates_loop (us @ [u]) keys)"
  by (induction us arbitrary: keys) auto

text \<open>The users of a database: the default user, named as the instance, is always one of them; when all names are lower
  case, each user of the manifest occurs exactly once and no other user is added. No user is made up in any case.\<close>

lemma MergeAndFilterDatabaseSQLUsers_spec:
  assumes "ToLower instanceName = instanceName"
  shows "instanceName \<in> set (MergeAndFilterDatabaseSQLUsers users instanceName)
    \<and> set (MergeAndFilterDatabaseSQLUsers users instanceName) \<subseteq> insert instanceName (\<Union> (set ` set_option users))
    \<and> ((\<forall>us \<in> set_option users. \<forall>u \<in> set us. ToLower u = u) \<longrightarrow>
        distinct (MergeAndFilterDatabaseSQLUsers users instanceName)
      \<and> set (MergeAndFilterDatabaseSQLUsers users instanceName) = insert instanceName (\<Union> (set ` set_option users)))"
proof (cases users)
  case (Some us)
  have "instanceName \<in> set (remove_duplicates_loop (us @ [instanceName]) {})"
    using assms by (simp add: remove_duplicates_loop_last)
  moreover have "set (remove_duplicates_loop (us @ [instanceName]) {}) \<subseteq> insert instanceName (set us)"
    using remove_duplicates_loop_subset[of "us @ [instanceName]" "{}"] by auto
  moreover have "\<forall>u \<in> set us. ToLower u = u \<Longrightarrow> distinct (remove_duplicates_loop (us @ [instanceName]) {})
      \<and> set (remove_duplicates_loop (us @ [instanceName]) {}) = insert instanceName (set us)"
    using remove_duplicates_loop_lower[of "us @ [instanceName]" "{}"] assms by auto
  ultimately show ?thesis using Some by (simp add: MergeAndFilterDatabaseSQLUsers_def removeDuplicates_def)
qed (simp add: MergeAndFilterDatabaseSQLUsers_def)

text \<open>
  The keys are stored as they are written but looked up in lower case, so a repeated name with an upper case letter
  is not recognised; names that differ in case only are both kept, although their secrets have the same name.
\<close>

lemma removeDuplicates_keeps_upper_case:
  "removeDuplicates [''Bob'', ''Bob''] = [''Bob'', ''Bob'']"
  "removeDuplicates [''Bob'', ''bob''] = [''Bob'', ''bob'']"
  "replaceToLowerWithNoPrefix ''Bob'' = replaceToLowerWithNoPrefix ''bob''"
  by code_simp+

subsection \<open>Names of resources in other projects\<close>

text \<open>
  \<open>formatExternalName\<close> puts the name of a resource under the project of the team, but \<open>path.Join\<close> resolves \<open>..\<close> in it,
  and the test for the prefix accepts a longer project name.
\<close>

lemma formatExternalName_escapes:
  "formatExternalName ''team'' ''../other'' = ''projects/other''"
  "formatExternalName ''team'' ''projects/team-other/x'' = ''projects/team-other/x''"
  by code_simp+

end
