(* ===== verification/Login_Paths.thy ===== *)
theory Login_Paths
  imports Identity
begin

text \<open>
  The paths that the login proxy leaves open: \<open>autoLoginIgnorePaths\<close> of src/pkg/resourcecreator/wonderwall collects them
  from the probes, the Prometheus configuration and the manifest, and passes them to Wonderwall as one string. What
  Wonderwall reads back is shown to be exactly the paths that were configured.
\<close>

text \<open>The paths in the order in which the code visits them, as the manifest spells them.\<close>

definition configured_paths :: "source \<Rightarrow> wonderwall_configuration \<Rightarrow> string list" where
  "configured_paths s cfg = (let spec = src_spec s in
     (if ws_prometheus_enabled spec then [ws_prometheus_path spec] else [])
   @ (case ws_liveness spec of None \<Rightarrow> [] | Some q \<Rightarrow> [prb_path q])
   @ (case ws_readiness spec of None \<Rightarrow> [] | Some q \<Rightarrow> [prb_path q]) @ wwc_ignore_paths cfg)"

definition open_paths :: "source \<Rightarrow> wonderwall_configuration \<Rightarrow> string list" where
  "open_paths s cfg = fold addPath (configured_paths s cfg) []"

lemma autoLoginIgnorePaths_open: "autoLoginIgnorePaths s cfg = Join (open_paths s cfg) '',''"
  by (simp add: autoLoginIgnorePaths_def open_paths_def configured_paths_def Let_def split: option.split)

lemma fold_addPath:
  "distinct acc \<Longrightarrow> distinct (fold addPath ps acc)
     \<and> set (fold addPath ps acc) = set acc \<union> wonderwall_leadingSlash ` {p \<in> set ps. p \<noteq> []}"
proof (induction ps arbitrary: acc)
  case (Cons p ps)
  have "distinct (addPath p acc)" using Cons.prems by (simp add: addPath_def Let_def)
  from Cons.IH[OF this] show ?case by (auto simp: addPath_def Let_def)
qed simp

lemma open_paths_set:
  "distinct (open_paths s cfg)" "set (open_paths s cfg) = wonderwall_leadingSlash ` {p \<in> set (configured_paths s cfg). p \<noteq> []}"
  using fold_addPath[of "[]" "configured_paths s cfg"] by (simp_all add: open_paths_def)

lemma leadingSlash_comma: "CHR '','' \<notin> set p \<Longrightarrow> CHR '','' \<notin> set (wonderwall_leadingSlash p)"
  by (simp add: wonderwall_leadingSlash_def)

lemma open_paths_Split:
  assumes "\<forall>p \<in> set (configured_paths s cfg). CHR '','' \<notin> set p" and "\<exists>p \<in> set (configured_paths s cfg). p \<noteq> []"
  shows "Split (autoLoginIgnorePaths s cfg) CHR '','' = open_paths s cfg"
  unfolding autoLoginIgnorePaths_open
proof (rule Split_Join)
  show "open_paths s cfg \<noteq> []" using assms(2) open_paths_set(2)[of s cfg] by auto
  show "\<forall>p \<in> set (open_paths s cfg). CHR '','' \<notin> set p"
    using assms(1) leadingSlash_comma unfolding open_paths_set(2) by blast
qed

lemma autoLoginIgnorePaths_empty: "autoLoginIgnorePaths s cfg = [] \<longleftrightarrow> (\<forall>p \<in> set (configured_paths s cfg). p = [])"
proof
  assume empty: "autoLoginIgnorePaths s cfg = []"
  show "\<forall>p \<in> set (configured_paths s cfg). p = []"
  proof (rule ccontr)
    assume "\<not> (\<forall>p \<in> set (configured_paths s cfg). p = [])"
    then obtain q qs where q: "open_paths s cfg = q # qs" "q \<in> set (open_paths s cfg)"
      using open_paths_set(2)[of s cfg] by (cases "open_paths s cfg") auto
    then have "q \<noteq> []" unfolding open_paths_set(2) by (auto simp: wonderwall_leadingSlash_def HasPrefix_def)
    with empty q(1) show False by (cases qs) (auto simp: autoLoginIgnorePaths_open)
  qed
next
  assume "\<forall>p \<in> set (configured_paths s cfg). p = []"
  then have "{p \<in> set (configured_paths s cfg). p \<noteq> []} = {}" by blast
  then have "set (open_paths s cfg) = {}" unfolding open_paths_set(2) by (simp only: image_empty)
  then have "open_paths s cfg = []" by simp
  then show "autoLoginIgnorePaths s cfg = []" by (simp add: autoLoginIgnorePaths_open)
qed

section \<open>Property\<close>


end
