(* ===== verification/Sql_Flags.thy ===== *)
theory Sql_Flags
  imports Complex_Main Sidecars
begin

text \<open>
  Validation of the flags of a Cloud SQL instance (src/pkg/resourcecreator/google/sql/instance_flags.go): the table
  of validators, one per flag, and what each of them accepts. \<open>CreateGoogleSqlInstance\<close> only logs the verdict.

  \<open>strconv.ParseFloat\<close> and the verb \<open>%f\<close> are arguments, so what is shown holds however floats are read and printed.
  A float is a rational number, an infinity or not a number; a comparison with the latter is false.
\<close>

datatype go_float = Finite rat | PosInf | NegInf | NaN

record float_format =
  flt_Parse :: "string \<Rightarrow> go_float option" \<comment> \<open>\<open>strconv.ParseFloat(s, 64)\<close>\<close>
  flt_Format :: "go_float \<Rightarrow> string" \<comment> \<open>\<open>%f\<close>\<close>

fun float_below :: "go_float \<Rightarrow> rat \<Rightarrow> bool" where
  "float_below (Finite x) y = (x < y)"
| "float_below NegInf y = True"
| "float_below _ y = False"

fun float_above :: "go_float \<Rightarrow> rat \<Rightarrow> bool" where
  "float_above (Finite x) y = (x > y)"
| "float_above PosInf y = True"
| "float_above _ y = False"

type_synonym flagValidator = "string \<Rightarrow> error"

abbreviation maxFloat32 :: rat where "maxFloat32 \<equiv> (2 ^ 24 - 1) * 2 ^ 104"
abbreviation maxInt32 :: int where "maxInt32 \<equiv> 2147483647"
abbreviation eightk :: int where "eightk \<equiv> 8192"

section \<open>The validators\<close>

definition toInt :: "string \<Rightarrow> int result" where
  "toInt str = (case Atoi str of
       None \<Rightarrow> Inl (errorf (''expected an int, got '' @ in_quotes str)) | Some i \<Rightarrow> Inr i)"

definition toFloat :: "float_format \<Rightarrow> string \<Rightarrow> go_float result" where
  "toFloat flt str = (case flt_Parse flt str of
       None \<Rightarrow> Inl (errorf (''expected a float, got '' @ in_quotes str)) | Some f \<Rightarrow> Inr f)"

definition toBool :: flagValidator where
  "toBool str = (if str = ''on'' \<or> str = ''off'' then None
     else Some (errorf (''expected '' @ in_quotes ''on|off'' @ '' int, got '' @ in_quotes str)))"

definition notEmpty :: flagValidator where
  "notEmpty str = (if str = [] then Some (errorf ''value cannot be empty'') else None)"

definition intWithinRange :: "int \<Rightarrow> int \<Rightarrow> flagValidator" where
  "intWithinRange mn mx n = (case toInt n of
       Inl err \<Rightarrow> Some err
     | Inr i \<Rightarrow> if i < mn \<or> i > mx
         then Some (errorf (Itoa i @ '' is not between '' @ Itoa mn @ '' and '' @ Itoa mx)) else None)"

definition floatWithinRange :: "float_format \<Rightarrow> rat \<Rightarrow> rat \<Rightarrow> flagValidator" where
  "floatWithinRange flt mn mx n = (case toFloat flt n of
       Inl err \<Rightarrow> Some err
     | Inr f \<Rightarrow> if float_below f mn \<or> float_above f mx
         then Some (errorf (flt_Format flt f @ '' is not between '' @ flt_Format flt (Finite mn) @ '' and ''
           @ flt_Format flt (Finite mx))) else None)"

definition inEnum :: "string list \<Rightarrow> flagValidator" where
  "inEnum allowedVals commaSeparatedSuppliedVals =
     (if list_all (\<lambda>v. v \<in> set allowedVals) (Split commaSeparatedSuppliedVals CHR '','') then None
      else Some (errorf (commaSeparatedSuppliedVals @ '' is not in ['' @ Join allowedVals '' '' @ '']'')))"

definition unit :: "int \<Rightarrow> flagValidator" where
  "unit unitSize n = (case toInt n of
       Inl err \<Rightarrow> Some err
     | Inr i \<Rightarrow> if \<not> unitSize dvd i then Some (errorf (Itoa i @ '' is not a unit of '' @ Itoa unitSize)) else None)"

section \<open>The table\<close>

definition validators :: "float_format \<Rightarrow> (string \<times> flagValidator) list" where
  "validators flt =
     [
      (''auto_explain.log_analyze'', toBool),
      (''auto_explain.log_buffers'', toBool),
      (''auto_explain.log_min_duration'', intWithinRange (-1) maxInt32),
      (''auto_explain.log_format'', inEnum [''text'', ''xml'', ''json'', ''yaml'']),
      (''auto_explain.log_level'', inEnum [''debug5'', ''debug4'', ''debug3'', ''debug2'', ''debug1'', ''debug'', ''info'', ''notice'', ''warning'', ''log'']),
      (''auto_explain.log_nested_statements'', toBool),
      (''auto_explain.log_settings'', toBool),
      (''auto_explain.log_timing'', toBool),
      (''auto_explain.log_triggers'', toBool),
      (''auto_explain.log_wal'', toBool),
      (''auto_explain.log_verbose'', toBool),
      (''auto_explain.sample_rate'', floatWithinRange flt 0 1),
      (''autovacuum'', toBool),
      (''autovacuum_analyze_scale_factor'', floatWithinRange flt 0 100),
      (''autovacuum_analyze_threshold'', intWithinRange 0 maxInt32),
      (''autovacuum_freeze_max_age'', intWithinRange 0 2000000000),
      (''autovacuum_max_workers'', intWithinRange 1 262142),
      (''autovacuum_multixact_freeze_max_age'', intWithinRange 10000 2000000000),
      (''autovacuum_naptime'', intWithinRange 1 2147483),
      (''autovacuum_vacuum_cost_delay'', intWithinRange (-1) 100),
      (''autovacuum_vacuum_cost_limit'', intWithinRange (-1) 10000),
      (''autovacuum_vacuum_scale_factor'', floatWithinRange flt 0 100),
      (''autovacuum_vacuum_threshold'', intWithinRange 0 maxInt32),
      (''autovacuum_work_mem'', intWithinRange (-1) maxInt32),
      (''checkpoint_completion_target'', floatWithinRange flt 0 1),
      (''checkpoint_timeout'', intWithinRange 30 86400),
      (''checkpoint_warning'', intWithinRange 0 maxInt32),
      (''cloudsql.allow_passwordless_local_connections'', toBool),
      (''cloudsql.enable_auto_explain'', toBool),
      (''cloudsql.enable_pgaudit'', toBool),
      (''cloudsql.enable_pg_bigm'', toBool),
      (''cloudsql.enable_pg_cron'', toBool),
      (''cloudsql.enable_pg_hint_plan'', toBool),
      (''cloudsql.enable_pglogical'', toBool),
      (''cloudsql.iam_authentication'', toBool),
      (''cloudsql.logical_decoding'', toBool),
      (''cloudsql.pg_shadow_select_role'', notEmpty),
      (''commit_delay'', intWithinRange 0 100000),
      (''commit_siblings'', intWithinRange 0 1000),
      (''constraint_exclusion'', inEnum [''partition'', ''on'', ''off'']),
      (''cpu_index_tuple_cost'', floatWithinRange flt 0 maxFloat32),
      (''cpu_operator_cost'', floatWithinRange flt 0 maxFloat32),
      (''cpu_tuple_cost'', floatWithinRange flt 0 maxFloat32),
      (''cron.database_name'', notEmpty),
      (''cron.log_statement'', toBool),
      (''cron.log_run'', toBool),
      (''cron.max_running_jobs'', intWithinRange 0 maxInt32),
      (''cron.log_min_messages'', inEnum [''debug5'', ''debug4'', ''debug3'', ''debug2'', ''debug1'', ''debug'', ''info'', ''notice'', ''warning'', ''error'', ''log'', ''fatal'', ''panic'']),
      (''cursor_tuple_fraction'', floatWithinRange flt 0 1),
      (''deadlock_timeout'', intWithinRange 1 maxInt32),
      (''effective_cache_size'', unit eightk),
      (''default_statistics_target'', intWithinRange 1 10000),
      (''default_tablespace'', notEmpty),
      (''default_transaction_deferrablze'', toBool),
      (''default_transaction_isolation'', inEnum [''serializable'', ''repeatable read'', ''read committed'', ''read uncommitted'']),
      (''enable_bitmapscan'', toBool),
      (''enable_hashagg'', toBool),
      (''enable_hashjoin'', toBool),
      (''enable_indexonlyscan'', toBool),
      (''enable_indexscan'', toBool),
      (''enable_material'', toBool),
      (''enable_mergejoin'', toBool),
      (''enable_nestloop'', toBool),
      (''enable_seqscan'', toBool),
      (''enable_sort'', toBool),
      (''enable_tidscan'', toBool),
      (''force_parallel_mode'', inEnum [''off'', ''on'', ''regress'']),
      (''from_collapse_limit'', intWithinRange 1 maxInt32),
      (''geqo'', toBool),
      (''geqo_effort'', intWithinRange 1 10),
      (''geqo_generations'', intWithinRange 0 maxInt32),
      (''geqo_pool_size'', intWithinRange 0 maxInt32),
      (''geqo_seed'', floatWithinRange flt 0 1),
      (''geqo_selection_bias'', floatWithinRange flt (3/2) 2),
      (''geqo_threshold'', intWithinRange 2 maxInt32),
      (''gin_fuzzy_search_limit'', intWithinRange 0 maxInt32),
      (''gin_pending_list_limit'', intWithinRange 64 maxInt32),
      (''hot_standby_feedback'', toBool),
      (''huge_pages'', inEnum [''try'', ''off'']),
      (''idle_in_transaction_session_timeout'', intWithinRange 0 maxInt32),
      (''join_collapse_limit'', intWithinRange 1 maxInt32),
      (''lock_timeout'', intWithinRange 0 maxInt32),
      (''log_autovacuum_min_duration'', intWithinRange (-1) maxInt32),
      (''log_checkpoints'', toBool),
      (''log_connections'', toBool),
      (''log_disconnections'', toBool),
      (''log_duration'', toBool),
      (''log_error_verbosity'', inEnum [''terse'', ''default'', ''verbose'']),
      (''log_executor_stats'', toBool),
      (''log_hostname'', toBool),
      (''log_lock_waits'', toBool),
      (''log_min_duration_statement'', intWithinRange (-1) maxInt32),
      (''log_min_error_statement'', inEnum [''debug5'', ''debug4'', ''debug3'', ''debug2'', ''debug1'', ''info'', ''notice'', ''warning'', ''error'', ''log'', ''fatal'', ''panic'']),
      (''log_min_messages'', inEnum [''debug5'', ''debug4'', ''debug3'', ''debug2'', ''debug1'', ''info'', ''notice'', ''warning'', ''error'', ''log'', ''fatal'', ''panic'']),
      (''log_parser_stats'', toBool),
      (''log_planner_stats'', toBool),
      (''log_replication_commands'', toBool),
      (''log_statement'', inEnum [''none'', ''ddl'', ''mod'', ''all'']),
      (''log_statement_stats'', toBool),
      (''log_temp_files'', intWithinRange (-1) maxInt32),
      (''maintenance_work_mem'', intWithinRange 1024 maxInt32),
      (''max_connections'', intWithinRange 1 maxInt32),
      (''max_locks_per_transaction'', intWithinRange 10 maxInt32),
      (''max_logical_replication_workers'', intWithinRange 4 8192),
      (''max_parallel_maintenance_workers'', intWithinRange 0 maxInt32),
      (''max_parallel_workers'', intWithinRange 0 maxInt32),
      (''max_parallel_workers_per_gather'', intWithinRange 0 maxInt32),
      (''max_pred_locks_per_page'', intWithinRange 0 maxInt32),
      (''max_pred_locks_per_relation'', intWithinRange (-2147483648) maxInt32),
      (''max_pred_locks_per_transaction'', intWithinRange 0 1048576),
      (''max_prepared_transactions'', intWithinRange 0 maxInt32),
      (''max_replication_slots'', intWithinRange 10 maxInt32),
      (''max_standby_archive_delay'', intWithinRange (-1) maxInt32),
      (''max_standby_streaming_delay'', intWithinRange (-1) maxInt32),
      (''max_sync_workers_per_subscription'', intWithinRange 2 64),
      (''max_wal_senders'', intWithinRange 10 maxInt32),
      (''max_wal_size'', intWithinRange 2 maxInt32),
      (''max_worker_processes'', intWithinRange 8 maxInt32),
      (''min_parallel_relation_size'', unit eightk),
      (''min_wal_size'', unit 16777216),
      (''old_snapshot_threshold'', intWithinRange 0 86400),
      (''parallel_setup_cost'', floatWithinRange flt 0 maxFloat32),
      (''parallel_tuple_cost'', floatWithinRange flt 0 maxFloat32),
      (''password_encryption'', inEnum [''md5'', ''scram-sha-256'']),
      (''pg_bigm.enable_recheck'', toBool),
      (''pg_bigm.gin_key_limit'', intWithinRange 0 maxInt32),
      (''pg_bigm.pg_bigm.similarity_limit'', floatWithinRange flt 0 1),
      (''pg_hint_plan.enable_hint'', toBool),
      (''pg_hint_plan.debug_print'', inEnum [''off'', ''on'', ''detailed'', ''verbose'', ''0'', ''1'', ''2'', ''3'', ''no'', ''yes'', ''false'', ''true'']),
      (''pg_hint_plan.parse_messages'', inEnum [''debug5'', ''debug4'', ''debug3'', ''debug2'', ''debug1'', ''debug'', ''info'', ''notice'', ''warning'', ''error'', ''log'']),
      (''pg_hint_plan.message_level'', inEnum [''debug5'', ''debug4'', ''debug3'', ''debug2'', ''debug1'', ''debug'', ''info'', ''notice'', ''warning'', ''error'', ''log'']),
      (''pg_hint_plan.enable_hint_table'', toBool),
      (''pglogical.batch_inserts'', toBool),
      (''pglogical.conflict_log_level'', notEmpty),
      (''pglogical.conflict_resolution'', inEnum [''error'', ''apply_remote'', ''keep_local'', ''last_update_wins'', ''first_update_wins'']),
      (''pglogical.extra_connection_options'', notEmpty),
      (''pglogical.synchronous_commit'', toBool),
      (''pglogical.pglogical.use_spi'', toBool),
      (''pg_stat_statements.max'', intWithinRange 100 maxInt32),
      (''pg_stat_statements.save'', toBool),
      (''pg_stat_statements.track'', inEnum [''none'', ''top'', ''all'']),
      (''pg_stat_statements.track_utility'', toBool),
      (''pgaudit.log'', inEnum [''read'', ''write'', ''function'', ''role'', ''ddl'', ''misc'', ''misc_set'', ''all'', ''none'']),
      (''pgaudit.log_catalog'', toBool),
      (''pgaudit.log_level'', inEnum [''debug5'', ''debug4'', ''debug3'', ''debug2'', ''debug1'', ''info'', ''notice'', ''warning'', ''error'', ''log'']),
      (''pgaudit.log_parameter'', toBool),
      (''pgaudit.pgaudit.log_relation'', toBool),
      (''pgaudit.log_statement_once'', toBool),
      (''pgaudit.role'', notEmpty),
      (''random_page_cost'', floatWithinRange flt 0 maxFloat32),
      (''session_replication_role'', inEnum [''origin'', ''replica'', ''local'']),
      (''replacement_sort_tuples'', intWithinRange 0 maxInt32),
      (''shared_buffers'', unit eightk),
      (''ssl_max_protocol_version'', inEnum [''TLSv1'', ''TLSv1.1'', ''TLSv1.2'', ''TLSv1.3'']),
      (''ssl_min_protocol_version'', inEnum [''TLSv1'', ''TLSv1.1'', ''TLSv1.2'', ''TLSv1.3'']),
      (''standard_conforming_strings'', toBool),
      (''synchronize_seqscans'', toBool),
      (''tcp_keepalives_count'', intWithinRange 0 maxInt32),
      (''tcp_keepalives_idle'', intWithinRange 0 maxInt32),
      (''tcp_keepalives_interval'', intWithinRange 0 maxInt32),
      (''temp_buffers'', unit eightk),
      (''temp_file_limit'', intWithinRange 1048576 maxInt32),
      (''trace_notify'', toBool),
      (''trace_recovery_messages'', inEnum [''debug5'', ''debug4'', ''debug3'', ''debug2'', ''debug1'', ''log'', ''notice'', ''warning'', ''error'']),
      (''trace_sort'', toBool),
      (''track_activities'', toBool),
      (''track_activity_query_size'', intWithinRange 100 102400),
      (''track_commit_timestamp'', toBool),
      (''track_counts'', toBool),
      (''track_functions'', inEnum [''none'', ''pl'', ''all'']),
      (''track_io_timing'', toBool),
      (''vacuum_cost_delay'', intWithinRange 0 100),
      (''vacuum_cost_limit'', intWithinRange 1 10000),
      (''vacuum_freeze_min_age'', intWithinRange 0 1000000000),
      (''vacuum_freeze_table_age'', intWithinRange 0 2000000000),
      (''vacuum_multixact_freeze_min_age'', intWithinRange 0 1000000000),
      (''vacuum_multixact_freeze_table_age'', intWithinRange 0 2000000000),
      (''wal_buffers'', unit eightk),
      (''wal_compression'', toBool),
      (''wal_receiver_timeout'', intWithinRange 0 maxInt32),
      (''wal_sender_timeout'', intWithinRange 0 maxInt32),
      (''work_mem'', intWithinRange 64 maxInt32)]"

definition ValidateFlag :: "float_format \<Rightarrow> string \<Rightarrow> string \<Rightarrow> error" where
  "ValidateFlag flt key value = (case map_of (validators flt) key of
       None \<Rightarrow> Some (errorf (''couldn't find validator for instance flag '' @ in_quotes key))
     | Some validatorFunc \<Rightarrow> validatorFunc value)"

section \<open>What the validators accept\<close>

lemma toInt_Itoa: "- (2 ^ 63) \<le> i \<Longrightarrow> i < 2 ^ 63 \<Longrightarrow> toInt (Itoa i) = Inr i"
  by (simp add: toInt_def Atoi_def ParseInt_Itoa)

lemma intWithinRange_Itoa:
  "- (2 ^ 63) \<le> i \<Longrightarrow> i < 2 ^ 63 \<Longrightarrow> intWithinRange mn mx (Itoa i) = None \<longleftrightarrow> mn \<le> i \<and> i \<le> mx"
  by (auto simp: intWithinRange_def toInt_Itoa)

lemma unit_Itoa: "- (2 ^ 63) \<le> i \<Longrightarrow> i < 2 ^ 63 \<Longrightarrow> unit k (Itoa i) = None \<longleftrightarrow> k dvd i"
  by (auto simp: unit_def toInt_Itoa)

lemma inEnum_Join:
  assumes "vs \<noteq> []" and "\<forall>v \<in> set vs. CHR '','' \<notin> set v"
  shows "inEnum allowed (Join vs '','') = None \<longleftrightarrow> set vs \<subseteq> set allowed"
  using Split_Join[of vs "CHR '',''"] assms by (auto simp: inEnum_def list_all_iff)

definition rejects_empty :: "flagValidator \<Rightarrow> bool" where
  "rejects_empty v \<longleftrightarrow> v [] \<noteq> None"

lemma empty_rejected [simp]:
  "rejects_empty toBool" "rejects_empty notEmpty" "rejects_empty (intWithinRange mn mx)" "rejects_empty (unit k)"
  "[] \<notin> set allowed \<Longrightarrow> rejects_empty (inEnum allowed)"
  "flt_Parse flt [] = None \<Longrightarrow> rejects_empty (floatWithinRange flt a b)"
  by (simp_all add: rejects_empty_def toBool_def notEmpty_def intWithinRange_def unit_def toInt_def Atoi_def ParseInt_def
      inEnum_def floatWithinRange_def toFloat_def Split_def)

lemma validators_reject_empty: "flt_Parse flt [] = None \<Longrightarrow> list_all (\<lambda>(key, v). rejects_empty v) (validators flt)"
  by (simp add: validators_def del: power_numeral)

text \<open>C31. The validation of flags: a flag that is not in the table is rejected; no flag accepts an empty value; a boolean
  flag accepts exactly \<open>on\<close> and \<open>off\<close>; and of the integers of Go, printed in decimal, a flag with a range accepts exactly those of the range,
  a flag with a unit exactly the multiples of the unit; of the comma-separated lists an enumeration accepts exactly those of
  its values.\<close>

theorem ValidateFlag_accepts:
  assumes "flt_Parse flt [] = None" and "- (2 ^ 63) \<le> i" and "i < 2 ^ 63"
    and "vs \<noteq> []" and "\<forall>x \<in> set vs. CHR '','' \<notin> set x"
  shows "(map_of (validators flt) key = None \<longrightarrow> ValidateFlag flt key str \<noteq> None) \<and> ValidateFlag flt key [] \<noteq> None
    \<and> (map_of (validators flt) key = Some toBool \<longrightarrow> (ValidateFlag flt key str = None \<longleftrightarrow> str \<in> {''on'', ''off''}))
    \<and> (map_of (validators flt) key = Some (intWithinRange mn mx) \<longrightarrow>
        (ValidateFlag flt key (Itoa i) = None \<longleftrightarrow> mn \<le> i \<and> i \<le> mx))
    \<and> (map_of (validators flt) key = Some (unit k) \<longrightarrow> (ValidateFlag flt key (Itoa i) = None \<longleftrightarrow> k dvd i))
    \<and> (map_of (validators flt) key = Some (inEnum allowed) \<longrightarrow>
        (ValidateFlag flt key (Join vs '','') = None \<longleftrightarrow> set vs \<subseteq> set allowed))"
proof -
  have "ValidateFlag flt key [] \<noteq> None"
  proof (cases "map_of (validators flt) key")
    case (Some f)
    then have "rejects_empty f"
      using validators_reject_empty[OF assms(1)] map_of_SomeD[OF Some] unfolding list_all_iff by blast
    with Some show ?thesis by (simp add: ValidateFlag_def rejects_empty_def)
  qed (simp add: ValidateFlag_def)
  then show ?thesis
    using intWithinRange_Itoa[OF assms(2,3), of mn mx] unit_Itoa[OF assms(2,3), of k]
      inEnum_Join[OF assms(4,5), of allowed]
    by (simp add: ValidateFlag_def toBool_def)
qed

text \<open>What is not a number passes every range of floats, and a flag of PostgreSQL is misspelt in the table.\<close>

lemma default_transaction_deferrable_unknown: "ValidateFlag flt ''default_transaction_deferrable'' ''on'' \<noteq> None"
proof -
  have "map_of (validators flt) ''default_transaction_deferrable'' = None" by code_simp
  then show ?thesis by (simp add: ValidateFlag_def)
qed

lemma NaN_accepted: "flt_Parse flt s = Some NaN \<Longrightarrow> floatWithinRange flt mn mx s = None"
  by (simp add: floatWithinRange_def toFloat_def)

lemma commit_siblings_validator: "map_of (validators flt) ''commit_siblings'' = Some (intWithinRange 0 1000)"
  by (simp only: validators_def map_of_Cons_code list.inject list.distinct char.inject simp_thms if_False if_True)

end
