(* ===== verification/Component_Witnesses.thy ===== *)
theory Component_Witnesses
  imports Creator_Witnesses Google Login_Paths Observability Sql_Flags
begin

text \<open>
  One small manifest for each group of creators (Vault, OpenTelemetry, Aiven, Postgres, Cloud SQL): the cases in which the
  hypotheses of the properties of these creators hold.
\<close>

definition on_features :: features where
  "on_features = sample_features\<lparr>fe_CNRM := True, fe_GCP := True, fe_Kafkarator := True, fe_Vault := True\<rparr>"

definition on_options :: options where
  "on_options = new_options (sample_config\<lparr>cfg_Features := on_features, cfg_GoogleProjectID := ''project'',
     cfg_GoogleCloudSQLProxyContainerImage := ''proxy:1'', cfg_AivenProject := ''aiven'',
     cfg_Vault := \<lparr>vc_address = ''https://vault'', vc_init_container_image = ''vks:1'', vc_auth_path = ''auth'',
       vc_kv_path = ''/kv''\<rparr>\<rparr>)"

lemmas on_defs = on_options_def on_features_def sample_features_def sample_config_def new_options_def

section \<open>Vault\<close>

definition vault_app :: source where
  "vault_app = sample_app\<lparr>src_spec := sample_spec\<lparr>ws_vault := Some \<lparr>vlt_enabled = True,
     vlt_paths = [\<lparr>sp_mount_path = ''/secrets'', sp_kv_path = ''/kv/extra'', sp_format = []\<rparr>]\<rparr>\<rparr>\<rparr>"

theorem vault_Create_mounts_witness:
  "\<exists>a' ms c. vault_Create sample_lib vault_app on_options NewAst = Inr a' \<and> ast_volume_mounts a' = ms
     \<and> ast_init_containers a' = [c] \<and> c_volume_mounts c = ms \<and> distinct (map vm_mount_path ms)"
proof -
  obtain a' where a': "vault_Create sample_lib vault_app on_options NewAst = Inr a'"
  proof -
    have "isl (vault_Create sample_lib vault_app on_options NewAst) = False" by code_simp
    then show thesis using that by (cases "vault_Create sample_lib vault_app on_options NewAst") auto
  qed
  have "ws_vault (src_spec vault_app) = Some \<lparr>vlt_enabled = True,
     vlt_paths = [\<lparr>sp_mount_path = ''/secrets'', sp_kv_path = ''/kv/extra'', sp_format = []\<rparr>]\<rparr>"
    "IsVaultEnabled on_options" by (simp_all add: vault_app_def on_defs)
  from vault_Create_mounts[OF this(1) _ this(2), of sample_lib NewAst] a' show ?thesis
    by (fastforce simp: NewAst_def)
qed

section \<open>OpenTelemetry\<close>

definition otel_env :: "env_var list" where
  "otel_env = [value_env ''OTEL_RESOURCE_ATTRIBUTES'' ''service.name=mine,team.color=red'', value_env ''A'' ''1'']"


section \<open>Wonderwall\<close>

definition login_config :: wonderwall_configuration where
  "login_config = \<lparr>wwc_acr_values = [], wwc_auto_login = True, wwc_ignore_paths = [''open'', ''/open'', ''/public''],
     wwc_needs_encryption_secret = False, wwc_provider = ''idporten'', wwc_resources = None, wwc_secret_names = [''s''],
     wwc_ui_locales = []\<rparr>"

definition login_app :: source where
  "login_app = sample_app\<lparr>src_spec := sample_spec\<lparr>ws_ingresses := [''https://a.no'', ''https://b.no'']\<rparr>\<rparr>"


section \<open>Aiven\<close>

definition kafka_app :: source where
  "kafka_app = sample_app\<lparr>src_spec := sample_spec\<lparr>ws_kafka := Some \<lparr>kfk_pool = ''pool'', kfk_streams = False\<rparr>\<rparr>\<rparr>"

theorem aiven_Create_secrets_witness:
  "\<exists>a' spec rop. aiven_Create sample_lib kafka_app on_options NewAst = Inr a' \<and> ast_operations a' = [rop]
     \<and> obj_payload (op_resource rop) = PAivenApplication spec
     \<and> (\<forall>e \<in> set (ast_env a'). \<forall>n k opt. ev_value_from e = Some (SecretKeyRef n k opt) \<longrightarrow> n \<in> aiven_secrets spec)"
proof -
  obtain a' where a': "aiven_Create sample_lib kafka_app on_options NewAst = Inr a'"
    by (simp add: aiven_Create_def aiven_Kafka_def aiven_OpenSearch_def aiven_Valkey_def kafka_app_def sample_app_def sample_spec_def
        generateAivenSecretName_def sample_lib_def sample_names_def Let_def on_defs)
  have uses: "uses_aiven kafka_app on_options" by (simp add: uses_aiven_def kafka_app_def on_defs)
  from aiven_Create_secrets[OF a'] obtain envs spec rop ops where
    "ast_env a' = envs @ []" "ast_operations a' = ops @ [rop]" and payload: "obj_payload (op_resource rop) = PAivenApplication spec"
    and envs: "\<forall>e \<in> set envs. \<forall>n k opt. ev_value_from e = Some (SecretKeyRef n k opt) \<longrightarrow> k = ev_name e \<and> n \<in> aiven_secrets spec"
    by (auto simp: uses NewAst_def)
  moreover from a' have "length (ast_operations a') = 1"
    by (auto simp: aiven_Create_def aiven_Kafka_def aiven_OpenSearch_def aiven_Valkey_def kafka_app_def sample_app_def sample_spec_def
        generateAivenSecretName_def sample_lib_def sample_names_def Let_def on_defs NewAst_def result_simps
        addKafkaEnvVariables_def createKafkaKeyToPaths_def PrependEnv_def add_volume_def set_label_def)
  ultimately show ?thesis using a' by (cases ops) auto
qed

section \<open>Postgres\<close>

definition cluster_app :: source where
  "cluster_app = sample_app\<lparr>src_spec := sample_spec\<lparr>ws_postgres_cluster := Some ''pg''\<rparr>\<rparr>"

definition cluster_options :: options where
  "cluster_options = on_options\<lparr>opt_PostgresClusterEngine := ''cnpg''\<rparr>"


section \<open>Cloud SQL\<close>

definition sql_manifest :: sql_instance_manifest where
  "sql_manifest = (default_sql_instance sample_lib ''app'')\<lparr>sim_type := ''POSTGRES_17'', sim_tier := ''db-f1-micro''\<rparr>"

definition sql_gcp :: gcp_spec where
  "sql_gcp = \<lparr>gcp_buckets = [], gcp_bigquery = [], gcp_sql_instances = [sql_manifest], gcp_permissions = []\<rparr>"

definition sql_app :: source where
  "sql_app = sample_app\<lparr>src_spec := sample_spec\<lparr>ws_gcp := Some sql_gcp\<rparr>\<rparr>"

lemma sql_app_gcp: "ws_gcp (src_spec sql_app) = Some sql_gcp" "gcp_sql_instances sql_gcp \<noteq> []"
  by (simp_all add: sql_app_def sql_gcp_def)

lemma sample_lib_simps:
  "ng_ShortName sample_names x n = Inr (take n x)" "lib_api sample_lib = sample_api" "lib_names sample_lib = sample_names"
  "lib_ParseQuantity sample_lib = Some" "am_Instance sample_api sql_gcp = Some sql_manifest"
  by (simp_all add: sample_lib_def sample_names_def sample_api_def sql_gcp_def)

definition sql_merged :: sql_instance_manifest where
  "sql_merged = sql_manifest\<lparr>sim_auto_backup_hour := Some 2, sim_name := ''app''\<rparr>"

lemma sql_app_instance:
  "NaisCloudSqlInstanceWithDefaults sample_lib (am_Instance (lib_api sample_lib) sql_gcp) (src_name sql_app) = Inr sql_merged"
  by (simp add: NaisCloudSqlInstanceWithDefaults_def sample_lib_simps sample_api_def sql_gcp_def sql_merged_def sql_manifest_def
      default_sql_instance_def sql_app_def sample_app_def Let_def)

lemma sql_merged_simps:
  "\<not> sim_cascading_delete sql_merged" "sim_tier sql_merged = ''db-f1-micro''" "sim_auto_backup_hour sql_merged = Some 2"
  "sim_databases sql_merged = [\<lparr>sdm_name = ''app'', sdm_env_var_prefix = [], sdm_users = None\<rparr>]"
  by (simp_all add: sql_merged_def sql_manifest_def default_sql_instance_def)

lemma sql_app_returns: "\<exists>a'. sql_CreateInstance sample_lib sql_app on_options NewAst = Inr a'"
proof -
  have "am_Database sample_api sql_merged = Some \<lparr>sdm_name = ''app'', sdm_env_var_prefix = [], sdm_users = None\<rparr>"
    by (simp add: sample_api_def sql_merged_simps)
  moreover have "length (gcp_sql_instances sql_gcp) = 1" "\<not> ShouldCreateSqlInstanceInSharedVpc on_options"
    by (simp_all add: sql_gcp_def on_defs)
  moreover obtain pw where "\<And>n. GeneratePassword sample_lib n = Inr (pw n)"
    by (simp add: GeneratePassword_def sample_lib_simps sample_names_def)
  moreover note sql_app_instance[unfolded sample_lib_simps]
  ultimately show ?thesis
    by (simp add: sql_CreateInstance_def sql_app_gcp(1) CreateGoogleSqlInstance_def CreateGoogleSQLDatabase_def
        CreateGoogleSQLUsers_def MergeAndFilterDatabaseSQLUsers_def add_sql_user_def createSqlUserDBResources_def
        googleSQLSecretName_def user_Create_def user_isDefault_def
        CloudSqlProxyContainer_def ResourceLimits_def resource_list_def MustParse_def sample_lib_simps sql_merged_simps Let_def)
qed

lemma sql_instance_created:
  assumes "sql_CreateInstance lib s cfg a = Inr a'" "ws_gcp (src_spec s) = Some g" "gcp_sql_instances g \<noteq> []"
  obtains rop where "rop \<in> set (ast_operations a')" "obj_type (op_resource rop) = TSQLInstance"
  using assms
proof (cases rule: sql_CreateInstanceE)
  case (1 inst meta spec db sqlDatabase a2)
  have "extends_with (\<lambda>_. True) (AppendOperation OperationCreateOrUpdate sqlDatabase
       (AppendOperation OperationCreateIfNotExists (CreateIAMPolicyMemberForInstance lib s (om_name meta) cfg)
         (AppendOperation OperationCreateOrUpdate (sql_instance_object meta spec) a))) a2"
    using CreateGoogleSQLUsers_step[OF creator_step_refl 1(6)] by (auto simp: creator_step_def elim: extends_with_mono)
  then have "\<lparr>op_resource = sql_instance_object meta spec, op_operation = OperationCreateOrUpdate\<rparr> \<in> set (ast_operations a2)"
    by (auto simp: extends_with_def)
  moreover have "set (ast_operations a2) \<subseteq> set (ast_operations a')"
    using 1(7) by (auto split: if_splits elim!: CreateSqlSSLCertResourceE)
  ultimately show thesis by (intro that) (auto simp: sql_instance_object_def obj_type_def)
qed

theorem sql_CreateInstance_connection_witness:
  "\<exists>a' spec c. sql_CreateInstance sample_lib sql_app on_options NewAst = Inr a'
     \<and> PSQLInstance spec \<in> (obj_payload \<circ> op_resource) ` set (ast_operations a')
     \<and> sis_private_network (si_settings spec) = None \<and> ast_init_containers a' = [c] \<and> c_name c = ''cloudsql-proxy''"
proof -
  obtain a' where a': "sql_CreateInstance sample_lib sql_app on_options NewAst = Inr a'" using sql_app_returns by blast
  have "\<not> ShouldCreateSqlInstanceInSharedVpc on_options" by (simp add: on_defs)
  then show ?thesis using sql_CreateInstance_connection[OF a' sql_app_gcp] a' by (fastforce simp: NewAst_def)
qed

theorem sql_CreateInstance_keeps_data_witness:
  "\<exists>a' rop. sql_CreateInstance sample_lib sql_app on_options NewAst = Inr a' \<and> rop \<in> set (ast_operations a')
     \<and> obj_type (op_resource rop) = TSQLInstance
     \<and> annotation (obj_meta (op_resource rop)) DeletionPolicyAnnotation = DeletionPolicyAbandon"
proof -
  obtain a' where a': "sql_CreateInstance sample_lib sql_app on_options NewAst = Inr a'" using sql_app_returns by blast
  obtain rop where rop: "rop \<in> set (ast_operations a')" "obj_type (op_resource rop) = TSQLInstance"
    using sql_instance_created[OF a' sql_app_gcp] .
  have "lib_CorrelationIDAnnotation sample_lib \<noteq> DeletionPolicyAnnotation" by (simp add: sample_lib_def)
  from sql_CreateInstance_keeps_data[OF a' sql_app_gcp(1) sql_app_instance this, of rop] rop sql_merged_simps(1) a' show ?thesis
    by (auto simp: NewAst_def)
qed

section \<open>Flags of Cloud SQL\<close>

theorem ValidateFlag_accepts_witness:
  "ValidateFlag \<lparr>flt_Parse = \<lambda>s. None, flt_Format = \<lambda>f. []\<rparr> ''commit_siblings'' (Itoa 7) = None"
  using ValidateFlag_accepts[of "\<lparr>flt_Parse = \<lambda>s. None, flt_Format = \<lambda>f. []\<rparr>" 7 "[''a'']" "''commit_siblings''" "[]" 0 1000 1 "[]"]
  by (simp add: commit_siblings_validator)

end
