(* ===== verification/Pod_Sidecars.thy ===== *)
theory Pod_Sidecars
  imports Google Aiven Ingress
begin

text \<open>
  Which sidecars each creator adds to the pod. The locale \<open>sidecar_creator\<close> is the contract: the names of the
  init containers that a successful call appends, with what every one of them respects of ports. A creator that
  adds none is a \<open>quiet_creator\<close>, which is a special case. The contract is proved for every creator that the
  generators call (src/pkg/generators/application.go and naisjob.go).
\<close>

definition container_ports_of :: "container \<Rightarrow> int set" where
  "container_ports_of c = cp_port ` set (c_ports c)"

text \<open>
  A sidecar leaves the port of the application to the application, except for the Cloud SQL proxy, for which
  nothing checks it. Wonderwall listens on the port that the Service targets, and is there only for a manifest that
  asks for one login provider.
\<close>

definition one_login_provider :: "source \<Rightarrow> bool" where
  "one_login_provider s \<longleftrightarrow> \<not> (idporten_sidecar_enabled s \<and> azure_sidecar_enabled s)
     \<and> \<not> (idporten_sidecar_enabled s \<and> ws_login (src_spec s) \<noteq> None)
     \<and> \<not> (azure_sidecar_enabled s \<and> ws_login (src_spec s) \<noteq> None)"

definition sidecar_ok :: "source \<Rightarrow> container \<Rightarrow> bool" where
  "sidecar_ok s c \<longleftrightarrow> (c_name c \<noteq> ''cloudsql-proxy'' \<longrightarrow> ws_port (src_spec s) \<notin> container_ports_of c)
     \<and> (c_name c = ''wonderwall'' \<longrightarrow> wonderwall_Port \<in> container_ports_of c \<and> one_login_provider s)"

definition adds_sidecars :: "source \<Rightarrow> string list \<Rightarrow> ast \<Rightarrow> ast \<Rightarrow> bool" where
  "adds_sidecars s names a a' \<longleftrightarrow> (\<exists>cs. ast_init_containers a' = ast_init_containers a @ cs
     \<and> map c_name cs = names \<and> list_all (sidecar_ok s) cs)"

lemma adds_sidecars_none: "ast_init_containers a' = ast_init_containers a \<Longrightarrow> adds_sidecars s [] a a'"
  by (simp add: adds_sidecars_def)

lemma adds_sidecars_one:
  "ast_init_containers a' = ast_init_containers a @ [c] \<Longrightarrow> c_name c = n \<Longrightarrow> sidecar_ok s c \<Longrightarrow> adds_sidecars s [n] a a'"
  by (simp add: adds_sidecars_def)

lemma adds_sidecars_trans:
  "adds_sidecars s ns a b \<Longrightarrow> adds_sidecars s ms b c \<Longrightarrow> adds_sidecars s (ns @ ms) a c"
  unfolding adds_sidecars_def by (elim exE conjE) (rule_tac x = "cs @ csa" in exI, simp)

section \<open>The contract\<close>

locale sidecar_creator =
  fixes create :: "liberator \<Rightarrow> source \<Rightarrow> 'cfg \<Rightarrow> ast \<Rightarrow> ast result"
    and names :: "source \<Rightarrow> 'cfg \<Rightarrow> string list"
  assumes create_sidecars: "create lib s cfg a = Inr a' \<Longrightarrow> adds_sidecars s (names s cfg) a a'"
begin

lemma sidecars_then:
  assumes "create lib s cfg b = Inr c" and "adds_sidecars s ns a b"
  shows "adds_sidecars s (ns @ names s cfg) a c"
  using assms(2) create_sidecars[OF assms(1)] by (rule adds_sidecars_trans)

end

locale quiet_creator =
  fixes create :: "liberator \<Rightarrow> source \<Rightarrow> 'cfg \<Rightarrow> ast \<Rightarrow> ast result"
  assumes create_quiet: "create lib s cfg a = Inr a' \<Longrightarrow> ast_init_containers a' = ast_init_containers a"
begin

lemma quiet_then:
  "create lib s cfg b = Inr c \<Longrightarrow> ast_init_containers b = cs \<Longrightarrow> ast_init_containers c = cs"
  using create_quiet by metis

end

sublocale quiet_creator \<subseteq> sidecar_creator create "\<lambda>s cfg. []"
  by unfold_locales (rule adds_sidecars_none[OF create_quiet])

section \<open>Creators without sidecars\<close>

lemma init_containers_simps [simp]:
  "ast_init_containers (a\<lparr>ast_labels := ls\<rparr>) = ast_init_containers a"
  "ast_init_containers (add_volume v m a) = ast_init_containers a"
  "ast_init_containers (mountToken a) = ast_init_containers a"
  by (simp_all add: add_volume_def mountToken_def)

interpretation service_q: quiet_creator "\<lambda>lib s cfg a. Inr (service_Create lib s cfg a)"
  by unfold_locales (auto simp: service_Create_def Let_def)

interpretation serviceaccount_q: quiet_creator "\<lambda>lib s cfg a. Inr (serviceaccount_Create lib s cfg a)"
  by unfold_locales (auto simp: serviceaccount_Create_def Let_def)

interpretation hpa_q: quiet_creator "\<lambda>lib s (cfg :: unit) a. Inr (hpa_Create lib s a)"
  by unfold_locales (auto simp: hpa_Create_def Let_def)

interpretation networkpolicy_q: quiet_creator "\<lambda>lib s cfg a. Inr (networkpolicy_Create lib s cfg a)"
  by unfold_locales (auto simp: networkpolicy_Create_def)

interpretation fqdnpolicy_q: quiet_creator "\<lambda>lib s cfg a. Inr (fqdnpolicy_Create lib s cfg a)"
  by unfold_locales (auto simp: fqdnpolicy_Create_def split: option.splits)

interpretation frontend_q: quiet_creator frontend_Create
  by unfold_locales (auto simp: frontend_Create_def Let_def result_simps split: option.splits)

interpretation observability_q: quiet_creator observability_Create
  by unfold_locales (auto simp: observability_Create_def create_otel_def Let_def result_simps
      split: option.splits if_splits)

interpretation ingress_q: quiet_creator ingress_Create
proof
  fix lib s cfg a a'
  have "ast_init_containers (fold (\<lambda>ing. AppendOperation OperationCreateOrUpdate (ingress_object ing)) ings b) =
      ast_init_containers b" for ings b
    by (induction ings arbitrary: b) simp_all
  then show "ingress_Create lib s cfg a = Inr a' \<Longrightarrow> ast_init_containers a' = ast_init_containers a"
    by (auto simp: ingress_Create_def result_simps split: if_splits)
qed

interpretation postgres_q: quiet_creator postgres_Create
  by unfold_locales
    (auto simp: postgres_Create_def cnpg_Create_def cnpg_createNetworkPolicies_def cnpg_createPoolerNetworkPolicy_def
      cnpg_createSourceNetworkPolicy_def zalando_Create_def zalando_createNetworkPolicies_def
      zalando_createPoolerNetworkPolicy_def zalando_createSourceNetworkPolicy_def Let_def result_simps
      split: option.splits if_splits)

interpretation proxyopts_q: quiet_creator "\<lambda>lib. proxyopts_Create"
  by unfold_locales (auto simp: proxyopts_Create_def split: if_splits sum.splits)

interpretation maskinporten_q: quiet_creator "\<lambda>lib s cfg a. ast_of (maskinporten_Create lib s cfg a)"
  by unfold_locales (auto simp: maskinporten_Create_def result_simps split: option.splits if_splits)

interpretation certificateauthority_q: quiet_creator "\<lambda>lib s cfg a. Inr (certificateauthority_Create s cfg a)"
  by unfold_locales (auto simp: certificateauthority_Create_def Let_def)

interpretation pdb_q: quiet_creator "\<lambda>lib s (cfg :: unit) a. Inr (pdb_Create lib s a)"
  by unfold_locales (auto simp: pdb_Create_def Let_def)

interpretation jwker_q: quiet_creator "\<lambda>lib s cfg a. ast_of (jwker_Create lib s cfg a)"
  by unfold_locales (auto simp: jwker_Create_def Let_def result_simps split: if_splits)

lemma add_valkey_init:
  "add_valkey lib m v r = Inr r' \<Longrightarrow> ast_init_containers (snd r') = ast_init_containers (snd r)"
  by (cases r) (auto simp: add_valkey_def Let_def result_simps addValkeyEnvVariables_def addRedisEnvVariables_def
      split: if_splits)

lemma add_valkeys_init:
  assumes "foldM_result (add_valkey lib m) vs r = Inr r'"
  shows "ast_init_containers (snd r') = ast_init_containers (snd r)"
  using foldM_result_invariant[where P = "\<lambda>x. ast_init_containers (snd x) = ast_init_containers (snd r)"
      and f = "add_valkey lib m" and xs = vs] assms add_valkey_init by metis

interpretation aiven_q: quiet_creator aiven_Create
proof
  fix lib s cfg a a'
  have "aiven_Kafka lib s cfg m sp b = Inr (e, sp', b') \<Longrightarrow> ast_init_containers b' = ast_init_containers b" for m sp b e sp' b'
    by (cases "ws_kafka (src_spec s)") (auto simp: aiven_Kafka_def addKafkaEnvVariables_def createKafkaKeyToPaths_def
        Let_def result_simps split: if_splits)
  moreover have "aiven_OpenSearch lib s m sp b = Inr (e, sp', b') \<Longrightarrow> ast_init_containers b' = ast_init_containers b" for m sp b e sp' b'
    by (auto simp: aiven_OpenSearch_def addOpenSearchEnvVariables_def Let_def result_simps split: option.splits if_splits)
  moreover have "aiven_Valkey lib s cfg m sp b = Inr (e, sp', b') \<Longrightarrow> ast_init_containers b' = ast_init_containers b" for m sp b e sp' b'
    by (auto simp: aiven_Valkey_def result_simps split: if_splits dest!: add_valkeys_init)
  ultimately show "aiven_Create lib s cfg a = Inr a' \<Longrightarrow> ast_init_containers a' = ast_init_containers a"
    by (auto simp: aiven_Create_def Let_def result_simps)
qed

section \<open>Creators with a sidecar\<close>

lemma ports_of_simps [simp]:
  "container_ports_of (c\<lparr>c_env_from := fs\<rparr>) = container_ports_of c"
  "container_ports_of (c\<lparr>c_ports := ps\<rparr>) = cp_port ` set ps"
  by (simp_all add: container_ports_of_def)

lemma elector_container_ports:
  "elector_container lib n ns img = Inr c \<Longrightarrow> c_name c = ''elector'' \<and> container_ports_of c = {elector_Port}"
  by (auto simp: elector_container_def result_simps container_ports_of_def tcp_port_def)

interpretation leaderelection_s: sidecar_creator leaderelection_Create
  "\<lambda>s cfg. if ws_leader_election (src_spec s) then [''elector''] else []"
  by unfold_locales
    (auto simp: leaderelection_Create_def Let_def result_simps sidecar_ok_def adds_sidecars_def split: if_splits sum.splits
      dest!: elector_container_ports)

lemma sidecarContainer_ports:
  "sidecarContainer lib s cfg w = Inr c \<Longrightarrow>
     c_name c = ''wonderwall'' \<and> container_ports_of c = {wonderwall_Port, wonderwall_MetricsPort, wonderwall_ProbePort}"
  by (auto simp: sidecarContainer_def result_simps container_ports_of_def tcp_port_def)

lemma wonderwall_validate_ok:
  assumes "wonderwall_validate s cfg w = None"
  shows "ws_port (src_spec s) \<notin> {wonderwall_Port, wonderwall_MetricsPort, wonderwall_ProbePort}
    \<and> one_login_provider s"
  using assms by (simp add: wonderwall_validate_def one_login_provider_def Let_def split: if_splits)

lemma wonderwall_sidecar:
  assumes "wonderwall_Create lib s cfg w b = Inr a'" and "ast_init_containers b = ast_init_containers a"
  shows "adds_sidecars s [''wonderwall''] a a'"
proof -
  from assms(1) have ok: "wonderwall_validate s cfg w = None"
    by (auto simp: wonderwall_Create_def split: option.splits)
  with assms(1) obtain c where c: "sidecarContainer lib s cfg w = Inr c"
    by (auto simp: wonderwall_Create_def split: sum.splits)
  with assms ok obtain c' where "ast_init_containers a' = ast_init_containers a @ [c']" "c_name c' = c_name c"
      "container_ports_of c' = container_ports_of c"
    by (cases "wwc_needs_encryption_secret w") (auto simp: wonderwall_Create_def result_simps)
  moreover have "sidecar_ok s c'"
    using calculation sidecarContainer_ports[OF c] wonderwall_validate_ok[OF ok] by (simp add: sidecar_ok_def)
  ultimately show ?thesis using sidecarContainer_ports[OF c] adds_sidecars_one by metis
qed

interpretation azure_s: sidecar_creator "\<lambda>lib s cfg a. ast_of (azure_Create lib s cfg a)"
  "\<lambda>s cfg. if azure_sidecar_enabled s then [''wonderwall''] else []"
proof
  fix lib s cfg a a'
  assume ok: "ast_of (azure_Create lib s cfg a) = Inr a'"
  show "adds_sidecars s (if azure_sidecar_enabled s then [''wonderwall''] else []) a a'"
  proof (cases "azure_sidecar_enabled s")
    case True
    then obtain az sc where "ws_azure (src_spec s) = Some az" "az_sidecar az = Some sc" "wws_enabled sc"
      by (auto simp: azure_sidecar_enabled_def split: option.splits)
    with ok obtain i m spec spec1 b where "azure_sidecar lib s cfg sc i m spec b = Inr (spec1, a')"
      "ast_init_containers b = ast_init_containers a"
      by (auto simp: azure_Create_def Let_def result_simps split: if_splits)
    with True show ?thesis
      by (auto simp: azure_sidecar_def Let_def result_simps split: if_splits intro: wonderwall_sidecar)
  next
    case False
    with ok show ?thesis
      by (auto simp: azure_Create_def azure_sidecar_enabled_def Let_def result_simps split: option.splits if_splits
          intro!: adds_sidecars_none)
  qed
qed

definition idporten_on :: "source \<Rightarrow> bool" where
  "idporten_on s \<longleftrightarrow> (case ws_idporten (src_spec s) of None \<Rightarrow> False | Some idp \<Rightarrow> idp_enabled idp)"

interpretation idporten_s: sidecar_creator "\<lambda>lib s cfg a. ast_of (idporten_Create lib s cfg a)"
  "\<lambda>s cfg. if idporten_on s then [''wonderwall''] else []"
  by unfold_locales
    (auto simp: idporten_Create_def idporten_on_def Let_def result_simps split: option.splits if_splits
      intro!: adds_sidecars_none intro: wonderwall_sidecar)

interpretation login_s: sidecar_creator login_Create
  "\<lambda>s cfg. if ws_login (src_spec s) \<noteq> None then [''wonderwall''] else []"
  by unfold_locales
    (auto simp: login_Create_def result_simps split: option.splits if_splits
      intro!: adds_sidecars_none intro: wonderwall_sidecar)

lemma createInitContainer_sidecar: "c_name (createInitContainer lib s o' ps) = ''vks-init''"
  "sidecar_ok s (createInitContainer lib s o' ps)"
  by (simp_all add: createInitContainer_def sidecar_ok_def container_ports_of_def container_zero_def)

definition vault_on :: "source \<Rightarrow> options \<Rightarrow> bool" where
  "vault_on s cfg \<longleftrightarrow> IsVaultEnabled cfg
     \<and> (case ws_vault (src_spec s) of None \<Rightarrow> False | Some v \<Rightarrow> vlt_enabled v)"

interpretation vault_s: sidecar_creator vault_Create "\<lambda>s cfg. if vault_on s cfg then [''vks-init''] else []"
  by unfold_locales
    (auto simp: vault_Create_def vault_on_def Let_def createInitContainer_sidecar split: option.splits if_splits
      intro!: adds_sidecars_none adds_sidecars_one)

interpretation texas_s: sidecar_creator "\<lambda>lib s (cfg, clts). texas_Create lib s cfg clts"
  "\<lambda>s (cfg, clts). if IsTexasEnabled cfg \<and> \<not> clients_IsEmpty clts then [''texas''] else []"
  by unfold_locales
    (auto simp: texas_Create_def Let_def result_simps sidecar_ok_def adds_sidecars_def tcp_port_def container_ports_of_def
      split: if_splits)

section \<open>Google\<close>

definition sql_requested :: "source \<Rightarrow> bool" where
  "sql_requested s \<longleftrightarrow> (case ws_gcp (src_spec s) of None \<Rightarrow> False | Some g \<Rightarrow> gcp_sql_instances g \<noteq> [])"

definition sql_private :: "options \<Rightarrow> bool" where
  "sql_private cfg \<longleftrightarrow> ShouldCreateSqlInstanceInSharedVpc cfg
     \<and> (SqlInstanceHasPrivateIpInSharedVpc cfg \<or> \<not> SqlInstanceExists cfg)"

lemma cloudsql_proxy_ok: "c_name c = ''cloudsql-proxy'' \<Longrightarrow> sidecar_ok s c"
  by (simp add: sidecar_ok_def)

interpretation cloudsql_s: sidecar_creator sql_CreateInstance
  "\<lambda>s cfg. if sql_requested s \<and> \<not> sql_private cfg then [''cloudsql-proxy''] else []"
proof
  fix lib s cfg a a'
  assume ok: "sql_CreateInstance lib s cfg a = Inr a'"
  show "adds_sidecars s (if sql_requested s \<and> \<not> sql_private cfg then [''cloudsql-proxy''] else []) a a'"
  proof (cases "sql_requested s")
    case True
    then obtain g where "ws_gcp (src_spec s) = Some g" "gcp_sql_instances g \<noteq> []"
      by (auto simp: sql_requested_def split: option.splits)
    with ok show ?thesis
    proof (cases rule: sql_CreateInstanceE)
      case (1 inst meta spec db sqlDatabase a2)
      have "usingPrivateIP spec \<longleftrightarrow> sql_private cfg"
        using CreateGoogleSqlInstance_fields(2)[OF 1(3)] by (simp add: usingPrivateIP_def sql_private_def)
      moreover have "ast_init_containers a2 = ast_init_containers a" using foldM_sql_users_init[OF 1(6)] by simp
      ultimately show ?thesis using 1(7) True
        by (auto simp: sql_private_def split: if_splits dest!: CloudSqlProxyContainer_ok
            elim!: CreateSqlSSLCertResourceE intro!: adds_sidecars_none adds_sidecars_one cloudsql_proxy_ok)
    qed
  next
    case False
    with ok show ?thesis
      by (auto simp: sql_CreateInstance_def sql_requested_def split: option.splits intro!: adds_sidecars_none)
  qed
qed

lemma foldM_init:
  assumes "\<And>x a a'. f x a = Inr a' \<Longrightarrow> ast_init_containers a' = ast_init_containers a" and "foldM_result f xs a = Inr a'"
  shows "ast_init_containers a' = ast_init_containers a"
  using foldM_result_invariant[where P = "\<lambda>b. ast_init_containers b = ast_init_containers a" and f = f and xs = xs] assms
  by metis

interpretation policymember_q: quiet_creator iam_CreatePolicyMember
  by unfold_locales
    (auto simp: iam_CreatePolicyMember_def split: option.splits sum.splits elim!: foldM_init[rotated])

interpretation storagebucket_q: quiet_creator storagebucket_Create
  by unfold_locales
    (auto simp: storagebucket_Create_def add_bucket_def Let_def result_simps split: option.splits if_splits
      elim!: foldM_init[rotated])

interpretation bigquery_q: quiet_creator "\<lambda>lib s (cfg, n). bigquery_CreateDataset lib s cfg n"
  by unfold_locales
    (auto simp: bigquery_CreateDataset_def add_dataset_def Let_def result_simps split: option.splits if_splits
      elim!: foldM_init[rotated])

interpretation gcp_s: sidecar_creator gcp_Create
  "\<lambda>s cfg. if sql_requested s \<and> \<not> sql_private cfg then [''cloudsql-proxy''] else []"
proof
  fix lib s cfg a a'
  let ?ns = "if sql_requested s \<and> \<not> sql_private cfg then [''cloudsql-proxy''] else []"
  assume ok: "gcp_Create lib s cfg a = Inr a'"
  show "adds_sidecars s ?ns a a'"
  proof (cases "ws_gcp (src_spec s)")
    case None
    with ok show ?thesis
      by (auto simp: gcp_Create_def sql_requested_def Let_def split: if_splits intro!: adds_sidecars_none)
  next
    case (Some g)
    let ?sa = "iam_CreateServiceAccount lib s (GetGoogleProjectID cfg)"
    let ?a1 = "AppendOperation OperationCreateIfNotExists (iam_CreatePolicy lib s ?sa (GetGoogleProjectID cfg))
      (AppendOperation OperationCreateIfNotExists ?sa a)"
    from Some ok obtain a2 a3 a4 where "storagebucket_Create lib s cfg ?a1 = Inr a2"
      "bigquery_CreateDataset lib s cfg (obj_name ?sa) a2 = Inr a3"
      and sql: "sql_CreateInstance lib s cfg a3 = Inr a4" and "iam_CreatePolicyMember lib s cfg a4 = Inr a'"
      by (auto simp: gcp_Create_def Let_def result_simps split: if_splits)
    then have "ast_init_containers a3 = ast_init_containers a" "ast_init_containers a' = ast_init_containers a4"
      using storagebucket_q.create_quiet[of lib s cfg ?a1 a2] policymember_q.create_quiet
        bigquery_q.create_quiet[of lib s "(cfg, obj_name ?sa)" a2 a3] by simp_all
    then show ?thesis using cloudsql_s.create_sidecars[OF sql] by (simp add: adds_sidecars_def)
  qed
qed

end
