(* ===== verification/Pod_Labels.thy ===== *)
theory Pod_Labels
  imports Pod_Sidecars
begin

text \<open>
  Creators put labels on the pod that other parts of the cluster look for; none of them touches the labels \<open>app\<close>
  and \<open>team\<close>, by which the Deployment, the Service and the network policies select the pods of a workload. The
  locale \<open>label_creator\<close> is that contract, proved for every creator that the generators call.
\<close>

definition keeps_identity :: "ast \<Rightarrow> ast \<Rightarrow> bool" where
  "keeps_identity a a' \<longleftrightarrow> ast_labels a' ''app'' = ast_labels a ''app'' \<and> ast_labels a' ''team'' = ast_labels a ''team''"

lemma keeps_identity_refl [simp]: "keeps_identity a a"
  by (simp add: keeps_identity_def)

lemma keeps_identity_trans: "keeps_identity a b \<Longrightarrow> keeps_identity b c \<Longrightarrow> keeps_identity a c"
  by (simp add: keeps_identity_def)

locale label_creator =
  fixes create :: "liberator \<Rightarrow> source \<Rightarrow> 'cfg \<Rightarrow> ast \<Rightarrow> ast result"
  assumes create_labels: "create lib s cfg a = Inr a' \<Longrightarrow> keeps_identity a a'"
begin

lemma labels_then: "keeps_identity a b \<Longrightarrow> create lib s cfg b = Inr c \<Longrightarrow> keeps_identity a c"
  using create_labels keeps_identity_trans by blast

end

section \<open>Changes of the \<open>Ast\<close>\<close>

lemma keeps_identity_simps [simp]:
  "keeps_identity a (AppendOperation t ob b) = keeps_identity a b"
  "keeps_identity a (AppendEnv vs b) = keeps_identity a b" "keeps_identity a (PrependEnv vs b) = keeps_identity a b"
  "keeps_identity a (add_volume vol m b) = keeps_identity a b"
  "keeps_identity a (add_init_container c b) = keeps_identity a b"
  "keeps_identity a (mountToken b) = keeps_identity a b"
  "keeps_identity a (b\<lparr>ast_env_from := fs\<rparr>) = keeps_identity a b" "keeps_identity a (b\<lparr>ast_env := es\<rparr>) = keeps_identity a b"
  "keeps_identity a (b\<lparr>ast_volumes := us\<rparr>) = keeps_identity a b"
  "keeps_identity a (b\<lparr>ast_volume_mounts := ms\<rparr>) = keeps_identity a b"
  "keeps_identity a (b\<lparr>ast_annotations := an\<rparr>) = keeps_identity a b"
  "keeps_identity a (set_operation i ob b) = keeps_identity a b"
  "keeps_identity a (WithAdditionalSecret n p b) = keeps_identity a b"
  "keeps_identity a (WithAdditionalEnvFromSecret n b) = keeps_identity a b"
  "k \<noteq> ''app'' \<Longrightarrow> k \<noteq> ''team'' \<Longrightarrow> keeps_identity a (set_label k v b) = keeps_identity a b"
  by (simp_all add: keeps_identity_def AppendOperation_def AppendEnv_def PrependEnv_def add_volume_def
      add_init_container_def mountToken_def set_operation_def WithAdditionalSecret_def WithAdditionalEnvFromSecret_def
      set_label_def)

lemma keeps_identity_foldM:
  assumes "\<And>x a a'. f x a = Inr a' \<Longrightarrow> keeps_identity a a'" and "foldM_result f xs a = Inr a'"
  shows "keeps_identity a a'"
  using foldM_result_invariant[where P = "keeps_identity a" and f = f and xs = xs] assms keeps_identity_trans
    keeps_identity_refl by metis

section \<open>The creators\<close>

interpretation service_l: label_creator "\<lambda>lib s cfg a. Inr (service_Create lib s cfg a)"
  by unfold_locales (auto simp: service_Create_def Let_def)

interpretation serviceaccount_l: label_creator "\<lambda>lib s cfg a. Inr (serviceaccount_Create lib s cfg a)"
  by unfold_locales (auto simp: serviceaccount_Create_def Let_def)

interpretation hpa_l: label_creator "\<lambda>lib s (cfg :: unit) a. Inr (hpa_Create lib s a)"
  by unfold_locales (auto simp: hpa_Create_def Let_def)

interpretation pdb_l: label_creator "\<lambda>lib s (cfg :: unit) a. Inr (pdb_Create lib s a)"
  by unfold_locales (auto simp: pdb_Create_def Let_def)

interpretation networkpolicy_l: label_creator "\<lambda>lib s cfg a. Inr (networkpolicy_Create lib s cfg a)"
  by unfold_locales (auto simp: networkpolicy_Create_def)

interpretation fqdnpolicy_l: label_creator "\<lambda>lib s cfg a. Inr (fqdnpolicy_Create lib s cfg a)"
  by unfold_locales (auto simp: fqdnpolicy_Create_def split: option.splits)

interpretation certificateauthority_l: label_creator "\<lambda>lib s cfg a. Inr (certificateauthority_Create s cfg a)"
  by unfold_locales (auto simp: certificateauthority_Create_def Let_def)

interpretation frontend_l: label_creator frontend_Create
  by unfold_locales (auto simp: frontend_Create_def Let_def result_simps split: option.splits)

lemma logLabels_keys:
  assumes "logLabels logging cfg = Inr ls"
  shows "ls ''app'' = None \<and> ls ''team'' = None"
proof -
  have "foldM_result (add_log_destination cfg) ds m = Inr m' \<Longrightarrow> m ''app'' = None \<and> m ''team'' = None \<Longrightarrow>
      m' ''app'' = None \<and> m' ''team'' = None" for ds m m'
    by (rule foldM_result_invariant[where P = "\<lambda>m. m ''app'' = None \<and> m ''team'' = None"])
      (auto simp: add_log_destination_def split: if_splits)
  with assms show ?thesis by (auto simp: logLabels_def split: if_splits)
qed

lemma keeps_identity_log_labels:
  "logLabels logging cfg = Inr ls \<Longrightarrow> keeps_identity a (b\<lparr>ast_labels := ast_labels b ++ ls\<rparr>) = keeps_identity a b"
  by (drule logLabels_keys) (simp add: keeps_identity_def map_add_def)

interpretation observability_l: label_creator observability_Create
  by unfold_locales (auto simp: observability_Create_def create_otel_def Let_def result_simps keeps_identity_log_labels
      split: option.splits if_splits)

interpretation ingress_l: label_creator ingress_Create
proof
  fix lib s cfg a a'
  have "keeps_identity b (fold (\<lambda>ing. AppendOperation OperationCreateOrUpdate (ingress_object ing)) ings b)" for ings b
    by (induction ings arbitrary: b) (simp_all add: keeps_identity_def AppendOperation_def)
  then show "ingress_Create lib s cfg a = Inr a' \<Longrightarrow> keeps_identity a a'"
    by (auto simp: ingress_Create_def result_simps split: if_splits)
qed

interpretation leaderelection_l: label_creator leaderelection_Create
  by unfold_locales (auto simp: leaderelection_Create_def Let_def result_simps split: if_splits sum.splits)

lemma wonderwall_labels: "wonderwall_Create lib s cfg w b = Inr a' \<Longrightarrow> keeps_identity a b \<Longrightarrow> keeps_identity a a'"
  by (auto simp: wonderwall_Create_def result_simps split: option.splits sum.splits if_splits)

lemma azure_sidecar_labels:
  "azure_sidecar lib s cfg sc i m spec b = Inr (spec', a') \<Longrightarrow> keeps_identity a b \<Longrightarrow> keeps_identity a a'"
  by (auto simp: azure_sidecar_def Let_def result_simps split: if_splits elim!: wonderwall_labels)

interpretation azure_l: label_creator "\<lambda>lib s cfg a. ast_of (azure_Create lib s cfg a)"
  by unfold_locales
    (auto simp: azure_Create_def Let_def result_simps split: option.splits if_splits elim!: azure_sidecar_labels)

interpretation idporten_l: label_creator "\<lambda>lib s cfg a. ast_of (idporten_Create lib s cfg a)"
  by unfold_locales
    (auto simp: idporten_Create_def Let_def result_simps split: option.splits if_splits elim!: wonderwall_labels)

interpretation login_l: label_creator login_Create
  by unfold_locales (auto simp: login_Create_def result_simps split: option.splits if_splits elim!: wonderwall_labels)

interpretation maskinporten_l: label_creator "\<lambda>lib s cfg a. ast_of (maskinporten_Create lib s cfg a)"
  by unfold_locales (auto simp: maskinporten_Create_def result_simps split: option.splits if_splits)

interpretation jwker_l: label_creator "\<lambda>lib s cfg a. ast_of (jwker_Create lib s cfg a)"
  by unfold_locales (auto simp: jwker_Create_def Let_def result_simps split: if_splits)

interpretation texas_l: label_creator "\<lambda>lib s (cfg, clts). texas_Create lib s cfg clts"
  by unfold_locales (auto simp: texas_Create_def Let_def result_simps split: if_splits)

interpretation vault_l: label_creator vault_Create
  by unfold_locales (auto simp: vault_Create_def Let_def split: option.splits if_splits)

interpretation proxyopts_l: label_creator "\<lambda>lib. proxyopts_Create"
  by unfold_locales (auto simp: proxyopts_Create_def split: if_splits sum.splits)

interpretation postgres_l: label_creator postgres_Create
  by unfold_locales
    (auto simp: postgres_Create_def cnpg_Create_def cnpg_createNetworkPolicies_def cnpg_createPoolerNetworkPolicy_def
      cnpg_createSourceNetworkPolicy_def zalando_Create_def zalando_createNetworkPolicies_def
      zalando_createPoolerNetworkPolicy_def zalando_createSourceNetworkPolicy_def Let_def result_simps
      split: option.splits if_splits)

lemma add_valkeys_labels:
  assumes "foldM_result (add_valkey lib m) vs r = Inr r'"
  shows "keeps_identity a (snd r) \<Longrightarrow> keeps_identity a (snd r')"
proof -
  have "add_valkey lib m v r1 = Inr r2 \<Longrightarrow> keeps_identity a (snd r1) \<Longrightarrow> keeps_identity a (snd r2)" for v r1 r2
    by (cases r1) (auto simp: add_valkey_def addValkeyEnvVariables_def addRedisEnvVariables_def Let_def result_simps
        split: if_splits)
  then show "keeps_identity a (snd r) \<Longrightarrow> keeps_identity a (snd r')"
    using foldM_result_invariant[where P = "\<lambda>x. keeps_identity a (snd x)" and f = "add_valkey lib m" and xs = vs] assms
    by metis
qed

interpretation aiven_l: label_creator aiven_Create
proof
  fix lib s cfg a a'
  have "aiven_Kafka lib s cfg m sp b = Inr (e, sp', b') \<Longrightarrow> keeps_identity a b \<Longrightarrow> keeps_identity a b'" for m sp b e sp' b'
    by (cases "ws_kafka (src_spec s)") (auto simp: aiven_Kafka_def addKafkaEnvVariables_def createKafkaKeyToPaths_def
        Let_def result_simps split: if_splits)
  moreover have "aiven_OpenSearch lib s m sp b = Inr (e, sp', b') \<Longrightarrow> keeps_identity a b \<Longrightarrow> keeps_identity a b'" for m sp b e sp' b'
    by (auto simp: aiven_OpenSearch_def addOpenSearchEnvVariables_def Let_def result_simps split: option.splits if_splits)
  moreover have "aiven_Valkey lib s cfg m sp b = Inr (e, sp', b') \<Longrightarrow> keeps_identity a b \<Longrightarrow> keeps_identity a b'" for m sp b e sp' b'
    by (auto simp: aiven_Valkey_def result_simps split: if_splits dest!: add_valkeys_labels)
  ultimately show "aiven_Create lib s cfg a = Inr a' \<Longrightarrow> keeps_identity a a'"
    by (auto simp: aiven_Create_def Let_def result_simps)
qed

section \<open>Google\<close>

interpretation policymember_l: label_creator iam_CreatePolicyMember
  by unfold_locales
    (auto simp: iam_CreatePolicyMember_def split: option.splits sum.splits elim!: keeps_identity_foldM[rotated])

interpretation storagebucket_l: label_creator storagebucket_Create
  by unfold_locales
    (auto simp: storagebucket_Create_def add_bucket_def Let_def result_simps split: option.splits if_splits
      elim!: keeps_identity_foldM[rotated])

interpretation bigquery_l: label_creator "\<lambda>lib s (cfg, n). bigquery_CreateDataset lib s cfg n"
  by unfold_locales
    (auto simp: bigquery_CreateDataset_def add_dataset_def Let_def result_simps split: option.splits if_splits
      elim!: keeps_identity_foldM[rotated])

lemma CreateGoogleSQLUsers_labels:
  "CreateGoogleSQLUsers lib s cfg db inst n spec a = Inr a' \<Longrightarrow> keeps_identity a a'"
  unfolding CreateGoogleSQLUsers_def
  by (erule keeps_identity_foldM[rotated])
    (auto simp: add_sql_user_def createSqlUserDBResources_def Let_def result_simps split: if_splits sum.splits)

interpretation cloudsql_l: label_creator sql_CreateInstance
proof
  fix lib s cfg a a'
  assume ok: "sql_CreateInstance lib s cfg a = Inr a'"
  show "keeps_identity a a'"
  proof (cases "\<exists>g. ws_gcp (src_spec s) = Some g \<and> gcp_sql_instances g \<noteq> []")
    case True
    then obtain g where "ws_gcp (src_spec s) = Some g" "gcp_sql_instances g \<noteq> []" by blast
    with ok show ?thesis
    proof (cases rule: sql_CreateInstanceE)
      case (1 inst meta spec db sqlDatabase a2)
      have "keeps_identity a a2" using CreateGoogleSQLUsers_labels[OF 1(6)] by (simp add: keeps_identity_def AppendOperation_def)
      with 1(7) show ?thesis by (auto simp: CreateSqlSSLCertResource_def Let_def result_simps split: if_splits)
    qed
  next
    case False
    with ok show ?thesis by (auto simp: sql_CreateInstance_def split: option.splits)
  qed
qed

interpretation gcp_l: label_creator gcp_Create
  by unfold_locales
    (auto simp: gcp_Create_def Let_def result_simps split: if_splits
      elim!: policymember_l.labels_then[rotated] cloudsql_l.labels_then[rotated] storagebucket_l.labels_then[rotated]
        bigquery_l.labels_then[of _ _ _ _ "(_, _)", simplified, rotated])

end
