(* ===== verification/Generate.thy ===== *)
theory Generate
  imports Pod_Labels Generators Monitoring
begin

text \<open>
  \<open>Generate\<close> of the two generators (src/pkg/generators: application.go and naisjob.go): the creators run in the
  order of the source on one \<open>Ast\<close>, and the first error ends the run. The theorems compose the contracts of the
  creators: what is generated belongs to the workload, the pod is sound, and its sidecars are exactly those that
  the manifest and the cluster ask for.

  The configuration is typed here, so the type assertion of \<open>config\<close> cannot fail; that of the source is the test
  of its kind.
\<close>

section \<open>Application\<close>

text \<open>What runs before the main container is made; the \<open>Ast\<close> is passed from creator to creator.\<close>

definition application_resources :: "liberator \<Rightarrow> source \<Rightarrow> options \<times> map_order \<Rightarrow> ast result" where
  "application_resources lib app opts =
     (let cfg = fst opts;
          a1 = service_Create lib app cfg (CreateContainerEnvVars lib app cfg NewAst);
          a2 = hpa_Create lib app (serviceaccount_Create lib app cfg a1);
          a3 = fqdnpolicy_Create lib app cfg (networkpolicy_Create lib app cfg a2)
      in rbind (frontend_Create lib app cfg a3) (\<lambda>a4.
         rbind (observability_Create lib app cfg a4) (\<lambda>a5.
         rbind (ingress_Create lib app opts a5) (\<lambda>a6.
         rbind (leaderelection_Create lib app cfg a6) (\<lambda>a7.
         rbind (azure_Create lib app cfg a7) (\<lambda>(azureadapplication, a8).
         rbind (idporten_Create lib app cfg a8) (\<lambda>(idportenclient, a9).
         rbind (login_Create lib app cfg a9) (\<lambda>a10.
         rbind (gcp_Create lib app cfg a10) (\<lambda>a11.
         rbind (if PostgresOperatorEnabled cfg then postgres_Create lib app cfg a11 else Inr a11) (\<lambda>a12.
         rbind (proxyopts_Create app cfg a12) (\<lambda>a13.
         rbind (maskinporten_Create lib app cfg a13) (\<lambda>(maskinportenclient, a14).
         let a15 = pdb_Create lib app (certificateauthority_Create app cfg a14)
         in rbind (jwker_Create lib app cfg a15) (\<lambda>(tokenxclient, a16).
         rbind (aiven_Create lib app cfg a16) (\<lambda>a17.
         rbind (vault_Create lib app cfg a17) (\<lambda>a18.
           texas_Create lib app cfg \<lparr>cl_azure = azureadapplication, cl_idporten = idportenclient,
             cl_maskinporten = maskinportenclient, cl_tokenx = tokenxclient\<rparr> a18)))))))))))))))"

definition Application_Generate :: "liberator \<Rightarrow> source \<Rightarrow> options \<times> map_order \<Rightarrow> operations result" where
  "Application_Generate lib app opts =
     (if src_kind app \<noteq> Application
      then Inl (errorf ''BUG: CreateApplication only accepts nais_io_v1alpha1.Application objects; fix your code'')
      else rbind (application_resources lib app opts) (\<lambda>a.
        rbind (CreateAppContainer lib app (fst opts) a) (\<lambda>b.
        rbind (deployment_Create lib app (fst opts) b) (\<lambda>c.
          Inr (ast_operations (podmonitor_Create lib app (fst opts) c))))))"

section \<open>Naisjob\<close>

definition naisjob_resources :: "liberator \<Rightarrow> source \<Rightarrow> options \<Rightarrow> ast result" where
  "naisjob_resources lib naisjob cfg =
     (let a1 = serviceaccount_Create lib naisjob cfg (CreateContainerEnvVars lib naisjob cfg NewAst);
          a2 = fqdnpolicy_Create lib naisjob cfg (networkpolicy_Create lib naisjob cfg a1)
      in rbind (observability_Create lib naisjob cfg a2) (\<lambda>a3.
         rbind (azure_Create lib naisjob cfg a3) (\<lambda>(azureadapplication, a4).
         rbind (gcp_Create lib naisjob cfg a4) (\<lambda>a5.
         rbind (if PostgresOperatorEnabled cfg then postgres_Create lib naisjob cfg a5 else Inr a5) (\<lambda>a6.
         rbind (proxyopts_Create naisjob cfg a6) (\<lambda>a7.
         rbind (maskinporten_Create lib naisjob cfg (certificateauthority_Create naisjob cfg a7)) (\<lambda>(maskinportenclient, a8).
         rbind (aiven_Create lib naisjob cfg a8) (\<lambda>a9.
         rbind (vault_Create lib naisjob cfg a9) (\<lambda>a10.
           texas_Create lib naisjob cfg \<lparr>cl_azure = azureadapplication, cl_idporten = None,
             cl_maskinporten = maskinportenclient, cl_tokenx = None\<rparr> a10)))))))))"

definition Naisjob_Generate :: "liberator \<Rightarrow> source \<Rightarrow> options \<Rightarrow> operations result" where
  "Naisjob_Generate lib naisjob cfg =
     (if src_kind naisjob \<noteq> Naisjob
      then Inl (errorf ''BUG: generator only accepts nais_io_v1.Naisjob objects, fix your caller'')
      else rbind (naisjob_resources lib naisjob cfg) (\<lambda>a.
        rbind (CreateNaisjobContainer lib naisjob cfg a) (\<lambda>b.
        rbind (CreateCronJob lib naisjob cfg b) (\<lambda>c.
          Inr (ast_operations c)))))"

section \<open>The contracts composed\<close>

lemma pure_creators_then [creator_intros]:
  assumes "creator_step lib s a b"
  shows "creator_step lib s a (service_Create lib s cfg b)" "creator_step lib s a (serviceaccount_Create lib s cfg b)"
    "creator_step lib s a (hpa_Create lib s b)" "creator_step lib s a (pdb_Create lib s b)"
    "creator_step lib s a (networkpolicy_Create lib s cfg b)" "creator_step lib s a (fqdnpolicy_Create lib s cfg b)"
    "creator_step lib s a (certificateauthority_Create s cfg b)" "creator_step lib s a (podmonitor_Create lib s cfg b)"
    "creator_step lib s a (CreateContainerEnvVars lib s cfg b)"
  by (rule creator_step_trans[OF assms service_w.create_step[OF refl]]
      creator_step_trans[OF assms serviceaccount_w.create_step[OF refl]]
      creator_step_trans[OF assms hpa_w.create_step[OF refl]] creator_step_trans[OF assms pdb_w.create_step[OF refl]]
      creator_step_trans[OF assms networkpolicy_w.create_step[OF refl]]
      creator_step_trans[OF assms fqdnpolicy_w.create_step[OF refl]]
      creator_step_trans[OF assms certificateauthority.create_step[OF refl]]
      creator_step_trans[OF assms podmonitor_w.create_step[OF refl]]
      creator_step_trans[OF assms CreateContainerEnvVars_step])+

lemma client_creators_then:
  "creator_step lib s a b \<Longrightarrow> azure_Create lib s cfg b = Inr (az, c) \<Longrightarrow> creator_step lib s a c"
  "creator_step lib s a b \<Longrightarrow> idporten_Create lib s cfg b = Inr (ip, c) \<Longrightarrow> creator_step lib s a c"
  "creator_step lib s a b \<Longrightarrow> maskinporten_Create lib s cfg b = Inr (mp, c) \<Longrightarrow> creator_step lib s a c"
  "creator_step lib s a b \<Longrightarrow> jwker_Create lib s cfg b = Inr (tx, c) \<Longrightarrow> creator_step lib s a c"
  "creator_step lib s a b \<Longrightarrow> texas_Create lib s cfg clts b = Inr c \<Longrightarrow> creator_step lib s a c"
  using azure.create_then[of lib s a b cfg c] idporten.create_then[of lib s a b cfg c]
    maskinporten.create_then[of lib s a b cfg c] jwker.create_then[of lib s a b cfg c]
    texas.create_then[of lib s a b "(cfg, clts)" c] by auto

lemma postgres_then:
  "creator_step lib s a b \<Longrightarrow> (if e then postgres_Create lib s cfg b else Inr b) = Inr c \<Longrightarrow> creator_step lib s a c"
  using postgres.create_then[of lib s a b cfg c] by (cases e) simp_all

text \<open>The stages of a successful run.\<close>

lemma application_resourcesE:
  assumes "application_resources lib app opts = Inr a"
  obtains a4 a5 a6 a7 az a8 ip a9 a10 a11 a12 a13 mp a14 tx a16 a17 a18 where
    "frontend_Create lib app (fst opts) (fqdnpolicy_Create lib app (fst opts) (networkpolicy_Create lib app (fst opts)
       (hpa_Create lib app (serviceaccount_Create lib app (fst opts) (service_Create lib app (fst opts)
         (CreateContainerEnvVars lib app (fst opts) NewAst)))))) = Inr a4"
    "observability_Create lib app (fst opts) a4 = Inr a5"
    "ingress_Create lib app opts a5 = Inr a6"
    "leaderelection_Create lib app (fst opts) a6 = Inr a7"
    "azure_Create lib app (fst opts) a7 = Inr (az, a8)"
    "idporten_Create lib app (fst opts) a8 = Inr (ip, a9)"
    "login_Create lib app (fst opts) a9 = Inr a10"
    "gcp_Create lib app (fst opts) a10 = Inr a11"
    "(if PostgresOperatorEnabled (fst opts) then postgres_Create lib app (fst opts) a11 else Inr a11) = Inr a12"
    "proxyopts_Create app (fst opts) a12 = Inr a13"
    "maskinporten_Create lib app (fst opts) a13 = Inr (mp, a14)"
    "jwker_Create lib app (fst opts) (pdb_Create lib app (certificateauthority_Create app (fst opts) a14)) = Inr (tx, a16)"
    "aiven_Create lib app (fst opts) a16 = Inr a17"
    "vault_Create lib app (fst opts) a17 = Inr a18"
    "texas_Create lib app (fst opts) \<lparr>cl_azure = az, cl_idporten = ip, cl_maskinporten = mp, cl_tokenx = tx\<rparr> a18 = Inr a"
  using assms unfolding application_resources_def Let_def rbind_Inr_iff
  by (elim exE conjE) (simp only: split_paired_all prod.case rbind_Inr_iff, elim exE conjE,
      simp only: split_paired_all prod.case rbind_Inr_iff, elim exE conjE,
      simp only: split_paired_all prod.case rbind_Inr_iff, elim exE conjE,
      simp only: split_paired_all prod.case rbind_Inr_iff, elim exE conjE, blast)

lemma naisjob_resourcesE:
  assumes "naisjob_resources lib job cfg = Inr a"
  obtains a3 az a4 a5 a6 a7 mp a8 a9 a10 where
    "observability_Create lib job cfg (fqdnpolicy_Create lib job cfg (networkpolicy_Create lib job cfg
       (serviceaccount_Create lib job cfg (CreateContainerEnvVars lib job cfg NewAst)))) = Inr a3"
    "azure_Create lib job cfg a3 = Inr (az, a4)"
    "gcp_Create lib job cfg a4 = Inr a5"
    "(if PostgresOperatorEnabled cfg then postgres_Create lib job cfg a5 else Inr a5) = Inr a6"
    "proxyopts_Create job cfg a6 = Inr a7"
    "maskinporten_Create lib job cfg (certificateauthority_Create job cfg a7) = Inr (mp, a8)"
    "aiven_Create lib job cfg a8 = Inr a9"
    "vault_Create lib job cfg a9 = Inr a10"
    "texas_Create lib job cfg \<lparr>cl_azure = az, cl_idporten = None, cl_maskinporten = mp, cl_tokenx = None\<rparr> a10 = Inr a"
  using assms unfolding naisjob_resources_def Let_def rbind_Inr_iff
  by (elim exE conjE) (simp only: split_paired_all prod.case rbind_Inr_iff, elim exE conjE,
      simp only: split_paired_all prod.case rbind_Inr_iff, elim exE conjE, blast)

text \<open>The first object is the Service; the rest builds on it.\<close>

lemma application_resources_after_service:
  assumes "application_resources lib app opts = Inr a"
  shows "creator_step lib app (service_Create lib app (fst opts) (CreateContainerEnvVars lib app (fst opts) NewAst)) a"
    (is "creator_step lib app ?a1 a")
  using assms
proof (cases rule: application_resourcesE)
  case (1 a4 a5 a6 a7 az a8 ip a9 a10 a11 a12 a13 mp a14 tx a16 a17 a18)
  have "creator_step lib app ?a1 a4"
    by (rule frontend.create_then[OF _ 1(1)]) (intro pure_creators_then(2-) creator_step_refl)
  then have "creator_step lib app ?a1 a10"
    by (rule login.create_then[OF client_creators_then(2)[OF client_creators_then(1)[OF leaderelection.create_then[OF
        ingress_w.create_then[OF observability.create_then[OF _ 1(2)] 1(3)] 1(4)] 1(5)] 1(6)] 1(7)])
  then have "creator_step lib app ?a1 a14"
    by (rule client_creators_then(3)[OF proxyopts.create_then[OF postgres_then[OF gcp.create_then[OF _ 1(8)] 1(9)] 1(10)] 1(11)])
  then have "creator_step lib app ?a1 a16"
    by (intro client_creators_then(4)[OF _ 1(12)] creator_intros)
  then show ?thesis
    by (rule client_creators_then(5)[OF vault.create_then[OF aiven.create_then[OF _ 1(13)] 1(14)] 1(15)])
qed

lemma application_resources_step:
  assumes "application_resources lib app opts = Inr a"
  shows "creator_step lib app NewAst a"
  by (rule creator_step_trans[OF _ application_resources_after_service[OF assms]]) (intro creator_intros creator_step_refl)

lemma naisjob_resources_step:
  assumes "naisjob_resources lib job cfg = Inr a"
  shows "creator_step lib job NewAst a"
  using assms
proof (cases rule: naisjob_resourcesE)
  case (1 a3 az a4 a5 a6 a7 mp a8 a9 a10)
  have "creator_step lib job NewAst a3"
    by (rule observability.create_then[OF _ 1(1)]) (intro creator_intros creator_step_refl)
  then have "creator_step lib job NewAst a7"
    by (rule proxyopts.create_then[OF postgres_then[OF gcp.create_then[OF client_creators_then(1)[OF _ 1(2)] 1(3)] 1(4)] 1(5)])
  then have "creator_step lib job NewAst a8"
    by (intro client_creators_then(3)[OF _ 1(6)] creator_intros)
  then show ?thesis
    by (rule client_creators_then(5)[OF vault.create_then[OF aiven.create_then[OF _ 1(7)] 1(8)] 1(9)])
qed

section \<open>The sidecars of a pod\<close>

text \<open>The sidecars that the manifest asks for, in the order of the pod.\<close>

definition azure_on :: "source \<Rightarrow> bool" where
  "azure_on s \<longleftrightarrow> (case ws_azure (src_spec s) of None \<Rightarrow> False
     | Some az \<Rightarrow> (case az_application az of None \<Rightarrow> False | Some app \<Rightarrow> aza_enabled app)) \<or> azure_sidecar_enabled s"

definition maskinporten_on :: "source \<Rightarrow> bool" where
  "maskinporten_on s \<longleftrightarrow> (case ws_maskinporten (src_spec s) of None \<Rightarrow> False | Some m \<Rightarrow> mpn_enabled m)"

definition tokenx_on :: "source \<Rightarrow> options \<Rightarrow> bool" where
  "tokenx_on s cfg \<longleftrightarrow> IsJwkerEnabled cfg \<and> ws_access_policy (src_spec s) \<noteq> None \<and> ws_tokenx (src_spec s) = Some True"

definition application_sidecars :: "source \<Rightarrow> options \<Rightarrow> string list" where
  "application_sidecars s cfg =
     (if ws_leader_election (src_spec s) then [''elector''] else [])
   @ (if azure_sidecar_enabled s \<or> idporten_on s \<or> ws_login (src_spec s) \<noteq> None then [''wonderwall''] else [])
   @ (if sql_requested s \<and> \<not> sql_private cfg then [''cloudsql-proxy''] else [])
   @ (if vault_on s cfg then [''vks-init''] else [])
   @ (if IsTexasEnabled cfg \<and> (azure_on s \<or> idporten_on s \<or> maskinporten_on s \<or> tokenx_on s cfg) then [''texas''] else [])"

definition naisjob_sidecars :: "source \<Rightarrow> options \<Rightarrow> string list" where
  "naisjob_sidecars s cfg =
     (if azure_sidecar_enabled s then [''wonderwall''] else [])
   @ (if sql_requested s \<and> \<not> sql_private cfg then [''cloudsql-proxy''] else [])
   @ (if vault_on s cfg then [''vks-init''] else [])
   @ (if IsTexasEnabled cfg \<and> (azure_on s \<or> maskinporten_on s) then [''texas''] else [])"

text \<open>The clients that the creators return tell whether they are on.\<close>

lemma azure_client_on: "azure_Create lib s cfg a = Inr (az, b) \<Longrightarrow> az \<noteq> None \<longleftrightarrow> azure_on s"
  by (auto simp: azure_Create_def azure_on_def azure_sidecar_enabled_def Let_def result_simps split: option.splits if_splits)

lemma idporten_client_on: "idporten_Create lib s cfg a = Inr (ip, b) \<Longrightarrow> ip \<noteq> None \<longleftrightarrow> idporten_on s"
  by (auto simp: idporten_Create_def idporten_on_def Let_def result_simps split: option.splits if_splits)

lemma maskinporten_client_on: "maskinporten_Create lib s cfg a = Inr (mp, b) \<Longrightarrow> mp \<noteq> None \<longleftrightarrow> maskinporten_on s"
  by (auto simp: maskinporten_Create_def maskinporten_on_def result_simps split: option.splits if_splits)

lemma tokenx_client_on: "jwker_Create lib s cfg a = Inr (tx, b) \<Longrightarrow> tx \<noteq> None \<longleftrightarrow> tokenx_on s cfg"
  by (auto simp: jwker_Create_def tokenx_on_def Let_def result_simps split: if_splits)

lemma idporten_on_sidecar: "idporten_Create lib s cfg a = Inr r \<Longrightarrow> idporten_on s \<Longrightarrow> idporten_sidecar_enabled s"
  by (auto simp: idporten_Create_def idporten_on_def idporten_sidecar_enabled_def Let_def split: option.splits if_splits)

lemma pure_creators_init [simp]:
  "ast_init_containers (service_Create lib s cfg b) = ast_init_containers b"
  "ast_init_containers (serviceaccount_Create lib s cfg b) = ast_init_containers b"
  "ast_init_containers (hpa_Create lib s b) = ast_init_containers b"
  "ast_init_containers (pdb_Create lib s b) = ast_init_containers b"
  "ast_init_containers (networkpolicy_Create lib s cfg b) = ast_init_containers b"
  "ast_init_containers (fqdnpolicy_Create lib s cfg b) = ast_init_containers b"
  "ast_init_containers (certificateauthority_Create s cfg b) = ast_init_containers b"
  "ast_init_containers (CreateContainerEnvVars lib s cfg b) = ast_init_containers b"
  by (simp_all add: service_q.create_quiet[OF refl] serviceaccount_q.create_quiet[OF refl] hpa_q.create_quiet[OF refl]
      pdb_q.create_quiet[OF refl] networkpolicy_q.create_quiet[OF refl] fqdnpolicy_q.create_quiet[OF refl]
      certificateauthority_q.create_quiet[OF refl] CreateContainerEnvVars_def)

lemma client_creators_init:
  "maskinporten_Create lib s cfg b = Inr (mp, c) \<Longrightarrow> ast_init_containers c = ast_init_containers b"
  "jwker_Create lib s cfg b = Inr (tx, c) \<Longrightarrow> ast_init_containers c = ast_init_containers b"
  "(if e then postgres_Create lib s cfg b else Inr b) = Inr c \<Longrightarrow> ast_init_containers c = ast_init_containers b"
  using maskinporten_q.create_quiet[of lib s cfg b c] jwker_q.create_quiet[of lib s cfg b c]
    postgres_q.create_quiet[of lib s cfg b c] by (auto split: if_splits)

text \<open>Equal init containers may be put on either side of a step.\<close>

lemma adds_sidecars_before:
  "adds_sidecars s ns b c \<Longrightarrow> ast_init_containers b = ast_init_containers a \<Longrightarrow> adds_sidecars s ns a c"
  by (simp add: adds_sidecars_def)

lemma adds_sidecars_after:
  "adds_sidecars s ns a b \<Longrightarrow> ast_init_containers c = ast_init_containers b \<Longrightarrow> adds_sidecars s ns a c"
  by (simp add: adds_sidecars_def)

text \<open>Wonderwall is there at most once.\<close>

lemma one_wonderwall:
  assumes "adds_sidecars s (ns @ (if azure then [''wonderwall''] else []) @ (if idp then [''wonderwall''] else [])
      @ (if lgn then [''wonderwall''] else []) @ ms) a b"
    and "azure = azure_sidecar_enabled s" and "idp \<Longrightarrow> idporten_sidecar_enabled s" and "lgn \<longleftrightarrow> ws_login (src_spec s) \<noteq> None"
  shows "adds_sidecars s (ns @ (if azure \<or> idp \<or> lgn then [''wonderwall''] else []) @ ms) a b"
proof (cases "azure \<or> idp \<or> lgn")
  case True
  from assms(1) obtain cs where cs: "list_all (sidecar_ok s) cs"
    "map c_name cs = ns @ (if azure then [''wonderwall''] else []) @ (if idp then [''wonderwall''] else [])
      @ (if lgn then [''wonderwall''] else []) @ ms" unfolding adds_sidecars_def by blast
  then have "''wonderwall'' \<in> c_name ` set cs" using True by (auto simp flip: set_map)
  with cs(1) have "one_login_provider s" by (auto simp: list_all_iff sidecar_ok_def)
  with assms show ?thesis by (auto simp: one_login_provider_def split: if_splits)
qed (use assms(1) in simp)

lemma application_resources_sidecars:
  assumes "application_resources lib app opts = Inr a"
  shows "adds_sidecars app (application_sidecars app (fst opts)) NewAst a"
  using assms
proof (cases rule: application_resourcesE)
  case (1 a4 a5 a6 a7 az a8 ip a9 a10 a11 a12 a13 mp a14 tx a16 a17 a18)
  let ?cfg = "fst opts" and ?ww = "\<lambda>b. if b then [''wonderwall''] else []"
  let ?texas = "if IsTexasEnabled ?cfg \<and> (azure_on app \<or> idporten_on app \<or> maskinporten_on app \<or> tokenx_on app ?cfg)
    then [''texas''] else []"
  have "ast_init_containers a6 = ast_init_containers NewAst"
    using frontend_q.create_quiet[OF 1(1)] observability_q.create_quiet[OF 1(2)] ingress_q.create_quiet[OF 1(3)] by simp
  then have "adds_sidecars app (if ws_leader_election (src_spec app) then [''elector''] else []) NewAst a7"
    by (rule adds_sidecars_before[OF leaderelection_s.create_sidecars[OF 1(4)]])
  moreover have "adds_sidecars app (?ww (azure_sidecar_enabled app)) a7 a8"
    using 1(5) by (intro azure_s.create_sidecars[of lib app ?cfg]) auto
  moreover have "adds_sidecars app (?ww (idporten_on app)) a8 a9"
    using 1(6) by (intro idporten_s.create_sidecars[of lib app ?cfg]) auto
  moreover note login_s.create_sidecars[OF 1(7)] gcp_s.create_sidecars[OF 1(8)]
  moreover have "ast_init_containers a17 = ast_init_containers a11"
    using client_creators_init(3)[OF 1(9)] proxyopts_q.create_quiet[OF 1(10)] client_creators_init(1)[OF 1(11)]
      client_creators_init(2)[OF 1(12)] aiven_q.create_quiet[OF 1(13)] by simp
  moreover note vault_s.create_sidecars[OF 1(14)]
  moreover have "adds_sidecars app ?texas a18 a"
    using texas_s.create_sidecars[of lib app "(?cfg, \<lparr>cl_azure = az, cl_idporten = ip, cl_maskinporten = mp, cl_tokenx = tx\<rparr>)" a18 a] 1(15)
      azure_client_on[OF 1(5)] idporten_client_on[OF 1(6)] maskinporten_client_on[OF 1(11)] tokenx_client_on[OF 1(12)]
    by (auto simp: clients_IsEmpty_def)
  ultimately have "adds_sidecars app ((if ws_leader_election (src_spec app) then [''elector''] else [])
      @ ?ww (azure_sidecar_enabled app) @ ?ww (idporten_on app) @ ?ww (ws_login (src_spec app) \<noteq> None)
      @ (if sql_requested app \<and> \<not> sql_private ?cfg then [''cloudsql-proxy''] else [])
      @ (if vault_on app ?cfg then [''vks-init''] else []) @ ?texas) NewAst a"
    by (meson adds_sidecars_trans adds_sidecars_before)
  then show ?thesis unfolding application_sidecars_def
    by (rule one_wonderwall) (use idporten_on_sidecar[OF 1(6)] in auto)
qed

lemma naisjob_resources_sidecars:
  assumes "naisjob_resources lib job cfg = Inr a"
  shows "adds_sidecars job (naisjob_sidecars job cfg) NewAst a"
  using assms
proof (cases rule: naisjob_resourcesE)
  case (1 a3 az a4 a5 a6 a7 mp a8 a9 a10)
  let ?texas = "if IsTexasEnabled cfg \<and> (azure_on job \<or> maskinporten_on job) then [''texas''] else []"
  have "ast_init_containers a3 = ast_init_containers NewAst" using observability_q.create_quiet[OF 1(1)] by simp
  moreover have "adds_sidecars job (if azure_sidecar_enabled job then [''wonderwall''] else []) a3 a4"
    using 1(2) by (intro azure_s.create_sidecars[of lib job cfg]) auto
  moreover note gcp_s.create_sidecars[OF 1(3)]
  moreover have "ast_init_containers a9 = ast_init_containers a5"
    using client_creators_init(3)[OF 1(4)] proxyopts_q.create_quiet[OF 1(5)] client_creators_init(1)[OF 1(6)]
      aiven_q.create_quiet[OF 1(7)] by simp
  moreover note vault_s.create_sidecars[OF 1(8)]
  moreover have "adds_sidecars job ?texas a10 a"
    using texas_s.create_sidecars[of lib job "(cfg, \<lparr>cl_azure = az, cl_idporten = None, cl_maskinporten = mp, cl_tokenx = None\<rparr>)" a10 a] 1(9)
      azure_client_on[OF 1(2)] maskinporten_client_on[OF 1(6)]
    by (auto simp: clients_IsEmpty_def)
  ultimately show ?thesis unfolding naisjob_sidecars_def
    by (meson adds_sidecars_trans adds_sidecars_before)
qed

section \<open>The labels of a pod\<close>

lemma pure_creators_labels [simp]:
  assumes "keeps_identity a b"
  shows "keeps_identity a (service_Create lib s cfg b)" "keeps_identity a (serviceaccount_Create lib s cfg b)"
    "keeps_identity a (hpa_Create lib s b)" "keeps_identity a (pdb_Create lib s b)"
    "keeps_identity a (networkpolicy_Create lib s cfg b)" "keeps_identity a (fqdnpolicy_Create lib s cfg b)"
    "keeps_identity a (certificateauthority_Create s cfg b)" "keeps_identity a (CreateContainerEnvVars lib s cfg b)"
  using service_l.labels_then[OF assms refl] serviceaccount_l.labels_then[OF assms refl] hpa_l.labels_then[OF assms refl]
    pdb_l.labels_then[OF assms refl] networkpolicy_l.labels_then[OF assms refl] fqdnpolicy_l.labels_then[OF assms refl]
    certificateauthority_l.labels_then[OF assms refl] assms
  by (simp_all add: CreateContainerEnvVars_def)

lemma client_creators_labels:
  "keeps_identity a b \<Longrightarrow> azure_Create lib s cfg b = Inr (az, c) \<Longrightarrow> keeps_identity a c"
  "keeps_identity a b \<Longrightarrow> idporten_Create lib s cfg b = Inr (ip, c) \<Longrightarrow> keeps_identity a c"
  "keeps_identity a b \<Longrightarrow> maskinporten_Create lib s cfg b = Inr (mp, c) \<Longrightarrow> keeps_identity a c"
  "keeps_identity a b \<Longrightarrow> jwker_Create lib s cfg b = Inr (tx, c) \<Longrightarrow> keeps_identity a c"
  "keeps_identity a b \<Longrightarrow> texas_Create lib s cfg clts b = Inr c \<Longrightarrow> keeps_identity a c"
  "keeps_identity a b \<Longrightarrow> (if e then postgres_Create lib s cfg b else Inr b) = Inr c \<Longrightarrow> keeps_identity a c"
  using azure_l.labels_then[of a b lib s cfg c] idporten_l.labels_then[of a b lib s cfg c]
    maskinporten_l.labels_then[of a b lib s cfg c] jwker_l.labels_then[of a b lib s cfg c]
    texas_l.labels_then[of a b lib s "(cfg, clts)" c] postgres_l.labels_then[of a b lib s cfg c]
  by (auto split: if_splits)

lemma application_resources_labels:
  assumes "application_resources lib app opts = Inr a"
  shows "keeps_identity NewAst a"
  using assms
proof (cases rule: application_resourcesE)
  case (1 a4 a5 a6 a7 az a8 ip a9 a10 a11 a12 a13 mp a14 tx a16 a17 a18)
  have "keeps_identity NewAst a4" by (rule frontend_l.labels_then[OF _ 1(1)]) simp
  then have "keeps_identity NewAst a10"
    by (rule login_l.labels_then[OF client_creators_labels(2)[OF client_creators_labels(1)[OF leaderelection_l.labels_then[OF
        ingress_l.labels_then[OF observability_l.labels_then[OF _ 1(2)] 1(3)] 1(4)] 1(5)] 1(6)] 1(7)])
  then have "keeps_identity NewAst a14"
    by (rule client_creators_labels(3)[OF proxyopts_l.labels_then[OF client_creators_labels(6)[OF
        gcp_l.labels_then[OF _ 1(8)] 1(9)] 1(10)] 1(11)])
  then have "keeps_identity NewAst a16" by (intro client_creators_labels(4)[OF _ 1(12)]) simp
  then show ?thesis
    by (rule client_creators_labels(5)[OF vault_l.labels_then[OF aiven_l.labels_then[OF _ 1(13)] 1(14)] 1(15)])
qed

lemma naisjob_resources_labels:
  assumes "naisjob_resources lib job cfg = Inr a"
  shows "keeps_identity NewAst a"
  using assms
proof (cases rule: naisjob_resourcesE)
  case (1 a3 az a4 a5 a6 a7 mp a8 a9 a10)
  have "keeps_identity NewAst a3" by (rule observability_l.labels_then[OF _ 1(1)]) simp
  then have "keeps_identity NewAst a7"
    by (rule proxyopts_l.labels_then[OF client_creators_labels(6)[OF gcp_l.labels_then[OF client_creators_labels(1)[OF _ 1(2)] 1(3)] 1(4)] 1(5)])
  then have "keeps_identity NewAst a8" by (intro client_creators_labels(3)[OF _ 1(6)]) simp
  then show ?thesis
    by (rule client_creators_labels(5)[OF vault_l.labels_then[OF aiven_l.labels_then[OF _ 1(7)] 1(8)] 1(9)])
qed

section \<open>The pod\<close>

text \<open>A sound pod runs the workload's image, unprivileged, and mounts only volumes that it has.\<close>

definition pod_sound :: "liberator \<Rightarrow> source \<Rightarrow> pod_spec \<Rightarrow> bool" where
  "pod_sound lib s pod \<longleftrightarrow>
     (case pod_containers pod of
        [main] \<Rightarrow> c_name main = src_name s \<and> c_image main = lib_GetEffectiveImage lib s \<and> hardened main
          \<and> mounts_within (c_volume_mounts main) (pod_volumes pod)
      | _ \<Rightarrow> False)
   \<and> list_all (\<lambda>c. hardened c \<and> mounts_within (c_volume_mounts c) (pod_volumes pod)) (pod_init_containers pod)"

lemma hardened_configured: "hardened (c\<lparr>c_security_context := Some (configureSecurityContext an)\<rparr>)"
  by (auto simp: hardened_def configureSecurityContext_def DefaultContainerSecurityContext_def Let_def)

lemma CreateSpec_single:
  assumes "ast_containers a = [c]" and "c_name c = appName" and "CreateSpec a cfg appName an policy grace = Inr pod"
  shows "pod_containers pod = [c\<lparr>c_volume_mounts := c_volume_mounts c @ [tmp_mount],
        c_security_context := Some (configureSecurityContext an)\<rparr>]"
    and "pod_init_containers pod = ast_init_containers a"
    and "pod_volumes pod = ast_volumes a @ [\<lparr>vol_name = ''writable-tmp'', vol_source = EmptyDirVolume []\<rparr>]"
  using assms(3) reorderContainers_unique[of "[]" "[]" appName c, OF _ assms(2)]
  by (auto simp: CreateSpec_def assms(1) result_simps Let_def)

text \<open>From the steps of the creators to the pod.\<close>

lemma generated_pod:
  assumes step: "creator_step lib s NewAst a" and main: "adds_main lib s a b"
    and pod: "CreateSpec b cfg (src_name s) an policy grace = Inr pod"
  shows "pod_sound lib s pod"
proof -
  from main obtain b' c where b': "creator_step lib s a b'" "b = b'\<lparr>ast_containers := ast_containers b' @ [c]\<rparr>"
    and c: "c_name c = src_name s" "c_image c = lib_GetEffectiveImage lib s" "c_volume_mounts c = ast_volume_mounts b'"
    unfolding adds_main_def by blast
  have "pod_extends NewAst b'" using creator_step_trans[OF step b'(1)] by (simp add: creator_step_def)
  then have ext: "ast_containers b' = []" "list_all hardened (ast_init_containers b')"
    "mounts_within (ast_volume_mounts b') (ast_volumes b')"
    "list_all (\<lambda>c. mounts_within (c_volume_mounts c) (ast_volumes b')) (ast_init_containers b')"
    by (auto simp: pod_extends_def NewAst_def)
  have "ast_containers b = [c]" using b'(2) ext(1) by simp
  note spec = CreateSpec_single[OF this c(1) pod]
  have mono: "mounts_within ms (ast_volumes b') \<Longrightarrow> mounts_within ms (pod_volumes pod)" for ms
    using mounts_within_mono[of ms "ast_volumes b'" "[]"] spec(3) b'(2) by simp
  have "mounts_within (ast_volume_mounts b' @ [tmp_mount]) (pod_volumes pod)"
    using mono[OF ext(3)] spec(3) by simp
  moreover have "list_all (\<lambda>c. hardened c \<and> mounts_within (c_volume_mounts c) (pod_volumes pod)) (pod_init_containers pod)"
    using ext(2,4) mono spec(2) b'(2) by (simp add: list_all_iff)
  ultimately show ?thesis using spec(1) c hardened_configured by (simp add: pod_sound_def)
qed

lemma filesFrom_loop_init: "ast_init_containers (filesFrom_loop lib files c s p e a) = ast_init_containers a"
  by (induction files arbitrary: c s p e a) (auto simp: Let_def split: option.splits)

lemma envFrom_init: "ast_init_containers (envFrom envs a) = ast_init_containers a"
  by (induction envs a rule: envFrom.induct) auto

lemma main_container_init:
  "CreateAppContainer lib s cfg a = Inr b \<Longrightarrow> ast_init_containers b = ast_init_containers a"
  "CreateNaisjobContainer lib s cfg a = Inr b \<Longrightarrow> ast_init_containers b = ast_init_containers a"
  by (auto simp: CreateAppContainer_def CreateNaisjobContainer_def Let_def result_simps filesFrom_def
      filesFrom_loop_init envFrom_init)

lemma adds_main_single:
  assumes "creator_step lib s NewAst a" and "adds_main lib s a b"
  obtains c where "ast_containers b = [c]" "c_name c = src_name s"
proof -
  from assms(2) obtain b' c where b': "creator_step lib s a b'" "b = b'\<lparr>ast_containers := ast_containers b' @ [c]\<rparr>"
    "c_name c = src_name s" unfolding adds_main_def by blast
  have "ast_containers b' = []"
    using creator_step_trans[OF assms(1) b'(1)] by (simp add: creator_step_def pod_extends_def NewAst_def)
  with b' show thesis by (intro that[of c]) simp_all
qed

text \<open>The sidecars of the pod are those that the creators before the main container have added.\<close>

lemma generated_sidecars:
  assumes "creator_step lib s NewAst a" and "adds_main lib s a b" and "adds_sidecars s ns NewAst a"
    and "ast_init_containers b = ast_init_containers a" and "CreateSpec b cfg (src_name s) an policy grace = Inr pod"
  shows "map c_name (pod_init_containers pod) = ns \<and> list_all (sidecar_ok s) (pod_init_containers pod)"
proof -
  obtain c where "ast_containers b = [c]" "c_name c = src_name s" using adds_main_single[OF assms(1,2)] .
  then have "pod_init_containers pod = ast_init_containers b" using assms(5) by (rule CreateSpec_single(2))
  with assms(3,4) show ?thesis by (auto simp: adds_sidecars_def NewAst_def)
qed

lemma adds_main_extends:
  assumes "creator_step lib s NewAst a" and "adds_main lib s a b"
  shows "extends_with (belongs_to lib s) a b" "\<forall>rop \<in> set (ast_operations b). belongs_to lib s (op_resource rop)"
  using assms by (fastforce simp: adds_main_def creator_step_def extends_with_def NewAst_def)+

lemma Application_GenerateE:
  assumes "Application_Generate lib app opts = Inr ops"
  obtains a b spec meta where "src_kind app = Application" "application_resources lib app opts = Inr a"
    "CreateAppContainer lib app (fst opts) a = Inr b"
    "CreateSpec b (fst opts) (src_name app) (om_annotations (src_meta app)) ''Always''
       (ws_termination_grace (src_spec app)) = Inr (pt_spec (dep_template spec))"
    "pt_meta (dep_template spec) = fst (CreateAppObjectMeta lib app (fst opts) b)"
    "dep_match_labels spec = [''app'' \<mapsto> src_name app]"
    "om_name meta = src_name app" "om_namespace meta = src_namespace app" "om_labels meta = om_labels (CreateObjectMeta lib app)"
    "om_owner_references meta = om_owner_references (CreateObjectMeta lib app)"
    "\<exists>pm. set pm \<subseteq> {rop. belongs_to lib app (op_resource rop) \<and> obj_type (op_resource rop) = TPodMonitor} \<and> ops = ast_operations b @
       [\<lparr>op_resource = \<lparr>obj_type_meta = \<lparr>tm_kind = ''Deployment'', tm_api_version = ''apps/v1''\<rparr>, obj_meta = meta,
         obj_payload = PDeployment spec deployment_status_zero\<rparr>, op_operation = OperationCreateOrUpdate\<rparr>] @ pm"
proof -
  from assms obtain a b c where 1: "src_kind app = Application" "application_resources lib app opts = Inr a"
    "CreateAppContainer lib app (fst opts) a = Inr b" and dep: "deployment_Create lib app (fst opts) b = Inr c"
    and ops: "ops = ast_operations (podmonitor_Create lib app (fst opts) c)"
    by (auto simp: Application_Generate_def result_simps split: if_splits)
  from dep obtain spec c' where spec: "deploymentSpec lib app (fst opts) b = Inr (spec, c')"
    and c: "c = AppendOperation OperationCreateOrUpdate
       \<lparr>obj_type_meta = \<lparr>tm_kind = ''Deployment'', tm_api_version = ''apps/v1''\<rparr>,
        obj_meta = with_annotation ''reloader.stakater.com/search'' ''true'' (copy_change_cause app (CreateObjectMeta lib app)),
        obj_payload = PDeployment spec deployment_status_zero\<rparr> c'"
    by (auto simp: deployment_Create_def split: sum.splits)
  have "extends_with (belongs_to lib app) c (podmonitor_Create lib app (fst opts) c)"
    using podmonitor_w.create_step[OF refl] by (simp add: creator_step_def)
  moreover have "extends_with (\<lambda>ob. obj_type ob = TPodMonitor) c (podmonitor_Create lib app (fst opts) c)"
    by (auto simp: podmonitor_Create_def Let_def extends_with_def obj_type_def)
  ultimately obtain pm where "ops = ast_operations c @ pm"
    "set pm \<subseteq> {rop. belongs_to lib app (op_resource rop) \<and> obj_type (op_resource rop) = TPodMonitor}"
    using ops unfolding extends_with_def by (elim exE conjE, intro that) auto
  moreover have "ast_operations c' = ast_operations b" by (rule deploymentSpec_operations[OF spec])
  moreover have "CreateSpec b (fst opts) (src_name app) (om_annotations (src_meta app)) ''Always''
       (ws_termination_grace (src_spec app)) = Inr (pt_spec (dep_template spec))"
    "pt_meta (dep_template spec) = fst (CreateAppObjectMeta lib app (fst opts) b)"
    "dep_match_labels spec = [''app'' \<mapsto> src_name app]"
    using spec by (cases "CreateAppObjectMeta lib app (fst opts) b"; auto simp: deploymentSpec_def result_simps)+
  ultimately show thesis using c
    by (intro that[OF 1, of spec "with_annotation ''reloader.stakater.com/search'' ''true'' (copy_change_cause app (CreateObjectMeta lib app))"])
      (auto simp: with_annotation_def copy_change_cause_def split: option.splits)
qed

lemma Naisjob_GenerateE:
  assumes "Naisjob_Generate lib job cfg = Inr ops"
  obtains a b spec meta where "src_kind job = Naisjob" "naisjob_resources lib job cfg = Inr a"
    "CreateNaisjobContainer lib job cfg a = Inr b"
    "CreateSpec b cfg (src_name job) (om_annotations (src_meta job)) (RestartPolicy (ws_restart_policy (src_spec job)))
       (ws_termination_grace (src_spec job)) = Inr (pt_spec (js_template (cj_job_spec spec)))"
    "pt_meta (js_template (cj_job_spec spec)) = fst (CreateNaisjobObjectMeta lib job cfg b)"
    "om_name meta = src_name job" "om_namespace meta = src_namespace job" "om_labels meta = om_labels (CreateObjectMeta lib job)"
    "om_owner_references meta = om_owner_references (CreateObjectMeta lib job)"
    "ops = ast_operations b @ [\<lparr>op_resource = \<lparr>obj_type_meta = \<lparr>tm_kind = ''CronJob'', tm_api_version = ''batch/v1''\<rparr>,
       obj_meta = meta, obj_payload = PCronJob spec\<rparr>, op_operation = OperationCreateOrUpdate\<rparr>]"
proof -
  from assms obtain a b c where 1: "src_kind job = Naisjob" "naisjob_resources lib job cfg = Inr a"
    "CreateNaisjobContainer lib job cfg a = Inr b" and cron: "CreateCronJob lib job cfg b = Inr c"
    and ops: "ops = ast_operations c"
    by (auto simp: Naisjob_Generate_def result_simps split: if_splits)
  from cron obtain jobSpec c' where js: "CreateJobSpec lib job cfg b = Inr (jobSpec, c')"
    "\<exists>spec. cj_job_spec spec = jobSpec \<and> c = AppendOperation OperationCreateOrUpdate
      \<lparr>obj_type_meta = \<lparr>tm_kind = ''CronJob'', tm_api_version = ''batch/v1''\<rparr>,
       obj_meta = copy_change_cause job (CreateObjectMeta lib job), obj_payload = PCronJob spec\<rparr> c'"
    unfolding CreateCronJob_def Let_def rbind_Inr_iff
    by (elim exE conjE) (simp only: split_paired_all prod.case sum.inject, rule that, assumption, rule exI,
        rule conjI[OF _ sym], simp_all)
  then obtain spec where spec: "cj_job_spec spec = jobSpec"
    and c: "c = AppendOperation OperationCreateOrUpdate \<lparr>obj_type_meta = \<lparr>tm_kind = ''CronJob'', tm_api_version = ''batch/v1''\<rparr>,
      obj_meta = copy_change_cause job (CreateObjectMeta lib job), obj_payload = PCronJob spec\<rparr> c'" by blast
  have "CreateSpec b cfg (src_name job) (om_annotations (src_meta job)) (RestartPolicy (ws_restart_policy (src_spec job)))
       (ws_termination_grace (src_spec job)) = Inr (pt_spec (js_template (cj_job_spec spec)))"
    "pt_meta (js_template (cj_job_spec spec)) = fst (CreateNaisjobObjectMeta lib job cfg b)"
    unfolding spec using js(1)
    by (cases "CreateNaisjobObjectMeta lib job cfg b"; auto simp: CreateJobSpec_def Let_def result_simps)+
  then show thesis using c ops CreateJobSpec_operations[OF js(1)]
    by (intro that[OF 1, of spec "copy_change_cause job (CreateObjectMeta lib job)"])
      (auto simp: with_annotation_def copy_change_cause_def split: option.splits)
qed

lemma CreateAppContainer_ports:
  assumes "CreateAppContainer lib app cfg a = Inr b" and "ast_containers b = [c]"
  shows "\<exists>p \<in> set (c_ports c). cp_name p = lib_DefaultPortName lib \<and> cp_port p = to_int32 (ws_port (src_spec app))"
  using assms
  by (auto simp: CreateAppContainer_def container_ports_def Let_def result_simps split: if_splits option.splits)

lemma main_container_labels:
  "CreateAppContainer lib app cfg a = Inr b \<Longrightarrow> ast_labels b = ast_labels a"
  "CreateNaisjobContainer lib app cfg a = Inr b \<Longrightarrow> ast_labels b = ast_labels a"
proof -
  have "ast_labels (filesFrom_loop lib files c s p e a) = ast_labels a" for files c s p e a
    by (induction files arbitrary: c s p e a) (auto simp: Let_def add_volume_def split: option.splits)
  moreover have "ast_labels (envFrom envs a) = ast_labels a" for envs a
    by (induction envs a rule: envFrom.induct) auto
  ultimately show "CreateAppContainer lib app cfg a = Inr b \<Longrightarrow> ast_labels b = ast_labels a"
    "CreateNaisjobContainer lib app cfg a = Inr b \<Longrightarrow> ast_labels b = ast_labels a"
    by (auto simp: CreateAppContainer_def CreateNaisjobContainer_def filesFrom_def Let_def result_simps)
qed

section \<open>Properties\<close>

text \<open>The Deployment and the Service that an Application is generated to.\<close>

definition generates_deployment :: "source \<Rightarrow> operations \<Rightarrow> deployment_spec \<Rightarrow> bool" where
  "generates_deployment app ops spec \<longleftrightarrow> (\<exists>rop \<in> set ops. op_operation rop = OperationCreateOrUpdate
     \<and> obj_key (op_resource rop) = \<lparr>key_namespace = src_namespace app, key_name = src_name app\<rparr>
     \<and> obj_payload (op_resource rop) = PDeployment spec deployment_status_zero)"

definition generates_service :: "source \<Rightarrow> operations \<Rightarrow> service_spec \<Rightarrow> bool" where
  "generates_service app ops svc \<longleftrightarrow> (\<exists>rop \<in> set ops. op_operation rop = OperationCreateOrUpdate
     \<and> obj_key (op_resource rop) = \<lparr>key_namespace = src_namespace app, key_name = src_name app\<rparr>
     \<and> obj_payload (op_resource rop) = PService svc)"

lemma pod_identity:
  assumes "keeps_identity NewAst a"
  shows "gm_map (om_labels (fst (CreateAppObjectMeta lib app cfg a))) ''app'' = Some (src_name app)"
    "gm_map (om_labels (fst (CreateAppObjectMeta lib app cfg a))) ''team'' = Some (src_namespace app)"
  using assms
  by (simp_all add: CreateAppObjectMeta_def CreateObjectMeta_def Let_def gm_copy_def map_add_def keeps_identity_def
      NewAst_def)

lemma job_identity:
  assumes "keeps_identity NewAst a"
  shows "gm_map (om_labels (fst (CreateNaisjobObjectMeta lib job cfg a))) ''app'' = Some (src_name job)"
  using assms
  by (simp add: CreateNaisjobObjectMeta_def CreateObjectMeta_def Let_def gm_copy_def gm_set_def map_add_def
      keeps_identity_def NewAst_def)

lemma app_selector_le: "m ''app'' = Some n \<Longrightarrow> [''app'' \<mapsto> n] \<subseteq>\<^sub>m m"
  by (simp add: map_le_def)

text \<open>What a successful run generates: the Service, the Deployment, and nothing that does not belong to the workload.\<close>

lemma Application_Generate_facts:
  assumes "Application_Generate lib app opts = Inr ops"
  obtains spec where "generates_deployment app ops spec"
    "\<forall>rop \<in> set ops. belongs_to lib app (op_resource rop)"
    "pod_sound lib app (pt_spec (dep_template spec))"
    "map c_name (pod_init_containers (pt_spec (dep_template spec))) = application_sidecars app (fst opts)"
    "list_all (sidecar_ok app) (pod_init_containers (pt_spec (dep_template spec)))"
    "dep_match_labels spec = [''app'' \<mapsto> src_name app]"
    "gm_map (om_labels (pt_meta (dep_template spec))) ''app'' = Some (src_name app)"
    "gm_map (om_labels (pt_meta (dep_template spec))) ''team'' = Some (src_namespace app)"
    "\<exists>c. pod_containers (pt_spec (dep_template spec)) = [c] \<and>
       (\<exists>p \<in> set (c_ports c). cp_name p = lib_DefaultPortName lib \<and> cp_port p = to_int32 (ws_port (src_spec app)))"
  using assms
proof (cases rule: Application_GenerateE)
  case (1 a b spec meta)
  note step = application_resources_step[OF 1(2)] and main = CreateAppContainer_main[OF 1(3)]
  obtain c where c: "ast_containers b = [c]" "c_name c = src_name app" using adds_main_single[OF step main] .
  have "keeps_identity NewAst b"
    using application_resources_labels[OF 1(2)] main_container_labels(1)[OF 1(3)] by (simp add: keeps_identity_def)
  note labels = pod_identity[OF this, of lib app "fst opts", folded 1(5)]
  have "belongs_to lib app (\<lparr>obj_type_meta = tm, obj_meta = meta, obj_payload = p\<rparr>)" for tm p
    using 1(7-10) CreateObjectMeta_simps(3-5)[of lib app] by (simp add: belongs_to_def label_def)
  then have "\<forall>rop \<in> set ops. belongs_to lib app (op_resource rop)"
    using 1(11) adds_main_extends(2)[OF step main] by auto
  moreover have "generates_deployment app ops spec"
    using 1(7,8,11) by (fastforce simp: generates_deployment_def obj_key_def meta_key_def)
  moreover note generated_pod[OF step main 1(4)]
    generated_sidecars[OF step main application_resources_sidecars[OF 1(2)] main_container_init(1)[OF 1(3)] 1(4)]
  moreover have "\<exists>c. pod_containers (pt_spec (dep_template spec)) = [c] \<and>
       (\<exists>p \<in> set (c_ports c). cp_name p = lib_DefaultPortName lib \<and> cp_port p = to_int32 (ws_port (src_spec app)))"
    using CreateSpec_single(1)[OF c 1(4)] CreateAppContainer_ports[OF 1(3) c(1)] by simp
  ultimately show thesis using labels 1(6) by (intro that) auto
qed

lemma Application_Generate_service:
  assumes "Application_Generate lib app opts = Inr ops"
  obtains svc where "generates_service app ops svc" "svc_selector svc = [''app'' \<mapsto> src_name app]"
    "svc_target_port svc = (if wonderwall_IsEnabled app (fst opts) then IntVal wonderwall_Port else StrVal (lib_DefaultPortName lib))"
  using assms
proof (cases rule: Application_GenerateE)
  case (1 a b spec meta)
  let ?a1 = "service_Create lib app (fst opts) (CreateContainerEnvVars lib app (fst opts) NewAst)"
  have "set (ast_operations ?a1) \<subseteq> set (ast_operations a)"
    using application_resources_after_service[OF 1(2)] by (auto simp: creator_step_def extends_with_def)
  also have "\<dots> \<subseteq> set (ast_operations b)"
    using adds_main_extends(1)[OF application_resources_step[OF 1(2)] CreateAppContainer_main[OF 1(3)]]
    by (auto simp: extends_with_def)
  also have "\<dots> \<subseteq> set ops" using 1(11) by auto
  finally have sub: "set (ast_operations ?a1) \<subseteq> set ops" .
  let ?svc = "\<lparr>svc_type = ''ClusterIP'', svc_cluster_ip = [], svc_selector = [''app'' \<mapsto> src_name app],
    svc_port_name = ws_service_protocol (src_spec app), svc_protocol = ''TCP'', svc_port = ws_service_port (src_spec app),
    svc_target_port = if wonderwall_IsEnabled app (fst opts) then IntVal wonderwall_Port else StrVal (lib_DefaultPortName lib)\<rparr>"
  let ?rop = "\<lparr>op_resource = \<lparr>obj_type_meta = \<lparr>tm_kind = ''Service'', tm_api_version = ''v1''\<rparr>,
    obj_meta = CreateObjectMeta lib app, obj_payload = PService ?svc\<rparr>, op_operation = OperationCreateOrUpdate\<rparr>"
  have "?rop \<in> set ops" using sub by (simp add: service_Create_def Let_def)
  then have "generates_service app ops ?svc"
    unfolding generates_service_def by (rule bexI[rotated]) (simp add: obj_key_def meta_key_def)
  then show thesis by (rule that) simp_all
qed

lemma application_sidecars_distinct: "distinct (application_sidecars s cfg)"
  by (simp add: application_sidecars_def)

lemma naisjob_sidecars_distinct: "distinct (naisjob_sidecars s cfg)"
  by (auto simp: naisjob_sidecars_def)

text \<open>C5. What an Application is generated to: every object belongs to the workload (it carries the labels of the
  workload, and is in its namespace with its owner reference, or in a namespace of service accounts or of the
  database without one); there is a Deployment of the workload's name whose pod runs the workload's
  image in one unprivileged container, beside unprivileged sidecars, and mounts only volumes that it has; the labels
  of its pods are those that it selects.\<close>

theorem Application_Generate_sound:
  assumes "Application_Generate lib app opts = Inr ops"
  shows "(\<forall>rop \<in> set ops. belongs_to lib app (op_resource rop))
    \<and> (\<exists>spec. generates_deployment app ops spec \<and> pod_sound lib app (pt_spec (dep_template spec))
        \<and> dep_match_labels spec \<subseteq>\<^sub>m gm_map (om_labels (pt_meta (dep_template spec)))
        \<and> gm_map (om_labels (pt_meta (dep_template spec))) ''team'' = Some (src_namespace app))"
  by (rule Application_Generate_facts[OF assms]) (metis app_selector_le)

text \<open>C8. The sidecars of an Application are exactly those that it asks for, each once and in a fixed order: the
  elector for leader election, Wonderwall for a login provider, the Cloud SQL proxy for an instance without a
  private address, the Vault client, and Texas when any client of an identity provider is there. No sidecar but the Cloud SQL proxy
  claims the port of the application.\<close>

theorem Application_Generate_sidecars:
  assumes "Application_Generate lib app opts = Inr ops"
  shows "\<exists>spec. generates_deployment app ops spec
    \<and> map c_name (pod_init_containers (pt_spec (dep_template spec))) = application_sidecars app (fst opts)
    \<and> distinct (map c_name (pod_init_containers (pt_spec (dep_template spec))))
    \<and> (\<forall>c \<in> set (pod_init_containers (pt_spec (dep_template spec))).
         c_name c \<noteq> ''cloudsql-proxy'' \<longrightarrow> ws_port (src_spec app) \<notin> container_ports_of c)"
  by (rule Application_Generate_facts[OF assms])
    (force simp: list_all_iff sidecar_ok_def application_sidecars_distinct)


text \<open>C9. What a Naisjob is generated to: every object belongs to the workload; the last one is the CronJob of the
  workload's name, whose pods carry the label by which the network policies select them, run the
  workload's image in one unprivileged container beside exactly the sidecars that the manifest asks for, and mount only
  volumes that they have.\<close>

theorem Naisjob_Generate_sound:
  assumes "Naisjob_Generate lib job cfg = Inr ops"
  shows "(\<forall>rop \<in> set ops. belongs_to lib job (op_resource rop))
    \<and> (\<exists>spec. ops \<noteq> [] \<and> obj_payload (op_resource (last ops)) = PCronJob spec
        \<and> obj_key (op_resource (last ops)) = \<lparr>key_namespace = src_namespace job, key_name = src_name job\<rparr>
        \<and> pod_sound lib job (pt_spec (js_template (cj_job_spec spec)))
        \<and> gm_map (om_labels (pt_meta (js_template (cj_job_spec spec)))) ''app'' = Some (src_name job)
        \<and> map c_name (pod_init_containers (pt_spec (js_template (cj_job_spec spec)))) = naisjob_sidecars job cfg
        \<and> distinct (naisjob_sidecars job cfg))"
  using assms
proof (cases rule: Naisjob_GenerateE)
  case (1 a b spec meta)
  note step = naisjob_resources_step[OF 1(2)] and main = CreateNaisjobContainer_main[OF 1(3)]
  have "keeps_identity NewAst b"
    using naisjob_resources_labels[OF 1(2)] main_container_labels(2)[OF 1(3)] by (simp add: keeps_identity_def)
  note labels = job_identity[OF this, of lib job cfg, folded 1(5)]
  have "belongs_to lib job (\<lparr>obj_type_meta = tm, obj_meta = meta, obj_payload = p\<rparr>)" for tm p
    using 1(7-9) CreateObjectMeta_simps(3-5)[of lib job] by (simp add: belongs_to_def label_def)
  then have "\<forall>rop \<in> set ops. belongs_to lib job (op_resource rop)"
    using 1(10) adds_main_extends(2)[OF step main] by auto
  moreover have "ops \<noteq> []" "obj_payload (op_resource (last ops)) = PCronJob spec"
    "obj_key (op_resource (last ops)) = \<lparr>key_namespace = src_namespace job, key_name = src_name job\<rparr>"
    using 1(6,7,10) by (simp_all add: obj_key_def meta_key_def)
  moreover note generated_pod[OF step main 1(4)] naisjob_sidecars_distinct[of job cfg]
    generated_sidecars[OF step main naisjob_resources_sidecars[OF 1(2)] main_container_init(2)[OF 1(3)] 1(4)]
  ultimately show ?thesis using labels by blast
qed

text \<open>
  The case that \<open>Application_Generate_traffic\<close> excludes: ID-porten is disabled and its sidecar is enabled. The Service
  then targets the port of Wonderwall, and the pod has no such sidecar.
\<close>

lemma idporten_sidecar_without_client:
  assumes "Application_Generate lib app opts = Inr ops" and "IsWonderwallEnabled (fst opts)"
    and "idporten_sidecar_enabled app" "\<not> idporten_on app"
    and "\<not> azure_sidecar_enabled app" "ws_login (src_spec app) = None"
  shows "\<exists>spec svc. generates_deployment app ops spec \<and> generates_service app ops svc
    \<and> svc_target_port svc = IntVal wonderwall_Port
    \<and> ''wonderwall'' \<notin> c_name ` set (pod_init_containers (pt_spec (dep_template spec)))"
proof (rule Application_Generate_facts[OF assms(1)], rule Application_Generate_service[OF assms(1)])
  fix spec svc
  assume "generates_deployment app ops spec" "generates_service app ops svc"
    and names: "map c_name (pod_init_containers (pt_spec (dep_template spec))) = application_sidecars app (fst opts)"
    and "svc_target_port svc = (if wonderwall_IsEnabled app (fst opts) then IntVal wonderwall_Port else StrVal (lib_DefaultPortName lib))"
  moreover have "wonderwall_IsEnabled app (fst opts)" using assms(2,3) by (simp add: wonderwall_IsEnabled_def)
  moreover have "''wonderwall'' \<notin> set (application_sidecars app (fst opts))"
    using assms(4-6) by (simp add: application_sidecars_def)
  moreover have "c_name ` set (pod_init_containers (pt_spec (dep_template spec))) = set (application_sidecars app (fst opts))"
    unfolding names[symmetric] by simp
  ultimately show ?thesis by auto
qed

end
