(* ===== verification/Generate_Witnesses.thy ===== *)
theory Generate_Witnesses
  imports Generate Creator_Witnesses
begin

text \<open>
  A small Application with leader election and a small Naisjob, generated from start to end: the cases in which the
  hypotheses of the properties of \<open>Generate\<close> hold. A creator that a manifest does not ask for leaves the \<open>Ast\<close>
  as it is.
\<close>

section \<open>Creators that are off\<close>

lemma creators_off:
  "ws_frontend (src_spec s) = None \<Longrightarrow> frontend_Create lib s cfg a = Inr a"
  "ws_observability (src_spec s) = None \<Longrightarrow> observability_Create lib s cfg a = Inr a"
  "ws_ingresses (src_spec s) = [] \<Longrightarrow> ingress_Create lib s opts a = Inr a"
  "ws_azure (src_spec s) = None \<Longrightarrow> azure_Create lib s cfg a = Inr (None, a)"
  "ws_idporten (src_spec s) = None \<Longrightarrow> idporten_Create lib s cfg a = Inr (None, a)"
  "ws_login (src_spec s) = None \<Longrightarrow> login_Create lib s cfg a = Inr a"
  "ws_gcp (src_spec s) = None \<Longrightarrow> \<not> IsCNRMEnabled cfg \<Longrightarrow> gcp_Create lib s cfg a = Inr a"
  "\<not> ws_web_proxy (src_spec s) \<Longrightarrow> proxyopts_Create s cfg a = Inr a"
  "ws_maskinporten (src_spec s) = None \<Longrightarrow> maskinporten_Create lib s cfg a = Inr (None, a)"
  "\<not> IsJwkerEnabled cfg \<Longrightarrow> jwker_Create lib s cfg a = Inr (None, a)"
  "\<not> IsVaultEnabled cfg \<Longrightarrow> vault_Create lib s cfg a = Inr a"
  "\<not> IsTexasEnabled cfg \<Longrightarrow> texas_Create lib s cfg clts a = Inr a"
  by (simp_all add: frontend_Create_def observability_Create_def ingress_Create_def azure_Create_def idporten_Create_def
      login_Create_def gcp_Create_def proxyopts_Create_def maskinporten_Create_def jwker_Create_def vault_Create_def
      texas_Create_def)

lemma aiven_off:
  assumes "ws_kafka (src_spec s) = None" "ws_opensearch (src_spec s) = None" "ws_valkey (src_spec s) = []"
    and "\<And>m. \<exists>n. generateAivenSecretName lib (om_name m) ''kafka'' (label m secret_generation_label) = Inr n"
  shows "aiven_Create lib s cfg a = Inr a"
  using assms(1-3) assms(4)[of "(CreateObjectMeta lib s)\<lparr>om_labels := gm_set secret_generation_label (Itoa (GetAivenGeneration cfg))
      (om_labels (CreateObjectMeta lib s))\<rparr>"]
  by (auto simp: aiven_Create_def aiven_Kafka_def aiven_OpenSearch_def aiven_Valkey_def Let_def)

section \<open>An Application\<close>

definition gen_config :: config where
  "gen_config = sample_config\<lparr>cfg_LeaderElectionImage := ''elector:1''\<rparr>"

definition gen_options :: options where
  "gen_options = (new_options gen_config)\<lparr>opt_NumReplicas := 2, opt_Team := ''team''\<rparr>"

definition gen_app :: source where
  "gen_app = sample_app\<lparr>src_spec := sample_spec\<lparr>ws_leader_election := True\<rparr>\<rparr>"

definition gen_opts :: "options \<times> map_order" where
  "gen_opts = (gen_options, \<lambda>n xs. xs)"

lemmas gen_defs = gen_opts_def gen_options_def gen_config_def gen_app_def sample_app_def sample_spec_def sample_config_def
  sample_features_def new_options_def

lemma sample_secret_names: "\<exists>n. generateAivenSecretName sample_lib name what gen = Inr n"
  by (simp add: generateAivenSecretName_def sample_lib_def sample_names_def Let_def split: prod.splits)

lemma gen_leaderelection: "\<exists>b. leaderelection_Create sample_lib gen_app gen_options a = Inr b"
  by (simp add: leaderelection_Create_def elector_container_def sidecar_resources_def MustParse_def gen_defs Let_def
      sample_lib_def sample_names_def)

lemma gen_resources: "\<exists>a. application_resources sample_lib gen_app gen_opts = Inr a"
proof -
  have off: "ws_frontend (src_spec gen_app) = None" "ws_observability (src_spec gen_app) = None"
    "ws_ingresses (src_spec gen_app) = []" "ws_azure (src_spec gen_app) = None" "ws_idporten (src_spec gen_app) = None"
    "ws_login (src_spec gen_app) = None" "ws_gcp (src_spec gen_app) = None" "\<not> ws_web_proxy (src_spec gen_app)"
    "ws_maskinporten (src_spec gen_app) = None" "ws_kafka (src_spec gen_app) = None"
    "ws_opensearch (src_spec gen_app) = None" "ws_valkey (src_spec gen_app) = []" "fst gen_opts = gen_options"
    "\<not> IsCNRMEnabled gen_options" "\<not> IsJwkerEnabled gen_options" "\<not> IsVaultEnabled gen_options"
    "\<not> IsTexasEnabled gen_options" "\<not> PostgresOperatorEnabled gen_options"
    by (simp_all add: gen_defs)
  obtain b where "leaderelection_Create sample_lib gen_app gen_options (fqdnpolicy_Create sample_lib gen_app gen_options
     (networkpolicy_Create sample_lib gen_app gen_options (hpa_Create sample_lib gen_app (serviceaccount_Create sample_lib
       gen_app gen_options (service_Create sample_lib gen_app gen_options
         (CreateContainerEnvVars sample_lib gen_app gen_options NewAst)))))) = Inr b"
    using gen_leaderelection by blast
  then show ?thesis
    unfolding application_resources_def Let_def
    by (simp only: off creators_off aiven_off[OF off(10-12) sample_secret_names] rbind_simps prod.case if_False simp_thms) blast
qed

lemma gen_container: "\<exists>b. CreateAppContainer sample_lib gen_app gen_options a = Inr b"
  by (simp add: CreateAppContainer_def container_ports_def lifecycle_def ResourceLimits_def resource_list_def gen_defs Let_def)

lemma CreateSpec_returns:
  assumes "ast_containers b = [c]" and "c_name c = appName"
  shows "\<exists>pod. CreateSpec b cfg appName an policy grace = Inr pod"
  using reorderContainers_unique[of "[]" "[]" appName c, OF _ assms(2)] by (simp add: CreateSpec_def assms(1) Let_def)

text \<open>Once the resources and the main container are made, an Application without a pod monitor gets its Deployment.\<close>

lemma Application_Generate_returns:
  assumes "application_resources lib app opts = Inr a" and "CreateAppContainer lib app (fst opts) a = Inr b"
    and "src_kind app = Application" "\<not> ws_prometheus_enabled (src_spec app)"
  obtains ops dep where "Application_Generate lib app opts = Inr ops" "ops = ast_operations a @ [dep]"
    "op_operation dep = OperationCreateOrUpdate" "obj_type (op_resource dep) = TDeployment"
    "obj_type_meta (op_resource dep) = \<lparr>tm_kind = ''Deployment'', tm_api_version = ''apps/v1''\<rparr>"
    "om_name (obj_meta (op_resource dep)) = src_name app" "om_namespace (obj_meta (op_resource dep)) = src_namespace app"
proof -
  obtain c where "ast_containers b = [c]" "c_name c = src_name app"
    using adds_main_single[OF application_resources_step[OF assms(1)] CreateAppContainer_main[OF assms(2)]] .
  then obtain pod where "CreateSpec b (fst opts) (src_name app) (om_annotations (src_meta app)) ''Always''
      (ws_termination_grace (src_spec app)) = Inr pod" using CreateSpec_returns by blast
  then obtain spec b' where spec: "deploymentSpec lib app (fst opts) b = Inr (spec, b')"
    by (cases "CreateAppObjectMeta lib app (fst opts) b") (auto simp: deploymentSpec_def)
  have "ast_operations b = ast_operations a"
    using assms(2) by (auto simp: CreateAppContainer_def Let_def result_simps)
  with assms spec deploymentSpec_operations[OF spec] show thesis
    by (intro that[OF _ refl]) (auto simp: Application_Generate_def deployment_Create_def podmonitor_Create_def Let_def
        obj_type_def with_annotation_def copy_change_cause_def split: option.splits)
qed

lemma gen_ops: "\<exists>ops. Application_Generate sample_lib gen_app gen_opts = Inr ops"
proof -
  obtain a where a: "application_resources sample_lib gen_app gen_opts = Inr a" using gen_resources by blast
  obtain b where b: "CreateAppContainer sample_lib gen_app (fst gen_opts) a = Inr b"
    using gen_container by (auto simp: gen_opts_def)
  have "src_kind gen_app = Application" "\<not> ws_prometheus_enabled (src_spec gen_app)" by (simp_all add: gen_defs)
  with Application_Generate_returns[OF a b] show ?thesis by blast
qed

theorem Application_Generate_sound_witness:
  "\<exists>ops spec. Application_Generate sample_lib gen_app gen_opts = Inr ops
     \<and> (\<forall>rop \<in> set ops. belongs_to sample_lib gen_app (op_resource rop))
     \<and> generates_deployment gen_app ops spec \<and> pod_sound sample_lib gen_app (pt_spec (dep_template spec))"
  using gen_ops Application_Generate_sound by blast

theorem Application_Generate_sidecars_witness:
  "\<exists>ops spec. Application_Generate sample_lib gen_app gen_opts = Inr ops \<and> generates_deployment gen_app ops spec
     \<and> map c_name (pod_init_containers (pt_spec (dep_template spec))) = [''elector'']"
proof -
  have "application_sidecars gen_app (fst gen_opts) = [''elector'']"
    by (simp add: application_sidecars_def azure_sidecar_enabled_def idporten_on_def sql_requested_def vault_on_def gen_defs)
  then show ?thesis using gen_ops Application_Generate_sidecars by metis
qed


section \<open>A Naisjob\<close>

definition gen_job :: source where
  "gen_job = sample_app\<lparr>src_kind := Naisjob\<rparr>"

lemma job_resources: "\<exists>a. naisjob_resources sample_lib gen_job gen_options = Inr a"
proof -
  have off: "ws_observability (src_spec gen_job) = None" "ws_azure (src_spec gen_job) = None"
    "ws_gcp (src_spec gen_job) = None" "\<not> ws_web_proxy (src_spec gen_job)"
    "ws_maskinporten (src_spec gen_job) = None" "ws_kafka (src_spec gen_job) = None"
    "ws_opensearch (src_spec gen_job) = None" "ws_valkey (src_spec gen_job) = []"
    "\<not> IsCNRMEnabled gen_options" "\<not> IsVaultEnabled gen_options"
    "\<not> IsTexasEnabled gen_options" "\<not> PostgresOperatorEnabled gen_options"
    by (simp_all add: gen_defs gen_job_def)
  show ?thesis
    unfolding naisjob_resources_def Let_def
    by (simp only: off creators_off aiven_off[OF off(6-8) sample_secret_names] rbind_simps prod.case if_False simp_thms) blast
qed

lemma job_container: "\<exists>b. CreateNaisjobContainer sample_lib gen_job gen_options a = Inr b"
  by (simp add: CreateNaisjobContainer_def lifecycle_def ResourceLimits_def resource_list_def gen_defs gen_job_def Let_def)

lemma job_ops: "\<exists>ops. Naisjob_Generate sample_lib gen_job gen_options = Inr ops"
proof -
  obtain a where a: "naisjob_resources sample_lib gen_job gen_options = Inr a" using job_resources by blast
  obtain b where b: "CreateNaisjobContainer sample_lib gen_job gen_options a = Inr b" using job_container by blast
  obtain c where "ast_containers b = [c]" "c_name c = src_name gen_job"
    using adds_main_single[OF naisjob_resources_step[OF a] CreateNaisjobContainer_main[OF b]] .
  then obtain pod where pod: "CreateSpec b gen_options (src_name gen_job) (om_annotations (src_meta gen_job))
      (RestartPolicy (ws_restart_policy (src_spec gen_job))) (ws_termination_grace (src_spec gen_job)) = Inr pod"
    using CreateSpec_returns by blast
  have "src_kind gen_job = Naisjob" by (simp add: gen_job_def)
  with a b pod show ?thesis
    by (cases "CreateNaisjobObjectMeta sample_lib gen_job gen_options b")
      (auto simp: Naisjob_Generate_def CreateCronJob_def CreateJobSpec_def Let_def)
qed

theorem Naisjob_Generate_sound_witness:
  "\<exists>ops spec. Naisjob_Generate sample_lib gen_job gen_options = Inr ops \<and> ops \<noteq> []
     \<and> obj_payload (op_resource (last ops)) = PCronJob spec
     \<and> pod_sound sample_lib gen_job (pt_spec (js_template (cj_job_spec spec)))"
  using job_ops Naisjob_Generate_sound by metis

end
