(* ===== verification/Convergence.thy ===== *)
theory Convergence
  imports Synchronizer
begin

text \<open>
  When a synchronization succeeds. \<open>Sync_converges\<close> says what a successful \<open>Sync\<close> has done; here it is shown
  that it does succeed: against an API server that is available (it answers, and it
  refuses a write only for the reasons that Kubernetes documents), every operation that the guards of the updater
  accept is carried out, so no rollout is stuck.
\<close>

section \<open>An available API server\<close>

definition api_available :: "'w kube_client \<Rightarrow> 'w lookup \<Rightarrow> bool" where
  "api_available c lk \<longleftrightarrow>
     (\<forall>t opts w. lo_fields opts = [] \<longrightarrow> \<not> isl (kc_List c t opts w))
   \<and> (\<forall>ob w. om_name (obj_meta ob) \<noteq> [] \<and> lk w (obj_id ob) = None \<longrightarrow> \<not> isl (fst (kc_Create c ob w)))
   \<and> (\<forall>ob w. lk w (obj_id ob) \<noteq> None \<longrightarrow> fst (kc_Delete c ob w) = None)
   \<and> (\<forall>ob old w. lk w (obj_id ob) = Some old \<and> om_resource_version (obj_meta ob) = om_resource_version (obj_meta old)
        \<longrightarrow> \<not> isl (fst (kc_Update c ob w)))
   \<and> (\<forall>ob old w. lk w (obj_id ob) = Some old \<and> om_resource_version (obj_meta ob) = om_resource_version (obj_meta old)
        \<longrightarrow> \<not> isl (fst (kc_Patch c ob old w)))"

lemma mem_available: "api_available mem_client mem_lookup"
  by (auto simp: api_available_def mem_List_def mem_Create_def mem_Delete_def mem_Update_def Let_def split: option.splits)

lemma available_create:
  assumes "api_available c lk" and "om_name (obj_meta ob) \<noteq> []" and "lk w (obj_id ob) = None"
  obtains ob' w' where "kc_Create c ob w = (Inr ob', w')"
proof -
  have "\<not> isl (fst (kc_Create c ob w))" using assms unfolding api_available_def by blast
  then show thesis using that by (cases "kc_Create c ob w"; cases "fst (kc_Create c ob w)") auto
qed

lemma available_delete:
  assumes "api_available c lk" and "lk w (obj_id ob) \<noteq> None"
  obtains w' where "kc_Delete c ob w = (None, w')"
proof -
  have "fst (kc_Delete c ob w) = None" using assms unfolding api_available_def by blast
  then show thesis using that by (cases "kc_Delete c ob w") auto
qed

lemma available_update:
  assumes "api_available c lk" and "lk w (obj_id ob) = Some old"
    and "om_resource_version (obj_meta ob) = om_resource_version (obj_meta old)"
  obtains ob' w' where "kc_Update c ob w = (Inr ob', w')"
proof -
  have "\<not> isl (fst (kc_Update c ob w))" using assms unfolding api_available_def by blast
  then show thesis using that by (cases "kc_Update c ob w"; cases "fst (kc_Update c ob w)") auto
qed

lemma available_patch:
  assumes "api_available c lk" and "lk w (obj_id ob) = Some old"
    and "om_resource_version (obj_meta ob) = om_resource_version (obj_meta old)"
  obtains ob' w' where "kc_Patch c ob old w = (Inr ob', w')"
proof -
  have "\<not> isl (fst (kc_Patch c ob old w))" using assms unfolding api_available_def by blast
  then show thesis using that by (cases "kc_Patch c ob old w"; cases "fst (kc_Patch c ob old w)") auto
qed

lemma available_list:
  assumes "api_available c lk" and "lo_fields opts = []"
  obtains items where "kc_List c t opts w = Inr items"
proof -
  have "\<not> isl (kc_List c t opts w)" using assms unfolding api_available_def by blast
  then show thesis using that by (cases "kc_List c t opts w") auto
qed

section \<open>Every operation succeeds\<close>

text \<open>The operations on an object that succeed whatever is in the cluster.\<close>

lemma DeleteIfExists_succeeds:
  assumes "api_server c lk" and "api_available c lk"
  shows "\<exists>w'. DeleteIfExists c res w = (None, w')"
proof (cases "lk w (obj_id res)")
  case None
  then obtain e w' where "kc_Delete c res w = (Some e, w')"
    using api_delete_None[OF api_serverD(3)[OF assms(1)], of res w]
    by (metis surj_pair not_Some_eq)
  with None api_delete_Some[OF api_serverD(3)[OF assms(1)] this] show ?thesis by (simp add: DeleteIfExists_def)
next
  case (Some old)
  then obtain w' where "kc_Delete c res w = (None, w')" using available_delete[OF assms(2)] by blast
  then show ?thesis by (simp add: DeleteIfExists_def)
qed

lemma CreateIfNotExists_succeeds:
  assumes "api_server c lk" and "api_available c lk" and "om_name (obj_meta res) \<noteq> []"
  shows "\<exists>w'. CreateIfNotExists c res w = (None, w')"
proof (cases "lk w (obj_id res)")
  case None
  then obtain ob w' where "kc_Create c res w = (Inr ob, w')" using available_create[OF assms(2,3)] by blast
  then show ?thesis by (simp add: CreateIfNotExists_def)
next
  case (Some old)
  note create = api_create_Inr[OF api_serverD(2)[OF assms(1)] _ assms(3), of w]
    api_create_Inl[OF api_serverD(2)[OF assms(1)] _ assms(3), of w]
  obtain r w' where r: "kc_Create c res w = (r, w')" by (cases "kc_Create c res w")
  show ?thesis
  proof (cases r)
    case (Inl e)
    with r create(2)[of e w'] Some show ?thesis by (simp add: CreateIfNotExists_def)
  next
    case (Inr ob)
    with r create(1)[of ob w'] Some show ?thesis by simp
  qed
qed

lemma AnnotateIfExists_succeeds:
  assumes "api_server c lk" and "api_available c lk" and "persistable scheme res"
  shows "\<exists>w'. AnnotateIfExists c scheme res w = (None, w')"
proof (cases "lk w (obj_id res)")
  case None
  then obtain e where "kc_Get c (obj_type res) (obj_key res) w = Inl e" "IsNotFound e"
    using api_get_None[OF api_serverD(1)[OF assms(1)], of w "obj_type res" "obj_key res"] unfolding obj_id_def by blast
  with assms(3) show ?thesis by (simp add: AnnotateIfExists_def persistable_def)
next
  case (Some old)
  with api_get_Some[OF api_serverD(1)[OF assms(1)]]
  have get: "kc_Get c (obj_type res) (obj_key res) w = Inr old" and old: "obj_id old = obj_id res"
    unfolding obj_id_def by fastforce+
  have "obj_id (CopyAnnotations old res) = obj_id old"
    "om_resource_version (obj_meta (CopyAnnotations old res)) = om_resource_version (obj_meta old)"
    by (simp_all add: CopyAnnotations_def obj_id_map_meta)
  then obtain ob' w' where "kc_Patch c (CopyAnnotations old res) old w = (Inr ob', w')"
    using available_patch[OF assms(2), of w "CopyAnnotations old res" old] Some old by auto
  with get assms(3) show ?thesis by (simp add: AnnotateIfExists_def persistable_def)
qed

lemma CreateOrRecreate_succeeds:
  assumes "api_server c lk" and "api_available c lk" and "persistable scheme res"
  shows "\<exists>w'. CreateOrRecreate c scheme ck res w = Some (None, w')"
proof -
  note api = api_serverD[OF assms(1)]
  obtain err w1 where del: "kc_Delete c res w = (err, w1)" by (cases "kc_Delete c res w")
  have "(case err of Some e \<Rightarrow> IsNotFound e | None \<Rightarrow> True) \<and> lk w1 (obj_id res) = None"
  proof (cases "lk w (obj_id res)")
    case None
    with del api_delete_None[OF api(3), of res w w1] obtain e where "err = Some e" by (cases err) auto
    with None del api_delete_Some[OF api(3), of res w e w1] show ?thesis by simp
  next
    case (Some old)
    then obtain w' where "kc_Delete c res w = (None, w')" using available_delete[OF assms(2)] by blast
    with del api_delete_None[OF api(3), of res w w1] show ?thesis by simp
  qed
  then have ok: "case err of Some e \<Rightarrow> IsNotFound e | None \<Rightarrow> True" and gone: "lk w1 (obj_id res) = None" by blast+
  from assms(3) have sch: "scheme (obj_type_meta res) = Inr (obj_type res)" and name: "om_name (obj_meta res) \<noteq> []"
    by (simp_all add: persistable_def)
  from gone api_get_None[OF api(1), of w1 "obj_type res" "obj_key res"] obtain e where
    "kc_Get c (obj_type res) (obj_key res) w1 = Inl e" "IsNotFound e" by (auto simp: obj_id_def)
  then have "await_deletion c ck (obj_type res) (obj_key res) t w1 = Some (None, w1)" for t
    by (subst await_deletion.simps) simp
  moreover obtain ob w2 where "kc_Create c res w1 = (Inr ob, w2)" using available_create[OF assms(2) name gone] .
  ultimately show ?thesis using del ok sch by (auto simp: CreateOrRecreate_def split: option.splits)
qed

text \<open>\<open>CreateOrUpdate\<close> refuses an object of someone else, and needs its namespace.\<close>

definition updatable :: "'w lookup \<Rightarrow> 'w \<Rightarrow> k8s_object \<Rightarrow> bool" where
  "updatable lk w res \<longleftrightarrow> (\<exists>ns. lk w (TNamespace, \<lparr>key_namespace = [], key_name = obj_namespace res\<rparr>) = Some ns
     \<and> (\<forall>old. lk w (obj_id res) = Some old \<longrightarrow>
          AssertValidOwnerReference res old (label (obj_meta ns) ''nais.io/type'' = ''postgres'') = None))"

lemma CopyImmutable_same_type: "obj_type dst = obj_type src \<Longrightarrow> \<exists>d. CopyImmutable dst src = Inr d"
  by (cases "obj_payload src"; cases "obj_payload dst") (simp_all add: CopyImmutable_def obj_type_def)

lemma AssertValidOwnerReference_cong:
  "om_owner_references (obj_meta dst) = om_owner_references (obj_meta dst') \<Longrightarrow>
   AssertValidOwnerReference dst src pg = AssertValidOwnerReference dst' src pg"
  by (simp add: AssertValidOwnerReference_def owner_refs_def)

lemma merge_existing_returns:
  assumes "obj_type res = obj_type existing" and "AssertValidOwnerReference res existing pg = None"
  obtains res' where "merge_existing res existing pg = Inr res'"
proof -
  obtain d where d: "CopyImmutable (CopyMeta res existing) existing = Inr d"
    using CopyImmutable_same_type[of "CopyMeta res existing" existing] assms(1) by auto
  have "AssertValidOwnerReference d existing pg = None"
    using CopyImmutable_meta[OF d] assms(2) AssertValidOwnerReference_cong[of d res] by simp
  with d show thesis using that by (simp add: merge_existing_def)
qed

lemma CreateOrUpdate_succeeds:
  assumes "api_server c lk" and "api_available c lk" and "persistable scheme res" and "updatable lk w res"
  shows "\<exists>w'. CreateOrUpdate c scheme res w = (None, w')"
proof -
  note get = api_get_Some[OF api_serverD(1)[OF assms(1)]] api_get_None[OF api_serverD(1)[OF assms(1)]]
  from assms(3) have sch: "scheme (obj_type_meta res) = Inr (obj_type res)" and name: "om_name (obj_meta res) \<noteq> []"
    by (simp_all add: persistable_def)
  from assms(4) obtain ns where "lk w (TNamespace, \<lparr>key_namespace = [], key_name = obj_namespace res\<rparr>) = Some ns"
    and guard: "\<And>old. lk w (obj_id res) = Some old \<Longrightarrow>
      AssertValidOwnerReference res old (label (obj_meta ns) ''nais.io/type'' = ''postgres'') = None"
    unfolding updatable_def by blast
  then have ns: "kc_Get c TNamespace \<lparr>key_namespace = [], key_name = obj_namespace res\<rparr> w = Inr ns"
    using get(1) by blast
  show ?thesis
  proof (cases "lk w (obj_id res)")
    case None
    then obtain e where "kc_Get c (obj_type res) (obj_key res) w = Inl e" "IsNotFound e"
      using get(2)[of w "obj_type res" "obj_key res"] unfolding obj_id_def by blast
    moreover obtain ob w' where "kc_Create c res w = (Inr ob, w')" using available_create[where w = w, OF assms(2) name None] .
    ultimately show ?thesis using sch ns by (simp add: CreateOrUpdate_def)
  next
    case (Some old)
    then have old: "kc_Get c (obj_type res) (obj_key res) w = Inr old" "obj_type res = obj_type old"
      using get(1)[of w "obj_type res" "obj_key res" old] unfolding obj_id_def by auto
    obtain res' where res': "merge_existing res old (label (obj_meta ns) ''nais.io/type'' = ''postgres'') = Inr res'"
      using merge_existing_returns[OF old(2) guard[OF Some]] .
    have "lk w (obj_id res') = Some old" using Some merge_existing_id[OF res'] by simp
    then obtain ob w' where "kc_Update c res' w = (Inr ob, w')"
      using available_update[OF assms(2)] merge_existing_facts(1)[OF res'] by metis
    with sch ns old(1) res' show ?thesis by (simp add: CreateOrUpdate_def)
  qed
qed

section \<open>A rollout succeeds\<close>

text \<open>An operation that the guards accept in a state of the cluster.\<close>

definition acceptable :: "'w lookup \<Rightarrow> 'w \<Rightarrow> operation \<Rightarrow> bool" where
  "acceptable lk w rop \<longleftrightarrow> (case op_operation rop of
     OperationCreateOrUpdate \<Rightarrow> updatable lk w (op_resource rop)
   | OperationOther name \<Rightarrow> False
   | _ \<Rightarrow> True)"

lemma operation_succeeds:
  assumes "sync_env n lk" and "api_available (sy_client n) lk" and "persistable (sy_scheme n) (op_resource rop)"
    and "acceptable lk w rop"
  obtains fn w' where "operation_fn n rop = Some fn" "fn w = Some (None, w')"
proof -
  from assms(1) have api: "api_server (sy_client n) lk" by (simp add: sync_env_def)
  from assms(3) have name: "om_name (obj_meta (op_resource rop)) \<noteq> []" by (simp add: persistable_def)
  have "\<exists>fn w'. operation_fn n rop = Some fn \<and> fn w = Some (None, w')"
  proof (cases "op_operation rop")
    case OperationCreateOrUpdate
    with assms(4) CreateOrUpdate_succeeds[OF api assms(2,3)] show ?thesis
      by (simp add: operation_fn_def acceptable_def)
  next
    case OperationCreateOrRecreate
    with CreateOrRecreate_succeeds[OF api assms(2,3)] show ?thesis by (simp add: operation_fn_def)
  next
    case OperationCreateIfNotExists
    with CreateIfNotExists_succeeds[OF api assms(2) name] show ?thesis by (simp add: operation_fn_def)
  next
    case OperationDeleteIfExists
    with DeleteIfExists_succeeds[OF api assms(2)] show ?thesis by (simp add: operation_fn_def)
  next
    case AnnotateIfExistsOp
    with AnnotateIfExists_succeeds[OF api assms(2,3)] show ?thesis by (simp add: operation_fn_def)
  next
    case (OperationOther name)
    with assms(4) show ?thesis by (simp add: acceptable_def)
  qed
  then show thesis using that by blast
qed

lemma acceptable_frame:
  assumes "acceptable lk w rop"
    and "\<And>k. lk w' (TNamespace, k) = lk w (TNamespace, k)"
    and "op_operation rop = OperationCreateOrUpdate \<Longrightarrow> lk w' (op_id rop) = lk w (op_id rop)"
  shows "acceptable lk w' rop"
  using assms by (cases "op_operation rop") (simp_all add: acceptable_def updatable_def op_id_def)

text \<open>An object that is created or updated is the object of no other operation.\<close>

definition updated_once :: "operations \<Rightarrow> bool" where
  "updated_once ops = sorted_wrt (\<lambda>a b. op_operation a = OperationCreateOrUpdate \<or> op_operation b = OperationCreateOrUpdate
     \<longrightarrow> op_id a \<noteq> op_id b) ops"

lemma updated_once_last:
  assumes "updated_once ops" and "rop \<in> set ops" and "op_operation rop = OperationCreateOrUpdate"
  shows "last_on ops rop"
  using assms by (induction ops) (auto simp: updated_once_def)

lemma operations_succeed:
  assumes "sync_env n lk" and "api_available (sy_client n) lk"
  shows "\<forall>rop \<in> set ops. persistable (sy_scheme n) (op_resource rop) \<and> acceptable lk w rop \<and> fst (op_id rop) \<noteq> TNamespace
    \<Longrightarrow> updated_once ops
    \<Longrightarrow> \<exists>cs cache' w'. operation_commits n ops cache = (Inr cs, cache')
        \<and> rolloutWithRetryAndMetrics cs w = Some ((False, None), w')"
proof (induction ops arbitrary: w cache)
  case (Cons rop ops)
  then have per: "persistable (sy_scheme n) (op_resource rop)" and acc: "acceptable lk w rop"
    and ns: "fst (op_id rop) \<noteq> TNamespace" by auto
  obtain fn w1 where fn: "operation_fn n rop = Some fn" "fn w = Some (None, w1)"
    using operation_succeeds[OF assms per acc] .
  note frame = touches_onlyD[OF operation_fn_touches[OF assms(1) per fn(1)] fn(2)]
  have acc1: "acceptable lk w1 r" if "r \<in> set ops" for r
  proof (rule acceptable_frame)
    show "acceptable lk w r" using Cons.prems(1) that by simp
    show "lk w1 (TNamespace, k) = lk w (TNamespace, k)" for k
      using frame[of "(TNamespace, k)"] ns by (metis fst_conv)
    show "lk w1 (op_id r) = lk w (op_id r)" if "op_operation r = OperationCreateOrUpdate"
      using frame[of "op_id r"] Cons.prems(2) \<open>r \<in> set ops\<close> that by (auto simp: updated_once_def)
  qed
  obtain cs cache' w' where "operation_commits n ops (checkListable n (obj_type_meta (op_resource rop)) cache) = (Inr cs, cache')"
    "rolloutWithRetryAndMetrics cs w1 = Some ((False, None), w')"
  proof -
    have "\<forall>r \<in> set ops. persistable (sy_scheme n) (op_resource r) \<and> acceptable lk w1 r \<and> fst (op_id r) \<noteq> TNamespace"
      "updated_once ops"
      using Cons.prems acc1 by (simp_all add: updated_once_def)
    from Cons.IH[OF this] show thesis using that by blast
  qed
  with fn show ?case by (simp add: Let_def)
qed simp

lemma deletes_succeed:
  assumes "api_server (sy_client n) lk" and "api_available (sy_client n) lk"
  shows "\<exists>w'. rolloutWithRetryAndMetrics (map (delete_commit n) obs) w = Some ((False, None), w')"
proof (induction obs arbitrary: w)
  case (Cons ob obs)
  obtain w1 where "DeleteIfExists (sy_client n) ob w = (None, w1)" using DeleteIfExists_succeeds[OF assms] by blast
  with Cons.IH[of w1] show ?case by simp
qed simp

lemma FindAll_succeeds:
  assumes "api_available c lk" and "lib_NewRequirement lib ''app'' (src_name s) = None"
  obtains obs where "FindAll c lib types s w = Inr obs"
proof -
  have fields: "lo_fields (app_selector s) = []" by (simp add: app_selector_def list_all_namespaces_def)
  have one: "\<exists>items. kc_List c t (app_selector s) w = Inr items" for t
    using available_list[OF assms(1) fields] by metis
  have "\<exists>lists. mapM_result (\<lambda>t. case kc_List c t (app_selector s) w of
      Inl e \<Rightarrow> Inl (errorf_w ''list: '' e) | Inr items \<Rightarrow> Inr items) types = Inr lists"
  proof (induction types)
    case (Cons t types)
    with one[of t] show ?case by auto
  qed simp
  then show thesis using assms(2) that by (auto simp: FindAll_def)
qed

lemma ClusterOperations_ok:
  assumes "operation_commits n (ro_operations r) cache = (Inr cs, cache')" and "Unreferenced n r w = Inr obs"
  shows "ClusterOperations n r cache w = (map (delete_commit n) obs @ cs, cache')"
  using assms by (simp add: ClusterOperations_def)

lemma rollout_append_ok:
  "rolloutWithRetryAndMetrics xs w = Some ((False, None), w1) \<Longrightarrow>
   rolloutWithRetryAndMetrics (xs @ ys) w = rolloutWithRetryAndMetrics ys w1"
  by (induction xs arbitrary: w) (auto simp: Let_def split: option.splits)

text \<open>The conditions under which a rollout succeeds from a state of the cluster.\<close>

definition rollout_ready :: "('w, 'opt) synchronizer \<Rightarrow> 'w lookup \<Rightarrow> 'w \<Rightarrow> operations \<Rightarrow> bool" where
  "rollout_ready n lk w ops \<longleftrightarrow> updated_once ops
     \<and> (\<forall>rop \<in> set ops. persistable (sy_scheme n) (op_resource rop) \<and> acceptable lk w rop
          \<and> obj_type (op_resource rop) \<noteq> TNamespace)"

lemma Sync_returns_ok:
  assumes "sync_env n lk" and "api_available (sy_client n) lk"
    and "lib_NewRequirement (sy_lib n) ''app'' (src_name (ro_source r)) = None" and "TNamespace \<notin> set (sy_listers n)"
    and ready: "rollout_ready n lk (ss_world st) (ro_operations r)"
  shows "\<exists>st'. Sync n r st = Some ((False, None), st')"
proof -
  let ?w = "ss_world st" and ?ops = "ro_operations r"
  from assms(1) have api: "api_server (sy_client n) lk" by (simp add: sync_env_def)
  obtain found where "FindAll (sy_client n) (sy_lib n) (sy_listers n) (ro_source r) ?w = Inr found"
    using FindAll_succeeds[OF assms(2,3)] by blast
  then obtain obs where un: "Unreferenced n r ?w = Inr obs" by (simp add: Unreferenced_def)
  obtain w1 where del: "rolloutWithRetryAndMetrics (map (delete_commit n) obs) ?w = Some ((False, None), w1)"
    using deletes_succeed[OF api assms(2)] by blast
  note w1 = rollout_deletes[OF api_serverD(3)[OF api] del] and obs = Unreferenced_set[OF api_serverD(6)[OF api] un]
  have "acceptable lk w1 rop" if rop: "rop \<in> set ?ops" for rop
  proof (rule acceptable_frame)
    show "acceptable lk ?w rop" using ready rop by (simp add: rollout_ready_def)
    show "lk w1 (TNamespace, k) = lk ?w (TNamespace, k)" for k
      using w1 obs assms(4) by (auto simp: obj_id_def obsolete_def)
    show "lk w1 (op_id rop) = lk ?w (op_id rop)"
    proof -
      have "op_id rop \<notin> obj_id ` set obs"
        using obs obsolete_not_op[where n = n and r = r, OF _ rop] by fastforce
      then show ?thesis using w1 by simp
    qed
  qed
  then have "\<forall>rop \<in> set ?ops. persistable (sy_scheme n) (op_resource rop) \<and> acceptable lk w1 rop \<and> fst (op_id rop) \<noteq> TNamespace"
    "updated_once ?ops"
    using ready by (auto simp: rollout_ready_def op_id_def obj_id_def)
  from operations_succeed[OF assms(1,2) this] obtain cs cache' w' where
    "operation_commits n ?ops (ss_listable st) = (Inr cs, cache')" "rolloutWithRetryAndMetrics cs w1 = Some ((False, None), w')"
    by blast
  then show ?thesis
    using ClusterOperations_ok[OF _ un] rollout_append_ok[OF del] by (simp add: Sync_def)
qed


end
