(* ===== verification/Rollout.thy ===== *)
theory Rollout
  imports Generate Convergence
begin

text \<open>
  From the manifest to the cluster: the operations that the generator makes for an Application, carried out by the
  synchronizer against an available API server, leave a Deployment and a Service in the cluster that fit each
  other. This joins what is shown of the generator (\<open>Generate\<close>), of the synchronizer
  (\<open>Sync_effects\<close>) and of its success (\<open>Convergence\<close>).
\<close>

lemma mutable_part_Deployment: "mutable_part p = PDeployment spec status \<longleftrightarrow> p = PDeployment spec status"
  by (cases p) auto

lemma mutable_part_Service:
  "mutable_part p = mutable_part (PService svc) \<Longrightarrow> \<exists>svc'. p = PService svc' \<and> svc'\<lparr>svc_cluster_ip := []\<rparr> = svc\<lparr>svc_cluster_ip := []\<rparr>"
  by (cases p) auto

lemma same_but_cluster_ip:
  assumes "svc'\<lparr>svc_cluster_ip := []\<rparr> = svc\<lparr>svc_cluster_ip := []\<rparr>"
  shows "svc_selector svc' = svc_selector svc \<and> svc_target_port svc' = svc_target_port svc"
  using arg_cong[OF assms, of svc_selector] arg_cong[OF assms, of svc_target_port] by simp

text \<open>What the last operation on an object leaves, for an object that is created or updated.\<close>

lemma updated_object:
  assumes "sync_env n lk" and "\<forall>rop \<in> set (ro_operations r). persistable (sy_scheme n) (op_resource rop)"
    and "updated_once (ro_operations r)" and "Sync n r st = Some ((retry, None), st')"
    and "rop \<in> set (ro_operations r)" "op_operation rop = OperationCreateOrUpdate"
  obtains ob where "lk (ss_world st') (op_id rop) = Some ob"
    "mutable_part (obj_payload ob) = mutable_part (obj_payload (op_resource rop))"
proof -
  have "op_post rop (lk (ss_world st') (op_id rop))"
    using Sync_effects[OF assms(1) _ assms(4)] updated_once_last[OF assms(3,5,6)] assms(2) by blast
  with assms(6) show thesis using that by (auto simp: op_post_def Let_def)
qed

lemma generated_deployment_stored:
  assumes "sync_env n lk" and "\<forall>rop \<in> set (ro_operations r). persistable (sy_scheme n) (op_resource rop)"
    and "updated_once (ro_operations r)" and "Sync n r st = Some ((retry, None), st')"
    and "generates_deployment app (ro_operations r) spec"
  obtains ob where "lk (ss_world st') (TDeployment, \<lparr>key_namespace = src_namespace app, key_name = src_name app\<rparr>) = Some ob"
    "obj_payload ob = PDeployment spec deployment_status_zero"
proof -
  from assms(5) obtain rop where rop: "rop \<in> set (ro_operations r)" "op_operation rop = OperationCreateOrUpdate"
    "obj_key (op_resource rop) = \<lparr>key_namespace = src_namespace app, key_name = src_name app\<rparr>"
    "obj_payload (op_resource rop) = PDeployment spec deployment_status_zero" unfolding generates_deployment_def by blast
  obtain ob where "lk (ss_world st') (op_id rop) = Some ob"
    "mutable_part (obj_payload ob) = mutable_part (obj_payload (op_resource rop))"
    using updated_object[OF assms(1-4) rop(1,2)] .
  then show thesis using rop(3,4) that by (simp add: op_id_def obj_id_def obj_type_def mutable_part_Deployment)
qed

lemma generated_service_stored:
  assumes "sync_env n lk" and "\<forall>rop \<in> set (ro_operations r). persistable (sy_scheme n) (op_resource rop)"
    and "updated_once (ro_operations r)" and "Sync n r st = Some ((retry, None), st')"
    and "generates_service app (ro_operations r) svc"
  obtains ob svc' where "lk (ss_world st') (TService, \<lparr>key_namespace = src_namespace app, key_name = src_name app\<rparr>) = Some ob"
    "obj_payload ob = PService svc'" "svc_selector svc' = svc_selector svc" "svc_target_port svc' = svc_target_port svc"
proof -
  from assms(5) obtain rop where rop: "rop \<in> set (ro_operations r)" "op_operation rop = OperationCreateOrUpdate"
    "obj_key (op_resource rop) = \<lparr>key_namespace = src_namespace app, key_name = src_name app\<rparr>"
    "obj_payload (op_resource rop) = PService svc" unfolding generates_service_def by blast
  obtain ob where ob: "lk (ss_world st') (op_id rop) = Some ob"
    "mutable_part (obj_payload ob) = mutable_part (PService svc)"
    using updated_object[OF assms(1-4) rop(1,2)] rop(4) by metis
  from mutable_part_Service[OF ob(2)] obtain svc' where svc': "obj_payload ob = PService svc'"
    "svc'\<lparr>svc_cluster_ip := []\<rparr> = svc\<lparr>svc_cluster_ip := []\<rparr>" by blast
  show thesis using that[OF _ svc'(1)] same_but_cluster_ip[OF svc'(2)] ob(1) rop(3,4)
    by (simp add: op_id_def obj_id_def obj_type_def)
qed

text \<open>From the manifest to the cluster: against an available API server whose objects the guards of the
  updater accept, a synchronization of what an Application is generated to returns without error, and then the cluster holds the
  Deployment of the workload, whose pod is sound and has exactly the sidecars that the manifest asks for, and its Service, which
  selects the pods of that Deployment; and every obsolete object is gone.\<close>

lemma Application_rollout:
  assumes "sync_env n lk" and "api_available (sy_client n) lk"
    and "lib_NewRequirement (sy_lib n) ''app'' (src_name app) = None" and "TNamespace \<notin> set (sy_listers n)"
    and "Application_Generate (sy_lib n) app opts = Inr ops" and "rollout_ready n lk (ss_world st) ops"
    and "ro_source r = app" and "ro_operations r = ops"
  shows "\<exists>st' deployment spec status service svc. Sync n r st = Some ((False, None), st')
    \<and> lk (ss_world st') (TDeployment, \<lparr>key_namespace = src_namespace app, key_name = src_name app\<rparr>) = Some deployment
    \<and> obj_payload deployment = PDeployment spec status \<and> pod_sound (sy_lib n) app (pt_spec (dep_template spec))
    \<and> map c_name (pod_init_containers (pt_spec (dep_template spec))) = application_sidecars app (fst opts)
    \<and> lk (ss_world st') (TService, \<lparr>key_namespace = src_namespace app, key_name = src_name app\<rparr>) = Some service
    \<and> obj_payload service = PService svc \<and> svc_selector svc \<subseteq>\<^sub>m gm_map (om_labels (pt_meta (dep_template spec)))
    \<and> (\<forall>i ob. lk (ss_world st) i = Some ob \<and> obsolete n r ob \<longrightarrow> lk (ss_world st') i = None)"
proof -
  obtain st' where sync: "Sync n r st = Some ((False, None), st')"
    using Sync_returns_ok[OF assms(1,2) _ assms(4), of r st] assms(3,6-8) by auto
  from assms(6,8) have ready: "\<forall>rop \<in> set (ro_operations r). persistable (sy_scheme n) (op_resource rop)"
    "updated_once (ro_operations r)" by (simp_all add: rollout_ready_def)
  obtain spec where spec: "generates_deployment app ops spec" "pod_sound (sy_lib n) app (pt_spec (dep_template spec))"
    "map c_name (pod_init_containers (pt_spec (dep_template spec))) = application_sidecars app (fst opts)"
    "gm_map (om_labels (pt_meta (dep_template spec))) ''app'' = Some (src_name app)"
    using Application_Generate_facts[OF assms(5)] by metis
  obtain svc where svc: "generates_service app ops svc" "svc_selector svc = [''app'' \<mapsto> src_name app]"
    using Application_Generate_service[OF assms(5)] by metis
  obtain d where d: "lk (ss_world st') (TDeployment, \<lparr>key_namespace = src_namespace app, key_name = src_name app\<rparr>) = Some d"
    "obj_payload d = PDeployment spec deployment_status_zero"
    using generated_deployment_stored[OF assms(1) ready sync] spec(1) assms(8) by metis
  obtain s svc' where s: "lk (ss_world st') (TService, \<lparr>key_namespace = src_namespace app, key_name = src_name app\<rparr>) = Some s"
    "obj_payload s = PService svc'" "svc_selector svc' = svc_selector svc"
    using generated_service_stored[OF assms(1) ready sync] svc(1) assms(8) by metis
  have gone: "\<forall>i ob. lk (ss_world st) i = Some ob \<and> obsolete n r ob \<longrightarrow> lk (ss_world st') i = None"
    using Sync_effects[OF assms(1) _ sync] ready(1) by blast
  have "svc_selector svc' \<subseteq>\<^sub>m gm_map (om_labels (pt_meta (dep_template spec)))"
    unfolding s(3) svc(2) by (rule app_selector_le) (rule spec(4))
  with sync d spec(2,3) s(1,2) gone show ?thesis by blast
qed

end
