(* ===== verification/Pod_Secrets.thy ===== *)
theory Pod_Secrets
  imports Pod_Sidecars
begin

text \<open>
  A client of an identity provider (Azure AD, TokenX, Maskinporten) is an object whose controller writes the credentials of
  the workload to a secret that the object names. \<open>wired\<close> says that the containers get that secret, as environment
  variables and as files, for every client among the operations. The locale \<open>wiring_creator\<close> is the
  contract that keeps it, proved for every creator that the generators call.
\<close>

fun client_secret :: "payload \<Rightarrow> string option" where
  "client_secret (PAzureAdApplication spec) = Some (aad_secret_name spec)"
| "client_secret (PJwker spec) = Some (jwk_secret_name spec)"
| "client_secret (PMaskinportenClient spec) = Some (mpc_secret_name spec)"
| "client_secret _ = None"

text \<open>The secret reaches the containers that are made from the \<open>Ast\<close>.\<close>

definition secret_reaches :: "env_from_source list \<Rightarrow> volume list \<Rightarrow> volume_mount list \<Rightarrow> string \<Rightarrow> bool" where
  "secret_reaches froms vols mounts n \<longleftrightarrow> EnvFromSecret n \<in> set froms
     \<and> (\<exists>v \<in> set vols. \<exists>m \<in> set mounts. vol_source v = SecretVolume n [] None \<and> vm_name m = vol_name v)"

definition wired_secret :: "ast \<Rightarrow> string \<Rightarrow> bool" where
  "wired_secret a n \<longleftrightarrow> secret_reaches (ast_env_from a) (ast_volumes a) (ast_volume_mounts a) n"

definition wired :: "ast \<Rightarrow> bool" where
  "wired a \<longleftrightarrow> (\<forall>rop \<in> set (ast_operations a). \<forall>n. client_secret (obj_payload (op_resource rop)) = Some n \<longrightarrow> wired_secret a n)"

lemma wired_NewAst [simp]: "wired NewAst"
  by (simp add: wired_def NewAst_def)

locale wiring_creator =
  fixes create :: "liberator \<Rightarrow> source \<Rightarrow> 'cfg \<Rightarrow> ast \<Rightarrow> ast result"
  assumes create_wired: "create lib s cfg a = Inr a' \<Longrightarrow> wired a \<Longrightarrow> wired a'"

section \<open>Changes of the \<open>Ast\<close>\<close>

named_theorems wired_intros

lemma secret_reaches_mono:
  "secret_reaches fs vs ms n \<Longrightarrow> set fs \<subseteq> set fs' \<Longrightarrow> set vs \<subseteq> set vs' \<Longrightarrow> set ms \<subseteq> set ms' \<Longrightarrow> secret_reaches fs' vs' ms' n"
  unfolding secret_reaches_def by blast

lemma wired_mono:
  assumes "wired a" and "set (ast_env_from a) \<subseteq> set (ast_env_from b)" and "set (ast_volumes a) \<subseteq> set (ast_volumes b)"
    and "set (ast_volume_mounts a) \<subseteq> set (ast_volume_mounts b)"
    and "\<And>rop n. rop \<in> set (ast_operations b) \<Longrightarrow> client_secret (obj_payload (op_resource rop)) = Some n \<Longrightarrow>
       rop \<in> set (ast_operations a) \<or> wired_secret b n"
  shows "wired b"
  using assms(1,5) secret_reaches_mono[OF _ assms(2-4)] unfolding wired_def wired_secret_def by metis

lemma wired_secret_simps [simp]:
  "wired_secret (AppendOperation t ob b) n = wired_secret b n"
  "wired_secret (set_operation i ob b) n = wired_secret b n"
  "wired_secret (WithAdditionalEnvFromSecret n (WithAdditionalSecret n p b)) n"
  by (simp_all add: wired_secret_def secret_reaches_def AppendOperation_def set_operation_def WithAdditionalEnvFromSecret_def
      WithAdditionalSecret_def add_volume_def FromFilesSecretVolume_def FromFilesSecretVolumeWithMode_def
      FromFilesVolumeMount_def)

lemma wired_simps [simp]:
  "wired (AppendEnv vs b) = wired b" "wired (PrependEnv vs b) = wired b" "wired (add_init_container c b) = wired b"
  "wired (b\<lparr>ast_env := es\<rparr>) = wired b" "wired (b\<lparr>ast_annotations := an\<rparr>) = wired b"
  "wired (b\<lparr>ast_labels := ls\<rparr>) = wired b" "wired (set_label k v b) = wired b"
  by (simp_all add: wired_def wired_secret_def AppendEnv_def PrependEnv_def add_init_container_def set_label_def)

lemma wired_AppendOperation [simp]:
  "client_secret (obj_payload ob) = None \<Longrightarrow> wired (AppendOperation t ob b) = wired b"
  by (auto simp: wired_def)

lemma wired_same_operations:
  assumes "wired a" and "ast_operations b = ast_operations a" and "set (ast_env_from a) \<subseteq> set (ast_env_from b)"
    and "set (ast_volumes a) \<subseteq> set (ast_volumes b)" and "set (ast_volume_mounts a) \<subseteq> set (ast_volume_mounts b)"
  shows "wired b"
  using assms(1,3-) by (rule wired_mono) (simp add: assms(2))

lemma wired_grows [wired_intros]:
  "wired b \<Longrightarrow> wired (add_volume v m b)" "wired b \<Longrightarrow> wired (mountToken b)"
  "wired b \<Longrightarrow> wired (b\<lparr>ast_env_from := ast_env_from b @ fs\<rparr>)"
  by (erule wired_same_operations; auto simp: add_volume_def mountToken_def AppendEnv_def)+

lemma wired_additional:
  "wired b \<Longrightarrow> wired (WithAdditionalEnvFromSecret n (WithAdditionalSecret n p b))"
  by (erule wired_same_operations; auto simp: WithAdditionalSecret_def WithAdditionalEnvFromSecret_def add_volume_def)

lemma wired_client [wired_intros]:
  assumes "wired b" and "client_secret (obj_payload ob) = Some n"
  shows "wired (WithAdditionalEnvFromSecret n (WithAdditionalSecret n p (AppendOperation t ob b)))"
proof (rule wired_mono[OF assms(1)])
  fix rop n'
  let ?b = "WithAdditionalEnvFromSecret n (WithAdditionalSecret n p (AppendOperation t ob b))"
  assume "rop \<in> set (ast_operations ?b)" and "client_secret (obj_payload (op_resource rop)) = Some n'"
  then have "rop \<in> set (ast_operations b) \<or> n' = n"
    using assms(2) by (auto simp: WithAdditionalSecret_def WithAdditionalEnvFromSecret_def)
  then show "rop \<in> set (ast_operations b) \<or> wired_secret ?b n'" by auto
qed (auto simp: WithAdditionalSecret_def WithAdditionalEnvFromSecret_def add_volume_def AppendOperation_def)

lemma wired_set_operation [wired_intros]:
  assumes "wired b" and "\<And>n. client_secret (obj_payload ob) = Some n \<Longrightarrow> wired_secret b n"
  shows "wired (set_operation i ob b)"
  using assms(1)
  by (rule wired_mono)
    (use assms(2) set_update_subset_insert[of "ast_operations b" i "(ast_operations b ! i)\<lparr>op_resource := ob\<rparr>"]
     in \<open>auto simp: set_operation_def wired_secret_def\<close>)

lemma wired_foldM:
  assumes "\<And>x a a'. f x a = Inr a' \<Longrightarrow> wired a \<Longrightarrow> wired a'" and "foldM_result f xs a = Inr a'" and "wired a"
  shows "wired a'"
  using foldM_result_invariant[where P = wired and f = f and xs = xs] assms by metis

lemma wired_then: "wired b \<Longrightarrow> (wired b \<Longrightarrow> wired c) \<Longrightarrow> wired c"
  by blast

section \<open>The creators\<close>

interpretation service_w: wiring_creator "\<lambda>lib s cfg a. Inr (service_Create lib s cfg a)"
  by unfold_locales (auto simp: service_Create_def Let_def)

interpretation serviceaccount_w: wiring_creator "\<lambda>lib s cfg a. Inr (serviceaccount_Create lib s cfg a)"
  by unfold_locales (auto simp: serviceaccount_Create_def Let_def intro!: wired_intros)

interpretation hpa_w: wiring_creator "\<lambda>lib s (cfg :: unit) a. Inr (hpa_Create lib s a)"
  by unfold_locales (auto simp: hpa_Create_def Let_def)

interpretation pdb_w: wiring_creator "\<lambda>lib s (cfg :: unit) a. Inr (pdb_Create lib s a)"
  by unfold_locales (auto simp: pdb_Create_def Let_def)

interpretation networkpolicy_w: wiring_creator "\<lambda>lib s cfg a. Inr (networkpolicy_Create lib s cfg a)"
  by unfold_locales (auto simp: networkpolicy_Create_def)

interpretation fqdnpolicy_w: wiring_creator "\<lambda>lib s cfg a. Inr (fqdnpolicy_Create lib s cfg a)"
  by unfold_locales (auto simp: fqdnpolicy_Create_def split: option.splits)

interpretation certificateauthority_w: wiring_creator "\<lambda>lib s cfg a. Inr (certificateauthority_Create s cfg a)"
  by unfold_locales
    (auto simp: certificateauthority_Create_def Let_def PrependEnv_def split: if_splits elim!: wired_same_operations)

interpretation frontend_w: wiring_creator frontend_Create
  by unfold_locales
    (auto simp: frontend_Create_def naisJsConfigMap_def Let_def result_simps split: option.splits intro!: wired_intros)

lemma otelNetpol_no_secret: "otelNetpol lib s cfg = Inr ob \<Longrightarrow> client_secret (obj_payload ob) = None"
  by (auto simp: otelNetpol_def Let_def result_simps)

lemma create_otel_wired: "create_otel lib s cfg obs b = Inr b' \<Longrightarrow> wired b \<Longrightarrow> wired b'"
  by (auto simp: create_otel_def result_simps dest!: otelNetpol_no_secret split: option.splits if_splits)

interpretation observability_w: wiring_creator observability_Create
  by unfold_locales
    (auto simp: observability_Create_def Let_def result_simps elim!: create_otel_wired split: option.splits if_splits)

interpretation ingress_w: wiring_creator ingress_Create
proof
  fix lib s cfg a a'
  have "wired (fold (\<lambda>ing. AppendOperation OperationCreateOrUpdate (ingress_object ing)) ings b) = wired b" for ings b
    by (induction ings arbitrary: b) (simp_all add: ingress_object_def)
  then show "ingress_Create lib s cfg a = Inr a' \<Longrightarrow> wired a \<Longrightarrow> wired a'"
    by (auto simp: ingress_Create_def result_simps split: if_splits)
qed

interpretation leaderelection_w: wiring_creator leaderelection_Create
  by unfold_locales
    (auto simp: leaderelection_Create_def elector_roleBinding_def Let_def result_simps split: if_splits sum.splits)

lemma makeEncryptionKeySecret_payload:
  "makeEncryptionKeySecret lib s d w = Inr sec \<Longrightarrow> client_secret (obj_payload sec) = None"
  by (cases "ng_Keygen (lib_names lib) d 32") (auto simp: makeEncryptionKeySecret_def OpaqueSecret_def Let_def result_simps)

lemma wonderwall_wired: "wonderwall_Create lib s cfg w b = Inr a' \<Longrightarrow> wired b \<Longrightarrow> wired a'"
  by (auto simp: wonderwall_Create_def result_simps split: option.splits sum.splits if_splits
      dest: makeEncryptionKeySecret_payload)

lemma azure_sidecar_wired:
  assumes "azure_sidecar lib s cfg sc i m spec b = Inr (spec', a')" and "wired b" and "wired_secret b (aad_secret_name spec)"
  shows "wired a'"
  using assms
  by (auto simp: azure_sidecar_def azure_object_def Let_def result_simps split: if_splits
      elim!: wonderwall_wired intro!: wired_intros)

interpretation azure_w: wiring_creator "\<lambda>lib s cfg a. ast_of (azure_Create lib s cfg a)"
  by unfold_locales
    (auto simp: azure_Create_def Let_def result_simps azure_object_def split: option.splits if_splits
      elim!: azure_sidecar_wired intro!: wired_intros)

interpretation idporten_w: wiring_creator "\<lambda>lib s cfg a. ast_of (idporten_Create lib s cfg a)"
  by unfold_locales
    (auto simp: idporten_Create_def Let_def result_simps split: option.splits if_splits
      elim!: wonderwall_wired intro!: wired_additional)

interpretation login_w: wiring_creator login_Create
  by unfold_locales (auto simp: login_Create_def result_simps split: option.splits if_splits elim!: wonderwall_wired)

interpretation maskinporten_w: wiring_creator "\<lambda>lib s cfg a. ast_of (maskinporten_Create lib s cfg a)"
  by unfold_locales
    (auto simp: maskinporten_Create_def maskinporten_client_def Let_def result_simps split: option.splits if_splits sum.splits
      intro!: wired_intros)

interpretation jwker_w: wiring_creator "\<lambda>lib s cfg a. ast_of (jwker_Create lib s cfg a)"
  by unfold_locales (auto simp: jwker_Create_def Let_def result_simps split: if_splits intro!: wired_intros)

interpretation texas_w: wiring_creator "\<lambda>lib s (cfg, clts). texas_Create lib s cfg clts"
  by unfold_locales (auto simp: texas_Create_def Let_def result_simps split: if_splits)

interpretation vault_w: wiring_creator vault_Create
  by unfold_locales
    (auto simp: vault_Create_def Let_def add_init_container_def split: option.splits if_splits elim!: wired_same_operations)

interpretation proxyopts_w: wiring_creator "\<lambda>lib. proxyopts_Create"
  by unfold_locales (auto simp: proxyopts_Create_def split: if_splits sum.splits)

interpretation postgres_w: wiring_creator postgres_Create
  by unfold_locales
    (auto simp: postgres_Create_def cnpg_Create_def cnpg_createNetworkPolicies_def cnpg_createPoolerNetworkPolicy_def
      cnpg_createSourceNetworkPolicy_def zalando_Create_def zalando_createNetworkPolicies_def
      zalando_createPoolerNetworkPolicy_def zalando_createSourceNetworkPolicy_def app_netpol_def Let_def result_simps
      split: option.splits if_splits)

lemma add_valkeys_wired:
  assumes "foldM_result (add_valkey lib m) vs r = Inr r'"
  shows "wired (snd r) \<Longrightarrow> wired (snd r')"
proof -
  have "add_valkey lib m v r1 = Inr r2 \<Longrightarrow> wired (snd r1) \<Longrightarrow> wired (snd r2)" for v r1 r2
    by (cases r1) (auto simp: add_valkey_def addValkeyEnvVariables_def addRedisEnvVariables_def Let_def result_simps
        split: if_splits)
  then show "wired (snd r) \<Longrightarrow> wired (snd r')"
    using foldM_result_invariant[where P = "\<lambda>x. wired (snd x)" and f = "add_valkey lib m" and xs = vs] assms
    by metis
qed

interpretation aiven_w: wiring_creator aiven_Create
proof
  fix lib s cfg a a'
  have "aiven_Kafka lib s cfg m sp b = Inr (e, sp', b') \<Longrightarrow> wired b \<Longrightarrow> wired b'" for m sp b e sp' b'
    by (cases "ws_kafka (src_spec s)") (auto simp: aiven_Kafka_def addKafkaEnvVariables_def createKafkaKeyToPaths_def
        CreateStream_def Let_def result_simps split: if_splits intro!: wired_intros)
  moreover have "aiven_OpenSearch lib s m sp b = Inr (e, sp', b') \<Longrightarrow> wired b \<Longrightarrow> wired b'" for m sp b e sp' b'
    by (auto simp: aiven_OpenSearch_def addOpenSearchEnvVariables_def Let_def result_simps split: option.splits if_splits)
  moreover have "aiven_Valkey lib s cfg m sp b = Inr (e, sp', b') \<Longrightarrow> wired b \<Longrightarrow> wired b'" for m sp b e sp' b'
    by (auto simp: aiven_Valkey_def result_simps split: if_splits dest!: add_valkeys_wired)
  ultimately show "aiven_Create lib s cfg a = Inr a' \<Longrightarrow> wired a \<Longrightarrow> wired a'"
    by (auto simp: aiven_Create_def Let_def result_simps)
qed

section \<open>Google\<close>

interpretation policymember_w: wiring_creator iam_CreatePolicyMember
  by unfold_locales
    (auto simp: iam_CreatePolicyMember_def iam_policyMember_def policy_member_object_def result_simps
      split: option.splits sum.splits elim!: wired_foldM[rotated])

interpretation storagebucket_w: wiring_creator storagebucket_Create
  by unfold_locales
    (auto simp: storagebucket_Create_def add_bucket_def bucket_iAMPolicyMember_def policy_member_object_def CreateBucket_def
      Let_def result_simps split: option.splits if_splits elim!: wired_foldM[rotated])

interpretation bigquery_w: wiring_creator "\<lambda>lib s (cfg, n). bigquery_CreateDataset lib s cfg n"
  by unfold_locales
    (auto simp: bigquery_CreateDataset_def add_dataset_def createDataset_def bigquery_iAMPolicyMember_def policy_member_object_def
      Let_def result_simps split: option.splits if_splits elim!: wired_foldM[rotated])

lemma client_secret_OpaqueSecret [simp]: "client_secret (obj_payload (OpaqueSecret m n d)) = None"
  by (simp add: OpaqueSecret_def)

lemma user_Create_payload: "user_Create lib u m c n p = Inr (ob, m') \<Longrightarrow> client_secret (obj_payload ob) = None"
  by (auto simp: user_Create_def Let_def result_simps)

lemma CreateGoogleSQLUsers_wired:
  "CreateGoogleSQLUsers lib s cfg db inst n spec a = Inr a' \<Longrightarrow> wired a \<Longrightarrow> wired a'"
  unfolding CreateGoogleSQLUsers_def
  by (erule wired_foldM[rotated])
    (auto simp: add_sql_user_def createSqlUserDBResources_def Let_def result_simps split: if_splits sum.splits
      dest!: user_Create_payload intro!: wired_intros)

lemma CreateSqlSSLCertResource_wired:
  "CreateSqlSSLCertResource lib i s p c a = Inr a' \<Longrightarrow> wired a \<Longrightarrow> wired a'"
  by (auto simp: CreateSqlSSLCertResource_def Let_def result_simps intro!: wired_intros)

interpretation cloudsql_w: wiring_creator sql_CreateInstance
proof
  fix lib s cfg a a'
  assume ok: "sql_CreateInstance lib s cfg a = Inr a'" and a: "wired a"
  show "wired a'"
  proof (cases "\<exists>g. ws_gcp (src_spec s) = Some g \<and> gcp_sql_instances g \<noteq> []")
    case True
    then obtain g where "ws_gcp (src_spec s) = Some g" "gcp_sql_instances g \<noteq> []" by blast
    with ok show ?thesis
    proof (cases rule: sql_CreateInstanceE)
      case (1 inst meta spec db sqlDatabase a2)
      have "client_secret (obj_payload sqlDatabase) = None"
        using 1(5) by (auto simp: CreateGoogleSQLDatabase_def split: sum.splits)
      with a have "wired a2"
        by (intro CreateGoogleSQLUsers_wired[OF 1(6)])
          (simp add: CreateIAMPolicyMemberForInstance_def policy_member_object_def sql_instance_object_def)
      with 1(7) show ?thesis by (auto split: if_splits intro: CreateSqlSSLCertResource_wired)
    qed
  next
    case False
    with ok a show ?thesis by (auto simp: sql_CreateInstance_def split: option.splits)
  qed
qed

interpretation gcp_w: wiring_creator gcp_Create
proof
  fix lib s cfg a a'
  assume ok: "gcp_Create lib s cfg a = Inr a'" and "wired a"
  let ?sa = "iam_CreateServiceAccount lib s (GetGoogleProjectID cfg)"
  let ?a1 = "AppendOperation OperationCreateIfNotExists (iam_CreatePolicy lib s ?sa (GetGoogleProjectID cfg))
    (AppendOperation OperationCreateIfNotExists ?sa a)"
  have a1: "wired ?a1" using \<open>wired a\<close> by (simp add: iam_CreateServiceAccount_def iam_CreatePolicy_def)
  show "wired a'"
  proof (cases "a' = a \<or> a' = ?a1")
    case True
    with a1 \<open>wired a\<close> show ?thesis by blast
  next
    case False
    with ok obtain a2 a3 a4 where "storagebucket_Create lib s cfg ?a1 = Inr a2"
      "bigquery_CreateDataset lib s cfg (obj_name ?sa) a2 = Inr a3" "sql_CreateInstance lib s cfg a3 = Inr a4"
      "iam_CreatePolicyMember lib s cfg a4 = Inr a'"
      by (auto simp: gcp_Create_def Let_def result_simps split: if_splits)
    then show ?thesis
      using a1 storagebucket_w.create_wired bigquery_w.create_wired[of _ _ "(cfg, obj_name ?sa)"] cloudsql_w.create_wired
        policymember_w.create_wired by (metis prod.case)
  qed
qed

end
