(* ===== verification/Generate_Secrets.thy ===== *)
theory Generate_Secrets
  imports Generate Pod_Secrets
begin

text \<open>
  The credentials of a workload from end to end: the secrets of the identity provider clients that a run of a
  generator makes are those that the main container of its pod reads, because every creator keeps the \<open>Ast\<close>
  wired (\<open>Pod_Secrets\<close>) and the main container is made from it at the end.
\<close>

section \<open>The resources are wired\<close>

lemma pure_creators_wired [wired_intros]:
  assumes "wired b"
  shows "wired (service_Create lib s cfg b)" "wired (serviceaccount_Create lib s cfg b)" "wired (hpa_Create lib s b)"
    "wired (pdb_Create lib s b)" "wired (networkpolicy_Create lib s cfg b)" "wired (fqdnpolicy_Create lib s cfg b)"
    "wired (certificateauthority_Create s cfg b)" "wired (CreateContainerEnvVars lib s cfg b)"
  by (rule service_w.create_wired[OF refl assms] serviceaccount_w.create_wired[OF refl assms]
      hpa_w.create_wired[OF refl assms] pdb_w.create_wired[OF refl assms] networkpolicy_w.create_wired[OF refl assms]
      fqdnpolicy_w.create_wired[OF refl assms] certificateauthority_w.create_wired[OF refl assms]
      | use assms in \<open>simp add: CreateContainerEnvVars_def\<close>)+

lemma client_creators_wired:
  "azure_Create lib s cfg b = Inr (az, c) \<Longrightarrow> wired b \<Longrightarrow> wired c"
  "idporten_Create lib s cfg b = Inr (ip, c) \<Longrightarrow> wired b \<Longrightarrow> wired c"
  "maskinporten_Create lib s cfg b = Inr (mp, c) \<Longrightarrow> wired b \<Longrightarrow> wired c"
  "jwker_Create lib s cfg b = Inr (tx, c) \<Longrightarrow> wired b \<Longrightarrow> wired c"
  "texas_Create lib s cfg clts b = Inr c \<Longrightarrow> wired b \<Longrightarrow> wired c"
  "(if e then postgres_Create lib s cfg b else Inr b) = Inr c \<Longrightarrow> wired b \<Longrightarrow> wired c"
  using azure_w.create_wired[of lib s cfg b c] idporten_w.create_wired[of lib s cfg b c]
    maskinporten_w.create_wired[of lib s cfg b c] jwker_w.create_wired[of lib s cfg b c]
    texas_w.create_wired[of lib s "(cfg, clts)" b c] postgres_w.create_wired[of lib s cfg b c] by (auto split: if_splits)

lemma application_resources_wired:
  assumes "application_resources lib app opts = Inr a"
  shows "wired a"
  using assms
proof (cases rule: application_resourcesE)
  case (1 a4 a5 a6 a7 az a8 ip a9 a10 a11 a12 a13 mp a14 tx a16 a17 a18)
  have "wired a4" by (rule frontend_w.create_wired[OF 1(1)]) (intro wired_intros wired_NewAst)
  then have "wired a10"
    by (rule login_w.create_wired[OF 1(7) client_creators_wired(2)[OF 1(6) client_creators_wired(1)[OF 1(5)
        leaderelection_w.create_wired[OF 1(4) ingress_w.create_wired[OF 1(3) observability_w.create_wired[OF 1(2)]]]]]])
  then have "wired a14"
    by (rule client_creators_wired(3)[OF 1(11) proxyopts_w.create_wired[OF 1(10) client_creators_wired(6)[OF 1(9)
        gcp_w.create_wired[OF 1(8)]]]])
  then have "wired a16" by (intro client_creators_wired(4)[OF 1(12)] wired_intros)
  then show ?thesis
    by (rule client_creators_wired(5)[OF 1(15) vault_w.create_wired[OF 1(14) aiven_w.create_wired[OF 1(13)]]])
qed

lemma naisjob_resources_wired:
  assumes "naisjob_resources lib job cfg = Inr a"
  shows "wired a"
  using assms
proof (cases rule: naisjob_resourcesE)
  case (1 a3 az a4 a5 a6 a7 mp a8 a9 a10)
  have "wired a3" by (rule observability_w.create_wired[OF 1(1)]) (intro wired_intros wired_NewAst)
  then have "wired a7"
    by (rule proxyopts_w.create_wired[OF 1(5) client_creators_wired(6)[OF 1(4) gcp_w.create_wired[OF 1(3)
        client_creators_wired(1)[OF 1(2)]]]])
  then have "wired a8" by (intro client_creators_wired(3)[OF 1(6)] wired_intros)
  then show ?thesis
    by (rule client_creators_wired(5)[OF 1(9) vault_w.create_wired[OF 1(8) aiven_w.create_wired[OF 1(7)]]])
qed

section \<open>The main container\<close>

lemma wired_secret_mono:
  "wired_secret a n \<Longrightarrow> set (ast_env_from a) \<subseteq> set (ast_env_from b) \<Longrightarrow> set (ast_volumes a) \<subseteq> set (ast_volumes b)
    \<Longrightarrow> set (ast_volume_mounts a) \<subseteq> set (ast_volume_mounts b) \<Longrightarrow> wired_secret b n"
  unfolding wired_secret_def by (rule secret_reaches_mono)

lemma wired_secret_filesFrom_loop: "wired_secret a n \<Longrightarrow> wired_secret (filesFrom_loop lib files c s p e a) n"
proof (induction files arbitrary: c s p e a)
  case (Cons f files)
  have "wired_secret (add_volume v m b) n" if "wired_secret b n" for v m b
    using that by (rule wired_secret_mono) (auto simp: add_volume_def)
  with Cons show ?case by (auto simp: Let_def split: option.splits)
qed simp

lemma wired_secret_envFrom: "wired_secret a n \<Longrightarrow> wired_secret (envFrom envs a) n"
proof (induction envs a rule: envFrom.induct)
  case (2 e es a)
  have "wired_secret (a\<lparr>ast_env_from := ast_env_from a @ fs\<rparr>) n" if "wired_secret a n" for fs a
    using that by (rule wired_secret_mono) auto
  with 2 show ?case by (auto simp: Let_def)
qed simp

text \<open>What reaches the \<open>Ast\<close> reaches the main container.\<close>

lemma main_container_secrets:
  assumes "ast_containers a = []"
    and "CreateAppContainer lib s cfg a = Inr b \<or> CreateNaisjobContainer lib s cfg a = Inr b"
  obtains c where "ast_containers b = [c]" "ast_operations b = ast_operations a"
    "\<And>n. wired_secret a n \<Longrightarrow> secret_reaches (c_env_from c) (ast_volumes b) (c_volume_mounts c) n"
proof -
  let ?b = "envFrom (ws_env_from (src_spec s)) (filesFrom lib (ws_files_from (src_spec s)) a)"
  have reach: "wired_secret ?b n" if "wired_secret a n" for n
    using that by (auto simp: filesFrom_def Let_def intro: wired_secret_envFrom wired_secret_filesFrom_loop)
  have alone: "ast_containers ?b = []"
    using mounted_files_pod[of a "ws_env_from (src_spec s)" lib "ws_files_from (src_spec s)"] assms(1)
    by (simp add: pod_extends_def)
  show thesis using assms(2)
  proof
    assume "CreateAppContainer lib s cfg a = Inr b"
    then show thesis using alone reach
      by (intro that[of "hd (ast_containers b)"])
        (auto simp: CreateAppContainer_def Let_def result_simps wired_secret_def)
  next
    assume "CreateNaisjobContainer lib s cfg a = Inr b"
    then show thesis using alone reach
      by (intro that[of "hd (ast_containers b)"])
        (auto simp: CreateNaisjobContainer_def Let_def result_simps wired_secret_def)
  qed
qed

text \<open>A pod whose one container reads a secret, as environment variables and as files.\<close>

definition pod_reads_secret :: "pod_spec \<Rightarrow> string \<Rightarrow> bool" where
  "pod_reads_secret pod n \<longleftrightarrow> (case pod_containers pod of
       [main] \<Rightarrow> secret_reaches (c_env_from main) (pod_volumes pod) (c_volume_mounts main) n
     | _ \<Rightarrow> False)"

lemma generated_pod_reads:
  assumes "ast_containers b = [c]" "c_name c = appName" "CreateSpec b cfg appName an policy grace = Inr pod"
    and "secret_reaches (c_env_from c) (ast_volumes b) (c_volume_mounts c) n"
  shows "pod_reads_secret pod n"
  using CreateSpec_single[OF assms(1-3)]
  by (simp add: pod_reads_secret_def) (rule secret_reaches_mono[OF assms(4)]; auto)

lemma resources_no_container:
  assumes "creator_step lib s NewAst a"
  shows "ast_containers a = []"
  using assms by (auto simp: creator_step_def pod_extends_def NewAst_def)

section \<open>Properties\<close>

text \<open>C6. Credentials: for every client of an identity provider that an Application is generated to (Azure AD, TokenX,
  Maskinporten), the secret that the client names, where its controller puts the credentials, is read by the
  main container of the Deployment, both as environment variables and as mounted files.\<close>

theorem Application_Generate_credentials:
  assumes "Application_Generate lib app opts = Inr ops" and "rop \<in> set ops"
    and "client_secret (obj_payload (op_resource rop)) = Some n"
  shows "\<exists>spec. generates_deployment app ops spec \<and> pod_reads_secret (pt_spec (dep_template spec)) n"
  using assms(1)
proof (cases rule: Application_GenerateE)
  case (1 a b spec meta)
  note step = application_resources_step[OF 1(2)]
  obtain c where c: "ast_containers b = [c]" "ast_operations b = ast_operations a"
    "\<And>n. wired_secret a n \<Longrightarrow> secret_reaches (c_env_from c) (ast_volumes b) (c_volume_mounts c) n"
    using main_container_secrets[OF resources_no_container[OF step] disjI1[OF 1(3)]] by blast
  have "c_name c = src_name app" using adds_main_single[OF step CreateAppContainer_main[OF 1(3)]] c(1) by auto
  note reads = generated_pod_reads[OF c(1) this 1(4)]
  have "obj_type (op_resource rop) \<notin> {TDeployment, TPodMonitor}"
    using assms(3) by (cases "obj_payload (op_resource rop)") (simp_all add: obj_type_def)
  then have "rop \<in> set (ast_operations a)" using assms(2) 1(11) c(2) by (auto simp: obj_type_def)
  with assms(3) application_resources_wired[OF 1(2)] have "wired_secret a n" by (auto simp: wired_def)
  moreover have "generates_deployment app ops spec"
    using 1(7,8,11) by (fastforce simp: generates_deployment_def obj_key_def meta_key_def)
  ultimately show ?thesis using reads c(3) by blast
qed

lemma Naisjob_Generate_credentials:
  assumes "Naisjob_Generate lib job cfg = Inr ops" and "rop \<in> set ops"
    and "client_secret (obj_payload (op_resource rop)) = Some n"
  shows "\<exists>spec. obj_payload (op_resource (last ops)) = PCronJob spec
    \<and> pod_reads_secret (pt_spec (js_template (cj_job_spec spec))) n"
  using assms(1)
proof (cases rule: Naisjob_GenerateE)
  case (1 a b spec meta)
  note step = naisjob_resources_step[OF 1(2)]
  obtain c where c: "ast_containers b = [c]" "ast_operations b = ast_operations a"
    "\<And>n. wired_secret a n \<Longrightarrow> secret_reaches (c_env_from c) (ast_volumes b) (c_volume_mounts c) n"
    using main_container_secrets[OF resources_no_container[OF step] disjI2[OF 1(3)]] by blast
  have "c_name c = src_name job" using adds_main_single[OF step CreateNaisjobContainer_main[OF 1(3)]] c(1) by auto
  note reads = generated_pod_reads[OF c(1) this 1(4)]
  have "rop \<in> set (ast_operations a)" using assms(2,3) 1(10) c(2) by auto
  with assms(3) naisjob_resources_wired[OF 1(2)] have "wired_secret a n" by (auto simp: wired_def)
  with reads c(3) 1(10) show ?thesis by simp
qed

end
