(* ===== verification/Rollout_Witnesses.thy ===== *)
theory Rollout_Witnesses
  imports Generate_Witnesses Rollout Generate_Secrets
begin

text \<open>
  A synchronization of one object, and an Application with a TokenX client: the cases in which the hypotheses of
  \<open>Sync_succeeds\<close> and \<open>Application_Generate_credentials\<close> hold.
\<close>

section \<open>A synchronization\<close>

lemma sample_ready: "rollout_ready sample_synchronizer mem_lookup (ss_world sample_state) (ro_operations sample_rollout)"
  by (simp add: rollout_ready_def updated_once_def acceptable_def updatable_def persistable_def sample_defs obj_type_def
      obj_namespace_def mem_lookup_def obj_id_def obj_key_def meta_key_def object_meta_zero_def)


section \<open>Credentials\<close>

definition token_policy :: access_policy where
  "token_policy = \<lparr>ap_inbound = Some [], ap_outbound = Some \<lparr>out_rules = [], out_external = []\<rparr>\<rparr>"

definition token_app :: source where
  "token_app = sample_app\<lparr>src_spec := sample_spec\<lparr>ws_tokenx := Some True, ws_access_policy := Some token_policy\<rparr>\<rparr>"

definition token_options :: options where
  "token_options = new_options (sample_config\<lparr>cfg_Features := sample_features\<lparr>fe_NetworkPolicy := False, fe_Jwker := True\<rparr>\<rparr>)"

definition token_opts :: "options \<times> map_order" where
  "token_opts = (token_options, \<lambda>n xs. xs)"

lemmas token_defs = token_opts_def token_options_def token_app_def sample_app_def sample_spec_def sample_config_def
  sample_features_def new_options_def

lemma token_client:
  obtains spec b where "jwker_Create sample_lib token_app token_options a = Inr (Some spec, b)"
    "\<exists>rop \<in> set (ast_operations b). client_secret (obj_payload (op_resource rop)) = Some (jwk_secret_name spec)"
proof -
  have "IsJwkerEnabled token_options" "ws_access_policy (src_spec token_app) = Some token_policy"
    "ws_tokenx (src_spec token_app) = Some True" by (simp_all add: token_defs)
  then have "\<exists>spec b. jwker_Create sample_lib token_app token_options a = Inr (Some spec, b)
    \<and> (\<exists>rop \<in> set (ast_operations b). client_secret (obj_payload (op_resource rop)) = Some (jwk_secret_name spec))"
    by (simp add: jwker_Create_def WithDefaults_def token_policy_def WithAdditionalSecret_def
        WithAdditionalEnvFromSecret_def Let_def)
  then show thesis using that by blast
qed

lemma token_resources:
  obtains a rop n where "application_resources sample_lib token_app token_opts = Inr a" "rop \<in> set (ast_operations a)"
    "client_secret (obj_payload (op_resource rop)) = Some n"
proof -
  have off: "ws_frontend (src_spec token_app) = None" "ws_observability (src_spec token_app) = None"
    "ws_ingresses (src_spec token_app) = []" "ws_azure (src_spec token_app) = None" "ws_idporten (src_spec token_app) = None"
    "ws_login (src_spec token_app) = None" "ws_gcp (src_spec token_app) = None" "\<not> ws_web_proxy (src_spec token_app)"
    "ws_maskinporten (src_spec token_app) = None" "ws_kafka (src_spec token_app) = None"
    "ws_opensearch (src_spec token_app) = None" "ws_valkey (src_spec token_app) = []" "fst token_opts = token_options"
    "\<not> IsCNRMEnabled token_options" "\<not> IsVaultEnabled token_options"
    "\<not> IsTexasEnabled token_options" "\<not> PostgresOperatorEnabled token_options"
    by (simp_all add: token_defs)
  have more: "networkpolicy_Create sample_lib token_app token_options a = a"
    "fqdnpolicy_Create sample_lib token_app token_options a = a"
    "certificateauthority_Create token_app token_options a = a"
    "leaderelection_Create sample_lib token_app token_options a = Inr a" for a
    by (simp_all add: networkpolicy_Create_def fqdnpolicy_Create_def certificateauthority_Create_def
        leaderelection_Create_def token_defs)
  let ?a = "pdb_Create sample_lib token_app (hpa_Create sample_lib token_app (serviceaccount_Create sample_lib token_app
     token_options (service_Create sample_lib token_app token_options (CreateContainerEnvVars sample_lib token_app token_options NewAst))))"
  obtain spec b where b: "jwker_Create sample_lib token_app token_options ?a = Inr (Some spec, b)"
    "\<exists>rop \<in> set (ast_operations b). client_secret (obj_payload (op_resource rop)) = Some (jwk_secret_name spec)"
    using token_client .
  have "application_resources sample_lib token_app token_opts = Inr b"
    unfolding application_resources_def Let_def
    by (simp only: off more b(1) creators_off aiven_off[OF off(10-12) sample_secret_names] rbind_simps prod.case if_False simp_thms)
  with b(2) show thesis using that by blast
qed

theorem Application_Generate_credentials_witness:
  "\<exists>ops spec n. Application_Generate sample_lib token_app token_opts = Inr ops
     \<and> generates_deployment token_app ops spec \<and> pod_reads_secret (pt_spec (dep_template spec)) n"
proof (rule token_resources)
  fix a rop n
  assume a: "application_resources sample_lib token_app token_opts = Inr a" and rop: "rop \<in> set (ast_operations a)"
    "client_secret (obj_payload (op_resource rop)) = Some n"
  have "\<exists>b. CreateAppContainer sample_lib token_app (fst token_opts) a = Inr b"
    by (simp add: CreateAppContainer_def container_ports_def lifecycle_def ResourceLimits_def resource_list_def token_defs Let_def)
  moreover have "src_kind token_app = Application" "\<not> ws_prometheus_enabled (src_spec token_app)"
    by (simp_all add: token_defs)
  ultimately obtain ops dep where ops: "Application_Generate sample_lib token_app token_opts = Inr ops"
    "ops = ast_operations a @ [dep]"
    using Application_Generate_returns[OF a] by metis
  then have "rop \<in> set ops" using rop(1) by simp
  from Application_Generate_credentials[OF ops(1) this rop(2)] ops(1) show ?thesis by blast
qed

end
