(* ===== verification/Startup.thy ===== *)
theory Startup
  imports Generate Synchronizer
begin

text \<open>
  Start-up of the controller (src/cmd/naiserator/main.go): \<open>run\<close> checks the configuration, builds the scheme, chooses the
  types to clean up and the clients, and makes one synchronizer per kind of workload. What it asks of
  controller-runtime, client-go and liberator is the record \<open>platform\<close>; log formatting, metrics and the
  tuning values that are only handed to the manager (rate limit, addresses, intervals) are left out. The value of
  \<open>run\<close> is the error that ends it, or the two controllers it hands to the manager.
\<close>

section \<open>Controllers\<close>

text \<open>
  What \<open>SetupWithManager\<close> registers (src/pkg/controllers): the reconciled type, the watched types with the function
  that maps an object to requests, and the watch on metadata that lets an update through when the annotations
  have changed.
\<close>

datatype watch =
    For go_type
  | Watches go_type "k8s_object \<Rightarrow> object_key list client_prog"
  | WatchesMetadata go_type "k8s_object \<Rightarrow> object_key list client_prog"

definition setup_watches ::
  "go_type \<Rightarrow> (k8s_object \<Rightarrow> object_key list client_prog) \<Rightarrow> config \<Rightarrow> watch list" where
  "setup_watches t postgresMapper cfg =
     [For t, Watches TImage (\<lambda>ob. Return (mapImageToApplicationOrNaisjob ob))]
     @ (if fe_PostgresOperator (cfg_Features cfg) then [WatchesMetadata TPostgres postgresMapper] else [])"

definition Application_SetupWithManager :: "config \<Rightarrow> watch list" where
  "Application_SetupWithManager cfg = setup_watches TApplication mapPostgresToApplications cfg"

definition Naisjob_SetupWithManager :: "config \<Rightarrow> watch list" where
  "Naisjob_SetupWithManager cfg = setup_watches TNaisjob mapPostgresToNaisjobs cfg"

text \<open>The requests that an event on an object makes; \<open>old\<close> is the object before an update, \<open>None\<close> on creation and deletion.\<close>

fun enqueue_watch :: "'w kube_client \<Rightarrow> k8s_object option \<Rightarrow> k8s_object \<Rightarrow> 'w \<Rightarrow> watch \<Rightarrow> object_key list" where
  "enqueue_watch cli old ob w (For t) = (if obj_type ob = t then [obj_key ob] else [])"
| "enqueue_watch cli old ob w (Watches t f) = (if obj_type ob = t then fst (run_client cli (f ob) w) else [])"
| "enqueue_watch cli old ob w (WatchesMetadata t f) =
     (if obj_type ob = t \<and> (case old of None \<Rightarrow> True
          | Some before \<Rightarrow> om_annotations (obj_meta before) \<noteq> om_annotations (obj_meta ob))
      then fst (run_client cli (f ob) w) else [])"

definition enqueued :: "'w kube_client \<Rightarrow> watch list \<Rightarrow> k8s_object option \<Rightarrow> k8s_object \<Rightarrow> 'w \<Rightarrow> object_key set" where
  "enqueued cli ws old ob w = (\<Union>x \<in> set ws. set (enqueue_watch cli old ob w x))"

text \<open>The options of a controller, and \<open>Reconcile\<close> of both.\<close>

record controller_options =
  co_MaxConcurrentReconciles :: int

definition WithMaxConcurrentReconciles :: "int \<Rightarrow> controller_options \<Rightarrow> controller_options" where
  "WithMaxConcurrentReconciles n opt = opt\<lparr>co_MaxConcurrentReconciles := n\<rparr>"

definition asControllerOptions :: "(controller_options \<Rightarrow> controller_options) list \<Rightarrow> controller_options" where
  "asControllerOptions opts = fold (\<lambda>opt c. opt c) opts \<lparr>co_MaxConcurrentReconciles = 0\<rparr>"

definition ApplicationReconciler_Reconcile ::
  "('w, 'opt) synchronizer \<Rightarrow> object_key \<Rightarrow> 'w sync_state \<Rightarrow> ((ctrl_result \<times> error) \<times> 'w sync_state) option" where
  "ApplicationReconciler_Reconcile n req st = Reconcile n Application req st"

definition NaisjobReconciler_Reconcile ::
  "('w, 'opt) synchronizer \<Rightarrow> object_key \<Rightarrow> 'w sync_state \<Rightarrow> ((ctrl_result \<times> error) \<times> 'w sync_state) option" where
  "NaisjobReconciler_Reconcile n req st = Reconcile n Naisjob req st"

section \<open>Generators and synchronizers\<close>

text \<open>\<open>Generate\<close> takes, beside the options, the order in which Go ranges over maps.\<close>

definition application_generator :: "liberator \<Rightarrow> config \<Rightarrow> map_order \<Rightarrow> (options \<times> map_order) generator" where
  "application_generator lib cfg order =
     \<lparr>gen_Prepare = (\<lambda>s. bind_result (Application_Prepare cfg s) (\<lambda>opt. Return (Inr (opt, order)))),
      gen_Generate = Application_Generate lib\<rparr>"

definition naisjob_generator :: "liberator \<Rightarrow> config \<Rightarrow> map_order \<Rightarrow> (options \<times> map_order) generator" where
  "naisjob_generator lib cfg order =
     \<lparr>gen_Prepare = (\<lambda>s. bind_result (Naisjob_Prepare cfg s) (\<lambda>opt. Return (Inr (opt, order)))),
      gen_Generate = (\<lambda>s opts. Naisjob_Generate lib s (fst opts))\<rparr>"

record 'w platform =
  pf_config_New :: "config result"
  pf_multierror :: "string list \<Rightarrow> go_error"
  pf_scheme_All :: "scheme result"
  pf_AddFQDN :: "scheme \<Rightarrow> scheme result"
  pf_AddPrometheus :: "scheme \<Rightarrow> scheme result"
  pf_GetConfig :: error
  pf_NewManager :: "scheme \<Rightarrow> 'w kube_client result" \<comment> \<open>the client of the manager\<close>
  pf_AddReadyzCheck :: error
  pf_Webhooks :: error
  pf_client_New :: "scheme \<Rightarrow> 'w kube_client result"
  pf_Complete :: "watch list \<Rightarrow> controller_options \<Rightarrow> error"
  pf_gvk_for_lister :: "go_type \<Rightarrow> type_meta result"
  pf_lib :: liberator
  pf_order :: map_order
  pf_clock :: "'w clock"
  pf_uuid_NewRandom :: "'w \<Rightarrow> string result \<times> 'w"
  pf_uuid_New :: "'w \<Rightarrow> string \<times> 'w"
  pf_uuid_ID :: "string \<Rightarrow> nat"

definition NewSynchronizer ::
  "'w platform \<Rightarrow> 'w kube_client \<Rightarrow> 'w kube_client \<Rightarrow> config \<Rightarrow> 'opt generator \<Rightarrow> go_type list \<Rightarrow> scheme \<Rightarrow>
     ('w, 'opt) synchronizer" where
  "NewSynchronizer pf cli simpleClient cfg gen listers sch =
     \<lparr>sy_client = cli, sy_simple_client = simpleClient, sy_generator = gen, sy_listers = listers, sy_scheme = sch,
      sy_gvk_for_lister = pf_gvk_for_lister pf, sy_lib = pf_lib pf, sy_clock = pf_clock pf,
      sy_uuid = pf_uuid_NewRandom pf, sy_uuid_New = pf_uuid_New pf, sy_uuid_ID = pf_uuid_ID pf,
      sy_features_cnrm = fe_CNRM (cfg_Features cfg), sy_aiven_generation = cfg_AivenGeneration cfg\<rparr>"

definition new_sync_state :: "'w \<Rightarrow> 'w sync_state" where
  "new_sync_state w = \<lparr>ss_world = w, ss_listable = Map.empty, ss_monitors = monitors_empty\<rparr>"

section \<open>Start-up\<close>

definition startup_listers :: "config \<Rightarrow> go_type list" where
  "startup_listers cfg = GenericListers
     @ (if fe_GCP (cfg_Features cfg)
        then GCPListers @ (if length (cfg_AivenProject cfg) > 0 then AivenListers else []) else [])"

definition startup_client :: "config \<Rightarrow> 'w kube_client \<Rightarrow> 'w kube_client" where
  "startup_client cfg c = (if cfg_DryRun cfg then readonly_NewClient c else c)"

text \<open>\<open>if err != nil { return err }\<close>.\<close>

definition go_check :: "error \<Rightarrow> unit result" where
  "go_check err = (case err of Some e \<Rightarrow> Inl e | None \<Rightarrow> Inr ())"

definition validate_config :: "'w platform \<Rightarrow> config \<Rightarrow> unit result" where
  "validate_config pf cfg = (if fe_Vault (cfg_Features cfg) \<and> vault_Validate (cfg_Vault cfg) \<noteq> []
     then Inl (pf_multierror pf (vault_Validate (cfg_Vault cfg))) else Inr ())"

definition startup_scheme :: "'w platform \<Rightarrow> config \<Rightarrow> scheme result" where
  "startup_scheme pf cfg = rbind (pf_scheme_All pf) (\<lambda>all.
     rbind (if cfg_FQDNPolicyEnabled cfg then pf_AddFQDN pf all else Inr all) (\<lambda>fqdn.
       if fe_PrometheusOperator (cfg_Features cfg) then pf_AddPrometheus pf fqdn else Inr fqdn))"

type_synonym 'w controllers =
  "('w, options \<times> map_order) synchronizer \<times> ('w, options \<times> map_order) synchronizer"

definition run_main :: "'w platform \<Rightarrow> 'w controllers result" where
  "run_main pf =
     rbind (pf_config_New pf) (\<lambda>cfg.
     rbind (validate_config pf cfg) (\<lambda>_.
     rbind (startup_scheme pf cfg) (\<lambda>kscheme.
     rbind (go_check (pf_GetConfig pf)) (\<lambda>_.
     rbind (pf_NewManager pf kscheme) (\<lambda>mgr.
     rbind (go_check (pf_AddReadyzCheck pf)) (\<lambda>_.
     rbind (if fe_Webhook (cfg_Features cfg) then go_check (pf_Webhooks pf) else Inr ()) (\<lambda>_.
       if length (cfg_DomainIngressClassMapping cfg) = 0
       then Inl (errorf ''no gateway mappings defined. Will not be able to set the right gateway on the ingress'')
       else rbind (pf_client_New pf kscheme) (\<lambda>simple.
         let mgrClient = startup_client cfg mgr;
             simpleClient = startup_client cfg simple;
             applicationSync = NewSynchronizer pf mgrClient simpleClient cfg
               (application_generator (pf_lib pf) cfg (pf_order pf)) (startup_listers cfg) kscheme;
             naisjobSync = NewSynchronizer pf mgrClient simpleClient cfg
               (naisjob_generator (pf_lib pf) cfg (pf_order pf)) (startup_listers cfg) kscheme;
             opts = [WithMaxConcurrentReconciles (cfg_MaxConcurrentReconciles cfg)]
         in rbind (go_check (pf_Complete pf (Application_SetupWithManager cfg) (asControllerOptions opts))) (\<lambda>_.
            rbind (go_check (pf_Complete pf (Naisjob_SetupWithManager cfg) (asControllerOptions opts))) (\<lambda>_.
              Inr (applicationSync, naisjobSync)))))))))))"

text \<open>The webhook (src/cmd/naiserator_webhook/main.go) is a manager with the validation webhooks and no controller.\<close>

definition run_webhook :: "'w platform \<Rightarrow> unit result" where
  "run_webhook pf =
     rbind (pf_config_New pf) (\<lambda>cfg.
     rbind (pf_scheme_All pf) (\<lambda>kscheme.
     rbind (go_check (pf_GetConfig pf)) (\<lambda>_.
     rbind (pf_NewManager pf kscheme) (\<lambda>mgr.
       go_check (pf_Webhooks pf)))))"

text \<open>What a start without error has established.\<close>

lemma run_main_Inr:
  assumes "run_main pf = Inr (applicationSync, naisjobSync)"
  obtains cfg kscheme mgr simple where "pf_config_New pf = Inr cfg" "startup_scheme pf cfg = Inr kscheme"
    "pf_NewManager pf kscheme = Inr mgr" "pf_client_New pf kscheme = Inr simple"
    "fe_Vault (cfg_Features cfg) \<longrightarrow> vault_Validate (cfg_Vault cfg) = []" "cfg_DomainIngressClassMapping cfg \<noteq> []"
    "applicationSync = NewSynchronizer pf (startup_client cfg mgr) (startup_client cfg simple) cfg
       (application_generator (pf_lib pf) cfg (pf_order pf)) (startup_listers cfg) kscheme"
    "naisjobSync = NewSynchronizer pf (startup_client cfg mgr) (startup_client cfg simple) cfg
       (naisjob_generator (pf_lib pf) cfg (pf_order pf)) (startup_listers cfg) kscheme"
  using assms
  by (auto simp: run_main_def rbind_def validate_config_def Let_def split: sum.splits if_splits)

lemma NewSynchronizer_simps [simp]:
  "sy_client (NewSynchronizer pf c s cfg g ls sch) = c" "sy_simple_client (NewSynchronizer pf c s cfg g ls sch) = s"
  "sy_generator (NewSynchronizer pf c s cfg g ls sch) = g" "sy_listers (NewSynchronizer pf c s cfg g ls sch) = ls"
  "sy_lib (NewSynchronizer pf c s cfg g ls sch) = pf_lib pf" "sy_clock (NewSynchronizer pf c s cfg g ls sch) = pf_clock pf"
  "sy_uuid (NewSynchronizer pf c s cfg g ls sch) = pf_uuid_NewRandom pf"
  "sy_uuid_New (NewSynchronizer pf c s cfg g ls sch) = pf_uuid_New pf"
  "sy_scheme (NewSynchronizer pf c s cfg g ls sch) = sch"
  by (simp_all add: NewSynchronizer_def)

text \<open>The synchronizer never cleans up namespaces.\<close>

lemma startup_no_namespace: "TNamespace \<notin> set (startup_listers cfg)"
  by (simp add: startup_listers_def GenericListers_def GCPListers_def AivenListers_def)

lemma application_generator_reads: "reads_only (gen_Prepare (application_generator lib cfg order) s)"
  by (auto simp: application_generator_def intro!: reads_only_bind_result Application_Prepare_reads_only)

lemma naisjob_generator_reads: "reads_only (gen_Prepare (naisjob_generator lib cfg order) s)"
  by (auto simp: naisjob_generator_def intro!: reads_only_bind_result Naisjob_Prepare_reads_only)

section \<open>Watches\<close>

text \<open>An event on a Postgres resource that the watch lets through enqueues exactly the workloads of its namespace that
  use it; without the feature it enqueues nothing.\<close>

lemma map_postgres_set:
  assumes "api_list cli lk" and "is_ok (kc_List cli t (list_all_namespaces\<lparr>lo_namespace := obj_namespace ob\<rparr>) w)"
  shows "set (fst (run_client cli (map_postgres t ob) w)) = obj_key ` {x. lk w (obj_id x) = Some x \<and> obj_type x = t
    \<and> (obj_namespace ob = [] \<or> obj_namespace x = obj_namespace ob) \<and> uses_postgres (obj_name ob) x}"
proof -
  from assms(2) obtain items where "kc_List cli t (list_all_namespaces\<lparr>lo_namespace := obj_namespace ob\<rparr>) w = Inr items"
    by (auto simp: is_ok_iff)
  with api_list_set[OF assms(1) this] show ?thesis
    by (auto simp: map_postgres_def list_all_namespaces_def list_matches_def)
qed

lemma postgres_event_enqueues:
  assumes "api_list cli lk" and "fe_PostgresOperator (cfg_Features cfg)" and "obj_type ob = TPostgres"
    and "is_ok (kc_List cli TApplication (list_all_namespaces\<lparr>lo_namespace := obj_namespace ob\<rparr>) w)"
    and "\<And>before. old = Some before \<Longrightarrow> om_annotations (obj_meta before) \<noteq> om_annotations (obj_meta ob)"
  shows "enqueued cli (Application_SetupWithManager cfg) old ob w = obj_key ` {x. lk w (obj_id x) = Some x
    \<and> obj_type x = TApplication \<and> (obj_namespace ob = [] \<or> obj_namespace x = obj_namespace ob)
    \<and> uses_postgres (obj_name ob) x}"
  unfolding map_postgres_set[OF assms(1,4), symmetric]
  using assms(2,3,5)
  by (auto simp: enqueued_def Application_SetupWithManager_def setup_watches_def mapPostgresToApplications_def
      split: option.splits)

end
