(* ===== verification/Dry_Run.thy ===== *)
theory Dry_Run
  imports Startup
begin

text \<open>
  Dry-run mode (\<open>config.DryRun\<close>): \<open>run\<close> wraps both clients in the read-only client of package \<open>readonly\<close>. That client
  still hands out the status writer of the client it wraps, so a reconciliation in dry-run mode changes the
  status of the source and nothing else. The lemmas go through the synchronizer from the operations of the updater
  up to \<open>Reconcile\<close>; the last section shows what the stored status then does to a later reconciliation.
\<close>

section \<open>The status writer\<close>

text \<open>Two versions of an object that differ at most in resource version and status.\<close>

definition same_but_status :: "k8s_object \<Rightarrow> k8s_object \<Rightarrow> bool" where
  "same_but_status a b \<longleftrightarrow> obj_type_meta b = obj_type_meta a
     \<and> (obj_meta b)\<lparr>om_resource_version := om_resource_version (obj_meta a)\<rparr> = obj_meta a
     \<and> (case source_of_object a of
          None \<Rightarrow> source_of_object b = None
        | Some s \<Rightarrow> (case source_of_object b of None \<Rightarrow> False
            | Some t \<Rightarrow> src_kind t = src_kind s \<and> src_spec t = src_spec s))"

text \<open>
  The documented behaviour of the status subresource, for a source: the stored object gets the status of the
  update, its specification and metadata stay, a failed update changes nothing.
\<close>

definition api_status :: "'w kube_client \<Rightarrow> 'w lookup \<Rightarrow> bool" where
  "api_status c lk \<longleftrightarrow> (\<forall>s w. case kc_StatusUpdate c (object_of_source s) w of
       (Inl e, w') \<Rightarrow> lk w' = lk w
     | (Inr _, w') \<Rightarrow> \<exists>old new t. lk w (obj_id (object_of_source s)) = Some old \<and> same_but_status old new
         \<and> source_of_object new = Some t \<and> src_status t = src_status s
         \<and> lk w' = (lk w)(obj_id (object_of_source s) \<mapsto> new))"

lemma api_status_Inl:
  "api_status c lk \<Longrightarrow> kc_StatusUpdate c (object_of_source s) w = (Inl e, w') \<Longrightarrow> lk w' = lk w"
  unfolding api_status_def by (drule spec[of _ s], drule spec[of _ w]) simp

lemma api_status_Inr:
  assumes "api_status c lk" and "kc_StatusUpdate c (object_of_source s) w = (Inr ob, w')"
  obtains old new t where "lk w (obj_id (object_of_source s)) = Some old" "same_but_status old new"
    "source_of_object new = Some t" "src_status t = src_status s" "lk w' = (lk w)(obj_id (object_of_source s) \<mapsto> new)"
  using assms(1)[unfolded api_status_def, THEN spec[of _ s], THEN spec[of _ w]] assms(2) by auto

section \<open>A synchronizer in dry-run mode\<close>

text \<open>
  \<open>Prepare\<close> of the generator only reads, and the generators of identifiers leave the objects of the cluster alone; in
  dry-run mode the client is a read-only one, and the clock is quiet.
\<close>

definition quiet_names :: "('w, 'opt) synchronizer \<Rightarrow> 'w lookup \<Rightarrow> bool" where
  "quiet_names n lk \<longleftrightarrow> (\<forall>s. reads_only (gen_Prepare (sy_generator n) s))
     \<and> (\<forall>w. lk (snd (sy_uuid n w)) = lk w) \<and> (\<forall>w. lk (snd (sy_uuid_New n w)) = lk w)"

definition dry_run :: "('w, 'opt) synchronizer \<Rightarrow> 'w kube_client \<Rightarrow> 'w lookup \<Rightarrow> bool" where
  "dry_run n c lk \<longleftrightarrow> sy_client n = readonly_NewClient c \<and> quiet_clock (sy_clock n) lk \<and> quiet_names n lk"

lemma readonly_writes [simp]:
  "kc_Create (readonly_NewClient c) ob w = (Inr ob, w)" "kc_Delete (readonly_NewClient c) ob w = (None, w)"
  "kc_Update (readonly_NewClient c) ob w = (Inr ob, w)" "kc_Patch (readonly_NewClient c) ob orig w = (Inr ob, w)"
  by (simp_all add: ro.blocked)

lemma CreateOrUpdate_dry [simp]: "snd (CreateOrUpdate (readonly_NewClient c) sch res w) = w"
  by (auto simp: CreateOrUpdate_def Let_def split: sum.splits option.splits)

lemma CreateIfNotExists_dry [simp]: "snd (CreateIfNotExists (readonly_NewClient c) res w) = w"
  by (auto simp: CreateIfNotExists_def split: sum.splits option.splits)

lemma DeleteIfExists_dry [simp]: "snd (DeleteIfExists (readonly_NewClient c) res w) = w"
  by (simp add: DeleteIfExists_def)

lemma AnnotateIfExists_dry [simp]: "snd (AnnotateIfExists (readonly_NewClient c) sch res w) = w"
  by (auto simp: AnnotateIfExists_def Let_def split: sum.splits option.splits)

lemma CreateOrRecreate_dry:
  assumes "CreateOrRecreate (readonly_NewClient c) sch ck res w = Some (err, w')" and "quiet_clock ck lk"
  shows "lk w' = lk w"
  using assms by (auto simp: CreateOrRecreate_def dest: await_deletion_lk split: sum.splits option.splits)

lemma snd_eqD: "snd p = v \<Longrightarrow> p = (x, y) \<Longrightarrow> y = v"
  by simp

lemmas writes_dry = CreateOrUpdate_dry[THEN snd_eqD] CreateIfNotExists_dry[THEN snd_eqD] DeleteIfExists_dry[THEN snd_eqD]
  AnnotateIfExists_dry[THEN snd_eqD]

lemma operation_fn_dry:
  assumes "dry_run n c lk" and "operation_fn n rop = Some fn" and "fn w = Some (err, w')"
  shows "lk w' = lk w"
  using assms
  by (auto simp: operation_fn_def dry_run_def dest: writes_dry CreateOrRecreate_dry split: operation_type.splits)

lemma rollout_keeps:
  assumes "\<And>x w err w'. x \<in> set cs \<Longrightarrow> cm_fn x w = Some (err, w') \<Longrightarrow> lk w' = lk w"
    and "rolloutWithRetryAndMetrics cs w = Some (res, w')"
  shows "lk w' = lk w"
  using assms
proof (induction cs arbitrary: w)
  case (Cons x cs)
  from Cons.prems(2) obtain err w1 where x: "cm_fn x w = Some (err, w1)"
    by (cases "cm_fn x w") (auto split: option.splits)
  have "lk w1 = lk w" using Cons.prems(1)[OF _ x] by simp
  moreover have "lk w' = lk w1"
    using Cons.prems x Cons.IH[of w1] by (cases err) (auto simp: Let_def)
  ultimately show ?case by simp
qed simp

lemma operation_commits_dry:
  assumes "dry_run n c lk"
  shows "operation_commits n ops cache = (Inr cs, cache') \<Longrightarrow> x \<in> set cs \<Longrightarrow> cm_fn x w = Some (err, w') \<Longrightarrow> lk w' = lk w"
proof (induction ops arbitrary: cache cs)
  case (Cons rop ops)
  from Cons.prems(1) obtain fn cs' cache1 where fn: "operation_fn n rop = Some fn"
    and cs: "cs = \<lparr>cm_gvk = obj_type_meta (op_resource rop), cm_fn = fn\<rparr> # cs'"
    and rest: "operation_commits n ops cache1 = (Inr cs', cache')"
    by (rule operation_commits_Cons)
  with Cons.IH[OF rest] Cons.prems(2,3) operation_fn_dry[OF assms fn, of w err w'] show ?case by auto
qed simp

lemma Sync_dry:
  assumes "dry_run n c lk" and "Sync n r st = Some (res, st')"
  shows "lk (ss_world st') = lk (ss_world st)"
proof -
  obtain cs cache' where cs: "ClusterOperations n r (ss_listable st) (ss_world st) = (cs, cache')" by fastforce
  with assms(2) obtain w' where run: "rolloutWithRetryAndMetrics cs (ss_world st) = Some (res, w')"
    and st': "ss_world st' = w'" by (auto simp: Sync_def split: option.splits)
  have ops: "operation_commits n (ro_operations r) (ss_listable st) = (Inr os, cache1) \<Longrightarrow> x \<in> set os \<Longrightarrow>
      cm_fn x v = Some (err, v') \<Longrightarrow> lk v' = lk v" for os cache1 x v err v'
    by (rule operation_commits_dry[OF assms(1)])
  have del: "DeleteIfExists (sy_client n) ob v = (err, v') \<Longrightarrow> v' = v" for ob v err v'
    using assms(1) by (auto simp: dry_run_def dest: writes_dry)
  have "lk v' = lk v" if x: "x \<in> set cs" "cm_fn x v = Some (err, v')" for x v err v'
  proof (cases "fst (operation_commits n (ro_operations r) (ss_listable st))")
    case (Inl t)
    with cs x show ?thesis by (cases "operation_commits n (ro_operations r) (ss_listable st)")
      (auto simp: ClusterOperations_def failing_commit_def)
  next
    case (Inr os)
    then obtain cache1 where os: "operation_commits n (ro_operations r) (ss_listable st) = (Inr os, cache1)"
      by (cases "operation_commits n (ro_operations r) (ss_listable st)") simp
    show ?thesis
    proof (cases "x \<in> set os")
      case False
      with cs os x show ?thesis
        by (auto simp: ClusterOperations_def Let_def failing_commit_def dest!: del split: sum.splits)
    qed (rule ops[OF os _ x(2)])
  qed
  from rollout_keeps[OF this run] st' show ?thesis by simp
qed

lemma reportEvent_dry [simp]: "sy_client n = readonly_NewClient c \<Longrightarrow> snd (reportEvent n ev w) = w"
  by (auto simp: reportEvent_def Let_def split: payload.splits sum.splits option.splits)

lemma reportError_dry [simp]: "sy_client n = readonly_NewClient c \<Longrightarrow> reportError n src err app w = w"
  by (simp add: reportError_def)

lemma start_monitor_keeps: "quiet_names n lk \<Longrightarrow> lk (ss_world (start_monitor n app st)) = lk (ss_world st)"
  by (auto simp: start_monitor_def quiet_names_def split: prod.splits) (metis snd_conv)

lemma ensureCorrelationID_keeps:
  "quiet_names n lk \<Longrightarrow> ensureCorrelationID n s w = (r, w') \<Longrightarrow> lk w' = lk w"
  by (auto simp: ensureCorrelationID_def quiet_names_def Let_def split: if_splits sum.splits prod.splits) (metis snd_conv)+

lemma Prepare_keeps:
  assumes "quiet_names n lk" and "Prepare n app w = (res, w')"
  shows "lk w' = lk w"
proof -
  have same: "snd (run_client (readonly_NewClient (sy_client n)) (gen_Prepare (sy_generator n) s) v) = v" for s v
    using assms(1) by (intro reads_only_state) (simp add: quiet_names_def)
  show ?thesis
    using assms(2) same ensureCorrelationID_keeps[OF assms(1)]
    by (auto simp: Prepare_def Let_def split: sum.splits if_splits prod.splits) (metis snd_conv)+
qed

lemma delete_each_dry [simp]: "delete_each (readonly_NewClient c) items w = (None, w)"
  by (induction items) simp_all

lemma cleanUp_dry: "sy_client n = readonly_NewClient c \<Longrightarrow> snd (cleanUpAfterAppDeletion n app w) = w"
  by (auto simp: cleanUpAfterAppDeletion_def deleteCNRMResources_def deleteImageResource_def list_and_delete_def Let_def
      split: option.splits sum.splits prod.splits if_splits)

section \<open>Reconcile in dry-run mode\<close>

definition unchanged_but_status :: "'w lookup \<Rightarrow> 'w \<Rightarrow> 'w \<Rightarrow> bool" where
  "unchanged_but_status lk w w' \<longleftrightarrow> (\<forall>i. lk w' i = lk w i
     \<or> (\<exists>old new s. lk w i = Some old \<and> lk w' i = Some new \<and> source_of_object old = Some s \<and> same_but_status old new))"

lemma unchanged_same [intro]: "lk w' = lk w \<Longrightarrow> unchanged_but_status lk w w'"
  by (simp add: unchanged_but_status_def)

lemma unchanged_cong: "unchanged_but_status lk w w' \<Longrightarrow> lk w = lk v \<Longrightarrow> lk w' = lk v' \<Longrightarrow> unchanged_but_status lk v v'"
  by (simp add: unchanged_but_status_def)

lemma same_but_status_source: "same_but_status old new \<Longrightarrow> source_of_object new = Some t \<Longrightarrow> \<exists>s. source_of_object old = Some s"
  by (auto simp: same_but_status_def split: option.splits)

lemma status_update_unchanged:
  assumes "api_status c lk" and "kc_StatusUpdate c (object_of_source s) w = (r, w')"
  shows "unchanged_but_status lk w w'"
proof (cases r)
  case (Inl e)
  with api_status_Inl[OF assms(1)] assms(2) show ?thesis by blast
next
  case (Inr ob)
  from assms(2) Inr have "kc_StatusUpdate c (object_of_source s) w = (Inr ob, w')" by simp
  from api_status_Inr[OF assms(1) this] show ?thesis
    unfolding unchanged_but_status_def by (metis fun_upd_apply same_but_status_source)
qed

lemma store_status_dry:
  assumes "sy_client n = readonly_NewClient c" and "api_status c lk" and "store_status n app existing w = (err, w')"
  shows "unchanged_but_status lk w w'"
  using assms(3) status_update_unchanged[OF assms(2)] assms(1)
  by (auto simp: store_status_def Let_def split: if_splits prod.splits)

lemma deferred_update_dry:
  assumes "sy_client n = readonly_NewClient c" and "api_status c lk"
  shows "unchanged_but_status lk w (deferred_update n app w)"
  using assms(1) store_status_dry[OF assms]
  by (auto simp: deferred_update_def UpdateResource_def split: sum.splits prod.splits option.splits)

lemma reconcile_rollout_dry:
  assumes "dry_run n c lk" and "reconcile_rollout n app r st = Some (x, st')"
  shows "lk (ss_world st') = lk (ss_world st)"
proof -
  have ro: "sy_client n = readonly_NewClient c" using assms(1) by (simp add: dry_run_def)
  show ?thesis
    using assms(2) Sync_dry[OF assms(1)] ro start_monitor_keeps[of n lk] assms(1)
    by (auto simp: dry_run_def reconcile_rollout_def reconcile_failed_def reconcile_sync_failed_def reconcile_synchronized_def Let_def
        split: sum.splits option.splits prod.splits if_splits)
qed

lemma reconcile_body_dry:
  assumes "dry_run n c lk" and "reconcile_body n app st = Some (x, st')"
  shows "lk (ss_world st') = lk (ss_world st)"
proof -
  have ro: "sy_client n = readonly_NewClient c" using assms(1) by (simp add: dry_run_def)
  have clean: "cleanUpAfterAppDeletion n app w = (err, w') \<Longrightarrow> w' = w" for w err w'
    using cleanUp_dry[OF ro, of app w] by simp
  have failed: "reconcile_failed n s state e st1 = (s', st2) \<Longrightarrow> ss_world st2 = ss_world st1" for s state e st1 s' st2
    using ro by (auto simp: reconcile_failed_def Let_def)
  have names: "quiet_names n lk" using assms(1) by (simp add: dry_run_def)
  show ?thesis
    using assms(2) ro
    by (auto simp: reconcile_body_def Let_def start_monitor_keeps[OF names]
        dest!: clean failed Prepare_keeps[OF names] reconcile_rollout_dry[OF assms(1)]
        split: sum.splits option.splits prod.splits if_splits)
qed

lemma Reconcile_dry:
  assumes "dry_run n c lk" and "api_status c lk" and "Reconcile n kind key st = Some (res, st')"
  shows "unchanged_but_status lk (ss_world st) (ss_world st')"
proof (cases "get_source (sy_client n) kind key (ss_world st)")
  case (Inl e)
  with assms(3) show ?thesis by (auto simp: Reconcile_def)
next
  case (Inr app0)
  let ?app = "map_status (\<lambda>x. lib_ClearProblems (sy_lib n) (x\<lparr>st_conditions := []\<rparr>)) app0"
  from assms(3) Inr obtain app1 changed st1 where body: "reconcile_body n ?app st = Some (((app1, changed), res), st1)"
    and st': "st' = (if changed then st1\<lparr>ss_world := deferred_update n app1 (ss_world st1)\<rparr> else st1)"
    by (auto simp: Reconcile_def Let_def split: option.splits)
  have "lk (ss_world st1) = lk (ss_world st)" by (rule reconcile_body_dry[OF assms(1) body])
  moreover have "sy_client n = readonly_NewClient c" using assms(1) by (simp add: dry_run_def)
  ultimately show ?thesis
    using deferred_update_dry[OF _ assms(2), of n "ss_world st1" app1] st' by (auto simp: unchanged_but_status_def)
qed

text \<open>C14. Dry-run mode changes nothing but statuses: whatever a reconciliation by one of the synchronizers that \<open>run\<close>
  makes in dry-run mode finds and generates, afterwards every object of the cluster is as it was, except that a
  workload may have another status. In particular it creates and deletes no object, adds and removes no finalizer, and
  records no event.\<close>

theorem dry_run_Reconcile:
  assumes "pf_config_New pf = Inr cfg" and "cfg_DryRun cfg" and "run_main pf = Inr (applicationSync, naisjobSync)"
    and "\<And>sch c. pf_NewManager pf sch = Inr c \<Longrightarrow> api_status c lk" and "quiet_clock (pf_clock pf) lk"
    and "\<And>w. lk (snd (pf_uuid_NewRandom pf w)) = lk w" and "\<And>w. lk (snd (pf_uuid_New pf w)) = lk w"
    and "n \<in> {applicationSync, naisjobSync}" and "Reconcile n kind key st = Some (res, st')"
  shows "unchanged_but_status lk (ss_world st) (ss_world st')"
proof -
  obtain kscheme mgr simple where mgr: "pf_NewManager pf kscheme = Inr mgr"
    and syncs: "applicationSync = NewSynchronizer pf (startup_client cfg mgr) (startup_client cfg simple) cfg
         (application_generator (pf_lib pf) cfg (pf_order pf)) (startup_listers cfg) kscheme"
      "naisjobSync = NewSynchronizer pf (startup_client cfg mgr) (startup_client cfg simple) cfg
         (naisjob_generator (pf_lib pf) cfg (pf_order pf)) (startup_listers cfg) kscheme"
    using run_main_Inr[OF assms(3)] assms(1) by (metis Inr_inject)
  have "dry_run n mgr lk"
    using assms(2,5-8) by (auto simp: syncs dry_run_def quiet_names_def startup_client_def application_generator_reads naisjob_generator_reads)
  from Reconcile_dry[OF this assms(4)[OF mgr] assms(9)] show ?thesis .
qed

section \<open>Two consequences\<close>

text \<open>
  The deletion of a recreated object is only pretended, so the object is still there at every poll: in dry-run mode
  \<open>CreateOrRecreate\<close> of an object that exists fails when its time is up, and with it the whole synchronization.
\<close>

lemma await_deletion_present:
  assumes "clock_advances ck" and "quiet_clock ck lk" and "api_get cli lk"
  shows "timedOut - ck_now ck w < int m * second_ns \<Longrightarrow> lk w (t, k) \<noteq> None \<Longrightarrow>
    \<exists>e w'. await_deletion cli ck t k timedOut w = Some (Some e, w')"
proof (induction m arbitrary: w)
  case 0
  then show ?case by (subst await_deletion.simps) (auto dest: api_get_Some[OF assms(3)])
next
  case (Suc m)
  let ?w = "ck_sleep ck second_ns w"
  from assms(1) have "ck_now ck w + second_ns \<le> ck_now ck ?w" by (simp add: clock_advances_def)
  with Suc.prems(1) have "timedOut - ck_now ck ?w < int m * second_ns" by (simp add: algebra_simps)
  moreover have "lk ?w (t, k) \<noteq> None" using Suc.prems(2) assms(2) by (simp add: quiet_clock_def)
  ultimately have "\<exists>e w'. await_deletion cli ck t k timedOut ?w = Some (Some e, w')" by (rule Suc.IH)
  with Suc.prems(2) show ?case by (subst await_deletion.simps) (auto dest: api_get_Some[OF assms(3)])
qed

lemma dry_run_recreate_fails:
  assumes "clock_advances ck" and "quiet_clock ck lk" and "api_get c lk"
    and "scheme (obj_type_meta res) = Inr (obj_type res)" and "lk w (obj_id res) \<noteq> None"
  shows "\<exists>e w'. CreateOrRecreate (readonly_NewClient c) scheme ck res w = Some (Some e, w')"
proof -
  let ?limit = "ck_now ck w + (60 * second_ns + 5)"
  have get: "api_get (readonly_NewClient c) lk" using assms(3) unfolding api_get_def readonly_reads .
  have "?limit - ck_now ck w < int 61 * second_ns" by simp
  moreover have "lk w (obj_type res, obj_key res) \<noteq> None" using assms(5) by (simp add: obj_id_def)
  ultimately obtain e w' where "await_deletion (readonly_NewClient c) ck (obj_type res) (obj_key res) ?limit w = Some (Some e, w')"
    using await_deletion_present[OF assms(1,2) get] by blast
  with assms(4) show ?thesis by (simp add: CreateOrRecreate_def)
qed

text \<open>
  The status that is stored tells a later reconciliation that the work is done: after a rollout in dry-run mode
  that had no error, the stored workload is \<open>Synchronized\<close> and has the hash of the new specification, although nothing
  was rolled out, so a controller that runs for real leaves it alone (\<open>Reconcile_unchanged\<close>).
\<close>

lemma deferred_update_stores:
  assumes "sy_client n = readonly_NewClient c" and "api_get c lk" and "api_status c lk"
    and "\<And>s w. lk w (obj_id (object_of_source s)) \<noteq> None \<Longrightarrow> \<exists>ob. fst (kc_StatusUpdate c (object_of_source s) w) = Inr ob"
    and "lk w (source_type (src_kind app), meta_key (src_meta app)) = Some ob" and "source_of_object ob = Some s"
  shows "\<exists>new t. lk (deferred_update n app w) (source_type (src_kind app), meta_key (src_meta app)) = Some new
    \<and> source_of_object new = Some t \<and> src_status t = src_status app \<and> src_spec t = src_spec s"
proof -
  let ?i = "(source_type (src_kind app), meta_key (src_meta app))"
  from api_get_Some[OF assms(2,5)] have got: "kc_Get c (source_type (src_kind app)) (meta_key (src_meta app)) w = Inr ob"
    and ident: "obj_type ob = source_type (src_kind app)" "obj_key ob = meta_key (src_meta app)" by simp_all
  from ident assms(6) have s: "source_type (src_kind s) = source_type (src_kind app)" "meta_key (src_meta s) = meta_key (src_meta app)"
    by (auto simp: source_of_object_def source_type_def obj_type_def obj_key_def split: payload.splits)
  obtain e where "obj_id (object_of_source (e\<lparr>src_status := src_status app\<rparr>)) = ?i"
    and store: "store_status n app s w = (case kc_StatusUpdate c (object_of_source (e\<lparr>src_status := src_status app\<rparr>)) w of
        (r, w') \<Rightarrow> (err_of r, w'))"
  proof -
    let ?l = "s\<lparr>src_meta := (src_meta s)\<lparr>om_labels := gm_set ''team'' (src_namespace s) (om_labels (src_meta s))\<rparr>\<rparr>"
    let ?e = "if om_labels (src_meta s) = None \<or> gm_index (om_labels (src_meta s)) ''team'' \<noteq> src_namespace s then ?l else s"
    have "obj_id (object_of_source (?e\<lparr>src_status := src_status app\<rparr>)) = ?i"
      using s by (simp add: obj_id_def obj_key_def meta_key_def)
    then show thesis using that[of ?e] assms(1) by (simp add: store_status_def Let_def)
  qed
  moreover from this(1) assms(4,5) obtain ob' w' where up:
      "kc_StatusUpdate c (object_of_source (e\<lparr>src_status := src_status app\<rparr>)) w = (Inr ob', w')"
    by (metis option.distinct(1) prod.collapse)
  ultimately have w': "deferred_update n app w = w'" and i: "obj_id (object_of_source (e\<lparr>src_status := src_status app\<rparr>)) = ?i"
    using got assms(1,6) by (simp_all add: deferred_update_def UpdateResource_def get_source_def)
  from api_status_Inr[OF assms(3) up] obtain old new t where "lk w ?i = Some old" "same_but_status old new"
    "source_of_object new = Some t" "src_status t = src_status app" "lk w' = (lk w)(?i \<mapsto> new)"
    unfolding i by auto
  with assms(5,6) w' show ?thesis by (auto simp: same_but_status_def)
qed

lemma dry_run_stores_hash:
  assumes "dry_run n c lk" and "api_get c lk" and "api_status c lk" and "status_laws (sy_lib n)"
    and "\<And>s w. lk w (obj_id (object_of_source s)) \<noteq> None \<Longrightarrow> \<exists>ob. fst (kc_StatusUpdate c (object_of_source s) w) = Inr ob"
    and "gen_Generate (sy_generator n) (ro_source r) (ro_options r) = Inr ops"
    and "Sync n (r\<lparr>ro_operations := ops\<rparr>) st = Some ((retry, None), st1)"
    and "reconcile_rollout n app r st = Some (((app', changed), res), st')"
    and "src_kind app' = src_kind app" "meta_key (src_meta app') = meta_key (src_meta app)"
    and "lk (ss_world st) (source_type (src_kind app), meta_key (src_meta app)) = Some ob" "source_of_object ob = Some s"
  shows "\<exists>new t. lk (deferred_update n app' (ss_world st')) (source_type (src_kind app), meta_key (src_meta app)) = Some new
    \<and> source_of_object new = Some t \<and> src_spec t = src_spec s \<and> st_sync_hash (src_status t) = ro_hash r
    \<and> st_sync_state (src_status t) = evn_Synchronized (lib_events (sy_lib n))"
proof -
  have out: "st_sync_hash (src_status app') = ro_hash r
      \<and> st_sync_state (src_status app') = evn_Synchronized (lib_events (sy_lib n))"
    using assms(6-8) status_lawsD[OF assms(4)] by (auto simp: reconcile_rollout_def reconcile_synchronized_def Let_def)
  have same: "lk (ss_world st') = lk (ss_world st)" by (rule reconcile_rollout_dry[OF assms(1,8)])
  have ro: "sy_client n = readonly_NewClient c" using assms(1) by (simp add: dry_run_def)
  show ?thesis
    using deferred_update_stores[OF ro assms(2,3,5), where app = app' and w = "ss_world st'" and ob = ob and s = s] assms(9-12) out
    by (auto simp: same)
qed

end
