(* ===== verification/Operation_Types.thy ===== *)
theory Operation_Types
  imports Generate
begin

text \<open>
  Which operations creators make. The synchronizer knows five operations and gives up on any other; and a rollout
  must not write what the program only reads: manifests, namespaces, events, images and the clusters of a Postgres
  operator. The locale \<open>operation_creator\<close> is that contract, proved for every creator that the generators call.
\<close>

definition sound_operation :: "operation \<Rightarrow> bool" where
  "sound_operation rop \<longleftrightarrow> obj_type (op_resource rop) \<notin> {TApplication, TNaisjob, TNamespace, TEvent, TImage, TPostgres}
     \<and> (\<forall>name. op_operation rop \<noteq> OperationOther name)"

definition adds_sound :: "ast \<Rightarrow> ast \<Rightarrow> bool" where
  "adds_sound a a' \<longleftrightarrow> (\<exists>new. ast_operations a' = ast_operations a @ new \<and> list_all sound_operation new)"

lemma adds_sound_refl [simp]: "adds_sound a a"
  by (simp add: adds_sound_def)

lemma adds_sound_trans: "adds_sound a b \<Longrightarrow> adds_sound b c \<Longrightarrow> adds_sound a c"
  by (auto simp: adds_sound_def)

lemma adds_sound_New: "adds_sound NewAst a \<longleftrightarrow> list_all sound_operation (ast_operations a)"
  by (simp add: adds_sound_def NewAst_def)

locale operation_creator =
  fixes create :: "liberator \<Rightarrow> source \<Rightarrow> 'cfg \<Rightarrow> ast \<Rightarrow> ast result"
  assumes create_operations: "create lib s cfg a = Inr a' \<Longrightarrow> adds_sound a a'"
begin

lemma operations_then: "adds_sound a b \<Longrightarrow> create lib s cfg b = Inr c \<Longrightarrow> adds_sound a c"
  using create_operations adds_sound_trans by blast

end

section \<open>Changes of the \<open>Ast\<close>\<close>

lemma adds_sound_same: "ast_operations b' = ast_operations b \<Longrightarrow> adds_sound a b' = adds_sound a b"
  by (simp add: adds_sound_def)

lemma adds_sound_simps [simp]:
  "adds_sound a (AppendEnv vs b) = adds_sound a b" "adds_sound a (PrependEnv vs b) = adds_sound a b"
  "adds_sound a (add_volume vol m b) = adds_sound a b"
  "adds_sound a (add_init_container c b) = adds_sound a b"
  "adds_sound a (mountToken b) = adds_sound a b"
  "adds_sound a (b\<lparr>ast_env_from := fs\<rparr>) = adds_sound a b" "adds_sound a (b\<lparr>ast_env := es\<rparr>) = adds_sound a b"
  "adds_sound a (b\<lparr>ast_volumes := us\<rparr>) = adds_sound a b" "adds_sound a (b\<lparr>ast_labels := ls\<rparr>) = adds_sound a b"
  "adds_sound a (b\<lparr>ast_volume_mounts := ms\<rparr>) = adds_sound a b"
  "adds_sound a (b\<lparr>ast_annotations := an\<rparr>) = adds_sound a b"
  "adds_sound a (WithAdditionalSecret n p b) = adds_sound a b"
  "adds_sound a (WithAdditionalEnvFromSecret n b) = adds_sound a b" "adds_sound a (set_label k v b) = adds_sound a b"
  by (rule adds_sound_same; simp add: AppendEnv_def PrependEnv_def add_volume_def add_init_container_def mountToken_def
      WithAdditionalSecret_def WithAdditionalEnvFromSecret_def set_label_def)+

lemma sound_operation_simp [simp]:
  "sound_operation \<lparr>op_resource = ob, op_operation = t\<rparr> \<longleftrightarrow>
     payload_type (obj_payload ob) \<notin> {TApplication, TNaisjob, TNamespace, TEvent, TImage, TPostgres} \<and> (\<forall>name. t \<noteq> OperationOther name)"
  by (simp add: sound_operation_def obj_type_def)

lemma adds_sound_AppendOperation [simp]:
  "sound_operation \<lparr>op_resource = ob, op_operation = t\<rparr> \<Longrightarrow> adds_sound a b \<Longrightarrow> adds_sound a (AppendOperation t ob b)"
  unfolding adds_sound_def AppendOperation_def by force

text \<open>The objects that the creators make by way of a definition of their own.\<close>

lemmas made_objects = CreateStream_def app_netpol_def policy_member_object_def CreateGoogleSQLDatabase_def
  sql_instance_object_def azure_object_def ingress_object_def elector_roleBinding_def naisJsConfigMap_def
  OpaqueSecret_def map_meta_def
  CreateBucket_def iam_CreateServiceAccount_def iam_CreatePolicy_def CreateIAMPolicyMemberForInstance_def

lemma encryption_key_payload: "makeEncryptionKeySecret lib s d w = Inr ob \<Longrightarrow> payload_type (obj_payload ob) = TSecret"
  by (cases "ng_Keygen (lib_names lib) d 32") (auto simp: makeEncryptionKeySecret_def OpaqueSecret_def Let_def result_simps)

lemma otelNetpol_payload: "otelNetpol lib s cfg = Inr ob \<Longrightarrow> payload_type (obj_payload ob) = TNetworkPolicy"
  by (auto simp: otelNetpol_def Let_def result_simps)

lemma made_payloads:
  "maskinporten_client lib m mp = Inr (ob, mpc) \<Longrightarrow> payload_type (obj_payload ob) = TMaskinportenClient"
  "iam_policyMember lib s perm p1 p2 = Inr ob \<Longrightarrow> payload_type (obj_payload ob) = TIAMPolicyMember"
  "bucket_iAMPolicyMember lib s bucket cfg role sfx = Inr ob \<Longrightarrow> payload_type (obj_payload ob) = TIAMPolicyMember"
  "bigquery_iAMPolicyMember lib s ds p1 p2 n = Inr ob \<Longrightarrow> payload_type (obj_payload ob) = TIAMPolicyMember"
  "createDataset lib s bq p1 n = Inr ob \<Longrightarrow> payload_type (obj_payload ob) = TBigQueryDataset"
  "CreateGoogleSQLDatabase lib m n db p b = Inr ob \<Longrightarrow> payload_type (obj_payload ob) = TSQLDatabase"
  "user_Create lib u m c n p = Inr (ob, m') \<Longrightarrow> payload_type (obj_payload ob) = TSQLUser"
  by (auto simp: maskinporten_client_def iam_policyMember_def bucket_iAMPolicyMember_def
      bigquery_iAMPolicyMember_def createDataset_def CreateGoogleSQLDatabase_def user_Create_def made_objects Let_def result_simps
      split: sum.splits if_splits)

lemma adds_sound_set_operation:
  assumes "adds_sound a b" and "obj_type ob \<notin> {TApplication, TNaisjob, TNamespace, TEvent, TImage, TPostgres}"
    and "length (ast_operations a) \<le> i"
  shows "adds_sound a (set_operation i ob b)"
proof -
  from assms(1) obtain new where new: "ast_operations b = ast_operations a @ new" "list_all sound_operation new"
    unfolding adds_sound_def by blast
  let ?j = "i - length (ast_operations a)"
  have "list_all sound_operation (new[?j := (new ! ?j)\<lparr>op_resource := ob\<rparr>])"
  proof (cases "?j < length new")
    case True
    with new(2) have "sound_operation (new ! ?j)" by (simp add: list_all_length)
    then have "sound_operation ((new ! ?j)\<lparr>op_resource := ob\<rparr>)" using assms(2) by (simp add: sound_operation_def)
    with new(2) show ?thesis by (auto simp: list_all_iff dest: set_update_subset_insert[THEN subsetD])
  next
    case False
    then have "new[?j := (new ! ?j)\<lparr>op_resource := ob\<rparr>] = new" by (intro list_update_beyond) simp
    with new(2) show ?thesis by simp
  qed
  moreover have "ast_operations (set_operation i ob b) = ast_operations a @ new[?j := (new ! ?j)\<lparr>op_resource := ob\<rparr>]"
    using assms(3) new(1) by (simp add: set_operation_def list_update_append nth_append)
  ultimately show ?thesis by (auto simp: adds_sound_def)
qed

lemma adds_sound_foldM:
  assumes "\<And>x a a'. f x a = Inr a' \<Longrightarrow> adds_sound a a'" and "foldM_result f xs a = Inr a'"
  shows "adds_sound a a'"
  using foldM_result_invariant[where P = "adds_sound a" and f = f and xs = xs] assms adds_sound_trans
    adds_sound_refl by metis

section \<open>The creators\<close>

interpretation service_o: operation_creator "\<lambda>lib s cfg a. Inr (service_Create lib s cfg a)"
  by unfold_locales (auto simp: made_objects service_Create_def Let_def)

interpretation serviceaccount_o: operation_creator "\<lambda>lib s cfg a. Inr (serviceaccount_Create lib s cfg a)"
  by unfold_locales (auto simp: made_objects serviceaccount_Create_def Let_def)

interpretation hpa_o: operation_creator "\<lambda>lib s (cfg :: unit) a. Inr (hpa_Create lib s a)"
  by unfold_locales (auto simp: made_objects hpa_Create_def Let_def)

interpretation pdb_o: operation_creator "\<lambda>lib s (cfg :: unit) a. Inr (pdb_Create lib s a)"
  by unfold_locales (auto simp: made_objects pdb_Create_def Let_def)

interpretation networkpolicy_o: operation_creator "\<lambda>lib s cfg a. Inr (networkpolicy_Create lib s cfg a)"
  by unfold_locales (auto simp: made_objects networkpolicy_Create_def)

interpretation fqdnpolicy_o: operation_creator "\<lambda>lib s cfg a. Inr (fqdnpolicy_Create lib s cfg a)"
  by unfold_locales (auto simp: made_objects fqdnpolicy_Create_def split: option.splits)

interpretation certificateauthority_o: operation_creator "\<lambda>lib s cfg a. Inr (certificateauthority_Create s cfg a)"
  by unfold_locales (auto simp: made_objects certificateauthority_Create_def Let_def)

interpretation frontend_o: operation_creator frontend_Create
  by unfold_locales (auto simp: made_objects frontend_Create_def Let_def result_simps split: option.splits)

lemma create_otel_sound: "create_otel lib s cfg obs b = Inr b' \<Longrightarrow> adds_sound a b \<Longrightarrow> adds_sound a b'"
  by (auto simp: create_otel_def result_simps dest!: otelNetpol_payload split: option.splits if_splits)

interpretation observability_o: operation_creator observability_Create
  by unfold_locales
    (auto simp: observability_Create_def Let_def result_simps elim!: create_otel_sound split: option.splits if_splits)

interpretation ingress_o: operation_creator ingress_Create
proof
  fix lib s cfg a a'
  have "adds_sound a b \<Longrightarrow> adds_sound a (fold (\<lambda>ing. AppendOperation OperationCreateOrUpdate (ingress_object ing)) ings b)"
      for ings b
    by (induction ings arbitrary: b) (simp_all add: made_objects)
  then show "ingress_Create lib s cfg a = Inr a' \<Longrightarrow> adds_sound a a'"
    by (auto simp: made_objects ingress_Create_def result_simps split: if_splits)
qed

interpretation leaderelection_o: operation_creator leaderelection_Create
  by unfold_locales (auto simp: made_objects leaderelection_Create_def Let_def result_simps split: if_splits sum.splits)

lemma wonderwall_sound: "wonderwall_Create lib s cfg w b = Inr a' \<Longrightarrow> adds_sound a b \<Longrightarrow> adds_sound a a'"
  by (auto dest!: encryption_key_payload simp: made_objects wonderwall_Create_def result_simps split: option.splits sum.splits if_splits)

lemma azure_sidecar_sound:
  "azure_sidecar lib s cfg sc i m spec b = Inr (spec', a') \<Longrightarrow> adds_sound a b \<Longrightarrow> length (ast_operations a) \<le> i
     \<Longrightarrow> adds_sound a a'"
  by (auto simp: azure_sidecar_def Let_def result_simps adds_sound_set_operation azure_object_def obj_type_def split: if_splits elim!: wonderwall_sound)

interpretation azure_o: operation_creator "\<lambda>lib s cfg a. ast_of (azure_Create lib s cfg a)"
  by unfold_locales
    (auto simp: made_objects azure_Create_def Let_def result_simps split: option.splits if_splits elim!: azure_sidecar_sound)

interpretation idporten_o: operation_creator "\<lambda>lib s cfg a. ast_of (idporten_Create lib s cfg a)"
  by unfold_locales
    (auto simp: made_objects idporten_Create_def Let_def result_simps split: option.splits if_splits elim!: wonderwall_sound)

interpretation login_o: operation_creator login_Create
  by unfold_locales (auto simp: made_objects login_Create_def result_simps split: option.splits if_splits elim!: wonderwall_sound)

interpretation maskinporten_o: operation_creator "\<lambda>lib s cfg a. ast_of (maskinporten_Create lib s cfg a)"
  by unfold_locales (auto dest!: made_payloads simp: made_objects maskinporten_Create_def result_simps split: option.splits if_splits)

interpretation jwker_o: operation_creator "\<lambda>lib s cfg a. ast_of (jwker_Create lib s cfg a)"
  by unfold_locales (auto simp: made_objects jwker_Create_def Let_def result_simps split: if_splits)

interpretation texas_o: operation_creator "\<lambda>lib s (cfg, clts). texas_Create lib s cfg clts"
  by unfold_locales (auto simp: made_objects texas_Create_def Let_def result_simps split: if_splits)

interpretation vault_o: operation_creator vault_Create
  by unfold_locales (auto simp: made_objects vault_Create_def Let_def split: option.splits if_splits)

interpretation proxyopts_o: operation_creator "\<lambda>lib. proxyopts_Create"
  by unfold_locales (auto simp: made_objects proxyopts_Create_def split: if_splits sum.splits)

interpretation postgres_o: operation_creator postgres_Create
  by unfold_locales
    (auto simp: made_objects postgres_Create_def cnpg_Create_def cnpg_createNetworkPolicies_def cnpg_createPoolerNetworkPolicy_def
      cnpg_createSourceNetworkPolicy_def zalando_Create_def zalando_createNetworkPolicies_def
      zalando_createPoolerNetworkPolicy_def zalando_createSourceNetworkPolicy_def Let_def result_simps
      split: option.splits if_splits)

lemma add_valkeys_sound:
  assumes "foldM_result (add_valkey lib m) vs r = Inr r'"
  shows "adds_sound a (snd r) \<Longrightarrow> adds_sound a (snd r')"
proof -
  have "add_valkey lib m v r1 = Inr r2 \<Longrightarrow> adds_sound a (snd r1) \<Longrightarrow> adds_sound a (snd r2)" for v r1 r2
    by (cases r1) (auto simp: made_objects add_valkey_def addValkeyEnvVariables_def addRedisEnvVariables_def Let_def result_simps
        split: if_splits)
  then show "adds_sound a (snd r) \<Longrightarrow> adds_sound a (snd r')"
    using foldM_result_invariant[where P = "\<lambda>x. adds_sound a (snd x)" and f = "add_valkey lib m" and xs = vs] assms
    by metis
qed

interpretation aiven_o: operation_creator aiven_Create
proof
  fix lib s cfg a a'
  have "aiven_Kafka lib s cfg m sp b = Inr (e, sp', b') \<Longrightarrow> adds_sound a b \<Longrightarrow> adds_sound a b'" for m sp b e sp' b'
    by (cases "ws_kafka (src_spec s)") (auto simp: made_objects aiven_Kafka_def addKafkaEnvVariables_def createKafkaKeyToPaths_def
        Let_def result_simps split: if_splits)
  moreover have "aiven_OpenSearch lib s m sp b = Inr (e, sp', b') \<Longrightarrow> adds_sound a b \<Longrightarrow> adds_sound a b'" for m sp b e sp' b'
    by (auto simp: made_objects aiven_OpenSearch_def addOpenSearchEnvVariables_def Let_def result_simps split: option.splits if_splits)
  moreover have "aiven_Valkey lib s cfg m sp b = Inr (e, sp', b') \<Longrightarrow> adds_sound a b \<Longrightarrow> adds_sound a b'" for m sp b e sp' b'
    by (auto simp: made_objects aiven_Valkey_def result_simps split: if_splits dest!: add_valkeys_sound)
  ultimately show "aiven_Create lib s cfg a = Inr a' \<Longrightarrow> adds_sound a a'"
    by (auto simp: made_objects aiven_Create_def Let_def result_simps)
qed

section \<open>Google\<close>

interpretation policymember_o: operation_creator iam_CreatePolicyMember
  by unfold_locales
    (auto dest!: made_payloads simp: made_objects iam_CreatePolicyMember_def split: option.splits sum.splits elim!: adds_sound_foldM[rotated])

interpretation storagebucket_o: operation_creator storagebucket_Create
  by unfold_locales
    (auto dest!: made_payloads simp: made_objects storagebucket_Create_def add_bucket_def Let_def result_simps split: option.splits if_splits
      elim!: adds_sound_foldM[rotated])

interpretation bigquery_o: operation_creator "\<lambda>lib s (cfg, n). bigquery_CreateDataset lib s cfg n"
  by unfold_locales
    (auto dest!: made_payloads simp: made_objects bigquery_CreateDataset_def add_dataset_def Let_def result_simps split: option.splits if_splits
      elim!: adds_sound_foldM[rotated])

lemma CreateGoogleSQLUsers_sound:
  "CreateGoogleSQLUsers lib s cfg db inst n spec a = Inr a' \<Longrightarrow> adds_sound a a'"
  unfolding CreateGoogleSQLUsers_def
  by (erule adds_sound_foldM[rotated])
    (auto dest!: made_payloads simp: made_objects add_sql_user_def createSqlUserDBResources_def Let_def result_simps split: if_splits sum.splits)

interpretation cloudsql_o: operation_creator sql_CreateInstance
proof
  fix lib s cfg a a'
  assume ok: "sql_CreateInstance lib s cfg a = Inr a'"
  show "adds_sound a a'"
  proof (cases "\<exists>g. ws_gcp (src_spec s) = Some g \<and> gcp_sql_instances g \<noteq> []")
    case True
    then obtain g where "ws_gcp (src_spec s) = Some g" "gcp_sql_instances g \<noteq> []" by blast
    with ok show ?thesis
    proof (cases rule: sql_CreateInstanceE)
      case (1 inst meta spec db sqlDatabase a2)
      have "adds_sound a a2" using CreateGoogleSQLUsers_sound[OF 1(6)] made_payloads(6)[OF 1(5)]
        by (elim adds_sound_trans[rotated]) (simp add: made_objects)
      with 1(7) show ?thesis by (auto simp: CreateSqlSSLCertResource_def Let_def result_simps split: if_splits)
    qed
  next
    case False
    with ok show ?thesis by (auto simp: sql_CreateInstance_def split: option.splits)
  qed
qed

interpretation gcp_o: operation_creator gcp_Create
  by unfold_locales
    (auto simp: made_objects gcp_Create_def Let_def result_simps split: if_splits
      elim!: policymember_o.operations_then[rotated] cloudsql_o.operations_then[rotated] storagebucket_o.operations_then[rotated]
        bigquery_o.operations_then[of _ _ _ _ "(_, _)", simplified, rotated])

section \<open>Both generators\<close>

interpretation deployment_o: operation_creator deployment_Create
  by unfold_locales (auto simp: deployment_Create_def adds_sound_def AppendOperation_def dest: deploymentSpec_operations split: sum.splits)

interpretation cronjob_o: operation_creator CreateCronJob
  by unfold_locales
    (auto simp: CreateCronJob_def Let_def result_simps adds_sound_def AppendOperation_def dest: CreateJobSpec_operations)

interpretation podmonitor_o: operation_creator "\<lambda>lib s cfg a. Inr (podmonitor_Create lib s cfg a)"
  by unfold_locales (auto simp: podmonitor_Create_def Let_def)

interpretation app_container_o: operation_creator CreateAppContainer
  by unfold_locales (auto simp: CreateAppContainer_def Let_def result_simps adds_sound_def)

interpretation job_container_o: operation_creator CreateNaisjobContainer
  by unfold_locales (auto simp: CreateNaisjobContainer_def Let_def result_simps adds_sound_def)

lemma pure_creators_operations [simp]:
  assumes "adds_sound a b"
  shows "adds_sound a (service_Create lib s cfg b)" "adds_sound a (serviceaccount_Create lib s cfg b)"
    "adds_sound a (hpa_Create lib s b)" "adds_sound a (pdb_Create lib s b)" "adds_sound a (networkpolicy_Create lib s cfg b)"
    "adds_sound a (fqdnpolicy_Create lib s cfg b)" "adds_sound a (certificateauthority_Create s cfg b)"
    "adds_sound a (CreateContainerEnvVars lib s cfg b)" "adds_sound a (podmonitor_Create lib s cfg b)"
  using service_o.operations_then[OF assms refl] serviceaccount_o.operations_then[OF assms refl]
    hpa_o.operations_then[OF assms refl] pdb_o.operations_then[OF assms refl] networkpolicy_o.operations_then[OF assms refl]
    fqdnpolicy_o.operations_then[OF assms refl] certificateauthority_o.operations_then[OF assms refl]
    podmonitor_o.operations_then[OF assms refl] assms
  by (simp_all add: CreateContainerEnvVars_def)

lemma client_creators_operations:
  "adds_sound a b \<Longrightarrow> azure_Create lib s cfg b = Inr (az, c) \<Longrightarrow> adds_sound a c"
  "adds_sound a b \<Longrightarrow> idporten_Create lib s cfg b = Inr (ip, c) \<Longrightarrow> adds_sound a c"
  "adds_sound a b \<Longrightarrow> maskinporten_Create lib s cfg b = Inr (mp, c) \<Longrightarrow> adds_sound a c"
  "adds_sound a b \<Longrightarrow> jwker_Create lib s cfg b = Inr (tx, c) \<Longrightarrow> adds_sound a c"
  "adds_sound a b \<Longrightarrow> texas_Create lib s cfg clts b = Inr c \<Longrightarrow> adds_sound a c"
  "adds_sound a b \<Longrightarrow> (if e then postgres_Create lib s cfg b else Inr b) = Inr c \<Longrightarrow> adds_sound a c"
  using azure_o.operations_then[of a b lib s cfg c] idporten_o.operations_then[of a b lib s cfg c]
    maskinporten_o.operations_then[of a b lib s cfg c] jwker_o.operations_then[of a b lib s cfg c]
    texas_o.operations_then[of a b lib s "(cfg, clts)" c] postgres_o.operations_then[of a b lib s cfg c]
  by (auto split: if_splits)

lemma application_resources_operations:
  assumes "application_resources lib app opts = Inr a"
  shows "adds_sound NewAst a"
  using assms
proof (cases rule: application_resourcesE)
  case (1 a4 a5 a6 a7 az a8 ip a9 a10 a11 a12 a13 mp a14 tx a16 a17 a18)
  have "adds_sound NewAst a4" by (rule frontend_o.operations_then[OF _ 1(1)]) simp
  then have "adds_sound NewAst a10"
    by (rule login_o.operations_then[OF client_creators_operations(2)[OF client_creators_operations(1)[OF
        leaderelection_o.operations_then[OF ingress_o.operations_then[OF observability_o.operations_then[OF _ 1(2)] 1(3)] 1(4)]
        1(5)] 1(6)] 1(7)])
  then have "adds_sound NewAst a14"
    by (rule client_creators_operations(3)[OF proxyopts_o.operations_then[OF client_creators_operations(6)[OF
        gcp_o.operations_then[OF _ 1(8)] 1(9)] 1(10)] 1(11)])
  then have "adds_sound NewAst a16" by (intro client_creators_operations(4)[OF _ 1(12)]) simp
  then show ?thesis
    by (rule client_creators_operations(5)[OF vault_o.operations_then[OF aiven_o.operations_then[OF _ 1(13)] 1(14)] 1(15)])
qed

lemma naisjob_resources_operations:
  assumes "naisjob_resources lib job cfg = Inr a"
  shows "adds_sound NewAst a"
  using assms
proof (cases rule: naisjob_resourcesE)
  case (1 a3 az a4 a5 a6 a7 mp a8 a9 a10)
  have "adds_sound NewAst a3" by (rule observability_o.operations_then[OF _ 1(1)]) simp
  then have "adds_sound NewAst a7"
    by (rule proxyopts_o.operations_then[OF client_creators_operations(6)[OF gcp_o.operations_then[OF
        client_creators_operations(1)[OF _ 1(2)] 1(3)] 1(4)] 1(5)])
  then have "adds_sound NewAst a8" by (intro client_creators_operations(3)[OF _ 1(6)]) simp
  then show ?thesis
    by (rule client_creators_operations(5)[OF vault_o.operations_then[OF aiven_o.operations_then[OF _ 1(7)] 1(8)] 1(9)])
qed

lemma Application_Generate_operations:
  assumes "Application_Generate lib app opts = Inr ops"
  shows "list_all sound_operation ops"
proof -
  from assms obtain a b c where "application_resources lib app opts = Inr a" "CreateAppContainer lib app (fst opts) a = Inr b"
    "deployment_Create lib app (fst opts) b = Inr c" "ops = ast_operations (podmonitor_Create lib app (fst opts) c)"
    by (auto simp: Application_Generate_def result_simps split: if_splits)
  then show ?thesis unfolding adds_sound_New[symmetric]
    using deployment_o.operations_then[OF app_container_o.operations_then[OF application_resources_operations]]
    by (simp add: adds_sound_New[symmetric])
qed

lemma Naisjob_Generate_operations:
  assumes "Naisjob_Generate lib job cfg = Inr ops"
  shows "list_all sound_operation ops"
proof -
  from assms obtain a b c where "naisjob_resources lib job cfg = Inr a" "CreateNaisjobContainer lib job cfg a = Inr b"
    "CreateCronJob lib job cfg b = Inr c" "ops = ast_operations c"
    by (auto simp: Naisjob_Generate_def result_simps split: if_splits)
  then show ?thesis
    using cronjob_o.operations_then[OF job_container_o.operations_then[OF naisjob_resources_operations]]
    by (simp add: adds_sound_New[symmetric])
qed

text \<open>So a synchronization never gives up on an operation that it does not know.\<close>

lemma sound_operations_known:
  assumes "list_all sound_operation ops"
  obtains cs cache' where "operation_commits n ops cache = (Inr cs, cache')" "length cs = length ops"
proof -
  have known: "\<exists>fn. operation_fn n rop = Some fn" if "sound_operation rop" for rop
    using that by (cases "op_operation rop") (auto simp: sound_operation_def operation_fn_def)
  have "\<exists>cs cache'. operation_commits n ops cache = (Inr cs, cache') \<and> length cs = length ops"
    using assms
  proof (induction ops arbitrary: cache)
    case (Cons rop ops)
    from Cons.prems known obtain fn where "operation_fn n rop = Some fn" by auto
    moreover obtain cs cache' where "operation_commits n ops (checkListable n (obj_type_meta (op_resource rop)) cache) = (Inr cs, cache')"
      "length cs = length ops" using Cons by (metis list.pred_inject(2))
    ultimately show ?case by (simp add: Let_def)
  qed simp
  with that show thesis by blast
qed

end
