(* ===== verification/Reconciliation.thy ===== *)
theory Reconciliation
  imports Rollout Dry_Run Operation_Types
begin

text \<open>
  One reconciliation from end to end, by the synchronizer that \<open>run\<close> makes: the manifest is read, prepared, generated
  and rolled out, an event is recorded, a monitor is started and the status is stored. \<open>Rollout\<close> shows what the
  rollout leaves in the cluster; here it is shown that the rest of \<open>Reconcile\<close> keeps it.
\<close>

section \<open>What is relied on\<close>

text \<open>Writing an event touches events only. (The name of a new event is generated, which \<open>api_create\<close> leaves open.)\<close>

definition event_frame :: "'w kube_client \<Rightarrow> 'w lookup \<Rightarrow> bool" where
  "event_frame c lk \<longleftrightarrow> (\<forall>ob w t k. obj_type ob = TEvent \<longrightarrow> t \<noteq> TEvent \<longrightarrow>
     lk (snd (kc_Create c ob w)) (t, k) = lk w (t, k) \<and> lk (snd (kc_Update c ob w)) (t, k) = lk w (t, k))"

text \<open>The status of a stored manifest can be updated from its current version.\<close>

definition status_available :: "'w kube_client \<Rightarrow> 'w lookup \<Rightarrow> bool" where
  "status_available c lk \<longleftrightarrow> (\<forall>s old w. lk w (obj_id (object_of_source s)) = Some old
     \<and> om_resource_version (src_meta s) = om_resource_version (obj_meta old)
     \<longrightarrow> \<not> isl (fst (kc_StatusUpdate c (object_of_source s) w)))"

text \<open>Defaults are filled into the specification.\<close>

definition defaults_law :: "liberator \<Rightarrow> bool" where
  "defaults_law lib \<longleftrightarrow> (\<forall>s s'. lib_ApplyDefaults lib s = Inr s' \<longrightarrow>
     src_kind s' = src_kind s \<and> src_meta s' = src_meta s)"

text \<open>A manifest with another status, stored as another version. Neither the defaults nor the hash of a manifest depend on
  them.\<close>

definition resaved :: "nais_status \<Rightarrow> string \<Rightarrow> source \<Rightarrow> source" where
  "resaved st x s = s\<lparr>src_status := st, src_meta := (src_meta s)\<lparr>om_resource_version := x\<rparr>\<rparr>"

definition content_laws :: "liberator \<Rightarrow> bool" where
  "content_laws lib \<longleftrightarrow>
     (\<forall>s d st x. lib_ApplyDefaults lib s = Inr d \<longrightarrow> lib_ApplyDefaults lib (resaved st x s) = Inr (resaved st x d))
   \<and> (\<forall>g s st x. lib_Hash lib g (resaved st x s) = lib_Hash lib g s)
   \<and> (\<forall>s. lib_GetEffectiveImage lib s = st_effective_image (src_status s))"

definition cluster_env :: "('w, 'opt) synchronizer \<Rightarrow> 'w lookup \<Rightarrow> bool" where
  "cluster_env n lk \<longleftrightarrow> sync_env n lk \<and> api_available (sy_client n) lk \<and> event_frame (sy_client n) lk
     \<and> api_status (sy_client n) lk \<and> status_available (sy_client n) lk \<and> quiet_names n lk"

section \<open>Events, monitors, status\<close>

lemma bump_event_type [simp]: "obj_type (bump_event rep m ob) = obj_type ob"
  by (cases "obj_payload ob") (simp_all add: bump_event_def obj_type_def)

lemma reportEvent_frame:
  assumes "event_frame (sy_client n) lk" and "t \<noteq> TEvent"
  shows "lk (snd (reportEvent n ev w)) (t, k) = lk w (t, k)"
proof (cases "obj_payload ev")
  case (PEvent rep)
  then have ev: "obj_type ev = TEvent" by (simp add: obj_type_def)
  have listed: "obj_type ob = TEvent" if "find (\<lambda>ob. event_message ob = Some m) items = Some ob" for items ob m
  proof -
    have "event_message ob = Some m" using that by (auto simp: find_Some_iff)
    then show ?thesis by (cases "obj_payload ob") (auto simp: event_message_def obj_type_def)
  qed
  show ?thesis
    using assms(1)[unfolded event_frame_def, rule_format, OF _ assms(2)] ev listed PEvent
    by (auto simp: reportEvent_def Let_def split: sum.splits option.splits)
qed (simp_all add: reportEvent_def)

text \<open>The deferred update stores the status of the manifest in its newest version and touches nothing else.\<close>

lemma status_update_stores:
  assumes "api_status c lk" and "status_available c lk" and "lk w (obj_id (object_of_source s)) = Some old"
    and "om_resource_version (src_meta s) = om_resource_version (obj_meta old)"
  obtains ob w' new t where "kc_StatusUpdate c (object_of_source s) w = (Inr ob, w')" "source_of_object new = Some t"
    "src_status t = src_status s" "lk w' = (lk w)(obj_id (object_of_source s) \<mapsto> new)" "same_but_status old new"
proof -
  have "\<not> isl (fst (kc_StatusUpdate c (object_of_source s) w))" using assms unfolding status_available_def by blast
  then obtain ob w' where up: "kc_StatusUpdate c (object_of_source s) w = (Inr ob, w')"
    by (cases "kc_StatusUpdate c (object_of_source s) w"; cases "fst (kc_StatusUpdate c (object_of_source s) w)") auto
  from api_status_Inr[OF assms(1) up] obtain new t where "source_of_object new = Some t" "src_status t = src_status s"
    "lk w' = (lk w)(obj_id (object_of_source s) \<mapsto> new)" "same_but_status old new" using assms(3) by (metis option.inject)
  with that[OF up] show thesis by blast
qed

lemma source_of_object_facts:
  assumes "source_of_object ob = Some s"
  shows "obj_id (object_of_source (s\<lparr>src_status := st\<rparr>)) = obj_id ob" "src_meta s = obj_meta ob" "obj_type ob = source_type (src_kind s)"
  using assms by (auto simp: source_of_object_def obj_id_def obj_key_def meta_key_def obj_type_def source_type_def
      object_of_source_def split: payload.splits)

lemma same_but_status_resaved:
  assumes "same_but_status ob new" and "source_of_object ob = Some s" and "source_of_object new = Some t"
  shows "t = resaved (src_status t) (om_resource_version (src_meta t)) s"
proof -
  from assms have same: "src_kind t = src_kind s" "src_spec t = src_spec s" "obj_type_meta new = obj_type_meta ob"
    "(obj_meta new)\<lparr>om_resource_version := om_resource_version (obj_meta ob)\<rparr> = obj_meta ob" by (simp_all add: same_but_status_def)
  have "src_meta s = obj_meta ob" "src_meta t = obj_meta new" "src_type_meta s = obj_type_meta ob" "src_type_meta t = obj_type_meta new"
    using assms(2,3) by (auto simp: source_of_object_def split: payload.splits)
  with same have "src_meta t = (src_meta s)\<lparr>om_resource_version := om_resource_version (src_meta t)\<rparr>"
    "src_type_meta t = src_type_meta s" by (metis object_meta.surjective object_meta.update_convs(5), simp)
  with same(1,2) show ?thesis by (simp add: resaved_def)
qed

text \<open>The update of the team label keeps the object a manifest with the same identity, in a new version.\<close>

lemma label_update_stores:
  assumes env: "cluster_env n lk" and old: "lk w i = Some ob" "source_of_object ob = Some s" "obj_id ob = i"
    and labelled: "l = s\<lparr>src_meta := (src_meta s)\<lparr>om_labels := ls\<rparr>\<rparr>"
  obtains ob' s' w' where "kc_Update (sy_client n) (object_of_source l) w = (Inr ob', w')" "source_of_object ob' = Some s'"
    "obj_id ob' = i" "lk w' = (lk w)(i \<mapsto> ob')"
proof -
  note api = api_serverD[OF env[unfolded cluster_env_def sync_env_def, THEN conjunct1, THEN conjunct1]]
  have av: "api_available (sy_client n) lk" using env by (simp add: cluster_env_def)
  have ident: "obj_id (object_of_source l) = i" and rv: "om_resource_version (obj_meta (object_of_source l)) = om_resource_version (obj_meta ob)"
    using source_of_object_facts[OF old(2)] old(3) by (auto simp: labelled obj_id_def obj_key_def meta_key_def)
  from available_update[OF av _ rv] old(1) ident obtain ob' w' where
    up: "kc_Update (sy_client n) (object_of_source l) w = (Inr ob', w')" by metis
  from api_update_Inr[OF api(4) up] ident have "obj_payload ob' = obj_payload (object_of_source l)" "obj_id ob' = i"
    "lk w' = (lk w)(i \<mapsto> ob')" by (auto simp: obj_id_def obj_type_def)
  moreover from this(1) have "\<exists>s'. source_of_object ob' = Some s'"
    by (cases "src_kind l") (simp_all add: source_of_object_def object_of_source_def)
  ultimately show thesis using that[OF up] by blast
qed

definition has_team_label :: "source \<Rightarrow> bool" where
  "has_team_label s \<longleftrightarrow> om_labels (src_meta s) \<noteq> None \<and> gm_index (om_labels (src_meta s)) ''team'' = src_namespace s"

lemma store_status_stores:
  assumes env: "cluster_env n lk" and old: "lk w i = Some ob" "source_of_object ob = Some s" "obj_id ob = i"
  obtains w' new t where "store_status n app s w = (None, w')" "source_of_object new = Some t" "src_status t = src_status app"
    "lk w' = (lk w)(i \<mapsto> new)" "has_team_label s \<Longrightarrow> t = resaved (src_status t) (om_resource_version (src_meta t)) s"
proof -
  have status: "api_status (sy_client n) lk" "status_available (sy_client n) lk" using env by (simp_all add: cluster_env_def)
  let ?l = "s\<lparr>src_meta := (src_meta s)\<lparr>om_labels := gm_set ''team'' (src_namespace s) (om_labels (src_meta s))\<rparr>\<rparr>"
  let ?stale = "om_labels (src_meta s) = None \<or> gm_index (om_labels (src_meta s)) ''team'' \<noteq> src_namespace s"
  obtain ob1 s1 w1 where step: "?stale \<longrightarrow> kc_Update (sy_client n) (object_of_source ?l) w = (Inr ob1, w1)" "\<not> ?stale \<longrightarrow> s1 = s \<and> w1 = w"
    and one: "source_of_object ob1 = Some s1" "obj_id ob1 = i" "lk w1 = (lk w)(i \<mapsto> ob1)"
  proof (cases ?stale)
    case True
    with label_update_stores[OF env old refl] that show thesis by metis
  next
    case False
    with that[of ob w s] old show thesis by (auto simp: fun_upd_idem)
  qed
  have "lk w1 (obj_id (object_of_source (s1\<lparr>src_status := src_status app\<rparr>))) = Some ob1"
    "om_resource_version (src_meta (s1\<lparr>src_status := src_status app\<rparr>)) = om_resource_version (obj_meta ob1)"
    using source_of_object_facts[OF one(1)] one(2,3) by simp_all
  from status_update_stores[OF status this] obtain o2 w2 new t where
    two: "kc_StatusUpdate (sy_client n) (object_of_source (s1\<lparr>src_status := src_status app\<rparr>)) w1 = (Inr o2, w2)"
    "source_of_object new = Some t" "src_status t = src_status (s1\<lparr>src_status := src_status app\<rparr>)"
    "lk w2 = (lk w1)(obj_id (object_of_source (s1\<lparr>src_status := src_status app\<rparr>)) \<mapsto> new)" "same_but_status ob1 new" .
  have "store_status n app s w = (None, w2)"
    using step one(1) two(1) by (cases ?stale) (auto simp: store_status_def Let_def)
  moreover have "lk w2 = (lk w)(i \<mapsto> new)" using two(4) one source_of_object_facts(1)[OF one(1)] by simp
  moreover have "src_status t = src_status app" using two(3) by simp
  moreover have "t = resaved (src_status t) (om_resource_version (src_meta t)) s" if "has_team_label s"
    using that step(2) same_but_status_resaved[OF two(5) one(1) two(2)] by (simp add: has_team_label_def)
  ultimately show thesis using that two(2) by blast
qed

lemma deferred_update_effect:
  assumes env: "cluster_env n lk" and old: "lk w (source_type (src_kind app), meta_key (src_meta app)) = Some ob"
    "source_of_object ob = Some s"
  obtains new t where "source_of_object new = Some t" "src_status t = src_status app"
    "lk (deferred_update n app w) = (lk w)((source_type (src_kind app), meta_key (src_meta app)) \<mapsto> new)"
    "has_team_label s \<Longrightarrow> t = resaved (src_status t) (om_resource_version (src_meta t)) s"
proof -
  note api = api_serverD[OF env[unfolded cluster_env_def sync_env_def, THEN conjunct1, THEN conjunct1]]
  from api_get_Some[OF api(1) old(1)] have get: "get_source (sy_client n) (src_kind app) (meta_key (src_meta app)) w = Inr s"
    and "obj_id ob = (source_type (src_kind app), meta_key (src_meta app))"
    using old(2) by (simp_all add: get_source_def obj_id_def)
  from store_status_stores[OF env old this(2)] obtain w' new t where "store_status n app s w = (None, w')"
    "source_of_object new = Some t" "src_status t = src_status app"
    "lk w' = (lk w)((source_type (src_kind app), meta_key (src_meta app)) \<mapsto> new)"
    "has_team_label s \<Longrightarrow> t = resaved (src_status t) (om_resource_version (src_meta t)) s" by metis
  with get that show thesis by (simp add: deferred_update_def UpdateResource_def)
qed

section \<open>The parts of Reconcile\<close>

lemma ensureCorrelationID_source:
  "ensureCorrelationID n s w = (Inr s', w') \<Longrightarrow> src_kind s' = src_kind s \<and> meta_key (src_meta s') = meta_key (src_meta s)"
  by (auto simp: ensureCorrelationID_def Let_def meta_key_def split: if_splits sum.splits prod.splits)

lemma Prepare_rollout:
  assumes "defaults_law (sy_lib n)" and "Prepare n app w = ((Inr (Some r), app1), w1)"
  shows "ro_source r = app1 \<and> src_kind app1 = src_kind app \<and> meta_key (src_meta app1) = meta_key (src_meta app)"
  using assms
  by (auto simp: Prepare_def Let_def defaults_law_def updateEffectiveImage_def dest!: ensureCorrelationID_source
      split: sum.splits if_splits prod.splits)

lemma reconcile_success:
  assumes env: "cluster_env n lk" and laws: "status_laws (sy_lib n)"
    and gen: "gen_Generate (sy_generator n) (ro_source r) (ro_options r) = Inr ops"
    and sync: "Sync n (r\<lparr>ro_operations := ops\<rparr>) st = Some ((retry, None), st1)"
    and i: "i = (source_type (src_kind app), meta_key (src_meta app))"
    and stored: "lk (ss_world st1) i = Some ob" "source_of_object ob = Some s"
  obtains app' st2 new t where "reconcile_rollout n app r st = Some (((app', True), (no_requeue, None)), st2)"
    "lk (deferred_update n app' (ss_world st2)) i = Some new" "source_of_object new = Some t"
    "st_sync_hash (src_status t) = ro_hash r" "st_sync_state (src_status t) = evn_Synchronized (lib_events (sy_lib n))"
    "\<And>j. fst j \<noteq> TEvent \<Longrightarrow> j \<noteq> i \<Longrightarrow> lk (deferred_update n app' (ss_world st2)) j = lk (ss_world st1) j"
    "st_effective_image (src_status t) = st_effective_image (src_status app)"
    "has_team_label s \<Longrightarrow> t = resaved (src_status t) (om_resource_version (src_meta t)) s"
proof -
  let ?app1 = "map_status (\<lambda>x. x\<lparr>st_correlation_id := ro_correlation_id r\<rparr>) app"
  have image: "st_effective_image (lib_SetState (sy_lib n) state msg x) = st_effective_image x" for state msg x
    using laws by (simp add: status_laws_def)
  obtain app' st2 where fin: "reconcile_synchronized n ?app1 (ro_hash r) st1 = (((app', True), (no_requeue, None)), st2)"
    and app': "src_kind app' = src_kind app" "src_meta app' = src_meta app" "st_sync_hash (src_status app') = ro_hash r"
      "st_sync_state (src_status app') = evn_Synchronized (lib_events (sy_lib n))"
      "st_effective_image (src_status app') = st_effective_image (src_status app)"
    and st2: "\<exists>ev. st2 = start_monitor n app' (st1\<lparr>ss_world := snd (reportEvent n ev (ss_world st1))\<rparr>)"
    using status_lawsD[OF laws] image by (auto simp: reconcile_synchronized_def Let_def)
  have names: "quiet_names n lk" and events: "event_frame (sy_client n) lk" using env by (simp_all add: cluster_env_def)
  have frame: "lk (ss_world st2) j = lk (ss_world st1) j" if "fst j \<noteq> TEvent" for j
    using st2 start_monitor_keeps[OF names] reportEvent_frame[OF events that] by (cases j) auto
  have "fst i \<noteq> TEvent" by (cases "src_kind app") (simp_all add: i source_type_def)
  with frame stored(1) have "lk (ss_world st2) (source_type (src_kind app'), meta_key (src_meta app')) = Some ob"
    by (simp add: app' i)
  from deferred_update_effect[OF env this stored(2)] obtain new t where new: "source_of_object new = Some t"
    "src_status t = src_status app'" "lk (deferred_update n app' (ss_world st2)) = (lk (ss_world st2))(i \<mapsto> new)"
    "has_team_label s \<Longrightarrow> t = resaved (src_status t) (om_resource_version (src_meta t)) s"
    by (auto simp: app' i)
  have run: "reconcile_rollout n app r st = Some (((app', True), (no_requeue, None)), st2)"
    using gen sync fin by (simp add: reconcile_rollout_def)
  have "lk (deferred_update n app' (ss_world st2)) i = Some new" "st_sync_hash (src_status t) = ro_hash r"
    "st_sync_state (src_status t) = evn_Synchronized (lib_events (sy_lib n))"
    "\<And>j. fst j \<noteq> TEvent \<Longrightarrow> j \<noteq> i \<Longrightarrow> lk (deferred_update n app' (ss_world st2)) j = lk (ss_world st1) j"
    "st_effective_image (src_status t) = st_effective_image (src_status app)" using new app' frame by auto
  then show thesis using new(4) by (intro that[OF run _ new(1)])
qed

text \<open>The types that are cleaned up hold neither events nor manifests nor images.\<close>

lemma startup_listers_types: "TEvent \<notin> set (startup_listers cfg)" "source_type kind \<notin> set (startup_listers cfg)"
  "TImage \<notin> set (startup_listers cfg)"
  by (cases kind; simp add: source_type_def startup_listers_def GenericListers_def GCPListers_def AivenListers_def)+

lemma rollout_ready_cong:
  assumes "lk w = lk w'"
  shows "rollout_ready n lk w ops = rollout_ready n lk w' ops"
proof -
  have "updatable lk w = updatable lk w'" by (intro ext) (simp only: updatable_def assms)
  then have "acceptable lk w = acceptable lk w'" by (intro ext) (simp only: acceptable_def)
  then show ?thesis by (simp only: rollout_ready_def)
qed

text \<open>What is read of a stored manifest.\<close>

lemma manifest_read:
  assumes "api_get c lk" and "lk w (source_type kind, key) = Some ob" and "source_of_object ob = Some s"
  shows "get_source c kind key w = Inr s \<and> src_kind s = kind \<and> meta_key (src_meta s) = key"
proof -
  from api_get_Some[OF assms(1,2)] have ob: "kc_Get c (source_type kind) key w = Inr ob" "obj_type ob = source_type kind" "obj_key ob = key"
    by simp_all
  with assms(3) source_of_object_facts(2,3)[OF assms(3)] show ?thesis
    by (cases kind; cases "src_kind s") (simp_all add: get_source_def source_type_def obj_key_def)
qed

lemma api_get_id: "api_get c lk \<Longrightarrow> lk w i = Some ob \<Longrightarrow> obj_id ob = i"
  using api_get_Some[of c lk w "fst i" "snd i" ob] by (auto simp: obj_id_def)

text \<open>A rollout keeps the objects of the types that it neither writes nor cleans up.\<close>

lemma Sync_keeps_other:
  assumes "sync_env n lk" and "rollout_ready n lk w (ro_operations r)" and "Sync n r st = Some ((retry, None), st1)"
    and "t \<notin> set (sy_listers n)" and "\<forall>rop \<in> set (ro_operations r). obj_type (op_resource rop) \<noteq> t"
  shows "lk (ss_world st1) (t, key) = lk (ss_world st) (t, key)"
proof -
  have "(t, key) \<notin> op_id ` set (ro_operations r)" using assms(5) by (auto simp: op_id_def obj_id_def)
  moreover have "\<not> obsolete n r ob" if "lk (ss_world st) (t, key) = Some ob" for ob
    using assms(4) that api_get_id[of "sy_client n" lk "ss_world st" "(t, key)" ob] assms(1) api_serverD(1) by (auto simp: obsolete_def obj_id_def sync_env_def)
  ultimately show ?thesis
    using Sync_effects[OF assms(1) _ assms(3)] assms(2) by (auto simp: rollout_ready_def)
qed

section \<open>A rollout that is due\<close>

definition cleared :: "liberator \<Rightarrow> source \<Rightarrow> source" where
  "cleared lib s = map_status (\<lambda>x. lib_ClearProblems lib (x\<lparr>st_conditions := []\<rparr>)) s"

lemma sound_operations_no_manifest:
  "list_all sound_operation ops \<Longrightarrow> \<forall>rop \<in> set ops. obj_type (op_resource rop) \<noteq> source_type kind"
  by (cases kind) (auto simp: sound_operation_def list_all_iff source_type_def)

text \<open>The synchronizer for a kind of workload.\<close>

definition synchronizer_for :: "workload_kind \<Rightarrow> 'w controllers \<Rightarrow> ('w, options \<times> map_order) synchronizer" where
  "synchronizer_for kind controllers = (case kind of Application \<Rightarrow> fst controllers | Naisjob \<Rightarrow> snd controllers)"

lemma synchronizer_for_simps [simp]:
  "synchronizer_for Application (a, j) = a" "synchronizer_for Naisjob (a, j) = j"
  by (simp_all add: synchronizer_for_def)

lemma run_main_synchronizer:
  assumes "run_main pf = Inr controllers" and "n = synchronizer_for kind controllers"
  obtains cfg where "sy_listers n = startup_listers cfg"
    "\<And>s opts ops. gen_Generate (sy_generator n) s opts = Inr ops \<Longrightarrow> list_all sound_operation ops"
proof -
  obtain a j where "controllers = (a, j)" by (cases controllers)
  with assms show thesis
    by (cases kind; rule_tac run_main_Inr[of pf a j]; auto simp: application_generator_def naisjob_generator_def
        dest: Application_Generate_operations Naisjob_Generate_operations intro!: that)
qed

text \<open>The cluster holds a manifest that is not being deleted and has its finalizer; \<open>Prepare\<close> returns a rollout for it, the
  generator its operations, and the guards of the updater accept them.\<close>

definition due_rollout ::
  "workload_kind \<Rightarrow> ('w, options \<times> map_order) synchronizer \<Rightarrow> 'w lookup \<Rightarrow> object_key \<Rightarrow> 'w \<Rightarrow> source
     \<Rightarrow> (options \<times> map_order) rollout \<Rightarrow> bool" where
  "due_rollout kind n lk key w app r \<longleftrightarrow>
     (\<exists>ob. lk w (source_type kind, key) = Some ob \<and> source_of_object ob = Some app) \<and> \<not> appIsDeleted app
   \<and> lib_ContainsFinalizer (sy_lib n) (src_meta app) NaiseratorFinalizer
   \<and> (\<exists>app1 w1. Prepare n (cleared (sy_lib n) app) w = ((Inr (Some (r\<lparr>ro_operations := []\<rparr>)), app1), w1))
   \<and> gen_Generate (sy_generator n) (ro_source r) (ro_options r) = Inr (ro_operations r)
   \<and> rollout_ready n lk w (ro_operations r)"

lemma Prepare_facts:
  assumes "Prepare n app w = ((Inr (Some r), app1), w1)"
  obtains d img where "lib_ApplyDefaults (sy_lib n) app = Inr d" "lib_Hash (sy_lib n) (sy_aiven_generation n) d = Inr (ro_hash r)"
    "getWantedImage d (sy_client n) w = Inr img" "st_effective_image (src_status app1) = img" "ro_operations r = []"
proof -
  have read: "getWantedImage d (readonly_NewClient (sy_client n)) w = getWantedImage d (sy_client n) w" for d
    by (simp add: getWantedImage_def getExternalImage_readonly Let_def)
  have image: "ensureCorrelationID n s w = (Inr s', w') \<Longrightarrow> st_effective_image (src_status s') = st_effective_image (src_status s)"
    for s s' w'
    by (auto simp: ensureCorrelationID_def Let_def split: if_splits sum.splits prod.splits)
  show thesis
    using assms that
    by (auto simp: Prepare_def Let_def read updateEffectiveImage_def dest!: image split: sum.splits if_splits prod.splits)
qed

text \<open>Its operations are synchronized without error, and the manifest stays.\<close>

lemma due_rollout_syncs:
  assumes run: "run_main pf = Inr controllers" "n = synchronizer_for kind controllers" and env: "cluster_env n lk"
    and laws: "defaults_law (sy_lib n)" "lib_NewRequirement (sy_lib n) ''app'' (key_name key) = None"
    and due: "due_rollout kind n lk key (ss_world st) app r"
  obtains ob app1 w1 st1 where "source_of_object ob = Some app"
    "get_source (sy_client n) kind key (ss_world st) = Inr app"
    "Prepare n (cleared (sy_lib n) app) (ss_world st) = ((Inr (Some (r\<lparr>ro_operations := []\<rparr>)), app1), w1)"
    "ro_source r = app1" "src_kind app1 = kind" "meta_key (src_meta app1) = key" "lk w1 = lk (ss_world st)"
    "Sync n r (st\<lparr>ss_world := w1\<rparr>) = Some ((False, None), st1)" "lk (ss_world st1) (source_type kind, key) = Some ob"
proof -
  from due obtain ob app1 w1 where manifest: "lk (ss_world st) (source_type kind, key) = Some ob" "source_of_object ob = Some app"
    and prepared: "Prepare n (cleared (sy_lib n) app) (ss_world st) = ((Inr (Some (r\<lparr>ro_operations := []\<rparr>)), app1), w1)"
    and generated: "gen_Generate (sy_generator n) (ro_source r) (ro_options r) = Inr (ro_operations r)"
    and ready: "rollout_ready n lk (ss_world st) (ro_operations r)" by (auto simp: due_rollout_def)
  obtain cfg where listers: "sy_listers n = startup_listers cfg" and sound: "list_all sound_operation (ro_operations r)"
    using run_main_synchronizer[OF run] generated by metis
  have e: "sync_env n lk" "api_available (sy_client n) lk" "quiet_names n lk" using env by (simp_all add: cluster_env_def)
  note api = api_serverD[OF e(1)[unfolded sync_env_def, THEN conjunct1]]
  have key: "get_source (sy_client n) kind key (ss_world st) = Inr app" "src_kind app = kind"
    "meta_key (src_meta app) = key" using manifest_read[OF api(1) manifest(1,2)] by simp_all
  have r: "ro_source r = app1" "src_kind app1 = kind" "meta_key (src_meta app1) = key"
    using Prepare_rollout[OF laws(1) prepared] key by (simp_all add: cleared_def)
  have w1: "lk w1 = lk (ss_world st)" by (rule Prepare_keeps[OF e(3) prepared])
  obtain st1 where sync: "Sync n r (st\<lparr>ss_world := w1\<rparr>) = Some ((False, None), st1)"
    using Sync_returns_ok[OF e(1,2), of r "st\<lparr>ss_world := w1\<rparr>"] laws(2) ready rollout_ready_cong[OF w1, of n] r(1,3)
      startup_no_namespace listers by (auto simp: meta_key_def)
  have "lk (ss_world st1) (source_type kind, key) = Some ob"
    using Sync_keeps_other[OF e(1) ready sync, of "source_type kind" key] sound_operations_no_manifest[OF sound] manifest(1) w1
      listers startup_listers_types by simp
  then show thesis by (rule that[OF manifest(2) key(1) prepared r w1 sync])
qed

text \<open>What one reconciliation of such a manifest does.\<close>

lemma due_rollout_reconciles:
  assumes run: "run_main pf = Inr controllers" "n = synchronizer_for kind controllers" and env: "cluster_env n lk"
    and laws: "status_laws (sy_lib n)" "defaults_law (sy_lib n)" "lib_NewRequirement (sy_lib n) ''app'' (key_name key) = None"
    and due: "due_rollout kind n lk key (ss_world st) app r"
  obtains st' w1 st1 new t d img where "Reconcile n kind key st = Some ((no_requeue, None), st')"
    "lk w1 = lk (ss_world st)" "Sync n r (st\<lparr>ss_world := w1\<rparr>) = Some ((False, None), st1)"
    "meta_key (src_meta (ro_source r)) = key" "lk (ss_world st') (source_type kind, key) = Some new" "source_of_object new = Some t"
    "st_sync_hash (src_status t) = ro_hash r" "st_sync_state (src_status t) = evn_Synchronized (lib_events (sy_lib n))"
    "\<And>j. fst j \<noteq> TEvent \<Longrightarrow> j \<noteq> (source_type kind, key) \<Longrightarrow> lk (ss_world st') j = lk (ss_world st1) j"
    "lib_ApplyDefaults (sy_lib n) (cleared (sy_lib n) app) = Inr d" "lib_Hash (sy_lib n) (sy_aiven_generation n) d = Inr (ro_hash r)"
    "getWantedImage d (sy_client n) (ss_world st) = Inr img" "st_effective_image (src_status t) = img"
    "has_team_label app \<Longrightarrow> t = resaved (src_status t) (om_resource_version (src_meta t)) app"
proof -
  obtain ob app1 w1 st1 where ob: "source_of_object ob = Some app"
    and get: "get_source (sy_client n) kind key (ss_world st) = Inr app"
    and prepared: "Prepare n (cleared (sy_lib n) app) (ss_world st) = ((Inr (Some (r\<lparr>ro_operations := []\<rparr>)), app1), w1)"
    and r: "ro_source r = app1" "src_kind app1 = kind" "meta_key (src_meta app1) = key" "lk w1 = lk (ss_world st)"
    and sync: "Sync n r (st\<lparr>ss_world := w1\<rparr>) = Some ((False, None), st1)" and kept: "lk (ss_world st1) (source_type kind, key) = Some ob"
    by (rule due_rollout_syncs[OF run env laws(2,3) due])
  have i: "(source_type kind, key) = (source_type (src_kind app1), meta_key (src_meta app1))" by (simp add: r source_type_def)
  have gen: "gen_Generate (sy_generator n) (ro_source (r\<lparr>ro_operations := []\<rparr>)) (ro_options (r\<lparr>ro_operations := []\<rparr>)) = Inr (ro_operations r)"
    using due by (simp add: due_rollout_def)
  have sync': "Sync n (r\<lparr>ro_operations := []\<rparr>\<lparr>ro_operations := ro_operations r\<rparr>) (st\<lparr>ss_world := w1\<rparr>) = Some ((False, None), st1)"
    using sync by simp
  obtain d img where facts: "lib_ApplyDefaults (sy_lib n) (cleared (sy_lib n) app) = Inr d"
    "lib_Hash (sy_lib n) (sy_aiven_generation n) d = Inr (ro_hash r)" "getWantedImage d (sy_client n) (ss_world st) = Inr img"
    "st_effective_image (src_status app1) = img" using Prepare_facts[OF prepared] by auto
  obtain app' st2 new t where run': "reconcile_rollout n app1 (r\<lparr>ro_operations := []\<rparr>) (st\<lparr>ss_world := w1\<rparr>) = Some (((app', True), (no_requeue, None)), st2)"
    and new: "lk (deferred_update n app' (ss_world st2)) (source_type kind, key) = Some new" "source_of_object new = Some t"
      "st_sync_hash (src_status t) = ro_hash r" "st_sync_state (src_status t) = evn_Synchronized (lib_events (sy_lib n))"
      "st_effective_image (src_status t) = st_effective_image (src_status app1)"
      "has_team_label app \<Longrightarrow> t = resaved (src_status t) (om_resource_version (src_meta t)) app"
    and frame: "\<And>j. fst j \<noteq> TEvent \<Longrightarrow> j \<noteq> (source_type kind, key) \<Longrightarrow>
      lk (deferred_update n app' (ss_world st2)) j = lk (ss_world st1) j"
    by (rule reconcile_success[OF env laws(1) gen sync' i kept ob], rule that) simp_all
  have "Reconcile n kind key st = Some ((no_requeue, None), st2\<lparr>ss_world := deferred_update n app' (ss_world st2)\<rparr>)"
    using get due prepared run' by (simp add: due_rollout_def Reconcile_def reconcile_body_def appIsDeleted_def cleared_def)
  then show thesis by (rule that) (use r sync new frame facts in auto)
qed

section \<open>An Application is reconciled\<close>


section \<open>Reconciling again\<close>

lemma resaved_simps [simp]:
  "src_kind (resaved st x s) = src_kind s" "src_spec (resaved st x s) = src_spec s" "src_status (resaved st x s) = st"
  "src_namespace (resaved st x s) = src_namespace s" "src_name (resaved st x s) = src_name s"
  "appIsDeleted (resaved st x s) = appIsDeleted s" "om_finalizers (src_meta (resaved st x s)) = om_finalizers (src_meta s)"
  by (simp_all add: resaved_def appIsDeleted_def)

lemma cleared_resaved:
  "cleared lib (resaved st x s) = resaved (lib_ClearProblems lib (st\<lparr>st_conditions := []\<rparr>)) x (cleared lib s)"
  by (simp add: cleared_def map_status_def resaved_def)

lemma wanted_image_kept:
  assumes "api_get c lk" and "getWantedImage d c w = Inr img" and "\<And>k. lk w' (TImage, k) = lk w (TImage, k)"
  shows "getWantedImage (resaved st x d) c w' = Inr img"
proof (cases "ws_image (src_spec d) = []")
  case True
  let ?key = "\<lparr>key_namespace = src_namespace d, key_name = src_name d\<rparr>"
  have img: "getExternalImage d c w = Inr img" using assms(2) True by (simp add: getWantedImage_def)
  then obtain ob where "lk w (TImage, ?key) = Some ob"
    using api_get_None[OF assms(1), of w TImage ?key] by (cases "lk w (TImage, ?key)") (auto simp: getExternalImage_def Let_def)
  then have "kc_Get c TImage ?key w' = kc_Get c TImage ?key w"
    using api_get_Some[OF assms(1), of w TImage ?key ob] api_get_Some[OF assms(1), of w' TImage ?key ob] assms(3) by simp
  with img True show ?thesis by (simp add: getWantedImage_def getExternalImage_def Let_def)
qed (use assms(2) in \<open>simp add: getWantedImage_def Let_def\<close>)


end
