(* ===== verification/Startup_Witnesses.thy ===== *)
theory Startup_Witnesses
  imports Dry_Run Creator_Witnesses
begin

text \<open>
  A controller in dry-run mode over an API server in memory whose status subresource keeps everything but the status:
  the case in which the hypotheses of \<open>dry_run_Reconcile\<close> hold.
\<close>

definition mem_StatusUpdate :: "k8s_object \<Rightarrow> mem_server \<Rightarrow> k8s_object result \<times> mem_server" where
  "mem_StatusUpdate ob m = (case mem_lookup m (obj_id ob) of
       None \<Rightarrow> (Inl (GoError ''not found'' ReasonNotFound), m)
     | Some old \<Rightarrow> (case source_of_object old of
         None \<Rightarrow> (Inl (GoError ''no status'' ReasonUnknown), m)
       | Some s \<Rightarrow> (case source_of_object ob of
           None \<Rightarrow> (Inl (GoError ''no status'' ReasonUnknown), m)
         | Some t \<Rightarrow> (let ob' = object_of_source (s\<lparr>src_status := src_status t,
               src_meta := (src_meta s)\<lparr>om_resource_version := dec_nat (mem_counter m)\<rparr>\<rparr>)
             in (Inr ob', mem_replace ob' m)))))"

definition status_client :: "mem_server kube_client" where
  "status_client = mem_client\<lparr>kc_StatusUpdate := mem_StatusUpdate\<rparr>"

lemma source_of_object_ident: "source_of_object ob = Some s \<Longrightarrow> object_of_source s = ob"
  by (cases ob) (auto simp: source_of_object_def object_of_source_def split: payload.splits)

lemma status_client_api_status: "api_status status_client mem_lookup"
  unfolding api_status_def
proof (intro allI)
  fix t m
  let ?i = "obj_id (object_of_source t)"
  show "case kc_StatusUpdate status_client (object_of_source t) m of
       (Inl e, m') \<Rightarrow> mem_lookup m' = mem_lookup m
     | (Inr _, m') \<Rightarrow> \<exists>old new t'. mem_lookup m ?i = Some old \<and> same_but_status old new
         \<and> source_of_object new = Some t' \<and> src_status t' = src_status t \<and> mem_lookup m' = (mem_lookup m)(?i \<mapsto> new)"
  proof (cases "\<exists>old s. mem_lookup m ?i = Some old \<and> source_of_object old = Some s")
    case True
    then obtain old s where old: "mem_lookup m ?i = Some old" and s: "source_of_object old = Some s" by blast
    let ?new = "object_of_source (s\<lparr>src_status := src_status t,
      src_meta := (src_meta s)\<lparr>om_resource_version := dec_nat (mem_counter m)\<rparr>\<rparr>)"
    have "obj_id ?new = obj_id old"
      unfolding source_of_object_ident[OF s, symmetric] by (simp add: obj_id_def obj_key_def meta_key_def)
    with mem_lookup_id[OF old] have ident: "obj_id ?new = ?i" by simp
    have "same_but_status old ?new"
      unfolding source_of_object_ident[OF s, symmetric]
      by (simp add: same_but_status_def) (simp add: object_of_source_def)
    then show ?thesis using old s ident
      by (simp add: status_client_def mem_StatusUpdate_def Let_def mem_lookup_replace) (rule exI[of _ ?new], simp)
  qed (auto simp: status_client_def mem_StatusUpdate_def split: option.splits)
qed

definition dry_platform :: "mem_server platform" where
  "dry_platform = \<lparr>pf_config_New = Inr (sample_config\<lparr>cfg_DryRun := True\<rparr>),
     pf_multierror = (\<lambda>msgs. errorf (concat msgs)), pf_scheme_All = Inr sample_scheme,
     pf_AddFQDN = Inr, pf_AddPrometheus = Inr, pf_GetConfig = None, pf_NewManager = (\<lambda>s. Inr status_client),
     pf_AddReadyzCheck = None, pf_Webhooks = None, pf_client_New = (\<lambda>s. Inr status_client),
     pf_Complete = (\<lambda>ws opts. None), pf_gvk_for_lister = (\<lambda>t. Inr type_meta_zero), pf_lib = sample_lib,
     pf_order = (\<lambda>n xs. xs), pf_clock = mem_clock,
     pf_uuid_NewRandom = (\<lambda>m. (Inr ''uuid'', m)), pf_uuid_New = (\<lambda>m. (''uuid'', m)), pf_uuid_ID = length\<rparr>"

text \<open>An Application and a Naisjob of the same name, so that \<open>Prepare\<close> fails and a status is written.\<close>

definition dry_server :: mem_server where
  "dry_server = \<lparr>mem_objects = [object_of_source sample_app,
     object_of_source (sample_app\<lparr>src_kind := Naisjob\<rparr>)], mem_counter = 0\<rparr>"

definition dry_key :: object_key where
  "dry_key = \<lparr>key_namespace = ''team'', key_name = ''app''\<rparr>"

lemma sample_app_fields [simp]:
  "src_kind sample_app = Application" "src_name sample_app = ''app''" "src_namespace sample_app = ''team''"
  "meta_key (src_meta sample_app) = dry_key" "om_deletion_timestamp (src_meta sample_app) = None"
  "om_finalizers (src_meta sample_app) = [NaiseratorFinalizer]" "om_annotations (src_meta sample_app) = None"
  "ws_image (src_spec sample_app) = ''image:1''" "src_status sample_app = sample_status"
  by (simp_all add: sample_app_def object_meta_zero_def meta_key_def dry_key_def sample_spec_def)

lemma dry_server_lookup:
  "mem_lookup dry_server (TApplication, dry_key) = Some (object_of_source sample_app)"
  "mem_lookup dry_server (TNaisjob, dry_key) \<noteq> None"
  by (simp_all add: mem_lookup_def dry_server_def obj_id_def obj_key_def source_type_def)

lemma status_client_get: "api_get status_client mem_lookup"
proof -
  have "kc_Get status_client = kc_Get mem_client" by (simp add: status_client_def)
  with mem_api_get show ?thesis by (simp only: api_get_def simp_thms)
qed

lemma status_client_stores:
  assumes "mem_lookup m (obj_id (object_of_source s)) \<noteq> None"
  shows "\<exists>ob. fst (kc_StatusUpdate status_client (object_of_source s) m) = Inr ob"
proof -
  from assms obtain old where old: "mem_lookup m (obj_id (object_of_source s)) = Some old" by blast
  then have "obj_type old = source_type (src_kind s)" using mem_lookup_id by (fastforce simp: obj_id_def)
  then have "\<exists>t. source_of_object old = Some t"
    by (cases "obj_payload old"; cases "src_kind s") (auto simp: obj_type_def source_type_def source_of_object_def)
  with old show ?thesis by (auto simp: status_client_def mem_StatusUpdate_def Let_def)
qed

lemma dry_prepare_fails:
  "\<exists>e. run_client (readonly_NewClient status_client) (gen_Prepare (application_generator lib cfg order)
     (sample_app\<lparr>src_meta := (src_meta sample_app)\<lparr>om_annotations := anno\<rparr>, src_status := st\<rparr>)) dry_server = (Inl e, dry_server)"
proof -
  let ?s = "sample_app\<lparr>src_meta := (src_meta sample_app)\<lparr>om_annotations := anno\<rparr>, src_status := st\<rparr>"
  let ?c = "readonly_NewClient status_client"
  have "fst (run_client ?c (Application_Prepare cfg ?s) dry_server) \<noteq> Inr opt" for opt
  proof
    assume "fst (run_client ?c (Application_Prepare cfg ?s) dry_server) = Inr opt"
    then have "\<not> is_ok (kc_Get ?c TNaisjob \<lparr>key_namespace = src_namespace ?s, key_name = src_name ?s\<rparr> dry_server)"
      by (rule Application_Prepare_Inr) blast
    with dry_server_lookup(2) api_get_Some[OF status_client_get, of dry_server TNaisjob dry_key] show False
      by (auto simp: is_ok_iff dry_key_def)
  qed
  then obtain e where "fst (run_client ?c (Application_Prepare cfg ?s) dry_server) = Inl e"
    by (cases "fst (run_client ?c (Application_Prepare cfg ?s) dry_server)") blast+
  then show ?thesis
    by (simp add: application_generator_def run_bind_result Application_Prepare_reads_only)
qed

lemma dry_start:
  obtains a j cfg sch where "run_main dry_platform = Inr (a, j)"
    "a = NewSynchronizer dry_platform (readonly_NewClient status_client) (readonly_NewClient status_client) cfg
       (application_generator sample_lib cfg (pf_order dry_platform)) (startup_listers cfg) sch"
proof -
  have "is_ok (run_main dry_platform)"
    by (simp add: run_main_def dry_platform_def validate_config_def startup_scheme_def go_check_def sample_config_def
        sample_features_def Let_def is_ok_def)
  then obtain a j where run: "run_main dry_platform = Inr (a, j)" by (auto simp: is_ok_iff)
  have platform: "pf_config_New dry_platform = Inr (sample_config\<lparr>cfg_DryRun := True\<rparr>)" "pf_lib dry_platform = sample_lib"
    "pf_NewManager dry_platform = (\<lambda>s. Inr status_client)" "pf_client_New dry_platform = (\<lambda>s. Inr status_client)"
    by (simp_all add: dry_platform_def)
  from run show thesis
    by (rule run_main_Inr) (rule that[OF run], use platform in \<open>auto simp: startup_client_def\<close>)
qed

text \<open>The Application as it is when the preparation of its rollout has failed.\<close>

lemma dry_rollout:
  assumes "a = NewSynchronizer dry_platform (readonly_NewClient status_client) (readonly_NewClient status_client) cfg
       (application_generator sample_lib cfg (pf_order dry_platform)) (startup_listers cfg) sch"
  obtains app res st1 where "Reconcile a Application dry_key (new_sync_state dry_server)
      = Some (res, st1\<lparr>ss_world := deferred_update a app (ss_world st1)\<rparr>)" "ss_world st1 = dry_server"
    "src_kind app = Application" "meta_key (src_meta app) = dry_key" "st_sync_state (src_status app) = ''FailedPrepare''"
proof -
  let ?app0 = "map_status (\<lambda>x. lib_ClearProblems sample_lib (x\<lparr>st_conditions := []\<rparr>)) sample_app"
  note a = assms dry_platform_def
  have sync: "sy_client a = readonly_NewClient status_client" "sy_lib a = sample_lib" "sy_uuid a = (\<lambda>m. (Inr ''uuid'', m))"
    "sy_generator a = application_generator sample_lib cfg (pf_order dry_platform)"
    by (simp_all add: a)
  have get: "get_source (sy_client a) Application dry_key dry_server = Inr sample_app"
    using api_get_Some[OF status_client_get dry_server_lookup(1)] by (simp add: sync get_source_def source_type_def)
  have lib: "lib_ContainsFinalizer sample_lib (src_meta sample_app) NaiseratorFinalizer" "lib_ApplyDefaults sample_lib s = Inr s"
    "lib_Hash sample_lib g s = Inr ''new''" "lib_events sample_lib = \<lparr>evn_Synchronized = ''Synchronized'',
      evn_RolloutComplete = ''RolloutComplete'', evn_FailedPrepare = ''FailedPrepare'', evn_FailedGenerate = ''FailedGenerate'',
      evn_FailedSynchronization = ''FailedSynchronization'', evn_FailedStatusUpdate = ''FailedStatusUpdate'',
      evn_Retrying = ''Retrying''\<rparr>" for s g
    by (simp_all add: sample_lib_def)
  let ?app1 = "updateEffectiveImage ?app0 ''image:1''"
  obtain app2 where ens: "ensureCorrelationID a ?app1 dry_server = (Inr app2, dry_server)"
    and app2: "app2 = sample_app\<lparr>src_meta := (src_meta sample_app)\<lparr>om_annotations := om_annotations (src_meta app2)\<rparr>,
      src_status := src_status app2\<rparr>"
    by (simp add: ensureCorrelationID_def sync Let_def gm_index_def updateEffectiveImage_def map_status_def)
  obtain e where "run_client (readonly_NewClient (sy_client a)) (gen_Prepare (sy_generator a) app2) dry_server = (Inl e, dry_server)"
    using dry_prepare_fails app2 by (metis readonly_idem sync(1,4))
  moreover have "st_sync_hash (src_status ?app0) \<noteq> ''new''" by (simp add: sample_lib_def sample_status_def)
  ultimately obtain e' where prep: "Prepare a ?app0 dry_server = ((Inl e', app2), dry_server)"
    using ens by (auto simp: Prepare_def lib sync getWantedImage_def Let_def)
  let ?app3 = "map_status (\<lambda>x. lib_SetError sample_lib (err_msg e') (lib_SetState sample_lib ''FailedPrepare'' (err_msg e') x)) app2"
  have "reconcile_failed a app2 ''FailedPrepare'' e' (new_sync_state dry_server) = (?app3, new_sync_state dry_server)"
    using sync by (simp add: reconcile_failed_def reportError_dry new_sync_state_def)
  then have "Reconcile a Application dry_key (new_sync_state dry_server) = Some ((\<lparr>cr_requeue_after = prepareRetryInterval\<rparr>, None),
      (new_sync_state dry_server)\<lparr>ss_world := deferred_update a ?app3 dry_server\<rparr>)"
    using get prep lib by (simp add: Reconcile_def reconcile_body_def appIsDeleted_def sync new_sync_state_def)
  moreover have "src_kind ?app3 = Application" "meta_key (src_meta ?app3) = dry_key"
    by (subst app2, simp add: meta_key_def dry_key_def)+
  moreover have "st_sync_state (src_status ?app3) = ''FailedPrepare''" by (simp add: sample_lib_def)
  ultimately show thesis using that[where app = ?app3 and ?st1.0 = "new_sync_state dry_server"] by (simp add: new_sync_state_def)
qed

theorem dry_run_Reconcile_witness:
  "\<exists>a j res st' ob s. run_main dry_platform = Inr (a, j)
     \<and> Reconcile a Application dry_key (new_sync_state dry_server) = Some (res, st')
     \<and> unchanged_but_status mem_lookup dry_server (ss_world st') \<and> mem_lookup (ss_world st') (TApplication, dry_key) = Some ob
     \<and> source_of_object ob = Some s \<and> st_sync_state (src_status s) = ''FailedPrepare''"
proof -
  obtain a j cfg sch where run: "run_main dry_platform = Inr (a, j)" and a: "a = NewSynchronizer dry_platform
      (readonly_NewClient status_client) (readonly_NewClient status_client) cfg
      (application_generator sample_lib cfg (pf_order dry_platform)) (startup_listers cfg) sch"
    by (rule dry_start)
  from a obtain app res st1 where rec: "Reconcile a Application dry_key (new_sync_state dry_server)
      = Some (res, st1\<lparr>ss_world := deferred_update a app (ss_world st1)\<rparr>)" and st1: "ss_world st1 = dry_server"
    and app: "src_kind app = Application" "meta_key (src_meta app) = dry_key" "st_sync_state (src_status app) = ''FailedPrepare''"
    by (rule dry_rollout)
  have "unchanged_but_status mem_lookup (ss_world (new_sync_state dry_server))
      (ss_world (st1\<lparr>ss_world := deferred_update a app (ss_world st1)\<rparr>))"
    by (rule dry_run_Reconcile[where pf = dry_platform, OF _ _ run _ _ _ _ _ rec])
      (auto simp: dry_platform_def status_client_api_status mem_clock_quiet)
  moreover have "\<exists>new t. mem_lookup (deferred_update a app dry_server) (TApplication, dry_key) = Some new
      \<and> source_of_object new = Some t \<and> src_status t = src_status app \<and> src_spec t = src_spec sample_app"
    using deferred_update_stores[where n = a and app = app and w = dry_server, OF _ status_client_get status_client_api_status
        status_client_stores]
      dry_server_lookup(1) app by (simp add: a source_type_def)
  ultimately show ?thesis using run rec st1 app(3) by (fastforce simp: new_sync_state_def)
qed

end
