(* ===== verification/Reconciliation_Witnesses.thy ===== *)
theory Reconciliation_Witnesses
  imports Reconciliation Generate_Witnesses Startup_Witnesses
begin

text \<open>
  A small Application from its manifest to the API server in memory: the case in which the hypotheses of
  \<open>Application_reconciled\<close> and \<open>Reconcile_settles\<close> hold.
\<close>

section \<open>The manifest and what is generated from it\<close>

text \<open>An Application without any extra: a Service, a ServiceAccount, an autoscaler, a disruption budget, a Deployment.\<close>

definition plain_app :: source where
  "plain_app = sample_app\<lparr>src_meta := (src_meta sample_app)
     \<lparr>om_labels := Some [''team'' \<mapsto> ''team''], om_annotations := Some [''nais.io/deploymentCorrelationID'' \<mapsto> ''c1'']\<rparr>\<rparr>"

definition plain_config :: config where
  "plain_config = sample_config\<lparr>cfg_Features := sample_features\<lparr>fe_NetworkPolicy := False\<rparr>\<rparr>"

text \<open>The options with which its rollout is prepared.\<close>

definition plain_options :: options where
  "plain_options = (new_options plain_config)\<lparr>opt_NumReplicas := 2, opt_Team := ''team''\<rparr>"

definition plain_opts :: "options \<times> map_order" where
  "plain_opts = (plain_options, \<lambda>n xs. xs)"

lemmas plain_defs = plain_opts_def plain_options_def plain_config_def plain_app_def sample_app_def sample_spec_def sample_config_def sample_features_def
  new_options_def

definition plain_resources :: ast where
  "plain_resources = pdb_Create sample_lib plain_app (hpa_Create sample_lib plain_app
     (serviceaccount_Create sample_lib plain_app plain_options (service_Create sample_lib plain_app plain_options
       (CreateContainerEnvVars sample_lib plain_app plain_options NewAst))))"

lemma plain_application_resources: "application_resources sample_lib plain_app plain_opts = Inr plain_resources"
proof -
  have off: "ws_frontend (src_spec plain_app) = None" "ws_observability (src_spec plain_app) = None"
    "ws_ingresses (src_spec plain_app) = []" "ws_azure (src_spec plain_app) = None" "ws_idporten (src_spec plain_app) = None"
    "ws_login (src_spec plain_app) = None" "ws_gcp (src_spec plain_app) = None" "\<not> ws_web_proxy (src_spec plain_app)"
    "ws_maskinporten (src_spec plain_app) = None" "ws_kafka (src_spec plain_app) = None"
    "ws_opensearch (src_spec plain_app) = None" "ws_valkey (src_spec plain_app) = []" "fst plain_opts = plain_options"
    "\<not> IsCNRMEnabled plain_options" "\<not> IsJwkerEnabled plain_options" "\<not> IsVaultEnabled plain_options"
    "\<not> IsTexasEnabled plain_options" "\<not> PostgresOperatorEnabled plain_options"
    by (simp_all add: plain_defs)
  have more: "networkpolicy_Create sample_lib plain_app plain_options a = a"
    "fqdnpolicy_Create sample_lib plain_app plain_options a = a"
    "certificateauthority_Create plain_app plain_options a = a"
    "leaderelection_Create sample_lib plain_app plain_options a = Inr a" for a
    by (simp_all add: networkpolicy_Create_def fqdnpolicy_Create_def certificateauthority_Create_def
        leaderelection_Create_def plain_defs)
  show ?thesis
    unfolding application_resources_def Let_def plain_resources_def
    by (simp only: off more creators_off aiven_off[OF off(10-12) sample_secret_names] rbind_simps prod.case if_False simp_thms)
qed

lemma plain_operations:
  "map (\<lambda>rop. (op_operation rop, tm_kind (obj_type_meta (op_resource rop)), obj_type (op_resource rop),
     om_namespace (obj_meta (op_resource rop)), om_name (obj_meta (op_resource rop)))) (ast_operations plain_resources) =
   [(OperationCreateOrUpdate, ''Service'', TService, ''team'', ''app''),
    (OperationCreateIfNotExists, ''ServiceAccount'', TServiceAccount, ''team'', ''app''),
    (OperationCreateOrUpdate, ''HorizontalPodAutoscaler'', THorizontalPodAutoscaler, ''team'', ''app''),
    (OperationCreateOrUpdate, ''PodDisruptionBudget'', TPodDisruptionBudget, ''team'', ''app'')]"
  by (simp add: plain_resources_def service_Create_def serviceaccount_Create_def mountToken_def AppendEnv_def hpa_Create_def
      pdb_Create_def CreateContainerEnvVars_def plain_defs NewAst_def CreateObjectMeta_def object_meta_zero_def obj_type_def Let_def)

definition plain_scheme :: scheme where
  "plain_scheme tm = (if tm_kind tm = ''Service'' then Inr TService
     else if tm_kind tm = ''ServiceAccount'' then Inr TServiceAccount
     else if tm_kind tm = ''HorizontalPodAutoscaler'' then Inr THorizontalPodAutoscaler
     else if tm_kind tm = ''PodDisruptionBudget'' then Inr TPodDisruptionBudget
     else if tm_kind tm = ''Deployment'' then Inr TDeployment else Inl (errorf ''unknown kind''))"

text \<open>The cluster holds the namespace, an obsolete service account and the manifest.\<close>

definition plain_server :: mem_server where
  "plain_server = \<lparr>mem_objects = [sample_namespace, stale_sa, object_of_source plain_app], mem_counter = 0\<rparr>"

lemma plain_acceptable:
  assumes "om_namespace (obj_meta (op_resource rop)) = ''team''" and "om_name (obj_meta (op_resource rop)) = ''app''"
    and "op_operation rop \<in> {OperationCreateOrUpdate, OperationCreateIfNotExists}" and "obj_type (op_resource rop) \<noteq> TApplication"
  shows "acceptable mem_lookup plain_server rop"
  using assms
  by (auto simp: acceptable_def updatable_def plain_server_def stale_sa_def sample_namespace_def sample_object_def mem_lookup_def
      obj_id_def obj_key_def meta_key_def obj_type_def obj_namespace_def object_meta_zero_def object_of_source_def plain_app_def sample_app_def)

lemma distinct_updated_once: "distinct (map op_id ops) \<Longrightarrow> updated_once ops"
  by (induction ops) (auto simp: updated_once_def)

lemma plain_ops:
  assumes "sy_scheme n = plain_scheme"
  obtains ops where "Application_Generate sample_lib plain_app plain_opts = Inr ops"
    "rollout_ready n mem_lookup plain_server ops"
proof -
  have "\<exists>b. CreateAppContainer sample_lib plain_app (fst plain_opts) plain_resources = Inr b"
    by (simp add: CreateAppContainer_def container_ports_def lifecycle_def ResourceLimits_def resource_list_def plain_defs Let_def)
  then obtain b where b: "CreateAppContainer sample_lib plain_app (fst plain_opts) plain_resources = Inr b" by blast
  have app: "src_kind plain_app = Application" "\<not> ws_prometheus_enabled (src_spec plain_app)"
    "src_name plain_app = ''app''" "src_namespace plain_app = ''team''"
    by (simp_all add: plain_defs object_meta_zero_def)
  show thesis
  proof (rule Application_Generate_returns[OF plain_application_resources b app(1,2)])
    fix ops dep
    assume ok: "Application_Generate sample_lib plain_app plain_opts = Inr ops"
      and ops: "ops = ast_operations plain_resources @ [dep]"
      and dep: "op_operation dep = OperationCreateOrUpdate" "obj_type (op_resource dep) = TDeployment"
        "obj_type_meta (op_resource dep) = \<lparr>tm_kind = ''Deployment'', tm_api_version = ''apps/v1''\<rparr>"
        "om_name (obj_meta (op_resource dep)) = src_name plain_app"
        "om_namespace (obj_meta (op_resource dep)) = src_namespace plain_app"
    let ?view = "\<lambda>rop. (op_operation rop, tm_kind (obj_type_meta (op_resource rop)), obj_type (op_resource rop),
       om_namespace (obj_meta (op_resource rop)), om_name (obj_meta (op_resource rop)))"
    let ?views = "[(OperationCreateOrUpdate, ''Service'', TService, ''team'', ''app''),
      (OperationCreateIfNotExists, ''ServiceAccount'', TServiceAccount, ''team'', ''app''),
      (OperationCreateOrUpdate, ''HorizontalPodAutoscaler'', THorizontalPodAutoscaler, ''team'', ''app''),
      (OperationCreateOrUpdate, ''PodDisruptionBudget'', TPodDisruptionBudget, ''team'', ''app''),
      (OperationCreateOrUpdate, ''Deployment'', TDeployment, ''team'', ''app'')]"
    have views: "map ?view ops = ?views"
      using plain_operations by (simp add: ops dep app(3,4))
    have "map (\<lambda>rop. (\<lambda>(op, k, t, ns, n). t) (?view rop)) ops =
        [TService, TServiceAccount, THorizontalPodAutoscaler, TPodDisruptionBudget, TDeployment]"
      using arg_cong[OF views, of "map (\<lambda>(op, k, t, ns, n). t)"] by (simp add: comp_def)
    then have "distinct (map (\<lambda>rop. obj_type (op_resource rop)) ops)" by simp
    then have "distinct (map op_id ops)"
      using distinct_map[of "fst" "map op_id ops"] by (simp add: op_id_def obj_id_def comp_def)
    then have "updated_once ops" by (rule distinct_updated_once)
    moreover have "persistable plain_scheme (op_resource rop)" "acceptable mem_lookup plain_server rop"
      "obj_type (op_resource rop) \<noteq> TNamespace" if "rop \<in> set ops" for rop
    proof -
      have "?view rop \<in> set (map ?view ops)" using that by simp
      then have view: "?view rop \<in> set ?views" unfolding views .
      then show "acceptable mem_lookup plain_server rop" by (intro plain_acceptable) auto
      from view show "persistable plain_scheme (op_resource rop)" "obj_type (op_resource rop) \<noteq> TNamespace"
        by (auto simp: persistable_def plain_scheme_def)
    qed
    ultimately show thesis using ok that by (simp add: rollout_ready_def assms)
  qed
qed


section \<open>The cluster and the controllers\<close>

definition plain_platform :: "mem_server platform" where
  "plain_platform = dry_platform\<lparr>pf_config_New := Inr plain_config, pf_scheme_All := Inr plain_scheme,
     pf_AddPrometheus := Inr, pf_AddFQDN := Inr\<rparr>"

lemma plain_start:
  obtains a j where "run_main plain_platform = Inr (a, j)"
    "a = NewSynchronizer plain_platform status_client status_client plain_config
       (application_generator sample_lib plain_config (\<lambda>n xs. xs)) (startup_listers plain_config) plain_scheme"
proof -
  have "run_main plain_platform = Inr
      (NewSynchronizer plain_platform status_client status_client plain_config
         (application_generator sample_lib plain_config (\<lambda>n xs. xs)) (startup_listers plain_config) plain_scheme,
       NewSynchronizer plain_platform status_client status_client plain_config
         (naisjob_generator sample_lib plain_config (\<lambda>n xs. xs)) (startup_listers plain_config) plain_scheme)"
    by (simp add: run_main_def plain_platform_def dry_platform_def validate_config_def startup_scheme_def startup_client_def
        go_check_def plain_config_def sample_config_def sample_features_def Let_def)
  then show thesis using that by blast
qed

lemma status_client_same:
  "kc_Get status_client = kc_Get mem_client" "kc_List status_client = kc_List mem_client"
  "kc_Create status_client = kc_Create mem_client" "kc_Delete status_client = kc_Delete mem_client"
  "kc_Update status_client = kc_Update mem_client" "kc_Patch status_client = kc_Patch mem_client"
  by (simp_all add: status_client_def)

lemma status_client_server: "api_server status_client mem_lookup"
  using mem_api_server
  unfolding api_server_def api_get_def api_create_def api_delete_def api_update_def api_patch_def api_list_def status_client_same .

lemma status_client_available: "api_available status_client mem_lookup"
  using mem_available unfolding api_available_def status_client_same .

lemma mem_lookup_append_other: "obj_id ob \<noteq> i \<Longrightarrow> mem_lookup \<lparr>mem_objects = obs @ [ob], mem_counter = k\<rparr> i = find (\<lambda>x. obj_id x = i) obs"
  by (induction obs) (simp_all add: mem_lookup_def)

lemma status_client_events: "event_frame status_client mem_lookup"
proof -
  have "obj_id ob \<noteq> (t, k)" if "obj_type ob = TEvent" "t \<noteq> TEvent" for ob t k
    using that by (simp add: obj_id_def)
  then show ?thesis
    by (auto simp: event_frame_def status_client_same mem_Create_def mem_Update_def Let_def mem_lookup_append_other mem_lookup_replace mem_stamp_def
        obj_type_def obj_id_def map_meta_def split: option.splits) (simp add: mem_lookup_def obj_id_def obj_type_def)
qed

lemma plain_cluster:
  assumes "a = NewSynchronizer plain_platform status_client status_client plain_config
    (application_generator sample_lib plain_config (\<lambda>n xs. xs)) (startup_listers plain_config) plain_scheme"
  shows "cluster_env a mem_lookup"
proof -
  have "status_available status_client mem_lookup"
    using status_client_stores by (fastforce simp: status_available_def isl_def)
  then show ?thesis
    by (simp add: assms cluster_env_def sync_env_def quiet_names_def plain_platform_def dry_platform_def application_generator_reads
        status_client_server status_client_available status_client_events status_client_api_status mem_clock_advances
        mem_clock_quiet)
qed

section \<open>The rollout is prepared\<close>

definition plain_rollout :: "(options \<times> map_order) rollout" where
  "plain_rollout = \<lparr>ro_source = plain_app, ro_operations = [], ro_options = plain_opts, ro_correlation_id = ''c1'', ro_hash = ''new''\<rparr>"

lemma plain_app_fields [simp]:
  "src_kind plain_app = Application" "src_name plain_app = ''app''" "src_namespace plain_app = ''team''"
  "meta_key (src_meta plain_app) = dry_key" "om_deletion_timestamp (src_meta plain_app) = None"
  "om_annotations (src_meta plain_app) = Some [''nais.io/deploymentCorrelationID'' \<mapsto> ''c1'']"
  "om_finalizers (src_meta plain_app) = [NaiseratorFinalizer]" "src_spec plain_app = sample_spec" "src_status plain_app = sample_status"
  by (simp_all add: plain_app_def sample_app_def object_meta_zero_def meta_key_def dry_key_def)

lemma plain_manifest: "payload_type (obj_payload (object_of_source plain_app)) = TApplication"
  "\<lparr>key_namespace = ''team'', key_name = ''app''\<rparr> = dry_key"
  by (simp_all add: object_of_source_def dry_key_def)

lemma plain_server_lookup:
  "mem_lookup plain_server (TApplication, dry_key) = Some (object_of_source plain_app)"
  "mem_lookup plain_server (TDeployment, k) = None" "mem_lookup plain_server (TNaisjob, k) = None"
  "mem_lookup plain_server (TNamespace, \<lparr>key_namespace = [], key_name = ''team''\<rparr>) = Some sample_namespace"
  "mem_lookup plain_server (obj_id stale_sa) = Some stale_sa"
  by (simp_all add: mem_lookup_def plain_server_def obj_id_def obj_key_def source_type_def sample_namespace_def stale_sa_def
      sample_object_def obj_type_def meta_key_def object_meta_zero_def plain_manifest)

lemma plain_options_prepared:
  "run_client (readonly_NewClient status_client) (Application_Prepare plain_config plain_app) plain_server = (Inr plain_options, plain_server)"
proof -
  have read: "kc_Get status_client = mem_Get" by (simp add: status_client_same)
  have "annotation (obj_meta sample_namespace) project_id_annotation = []"
    by (simp add: sample_namespace_def object_meta_zero_def annotation_def gm_index_def)
  moreover have "\<not> IsGCPEnabled (plain_options\<lparr>opt_Team := []\<rparr>)" "ws_postgres_cluster sample_spec = None" "ws_redirects sample_spec = []"
    by (simp_all add: plain_options_def plain_config_def sample_config_def sample_features_def new_options_def sample_spec_def)
  ultimately show ?thesis
    by (simp add: Application_Prepare_def Let_def bind_result_def get_optional_def refuse_same_name_def error_result_def read mem_Get_def
        plain_server_lookup IsNotFound_def RedirectAllowed_def hasRedirects_def deployment_of_object_def project_id_of_def
        numReplicas_def prepareSqlInstance_def preparePostgres_def plain_options_def new_options_def sample_spec_def to_int32_def)
qed

lemma plain_prepared:
  assumes "a = NewSynchronizer plain_platform status_client status_client plain_config
    (application_generator sample_lib plain_config (\<lambda>n xs. xs)) (startup_listers plain_config) plain_scheme"
  shows "Prepare a (cleared (sy_lib a) plain_app) plain_server = ((Inr (Some plain_rollout), plain_app), plain_server)"
proof -
  have lib: "lib_ApplyDefaults sample_lib s = Inr s" "lib_Hash sample_lib g s = Inr ''new''"
    "lib_CorrelationIDAnnotation sample_lib = ''nais.io/deploymentCorrelationID''" "lib_ClearProblems sample_lib sample_status = sample_status"
    "lib_CorrelationID sample_lib plain_app = ''c1''" for s g
    by (simp_all add: sample_lib_def sample_status_def annotation_def gm_index_def)
  have spec: "ws_image sample_spec = ''image:1''" "st_sync_hash sample_status = ''old''" by (simp_all add: sample_spec_def sample_status_def)
  have same: "cleared sample_lib plain_app = plain_app"
    "updateEffectiveImage plain_app ''image:1'' = plain_app"
    by (simp_all add: cleared_def map_status_def updateEffectiveImage_def plain_app_def sample_app_def sample_status_def sample_lib_def)
  have gen: "run_client (readonly_NewClient status_client) (gen_Prepare (application_generator sample_lib plain_config (\<lambda>n xs. xs)) plain_app)
      plain_server = (Inr plain_opts, plain_server)"
    by (simp add: application_generator_def run_bind_result Application_Prepare_reads_only plain_options_prepared plain_opts_def)
  show ?thesis
    using gen by (simp add: assms plain_platform_def dry_platform_def same Prepare_def lib spec getWantedImage_def Let_def
        ensureCorrelationID_def gm_index_def plain_rollout_def)
qed

lemma plain_due:
  assumes a: "a = NewSynchronizer plain_platform status_client status_client plain_config
    (application_generator sample_lib plain_config (\<lambda>n xs. xs)) (startup_listers plain_config) plain_scheme"
  obtains r where "due_rollout Application a mem_lookup dry_key plain_server plain_app r" "ro_hash r = ''new''"
proof -
  have lib: "sy_lib a = sample_lib" by (simp add: a plain_platform_def dry_platform_def)
  have gen: "gen_Generate (sy_generator a) = Application_Generate sample_lib" by (simp add: a application_generator_def)
  obtain ops where ops: "Application_Generate sample_lib plain_app plain_opts = Inr ops" "rollout_ready a mem_lookup plain_server ops"
    by (rule plain_ops[of a]) (simp add: a)
  have "plain_rollout\<lparr>ro_operations := ops, ro_operations := []\<rparr> = plain_rollout" by (simp add: plain_rollout_def)
  then have "due_rollout Application a mem_lookup dry_key plain_server plain_app (plain_rollout\<lparr>ro_operations := ops\<rparr>)"
    using plain_prepared[OF a] ops plain_server_lookup(1)
    by (simp add: due_rollout_def lib gen appIsDeleted_def source_type_def) (simp add: plain_rollout_def sample_lib_def)
  then show thesis by (rule that) (simp add: plain_rollout_def)
qed

lemma plain_laws:
  "status_laws sample_lib" "defaults_law sample_lib" "lib_NewRequirement sample_lib ''app'' (key_name dry_key) = None"
  "finalizer_laws sample_lib" "content_laws sample_lib" "has_team_label plain_app"
  by (simp_all add: sample_status_laws sample_finalizer_laws defaults_law_def content_laws_def has_team_label_def gm_index_def)
    (simp_all add: sample_lib_def plain_app_def)

section \<open>The reconciliation\<close>



end
