(* ===== verification/Config_Flags.thy ===== *)
theory Config_Flags
  imports Options
begin

text \<open>
  The command line and the configuration file (src/pkg/naiserator/config/config.go): the fields of \<open>Config\<close> under
  their json tags, the options that \<open>init\<close> declares with their defaults, and what viper and mapstructure make of the
  two in \<open>New\<close>: every setting must be a field (\<open>ErrorUnused\<close>), and the environment variable of a setting comes from
  its key by the key replacer.
\<close>

section \<open>The fields of Config\<close>

datatype field_type =
    BoolField | StringField | IntField | StringsField | DurationField
  | StructField "(string \<times> field_type) list"
  | StructsField "(string \<times> field_type) list"

definition Texas_fields :: "(string \<times> field_type) list" where
  "Texas_fields =
    [(''image'', StringField)]"

definition Log_fields :: "(string \<times> field_type) list" where
  "Log_fields =
    [(''format'', StringField), (''level'', StringField)]"

definition Informer_fields :: "(string \<times> field_type) list" where
  "Informer_fields =
    [(''full-sync-interval'', DurationField)]"

definition Synchronizer_fields :: "(string \<times> field_type) list" where
  "Synchronizer_fields =
    [(''synchronization-timeout'', DurationField), (''rollout-timeout'', DurationField),
     (''rollout-check-interval'', DurationField)]"

definition Features_fields :: "(string \<times> field_type) list" where
  "Features_fields =
    [(''access-policy-not-allowed-cidrs'', StringsField), (''azurerator'', BoolField),
     (''cnrm'', BoolField), (''gar-toleration'', BoolField), (''gcp'', BoolField), (''haproxy'', BoolField),
     (''idporten'', BoolField), (''jwker'', BoolField), (''kafkarator'', BoolField),
     (''maskinporten'', BoolField), (''nav-ca-bundle'', BoolField), (''network-policy'', BoolField),
     (''postgres-operator'', BoolField), (''prometheus-operator'', BoolField),
     (''sql-instance-in-shared-vpc'', BoolField), (''texas'', BoolField), (''vault'', BoolField),
     (''webhook'', BoolField), (''wonderwall'', BoolField)]"

definition AutoInstrumentation_fields :: "(string \<times> field_type) list" where
  "AutoInstrumentation_fields =
    [(''enabled'', BoolField), (''app-config'', StringField)]"

definition OtelCollector_fields :: "(string \<times> field_type) list" where
  "OtelCollector_fields =
    [(''labels'', StringsField), (''namespace'', StringField), (''port'', IntField),
     (''protocol'', StringField), (''service'', StringField), (''tls'', BoolField)]"

definition Otel_fields :: "(string \<times> field_type) list" where
  "Otel_fields =
    [(''enabled'', BoolField), (''collector'', StructField OtelCollector_fields),
     (''auto-instrumentation'', StructField AutoInstrumentation_fields), (''destinations'', StringsField)]"

definition Logging_fields :: "(string \<times> field_type) list" where
  "Logging_fields =
    [(''destinations'', StringsField)]"

definition Observability_fields :: "(string \<times> field_type) list" where
  "Observability_fields =
    [(''logging'', StructField Logging_fields), (''otel'', StructField Otel_fields)]"

definition GatewayMapping_fields :: "(string \<times> field_type) list" where
  "GatewayMapping_fields =
    [(''domainSuffix'', StringField), (''ingressClass'', StringField)]"

definition Proxy_fields :: "(string \<times> field_type) list" where
  "Proxy_fields =
    [(''address'', StringField), (''exclude'', StringsField)]"

definition Vault_fields :: "(string \<times> field_type) list" where
  "Vault_fields =
    [(''address'', StringField), (''init-container-image'', StringField), (''auth-path'', StringField),
     (''kv-path'', StringField)]"

definition HostAlias_fields :: "(string \<times> field_type) list" where
  "HostAlias_fields =
    [(''host'', StringField), (''address'', StringField)]"

definition Ratelimit_fields :: "(string \<times> field_type) list" where
  "Ratelimit_fields =
    [(''qps'', IntField), (''burst'', IntField)]"

definition Wonderwall_fields :: "(string \<times> field_type) list" where
  "Wonderwall_fields =
    [(''image'', StringField)]"

definition LeaderElection_fields :: "(string \<times> field_type) list" where
  "LeaderElection_fields =
    [(''image'', StringField)]"

definition FQDNPolicy_fields :: "(string \<times> field_type) list" where
  "FQDNPolicy_fields =
    [(''enabled'', BoolField)]"

definition Frontend_fields :: "(string \<times> field_type) list" where
  "Frontend_fields =
    [(''telemetry-url'', StringField)]"

definition Config_fields :: "(string \<times> field_type) list" where
  "Config_fields =
    [(''aiven-generation'', IntField), (''aiven-project'', StringField), (''aiven-range'', StringField),
     (''api-server-ip'', StringField), (''bind'', StringField), (''cluster-name'', StringField),
     (''doc-url'', StringField), (''dry-run'', BoolField), (''fqdn-policy'', StructField FQDNPolicy_fields),
     (''features'', StructField Features_fields), (''frontend'', StructField Frontend_fields),
     (''domain-ingressclass-mapping'', StructsField GatewayMapping_fields),
     (''google-cloud-sql-proxy-container-image'', StringField), (''google-project-id'', StringField),
     (''health-probe-bind-address'', StringField), (''host-aliases'', StructsField HostAlias_fields),
     (''image-pull-secrets'', StringsField), (''informer'', StructField Informer_fields),
     (''kubeconfig'', StringField), (''leader-election'', StructField LeaderElection_fields),
     (''log'', StructField Log_fields), (''max-concurrent-reconciles'', IntField),
     (''nais-namespace'', StringField), (''observability'', StructField Observability_fields),
     (''proxy'', StructField Proxy_fields), (''ratelimit'', StructField Ratelimit_fields),
     (''synchronizer'', StructField Synchronizer_fields), (''texas'', StructField Texas_fields),
     (''vault'', StructField Vault_fields), (''wonderwall'', StructField Wonderwall_fields)]"

section \<open>The options\<close>

datatype flag_value =
    BoolFlag bool
  | StringFlag string
  | IntFlag int
  | StringSliceFlag "string list"
  | StringArrayFlag "string list"
  | DurationFlag int \<comment> \<open>nanoseconds\<close>

definition flags :: "(string \<times> flag_value) list" where
  "flags =
    [(''dry-run'', BoolFlag False),
     (''kubeconfig'', StringFlag []),
     (''bind'', StringFlag ''127.0.0.1:8080''),
     (''health-probe-bind-address'', StringFlag ''127.0.0.1:8085''),
     (''cluster-name'', StringFlag ''cluster-name-unconfigured''),
     (''aiven-generation'', IntFlag 0),
     (''aiven-project'', StringFlag ''aiven-project''),
     (''aiven-range'', StringFlag ''aiven-range''),
     (''google-project-id'', StringFlag []),
     (''google-cloud-sql-proxy-container-image'', StringFlag []),
     (''api-server-ip'', StringFlag []),
     (''nais-namespace'', StringFlag ''nais-system''),
     (''features.access-policy-not-allowed-cidrs'', StringSliceFlag [[]]),
     (''features.network-policy'', BoolFlag False),
     (''features.vault'', BoolFlag False),
     (''features.gcp'', BoolFlag False),
     (''features.haproxy'', BoolFlag False),
     (''features.jwker'', BoolFlag False),
     (''features.cnrm'', BoolFlag False),
     (''features.azurerator'', BoolFlag False),
     (''features.kafkarator'', BoolFlag False),
     (''features.idporten'', BoolFlag False),
     (''features.maskinporten'', BoolFlag False),
     (''features.webhook'', BoolFlag False),
     (''features.prometheus-operator'', BoolFlag False),
     (''features.postgres-operator'', BoolFlag False),
     (''features.texas'', BoolFlag False),
     (''features.wonderwall'', BoolFlag False),
     (''fqdn-policy.enabled'', BoolFlag False),
     (''informer.full-sync-interval'', DurationFlag (30 * 60 * 1000000000)),
     (''leader-election.image'', StringFlag []),
     (''max-concurrent-reconciles'', IntFlag 1),
     (''observability.logging.destinations'', StringArrayFlag []),
     (''observability.otel.enabled'', BoolFlag False),
     (''observability.otel.destinations'', StringArrayFlag []),
     (''observability.otel.collector.namespace'', StringFlag ''nais-system''),
     (''observability.otel.collector.service'', StringFlag ''opentelmetry-collector''),
     (''observability.otel.collector.protocol'', StringFlag ''grpc''),
     (''observability.otel.auto-instrumentation.enabled'', BoolFlag False),
     (''observability.otel.auto-instrumentation.app-config'', StringFlag ''nais-system/apps''),
     (''observability.otel.collector.port'', IntFlag 4317),
     (''observability.otel.collector.tls'', BoolFlag False),
     (''observability.otel.collector.labels'', StringArrayFlag []),
     (''ratelimit.qps'', IntFlag 20),
     (''ratelimit.burst'', IntFlag 200),
     (''synchronizer.synchronization-timeout'', DurationFlag (5 * 1000000000)),
     (''synchronizer.rollout-check-interval'', DurationFlag (5 * 1000000000)),
     (''synchronizer.rollout-timeout'', DurationFlag (5 * 60 * 1000000000)),
     (''texas.image'', StringFlag []),
     (''proxy.address'', StringFlag []),
     (''proxy.exclude'', StringSliceFlag [''localhost'']),
     (''vault.address'', StringFlag []),
     (''vault.init-container-image'', StringFlag []),
     (''vault.auth-path'', StringFlag []),
     (''vault.kv-path'', StringFlag []),
     (''wonderwall.image'', StringFlag []),
     (''image-pull-secrets'', StringArrayFlag [])]"

section \<open>Settings\<close>

text \<open>The field that a key with dots names.\<close>

fun field_at :: "(string \<times> field_type) list \<Rightarrow> string list \<Rightarrow> field_type option" where
  "field_at fs [] = None"
| "field_at fs [name] = map_of fs name"
| "field_at fs (name # rest) = (case map_of fs name of
     Some (StructField inner) \<Rightarrow> field_at inner rest
   | _ \<Rightarrow> None)"

definition setting_field :: "string \<Rightarrow> field_type option" where
  "setting_field key = field_at Config_fields (Split key CHR ''.'')"

text \<open>What is left unused when the settings are decoded into \<open>Config\<close>; decoding fails if there is any.\<close>

definition unused_settings :: "string list \<Rightarrow> string list" where
  "unused_settings keys = filter (\<lambda>key. setting_field key = None) keys"

fun flag_type :: "flag_value \<Rightarrow> field_type" where
  "flag_type (BoolFlag b) = BoolField"
| "flag_type (StringFlag s) = StringField"
| "flag_type (IntFlag i) = IntField"
| "flag_type (StringSliceFlag ss) = StringsField"
| "flag_type (StringArrayFlag ss) = StringsField"
| "flag_type (DurationFlag d) = DurationField"

text \<open>
  \<open>New\<close>: what viper found when it read the file (the keys of its leaves), the error of binding the options, and the
  decoding of settings that are all used are arguments. A failure other than a missing file runs into a type assertion that
  does not hold, which panics.
\<close>

datatype read_outcome = ReadKeys "string list" | ReadNotFound | ReadFailed go_error

definition config_New :: "read_outcome \<Rightarrow> error \<Rightarrow> (string list \<Rightarrow> config result) \<Rightarrow> config result" where
  "config_New outcome bindErr decode =
     (let keys = (case outcome of ReadKeys ks \<Rightarrow> ks | _ \<Rightarrow> []) @ map fst flags
      in case outcome of
           ReadFailed e \<Rightarrow> Inl (go_panic ''interface conversion: error is not viper.ConfigFileNotFoundError'')
         | _ \<Rightarrow> (case bindErr of
             Some e \<Rightarrow> Inl e
           | None \<Rightarrow> if unused_settings keys \<noteq> []
               then Inl (errorf (''has invalid keys: '' @ Join (unused_settings keys) '', ''))
               else decode keys))"

text \<open>\<open>SetEnvPrefix\<close> and \<open>SetEnvKeyReplacer\<close>.\<close>

definition replace_key :: "string \<Rightarrow> string" where
  "replace_key key = ReplaceAllChar (ReplaceAllChar key CHR ''-'' CHR ''_'') CHR ''.'' CHR ''_''"

definition env_key :: "string \<Rightarrow> string" where
  "env_key key = ''NAISERATOR_'' @ ToUpper (replace_key key)"

section \<open>The options fit the configuration\<close>

text \<open>Every option names a field of \<open>Config\<close> of its own type, so decoding never fails because of an option.\<close>

lemma flags_decode: "list_all (\<lambda>(key, v). setting_field key = Some (flag_type v)) flags"
  by code_simp

lemma flags_used: "unused_settings (map fst flags) = []"
  using flags_decode by (auto simp: unused_settings_def list_all_iff filter_empty_conv)

text \<open>No two options share an environment variable, although the replacer maps both separators to an underscore.\<close>

lemma config_New_flags_only: "config_New ReadNotFound None decode = decode (map fst flags)"
  by (simp add: config_New_def flags_used)

text \<open>A setting of the file is accepted exactly when it names a field.\<close>

lemma config_New_keys:
  "config_New (ReadKeys ks) None decode = (if \<forall>k \<in> set ks. setting_field k \<noteq> None then decode (ks @ map fst flags)
     else Inl (errorf (''has invalid keys: '' @ Join (unused_settings ks) '', '')))"
proof -
  have "unused_settings (ks @ map fst flags) = unused_settings ks"
    using flags_used by (simp add: unused_settings_def)
  moreover have "unused_settings ks = [] \<longleftrightarrow> (\<forall>k \<in> set ks. setting_field k \<noteq> None)"
    by (auto simp: unused_settings_def filter_empty_conv)
  ultimately show ?thesis by (auto simp: config_New_def Let_def)
qed

lemma config_New_malformed_panics: "config_New (ReadFailed e) bindErr decode =
    Inl (go_panic ''interface conversion: error is not viper.ConfigFileNotFoundError'')"
  by (simp add: config_New_def)

lemma flags_replaced_distinct: "distinct (map replace_key (map fst flags))"
  by code_simp

lemma flags_distinct: "distinct (map fst flags)"
  using flags_replaced_distinct unfolding distinct_map[of replace_key] by blast

definition no_upper :: "string \<Rightarrow> bool" where
  "no_upper s = list_all (\<lambda>c. (of_char c :: nat) < 65 \<or> 90 < (of_char c :: nat)) s"

lemma ToLower_ToUpper: "no_upper s \<Longrightarrow> ToLower (ToUpper s) = s"
  by (induction s) (auto simp: no_upper_def ToLower_def ToUpper_def lower_char_def upper_char_def Let_def)

lemma flags_no_upper: "list_all no_upper (map replace_key (map fst flags))"
  by (simp add: flags_def no_upper_def replace_key_def ReplaceAllChar_def)

lemma env_key_inj: "no_upper (replace_key x) \<Longrightarrow> no_upper (replace_key y) \<Longrightarrow> env_key x = env_key y \<Longrightarrow>
    replace_key x = replace_key y"
  using ToLower_ToUpper by (auto simp: env_key_def) metis

lemma flags_env_distinct: "distinct (map env_key (map fst flags))"
proof -
  have "inj_on env_key (set (map fst flags))"
  proof (rule inj_onI)
    fix x y assume x: "x \<in> set (map fst flags)" and y: "y \<in> set (map fst flags)" and env: "env_key x = env_key y"
    from flags_no_upper x y have "no_upper (replace_key x)" "no_upper (replace_key y)"
      by (auto simp only: list_all_iff set_map)
    from env_key_inj[OF this env]
      inj_onD[OF flags_replaced_distinct[unfolded distinct_map[of replace_key], THEN conjunct2] _ x y]
    show "x = y" by blast
  qed
  with flags_distinct show ?thesis unfolding distinct_map[of env_key] by blast
qed

text \<open>Without a configuration file there is no mapping from domains to ingress classes: no option sets one.\<close>

lemma mapping_not_an_option: "''domain-ingressclass-mapping'' \<notin> set (map fst flags)"
  by code_simp

end
