(* ===== verification/Spec2Isabelle.thy ===== *)
theory Spec2Isabelle
  imports Witnesses Creator_Witnesses Component_Witnesses Rollout_Witnesses Reconciliation_Witnesses Config_Flags
begin

text \<open>
  Naiserator is a Kubernetes operator. It watches \<open>Application\<close> and \<open>Naisjob\<close> manifests; for each it
  generates the Kubernetes resources that run the workload, writes them to the cluster, removes those that
  are obsolete, and watches the rollout. This development models that program and proves it correct
  against an API server that behaves as Kubernetes documents.

  \<^bold>\<open>How the program works, and where it is modelled.\<close> A reconcile request names a manifest.
  \<open>Reconcile\<close> (src/pkg/synchronizer) reads it, asks the generator to \<open>Prepare\<close> (read-only queries that
  give an \<open>Options\<close> object, src/pkg/generators) and to \<open>Generate\<close> (the resource creators of
  src/pkg/resourcecreator extend an \<open>Ast\<close> with operations), turns the operations into commits
  (src/updater), runs them, stores the status, and starts a rollout monitor.

  \<^item> \<open>Naiserator_Prelude\<close>: Go errors with their Kubernetes reason, results and their sequencing,
    loops that stop at the first error, nil-able maps, 32-bit conversion.
  \<^item> \<open>Go_Strings\<close>, \<open>Go_Url\<close>: what the code uses of \<open>strings\<close>, \<open>strconv\<close>, \<open>hash/crc32\<close>, \<open>base32\<close> and
    \<open>net/url\<close>; \<open>ValidateUrl\<close> of src/pkg/util/url.go.
  \<^item> \<open>K8s_Types\<close>, \<open>Resource\<close>: objects and manifests as records and datatypes; src/pkg/resourcecreator/resource.
    The functions of \<open>nais/liberator\<close> and of the API machinery that the code calls are fields of the
    record \<open>liberator\<close>, a parameter; what is relied on of them is named (\<open>status_laws\<close>,
    \<open>finalizer_laws\<close>, \<open>inbound_rules_law\<close>, \<open>defaults_law\<close>, \<open>content_laws\<close>). The locale \<open>resource_creator\<close> is the contract of a creator.
  \<^item> \<open>Kube_Client\<close>: the client interface as a record of functions over an abstract cluster, the laws of the
    API server (\<open>api_server\<close>), programs over a client (\<open>client_prog\<close>), the read-only client
    (src/pkg/readonly) and the locale \<open>write_blocking_client\<close>; an API server in memory that
    satisfies the laws.
  \<^item> \<open>Updater\<close>: src/updater/updater.go, every function.
  \<^item> \<open>Sync_Support\<close>, \<open>Rollout_Monitor\<close>, \<open>Synchronizer\<close>, \<open>Monitoring\<close>: src/pkg/synchronizer. The state is
    the cluster, the cache of listable kinds and the registry of monitors. \<open>Rollout_Monitor\<close> has the
    interleavings of monitor goroutines as an inductive step relation with its invariant.
  \<^item> \<open>Options\<close>: src/pkg/naiserator/config, src/pkg/generators/config.go and numreplicas.go, src/pkg/util.
  \<^item> \<open>Pod\<close>, \<open>Workloads\<close>, \<open>Network_Policy\<close>, \<open>Ingress\<close>: the creators, one definition per Go function.
  \<^item> \<open>Creators\<close>: what a creator may do to the \<open>Ast\<close>: it appends objects that belong to the workload, and
    extends the pod with unprivileged containers whose mounts have volumes (the locale \<open>workload_creator\<close>).
  \<^item> \<open>Go_Path\<close>: \<open>path.Clean\<close> and \<open>path.Join\<close>, base64, \<open>AppendPathToIngress\<close>. \<open>Sidecars\<close>: leader election, CA
    bundle, web proxy, Vault, frontend. \<open>Observability\<close>. \<open>Identity\<close>, \<open>Login_Paths\<close>: Wonderwall, Azure AD,
    ID-porten, login, TokenX, Maskinporten, Texas. \<open>Aiven\<close>: Kafka, OpenSearch, Valkey and both Postgres engines.
    \<open>Google\<close>, \<open>Sql_Flags\<close>: IAM, buckets, BigQuery, Cloud SQL and the table of its flags.
  \<^item> \<open>Pod_Sidecars\<close>, \<open>Pod_Labels\<close>, \<open>Pod_Secrets\<close>: three more contracts, each a locale interpreted on every creator:
    which sidecars it adds, that it leaves the identifying labels of the pod, that the secrets of identity provider clients
    reach the containers. \<open>Operation_Types\<close>: a fourth, that it makes only operations that the synchronizer knows, on
    types that the program writes.
  \<^item> \<open>Generators\<close>: \<open>Prepare\<close> of both generators, the mapping of watch events to requests, the list of types
    that are cleaned up. The locale \<open>prepare_contract\<close> is what the synchronizer relies on.
  \<^item> \<open>Generate\<close>, \<open>Generate_Secrets\<close>: \<open>Generate\<close> of both generators, the sequence of all creators.
  \<^item> \<open>Convergence\<close>, \<open>Rollout\<close>: when a synchronization succeeds, and what the cluster holds after it for the
    operations that an Application is generated to.
  \<^item> \<open>Config_Flags\<close>: the fields of the configuration, the options of the command line and \<open>config.New\<close>.
    \<open>Startup\<close>: \<open>run\<close> of both commands (src/cmd) and the controllers (src/pkg/controllers); what it asks of
    controller-runtime and client-go is the record \<open>platform\<close>. \<open>Dry_Run\<close>: the synchronizer over the read-only client.
    \<open>Reconciliation\<close>: one reconciliation from end to end, by the synchronizer that \<open>run\<close> makes, and the next one.
  \<^item> \<open>Samples\<close>, \<open>Witnesses\<close>, \<open>Creator_Witnesses\<close>, \<open>Component_Witnesses\<close>, \<open>Generate_Witnesses\<close>,
    \<open>Rollout_Witnesses\<close>, \<open>Startup_Witnesses\<close>, \<open>Reconciliation_Witnesses\<close>: concrete values and, for every property
    with a hypothesis, a case where the hypotheses hold.

  \<^bold>\<open>What is shown.\<close> From end to end: against an available API server, a manifest that the synchronizer reads is
  reconciled without error, and the cluster then holds its Deployment and Service, which fit each other, none of its
  obsolete objects, and the manifest with the status that says so; the next reconciliation finds nothing to do. Of the updater: a
  resource held by another owner is never overwritten, an update keeps
  what must not change and otherwise converges, recreation ends and leaves nothing of the old object. Of the
  synchronizer: a synchronization without error leaves exactly the desired state and touches nothing else;
  commits stop at the first error and only conflicts are retried; the status tells what happened; the
  finalizer comes first and goes last; an unchanged workload causes no write; reconciliation always returns.
  Of the monitors: at most one per workload is active, in every interleaving, and a late one is harmless;
  completion is reported only when it is true. Of the generators: preparation only reads; the two kinds of
  workload never share a name; everything created belongs to its workload and is found again by its labels; the pod
  runs the workload's image unprivileged, mounts only volumes that it has, and has exactly the sidecars that
  the manifest asks for; the Service targets a port that the pod has; credentials reach the containers. Of the creators:
  the network policies admit exactly the declared traffic, and the controllers of every ingress class in use; redirects
  need consent; data in Cloud SQL is abandoned, not deleted, unless the manifest says otherwise; the
  proxies and the certificates of Cloud SQL exclude each other; what sidecars read back from their environment
  is what was configured; Vault mounts do not overlap. Of start-up: every option decodes into a field of its type and no two
  share an environment variable; in dry-run mode a reconciliation changes nothing but statuses.

  \<^bold>\<open>Bounds and loops.\<close> Loops over data are recursive functions. The polling loop of \<open>CreateOrRecreate\<close> and
  the monitor loop may in principle not end: they are \<open>partial_function (option)\<close>, where \<open>None\<close> is not
  returning, and termination is proved from a clock that advances by the time slept. There is no fuel.

  \<^bold>\<open>The library record.\<close> An argument \<open>lib\<close> fixes the answers of the libraries for one run: names and hashes, the
  week of the clock, and for random keys a function of the number of operations made so far, so that
  two draws of a run may differ. The defaults that \<open>mergo\<close> merges into a part of the manifest are functions that
  return the merged value; that the code also leaves it in the manifest, which it shares by a pointer, is not in the model.

  \<^bold>\<open>Not modelled.\<close> Logs and metrics; how viper reads files and the environment; how the manager of controller-runtime
  runs controllers; leases and timeouts of contexts; the helpers of the tests. The text of \<open>net/url\<close> parse errors, and bracketed
  IPv6 hosts, which are parse errors here. \<open>strconv.ParseFloat\<close>, which the validation of flags calls, is a parameter.
  The API server replaces an object as a whole on an update: that it keeps a status which is a subresource is not in the
  laws, and nothing that is shown depends on it.
\<close>

end
